(* ===== verification/Prelude.thy ===== *)
theory Prelude
  imports Main "HOL-Library.Word"
begin

text \<open>
  What every part of the model shares: the machine integers of the Rust code, its overflow
  checked additions, the byte view of Rust strings, and generic lemmas on lists, sums and
  options. A Rust \<open>String\<close> is its UTF-8 byte sequence, one \<^typ>\<open>char\<close> per byte, so that
  \<^const>\<open>length\<close> is \<open>str::len\<close>. Sixty-four bit targets are assumed: \<open>usize\<close> is
  \<open>u64\<close>, and the casts between \<open>u64\<close>, \<open>usize\<close> and \<open>i64\<close> keep the bits.
\<close>

section \<open>Machine integers\<close>

type_synonym u8 = "8 word"
type_synonym u64 = "64 word"
type_synonym usize = "64 word"
type_synonym i64 = "64 word"  \<comment> \<open>read with \<^const>\<open>sint\<close>\<close>

named_theorems error_simps \<open>the tables of the error types\<close>
named_theorems prog_simps \<open>the laws of programs and their runs\<close>
named_theorems db_simps \<open>the effect of the statements on the tables\<close>
named_theorems op_defs \<open>the definitions of the operations, for symbolic execution\<close>

text \<open>
  Rust's \<open>+\<close> panics on overflow when the crate is built with overflow checks (the debug
  profile) and wraps around otherwise (the release profile). \<open>None\<close> is the panic.
\<close>

definition add_usize :: "bool \<Rightarrow> usize \<Rightarrow> usize \<Rightarrow> usize option" where
  "add_usize checks a b =
     (if checks \<and> 2 ^ 64 \<le> uint a + uint b then None else Some (a + b))"

definition add_i64 :: "bool \<Rightarrow> i64 \<Rightarrow> i64 \<Rightarrow> i64 option" where
  "add_i64 checks a b =
     (if checks \<and> (sint a + sint b < - (2 ^ 63) \<or> 2 ^ 63 \<le> sint a + sint b)
      then None else Some (a + b))"

lemma add_usize_exact:
  assumes "uint a + uint b < 2 ^ 64"
  shows "add_usize checks a b = Some (a + b)" and "uint (a + b) = uint a + uint b"
proof -
  show "add_usize checks a b = Some (a + b)"
    using assms by (simp add: add_usize_def)
  show "uint (a + b) = uint a + uint b"
    using assms by (simp add: uint_word_ariths)
qed

lemma sint_of_small:
  assumes "uint (a :: 64 word) < 2 ^ 63"
  shows "sint a = uint a"
proof -
  have "- (2 ^ 63) \<le> uint a"
    by (rule order_trans [OF _ uint_ge_0]) simp
  with assms show ?thesis
    by (simp add: sint_uint signed_take_bit_int_eq_self_iff)
qed

lemma add_i64_exact:
  assumes "uint a + uint b < 2 ^ 63"
  shows "add_i64 checks a b = Some (a + b)" and "sint (a + b) = uint a + uint b"
proof -
  have a: "uint a < 2 ^ 63" and b: "uint b < 2 ^ 63"
    using assms uint_ge_0 [of a] uint_ge_0 [of b] by linarith+
  have "uint (a + b) = uint a + uint b"
    using assms by (simp add: uint_word_ariths)
  then show "sint (a + b) = uint a + uint b"
    using assms sint_of_small [of "a + b"] by simp
  have "sint a + sint b < 2 ^ 63" and "0 \<le> sint a + sint b"
    using assms a b by (simp_all add: sint_of_small)
  then show "add_i64 checks a b = Some (a + b)"
    by (simp add: add_i64_def)
qed

text \<open>A duration whose top bit is set is read as a negative number of seconds.\<close>

lemma sint_of_large:
  assumes "2 ^ 63 \<le> uint (a :: 64 word)"
  shows "sint a = uint a - 2 ^ 64"
proof -
  have lt: "uint a < 2 ^ 64"
    using uint_lt2p [of a] by simp
  have "sint a = (uint a + 2 ^ 63) mod 2 ^ 64 - 2 ^ 63"
    by (simp add: sint_uint signed_take_bit_eq_take_bit_shift take_bit_eq_mod)
  also have "(uint a + 2 ^ 63) mod 2 ^ 64 = (uint a + 2 ^ 63 - 2 ^ 64) mod 2 ^ 64"
    by (simp only: minus_mod_self2)
  also have "\<dots> = uint a + 2 ^ 63 - 2 ^ 64"
    using assms lt by (intro mod_pos_pos_trivial) auto
  finally show ?thesis by simp
qed

section \<open>Strings as byte sequences\<close>

text \<open>
  \<open>str::strip_prefix\<close>, and the number of characters of a UTF-8 byte sequence: the bytes
  that are not continuation bytes (\<open>10xxxxxx\<close>), which is what \<open>str::chars().count()\<close> gives.
\<close>

definition strip_prefix :: "string \<Rightarrow> string \<Rightarrow> string option" where
  "strip_prefix p s = (if take (length p) s = p then Some (drop (length p) s) else None)"

definition utf8_char_count :: "string \<Rightarrow> nat" where
  "utf8_char_count s = length (filter (\<lambda>c. of_char c div 64 \<noteq> (2 :: nat)) s)"

lemma strip_prefix_Some_iff: "strip_prefix p s = Some r \<longleftrightarrow> s = p @ r"
  by (auto simp: strip_prefix_def) (metis append_take_drop_id)

lemma strip_prefix_append [simp]: "strip_prefix p (p @ r) = Some r"
  by (simp add: strip_prefix_Some_iff)

lemma utf8_char_count_le: "utf8_char_count s \<le> length s"
  by (simp add: utf8_char_count_def)

section \<open>Lists searched by a key\<close>

lemma find_None_iff_notin: "List.find (\<lambda>r. f r = k) rs = None \<longleftrightarrow> k \<notin> f ` set rs"
  by (auto simp: find_None_iff)

lemma find_key: "List.find (\<lambda>r. f r = k) rs = Some r \<Longrightarrow> r \<in> set rs \<and> f r = k"
  by (auto simp: find_Some_iff)

lemma find_key_unique:
  assumes "distinct (map f rs)" and "r \<in> set rs"
  shows "List.find (\<lambda>x. f x = f r) rs = Some r"
  using assms
proof (induction rs)
  case Nil
  then show ?case by simp
next
  case (Cons x rs)
  then show ?case by (auto simp: image_iff)
qed

lemma find_append:
  "List.find P (xs @ ys) = (case List.find P xs of None \<Rightarrow> List.find P ys | Some x \<Rightarrow> Some x)"
  by (induction xs) auto

lemma find_snoc:
  "List.find P (rs @ [r]) =
     (case List.find P rs of None \<Rightarrow> (if P r then Some r else None) | Some x \<Rightarrow> Some x)"
  by (induction rs) auto

lemma find_filter:
  "List.find P (filter Q rs) = List.find (\<lambda>r. P r \<and> Q r) rs"
  by (induction rs) auto

lemma length_filter_key_le1:
  "distinct (map f rs) \<Longrightarrow> length (filter (\<lambda>r. f r = k \<and> P r) rs) \<le> 1"
proof (induction rs)
  case Nil
  then show ?case by simp
next
  case (Cons x rs)
  show ?case
  proof (cases "f x = k \<and> P x")
    case True
    with Cons.prems have "filter (\<lambda>r. f r = k \<and> P r) rs = []"
      by (auto simp: filter_empty_conv image_iff)
    with True show ?thesis by simp
  next
    case False
    with Cons show ?thesis by auto
  qed
qed

end
