(* ===== verification/Program.thy ===== *)
theory Program
  imports Prelude
begin

text \<open>
  Asynchronous Rust as programs over effects. A handler is a tree: it returns, it panics, or it
  performs an effect (a clock reading, an identifier drawn from the system's generator, an SQL
  statement) and continues with the reply. Effects are the points at which the executor may
  suspend a task, so the same program has a sequential reading (\<open>run\<close>) and an interleaved one
  (\<open>sys_step\<close>), where many tasks share the database and a task may be dropped between two
  effects, as the server drops the future of a request whose client has gone away.
  The three type parameters are the result, the effects and the replies.
\<close>

section \<open>Programs\<close>

datatype ('a, 'e, 'r) prog =
    Ret 'a
  | Panic string
  | Do 'e "'r \<Rightarrow> ('a, 'e, 'r) prog"

primrec bind_prog :: "('a, 'e, 'r) prog \<Rightarrow> ('a \<Rightarrow> ('b, 'e, 'r) prog) \<Rightarrow> ('b, 'e, 'r) prog" where
  "bind_prog (Ret a) f = f a"
| "bind_prog (Panic m) f = Panic m"
| "bind_prog (Do e k) f = Do e (\<lambda>r. bind_prog (k r) f)"

text \<open>Rust's \<open>?\<close> operator, and \<open>Result::map_err\<close> under \<open>await\<close>.\<close>

definition bind_ok ::
  "('x + 'a, 'e, 'r) prog \<Rightarrow> ('a \<Rightarrow> ('x + 'b, 'e, 'r) prog) \<Rightarrow> ('x + 'b, 'e, 'r) prog" where
  "bind_ok p f = bind_prog p (\<lambda>r. case r of Inl e \<Rightarrow> Ret (Inl e) | Inr a \<Rightarrow> f a)"

definition map_err :: "('x \<Rightarrow> 'y) \<Rightarrow> ('x + 'a, 'e, 'r) prog \<Rightarrow> ('y + 'a, 'e, 'r) prog" where
  "map_err f p = bind_prog p (\<lambda>r. Ret (map_sum f id r))"

abbreviation ok :: "'a \<Rightarrow> ('x + 'a, 'e, 'r) prog" where
  "ok a \<equiv> Ret (Inr a)"

abbreviation err :: "'x \<Rightarrow> ('x + 'a, 'e, 'r) prog" where
  "err e \<equiv> Ret (Inl e)"

lemma bind_prog_Ret_right [simp]: "bind_prog p Ret = p"
  by (induction p) auto

lemma bind_prog_assoc: "bind_prog (bind_prog p f) g = bind_prog p (\<lambda>a. bind_prog (f a) g)"
  by (induction p) auto

lemma bind_ok_simps [simp, prog_simps]:
  "bind_ok (Ret (Inl e)) f = Ret (Inl e)"
  "bind_ok (Ret (Inr a)) f = f a"
  "bind_ok (Panic m) f = Panic m"
  "bind_ok (Do e' k) f = Do e' (\<lambda>r. bind_ok (k r) f)"
  by (simp_all add: bind_ok_def)

lemma map_err_simps [simp, prog_simps]:
  "map_err g (Ret (Inl e)) = Ret (Inl (g e))"
  "map_err g (Ret (Inr a)) = Ret (Inr a)"
  "map_err g (Panic m) = Panic m"
  "map_err g (Do e' k) = Do e' (\<lambda>r. map_err g (k r))"
  by (simp_all add: map_err_def)

section \<open>Sequential runs\<close>

datatype 'a outcome = Returned 'a | Panicked string

primrec run ::
  "('e \<Rightarrow> 'w \<Rightarrow> 'r \<times> 'w) \<Rightarrow> ('a, 'e, 'r) prog \<Rightarrow> 'w \<Rightarrow> 'a outcome \<times> 'w" where
  "run perform (Ret a) = (\<lambda>w. (Returned a, w))"
| "run perform (Panic m) = (\<lambda>w. (Panicked m, w))"
| "run perform (Do e k) = (\<lambda>w. case perform e w of (r, w') \<Rightarrow> run perform (k r) w')"

lemma run_bind_prog:
  "run perform (bind_prog p f) w =
     (case run perform p w of
        (Returned a, w') \<Rightarrow> run perform (f a) w'
      | (Panicked m, w') \<Rightarrow> (Panicked m, w'))"
  by (induction p arbitrary: w) (auto split: prod.splits)

lemma run_bind_ok:
  "run perform (bind_ok p f) w =
     (case run perform p w of
        (Returned (Inl e), w') \<Rightarrow> (Returned (Inl e), w')
      | (Returned (Inr a), w') \<Rightarrow> run perform (f a) w'
      | (Panicked m, w') \<Rightarrow> (Panicked m, w'))"
  by (simp add: bind_ok_def run_bind_prog split: prod.splits outcome.splits sum.splits)

lemma run_map_err:
  "run perform (map_err g p) w =
     (case run perform p w of
        (Returned r, w') \<Rightarrow> (Returned (map_sum g id r), w')
      | (Panicked m, w') \<Rightarrow> (Panicked m, w'))"
  by (simp add: map_err_def run_bind_prog split: prod.splits outcome.splits)

section \<open>Histories of a program\<close>

text \<open>
  \<open>every_path Q p es\<close>: after the events \<open>es\<close>, whatever the environment replies, \<open>Q\<close> holds of
  the events performed so far at every point of \<open>p\<close>, with the result once \<open>p\<close> has returned.
  Replies are quantified without regard to the environment, so this is a property of the code.
\<close>

primrec every_path ::
  "(('e \<times> 'r) list \<Rightarrow> 'a option \<Rightarrow> bool) \<Rightarrow> ('a, 'e, 'r) prog \<Rightarrow> ('e \<times> 'r) list \<Rightarrow> bool" where
  "every_path Q (Ret a) = (\<lambda>es. Q es None \<and> Q es (Some a))"
| "every_path Q (Panic m) = (\<lambda>es. Q es None)"
| "every_path Q (Do e k) = (\<lambda>es. Q es None \<and> (\<forall>r. every_path Q (k r) (es @ [(e, r)])))"

lemma every_path_now: "every_path Q p es \<Longrightarrow> Q es None"
  by (cases p) auto

lemma every_path_mono:
  "every_path Q p es \<Longrightarrow> (\<And>es a. Q es a \<Longrightarrow> Q' es a) \<Longrightarrow> every_path Q' p es"
  by (induction p arbitrary: es) auto

lemma every_path_conj:
  "every_path (\<lambda>es a. Q es a \<and> Q' es a) p es \<longleftrightarrow> every_path Q p es \<and> every_path Q' p es"
  by (induction p arbitrary: es) auto

lemma every_path_bind:
  assumes "every_path (\<lambda>es a. (case a of None \<Rightarrow> Q es None | Some x \<Rightarrow> every_path Q (f x) es)) p es"
  shows "every_path Q (bind_prog p f) es"
  using assms by (induction p arbitrary: es) auto

text \<open>The events a run performs, in order.\<close>

primrec events ::
  "('e \<Rightarrow> 'w \<Rightarrow> 'r \<times> 'w) \<Rightarrow> ('a, 'e, 'r) prog \<Rightarrow> 'w \<Rightarrow> ('e \<times> 'r) list" where
  "events perform (Ret a) = (\<lambda>w. [])"
| "events perform (Panic m) = (\<lambda>w. [])"
| "events perform (Do e k) =
     (\<lambda>w. case perform e w of (r, w') \<Rightarrow> (e, r) # events perform (k r) w')"

lemma every_path_run:
  assumes "every_path Q p es" and "run perform p w = (Returned a, w')"
  shows "Q (es @ events perform p w) (Some a)"
  using assms
proof (induction p arbitrary: es w)
  case (Do e k)
  obtain r w1 where step: "perform e w = (r, w1)"
    by fastforce
  from Do.prems step have "every_path Q (k r) (es @ [(e, r)])"
    and "run perform (k r) w1 = (Returned a, w')"
    by auto
  then have "Q ((es @ [(e, r)]) @ events perform (k r) w1) (Some a)"
    by (rule Do.IH [rotated]) simp
  with step show ?case by simp
qed auto

section \<open>Programs restricted in their effects\<close>

text \<open>All effects of the program, whatever the replies, satisfy \<open>P\<close>.\<close>

primrec performs_only :: "('e \<Rightarrow> bool) \<Rightarrow> ('a, 'e, 'r) prog \<Rightarrow> bool" where
  "performs_only P (Ret a) = True"
| "performs_only P (Panic m) = True"
| "performs_only P (Do e k) = (P e \<and> (\<forall>r. performs_only P (k r)))"

lemma performs_only_bind:
  "performs_only P p \<Longrightarrow> (\<And>a. performs_only P (f a)) \<Longrightarrow> performs_only P (bind_prog p f)"
  by (induction p) auto

lemma performs_only_bind_ok:
  "performs_only P p \<Longrightarrow> (\<And>a. performs_only P (f a)) \<Longrightarrow> performs_only P (bind_ok p f)"
  by (auto simp: bind_ok_def intro: performs_only_bind split: sum.splits)

lemma performs_only_map_err: "performs_only P p \<Longrightarrow> performs_only P (map_err g p)"
  by (auto simp: map_err_def intro: performs_only_bind)

lemmas performs_only_combinators =
  performs_only_bind performs_only_bind_ok performs_only_map_err

lemma performs_only_run:
  assumes "\<And>e w r w'. P e \<Longrightarrow> keep w \<Longrightarrow> perform e w = (r, w') \<Longrightarrow> keep w'"
    and "performs_only P p" and "keep w" and "run perform p w = (out, w')"
  shows "keep w'"
  using assms(2-4)
proof (induction p arbitrary: w)
  case (Do e k)
  obtain r w1 where step: "perform e w = (r, w1)"
    by fastforce
  with Do.prems have "keep w1"
    using assms(1) by auto
  with Do.prems step show ?case
    by (intro Do.IH [OF rangeI]) auto
qed auto

section \<open>Interleaved runs\<close>

text \<open>
  The running server: the requests received so far, each with what is left of its handler, the
  shared state, and the history of the effects performed, each with the task that performed it.
\<close>

record ('q, 'a, 'e, 'r, 'w) system =
  tasks :: "('q \<times> ('a, 'e, 'r) prog) list"
  shared :: 'w
  history :: "(nat \<times> 'e \<times> 'r) list"

datatype 'q move = Arrive 'q | Progress nat | Drop nat

text \<open>
  One move: a request arrives and its handler is spawned, a task performs its next effect, or
  the future of a task that has not finished is dropped. \<open>None\<close> where the move is impossible.
\<close>

definition sys_move ::
  "('e \<Rightarrow> 'w \<Rightarrow> 'r \<times> 'w) \<Rightarrow> ('q \<Rightarrow> ('a, 'e, 'r) prog) \<Rightarrow> 'q move \<Rightarrow>
   ('q, 'a, 'e, 'r, 'w) system \<Rightarrow> ('q, 'a, 'e, 'r, 'w) system option" where
  "sys_move perform handler m s =
     (case m of
        Arrive q \<Rightarrow> Some (s\<lparr>tasks := tasks s @ [(q, handler q)]\<rparr>)
      | Progress i \<Rightarrow>
          (if i < length (tasks s) then
             (case tasks s ! i of
                (q, Do e k) \<Rightarrow>
                  (case perform e (shared s) of
                     (r, w') \<Rightarrow> Some (s\<lparr>tasks := (tasks s)[i := (q, k r)], shared := w',
                                       history := history s @ [(i, e, r)]\<rparr>))
              | _ \<Rightarrow> None)
           else None)
      | Drop i \<Rightarrow>
          (if i < length (tasks s) then
             (case tasks s ! i of
                (q, Do e k) \<Rightarrow> Some (s\<lparr>tasks := (tasks s)[i := (q, Panic ''dropped'')]\<rparr>)
              | _ \<Rightarrow> None)
           else None))"

fun sys_moves ::
  "('e \<Rightarrow> 'w \<Rightarrow> 'r \<times> 'w) \<Rightarrow> ('q \<Rightarrow> ('a, 'e, 'r) prog) \<Rightarrow> 'q move list \<Rightarrow>
   ('q, 'a, 'e, 'r, 'w) system \<Rightarrow> ('q, 'a, 'e, 'r, 'w) system option" where
  "sys_moves perform handler [] s = Some s"
| "sys_moves perform handler (m # ms) s =
     (case sys_move perform handler m s of
        None \<Rightarrow> None
      | Some s' \<Rightarrow> sys_moves perform handler ms s')"

definition sys_init :: "'w \<Rightarrow> ('q, 'a, 'e, 'r, 'w) system" where
  "sys_init w = \<lparr>tasks = [], shared = w, history = []\<rparr>"

inductive sys_reachable ::
  "('e \<Rightarrow> 'w \<Rightarrow> 'r \<times> 'w) \<Rightarrow> ('q \<Rightarrow> ('a, 'e, 'r) prog) \<Rightarrow> 'w \<Rightarrow>
   ('q, 'a, 'e, 'r, 'w) system \<Rightarrow> bool"
  for perform handler w0 where
  start: "sys_reachable perform handler w0 (sys_init w0)"
| arrive: "sys_reachable perform handler w0 (s\<lparr>tasks := tasks s @ [(q, handler q)]\<rparr>)"
    if "sys_reachable perform handler w0 s"
| progress:
    "sys_reachable perform handler w0
       (s\<lparr>tasks := (tasks s)[i := (q, k r)], shared := w', history := history s @ [(i, e, r)]\<rparr>)"
    if "sys_reachable perform handler w0 s" and "i < length (tasks s)"
      and "tasks s ! i = (q, Do e k)" and "perform e (shared s) = (r, w')"
| drop: "sys_reachable perform handler w0 (s\<lparr>tasks := (tasks s)[i := (q, Panic ''dropped'')]\<rparr>)"
    if "sys_reachable perform handler w0 s" and "i < length (tasks s)"
      and "tasks s ! i = (q, Do e k)"

lemma sys_move_reachable:
  assumes "sys_reachable perform handler w0 s" and "sys_move perform handler m s = Some t"
  shows "sys_reachable perform handler w0 t"
  using assms
  by (auto simp: sys_move_def split: move.splits if_splits prod.splits prog.splits
      intro: sys_reachable.intros)

lemma sys_moves_reachable:
  assumes "sys_reachable perform handler w0 s" and "sys_moves perform handler ms s = Some t"
  shows "sys_reachable perform handler w0 t"
  using assms
  by (induction ms arbitrary: s) (auto split: option.splits dest: sys_move_reachable)

lemma sys_moves_append:
  "sys_moves perform handler (ms @ ms') s =
     (case sys_moves perform handler ms s of
        None \<Rightarrow> None | Some t \<Rightarrow> sys_moves perform handler ms' t)"
  by (induction ms arbitrary: s) (auto split: option.splits)

text \<open>A task that runs alone to its end does what the sequential run does.\<close>

lemma sys_moves_alone:
  assumes "run perform p w = (Returned a, w')" and "i < length ts" and "ts ! i = (q, p)"
  shows "\<exists>ms h. sys_moves perform handler ms \<lparr>tasks = ts, shared = w, history = h0\<rparr>
         = Some \<lparr>tasks = ts[i := (q, Ret a)], shared = w', history = h0 @ h\<rparr>"
  using assms
proof (induction p arbitrary: ts w h0)
  case (Ret x)
  then have "ts[i := (q, Ret a)] = ts"
    using list_update_id [of ts i] by simp
  with Ret show ?case by (intro exI [of _ "[]"]) simp
next
  case (Panic m)
  then show ?case by simp
next
  case (Do e k)
  obtain r w1 where step: "perform e w = (r, w1)"
    by fastforce
  with Do.prems have rest: "run perform (k r) w1 = (Returned a, w')"
    "i < length (ts[i := (q, k r)])" "ts[i := (q, k r)] ! i = (q, k r)" by simp_all
  from Do.IH [OF rangeI this, of "h0 @ [(i, e, r)]"] obtain ms h where
    "sys_moves perform handler ms
       \<lparr>tasks = ts[i := (q, k r)], shared = w1, history = h0 @ [(i, e, r)]\<rparr>
     = Some \<lparr>tasks = ts[i := (q, Ret a)], shared = w', history = h0 @ (i, e, r) # h\<rparr>"
    by auto
  with step Do.prems show ?case
    by (intro exI [of _ "Progress i # ms"] exI [of _ "(i, e, r) # h"])
      (simp add: sys_move_def)
qed

lemma sys_moves_finish:
  assumes "run perform p (shared s) = (Returned a, w')" and "i < length (tasks s)"
    and "tasks s ! i = (q, p)"
  shows "\<exists>ms t. sys_moves perform handler ms s = Some t \<and>
    tasks t = (tasks s)[i := (q, Ret a)] \<and> shared t = w'"
proof -
  obtain ts w h where s: "s = \<lparr>tasks = ts, shared = w, history = h\<rparr>"
    by (cases s) auto
  with sys_moves_alone [of perform p w a w' i ts q handler h] assms show ?thesis by fastforce
qed

lemma sys_moves_run:
  assumes "run perform (handler q) (shared s) = (Returned a, w')"
  shows "\<exists>ms t. sys_moves perform handler ms s = Some t \<and>
    tasks t = tasks s @ [(q, Ret a)] \<and> shared t = w'"
proof -
  let ?s = "s\<lparr>tasks := tasks s @ [(q, handler q)]\<rparr>"
  from sys_moves_finish [of perform "handler q" ?s a w' "length (tasks s)" q handler] assms
  obtain ms t where "sys_moves perform handler ms ?s = Some t"
    and "tasks t = tasks s @ [(q, Ret a)]" and "shared t = w'"
    by auto
  then show ?thesis
    by (intro exI [of _ "Arrive q # ms"]) (simp add: sys_move_def)
qed

text \<open>Every reachable state is the result of a sequence of moves.\<close>

lemma reachable_moves:
  assumes "sys_reachable perform handler w0 s"
  shows "\<exists>ms. sys_moves perform handler ms (sys_init w0) = Some s"
  using assms
proof (induction rule: sys_reachable.induct)
  case start
  show ?case by (intro exI [of _ "[]"]) simp
next
  case (arrive s q)
  then obtain ms where "sys_moves perform handler ms (sys_init w0) = Some s" by blast
  then show ?case
    by (intro exI [of _ "ms @ [Arrive q]"]) (simp add: sys_moves_append sys_move_def)
next
  case (progress s i q e k r w')
  then obtain ms where "sys_moves perform handler ms (sys_init w0) = Some s" by blast
  with progress.hyps show ?case
    by (intro exI [of _ "ms @ [Progress i]"]) (simp add: sys_moves_append sys_move_def)
next
  case (drop s i q e k)
  then obtain ms where "sys_moves perform handler ms (sys_init w0) = Some s" by blast
  with drop.hyps show ?case
    by (intro exI [of _ "ms @ [Drop i]"]) (simp add: sys_moves_append sys_move_def)
qed

section \<open>Interfaces: state invariants and properties of tasks\<close>

text \<open>
  A component that keeps an invariant of the shared state under every effect keeps it under
  every program, sequential or interleaved.
\<close>

locale shared_invariant =
  fixes perform :: "'e \<Rightarrow> 'w \<Rightarrow> 'r \<times> 'w"
    and inv :: "'w \<Rightarrow> bool"
  assumes inv_step: "inv w \<Longrightarrow> perform e w = (r, w') \<Longrightarrow> inv w'"
begin

lemma inv_run: "inv w \<Longrightarrow> run perform p w = (out, w') \<Longrightarrow> inv w'"
  by (induction p arbitrary: w) (auto split: prod.splits dest: inv_step)

lemma inv_reachable: "sys_reachable perform handler w0 s \<Longrightarrow> inv w0 \<Longrightarrow> inv (shared s)"
  by (induction rule: sys_reachable.induct) (auto simp: sys_init_def dest: inv_step)

end

text \<open>What a task has performed by itself, and the lifting of a property of each handler.\<close>

definition task_events :: "nat \<Rightarrow> (nat \<times> 'e \<times> 'r) list \<Rightarrow> ('e \<times> 'r) list" where
  "task_events i h = map snd (filter (\<lambda>ev. fst ev = i) h)"

lemma task_events_simps [simp]:
  "task_events i [] = []"
  "task_events i (h @ h') = task_events i h @ task_events i h'"
  "task_events i ((j, ev) # h) = (if j = i then ev # task_events i h else task_events i h)"
  by (simp_all add: task_events_def)

locale handler_property =
  fixes handler :: "'q \<Rightarrow> ('a, 'e, 'r) prog"
    and Q :: "'q \<Rightarrow> ('e \<times> 'r) list \<Rightarrow> 'a option \<Rightarrow> bool"
  assumes handler_ok: "every_path (Q q) (handler q) []"
begin

lemma task_path:
  assumes "sys_reachable perform handler w0 s"
  shows "(\<forall>i < length (tasks s). every_path (Q (fst (tasks s ! i))) (snd (tasks s ! i))
            (task_events i (history s))) \<and> (\<forall>ev \<in> set (history s). fst ev < length (tasks s))"
  using assms
proof (induction rule: sys_reachable.induct)
  case start
  then show ?case by (simp add: sys_init_def)
next
  case (arrive s q)
  then have "task_events (length (tasks s)) (history s) = []"
    by (auto simp: task_events_def filter_empty_conv)
  with arrive show ?case
    by (auto simp: nth_append handler_ok less_Suc_eq)
next
  case (progress s i q e k r w')
  then show ?case by (auto simp: nth_list_update)
next
  case (drop s i q e k)
  then show ?case by (auto simp: nth_list_update)
qed

lemma task_done:
  assumes "sys_reachable perform handler w0 s" and "i < length (tasks s)"
    and "tasks s ! i = (q, Ret a)"
  shows "Q q (task_events i (history s)) (Some a)"
  using task_path [OF assms(1)] assms(2,3) by fastforce

lemma task_so_far:
  assumes "sys_reachable perform handler w0 s" and "i < length (tasks s)"
  shows "Q (fst (tasks s ! i)) (task_events i (history s)) None"
  using task_path [OF assms(1)] assms(2) by (blast intro: every_path_now)

end

end
