(* ===== verification/Tokens.thy ===== *)
theory Tokens
  imports Prelude
begin

text \<open>
  The data of \<open>src/auth/core.rs\<close>: token kinds, the JWT payload with its accessors, and the
  auth configuration with its setters.
\<close>

datatype token_kind = Access | Refresh

record claims =
  cl_sub :: string
  cl_username :: string
  cl_exp :: usize
  cl_iat :: usize
  cl_jti :: string
  cl_kind :: token_kind

definition claims_sub :: "claims \<Rightarrow> string" where
  "claims_sub c = cl_sub c"

definition claims_username :: "claims \<Rightarrow> string" where
  "claims_username c = cl_username c"

definition claims_jti :: "claims \<Rightarrow> string" where
  "claims_jti c = cl_jti c"

definition claims_kind :: "claims \<Rightarrow> token_kind" where
  "claims_kind c = cl_kind c"

lemmas claims_accessors [simp] =
  claims_sub_def claims_username_def claims_jti_def claims_kind_def

record auth_config =
  cfg_secret :: string
  cfg_access_token_ttl_secs :: u64
  cfg_refresh_token_ttl_secs :: u64

definition config_with_defaults :: auth_config where
  "config_with_defaults =
     \<lparr>cfg_secret = [], cfg_access_token_ttl_secs = 900, cfg_refresh_token_ttl_secs = 604800\<rparr>"

definition config_new :: "string \<Rightarrow> auth_config" where
  "config_new secret =
     \<lparr>cfg_secret = secret, cfg_access_token_ttl_secs = 900,
      cfg_refresh_token_ttl_secs = 604800\<rparr>"

definition set_access_token_ttl :: "u64 \<Rightarrow> auth_config \<Rightarrow> auth_config" where
  "set_access_token_ttl secs c = c\<lparr>cfg_access_token_ttl_secs := secs\<rparr>"

definition set_refresh_token_ttl :: "u64 \<Rightarrow> auth_config \<Rightarrow> auth_config" where
  "set_refresh_token_ttl secs c = c\<lparr>cfg_refresh_token_ttl_secs := secs\<rparr>"

definition set_secret :: "string \<Rightarrow> auth_config \<Rightarrow> auth_config" where
  "set_secret secret c = c\<lparr>cfg_secret := secret\<rparr>"

definition config_refresh_token_ttl_secs :: "auth_config \<Rightarrow> u64" where
  "config_refresh_token_ttl_secs c = cfg_refresh_token_ttl_secs c"

lemmas config_simps [simp] =
  set_access_token_ttl_def set_refresh_token_ttl_def set_secret_def
  config_refresh_token_ttl_secs_def

end
