(* ===== verification/Schema.thy ===== *)
theory Schema
  imports Prelude
begin

text \<open>
  The tables of \<open>src/db/migrations\<close> and \<open>consumer/src/db/migrations\<close>, and the SQL statements
  of \<open>src/db/auth.rs\<close>, \<open>src/db/mod.rs\<close> and \<open>consumer/src/db/mod.rs\<close>, one constructor per
  statement with its bound parameters. A table is the list of its rows in insertion order. The
  constraints are those of the schema: primary keys, \<open>UNIQUE\<close> and \<open>REFERENCES\<close>, which
  the SQLite driver enforces by default. A statement that fails changes nothing.
\<close>

section \<open>Rows and tables\<close>

record user_row =
  ur_id :: string
  ur_username :: string
  ur_password_hash :: string
  ur_created_at :: i64

record token_row =
  tr_jti :: string
  tr_user_id :: string
  tr_expires_at :: i64
  tr_created_at :: i64

record config_row =
  cr_key :: string
  cr_value :: string

text \<open>\<open>applied\<close> is the number of migrations applied: a table exists once its migration ran.\<close>

record auth_db =
  applied :: nat
  users :: "user_row list"
  refresh_tokens :: "token_row list"
  config_rows :: "config_row list"

record profile_row =
  pr_id :: string
  pr_username :: string
  pr_created_at :: i64

record data_db =
  data_applied :: nat
  profiles :: "profile_row list"

definition empty_auth_db :: auth_db where
  "empty_auth_db = \<lparr>applied = 0, users = [], refresh_tokens = [], config_rows = []\<rparr>"

definition empty_data_db :: data_db where
  "empty_data_db = \<lparr>data_applied = 0, profiles = []\<rparr>"

section \<open>Statements, results and errors\<close>

text \<open>The \<open>User\<close> struct that \<open>sqlx::FromRow\<close> builds from a row, with its accessors.\<close>

record user =
  usr_id :: string
  usr_username :: string
  usr_password_hash :: string

definition user_of_row :: "user_row \<Rightarrow> user" where
  "user_of_row r =
     \<lparr>usr_id = ur_id r, usr_username = ur_username r, usr_password_hash = ur_password_hash r\<rparr>"

datatype auth_stmt =
    InsertUser string string string i64        \<comment> \<open>id, username, password hash, created at\<close>
  | SelectUserByUsername string
  | SelectUserById string
  | InsertRefreshToken string string i64 i64   \<comment> \<open>jti, user id, expires at, created at\<close>
  | DeleteLiveRefreshToken string i64          \<comment> \<open>jti, now\<close>
  | DeleteRefreshTokensOf string               \<comment> \<open>user id\<close>
  | SelectSigningSecret
  | InsertSigningSecret string
  | SelectAuthVersion

datatype data_stmt =
    SelectProfile string
  | InsertProfile string string i64            \<comment> \<open>id, username, created at\<close>
  | SelectDataVersion
  | CountProfiles

datatype sql_error = NoSuchTable string | UniqueFailed string | ForeignKeyFailed | Fault string

fun is_unique_violation :: "sql_error \<Rightarrow> bool" where
  "is_unique_violation (UniqueFailed _) = True"
| "is_unique_violation _ = False"

datatype sql_result =
    Affected nat
  | UserRow "user option"
  | TextScalar "string option"
  | IntScalar int
  | ProfileRow "(string \<times> string \<times> i64) option"

section \<open>The statements of the auth database\<close>

fun exec_auth :: "auth_stmt \<Rightarrow> auth_db \<Rightarrow> (sql_error + sql_result) \<times> auth_db" where
  "exec_auth (InsertUser i u h t) d =
     (if applied d < 1 then (Inl (NoSuchTable ''users''), d)
      else if i \<in> ur_id ` set (users d) then (Inl (UniqueFailed ''users.id''), d)
      else if u \<in> ur_username ` set (users d) then (Inl (UniqueFailed ''users.username''), d)
      else (Inr (Affected 1),
            d\<lparr>users := users d @ [\<lparr>ur_id = i, ur_username = u, ur_password_hash = h,
                                    ur_created_at = t\<rparr>]\<rparr>))"
| "exec_auth (SelectUserByUsername u) d =
     (if applied d < 1 then (Inl (NoSuchTable ''users''), d)
      else (Inr (UserRow (map_option user_of_row
              (List.find (\<lambda>r. ur_username r = u) (users d)))), d))"
| "exec_auth (SelectUserById i) d =
     (if applied d < 1 then (Inl (NoSuchTable ''users''), d)
      else (Inr (UserRow (map_option user_of_row
              (List.find (\<lambda>r. ur_id r = i) (users d)))), d))"
| "exec_auth (InsertRefreshToken j i x t) d =
     (if applied d < 2 then (Inl (NoSuchTable ''refresh_tokens''), d)
      else if j \<in> tr_jti ` set (refresh_tokens d)
        then (Inl (UniqueFailed ''refresh_tokens.jti''), d)
      else if i \<notin> ur_id ` set (users d) then (Inl ForeignKeyFailed, d)
      else (Inr (Affected 1),
            d\<lparr>refresh_tokens := refresh_tokens d @
               [\<lparr>tr_jti = j, tr_user_id = i, tr_expires_at = x, tr_created_at = t\<rparr>]\<rparr>))"
| "exec_auth (DeleteLiveRefreshToken j now) d =
     (if applied d < 2 then (Inl (NoSuchTable ''refresh_tokens''), d)
      else (let hit = (\<lambda>r. tr_jti r = j \<and> sint now < sint (tr_expires_at r)) in
            (Inr (Affected (length (filter hit (refresh_tokens d)))),
             d\<lparr>refresh_tokens := filter (\<lambda>r. \<not> hit r) (refresh_tokens d)\<rparr>)))"
| "exec_auth (DeleteRefreshTokensOf i) d =
     (if applied d < 2 then (Inl (NoSuchTable ''refresh_tokens''), d)
      else (Inr (Affected (length (filter (\<lambda>r. tr_user_id r = i) (refresh_tokens d)))),
            d\<lparr>refresh_tokens := filter (\<lambda>r. tr_user_id r \<noteq> i) (refresh_tokens d)\<rparr>))"
| "exec_auth SelectSigningSecret d =
     (if applied d < 3 then (Inl (NoSuchTable ''auth_config''), d)
      else (Inr (TextScalar (map_option cr_value
              (List.find (\<lambda>r. cr_key r = ''signing_secret'') (config_rows d)))), d))"
| "exec_auth (InsertSigningSecret v) d =
     (if applied d < 3 then (Inl (NoSuchTable ''auth_config''), d)
      else if ''signing_secret'' \<in> cr_key ` set (config_rows d)
        then (Inl (UniqueFailed ''auth_config.key''), d)
      else (Inr (Affected 1),
            d\<lparr>config_rows := config_rows d @ [\<lparr>cr_key = ''signing_secret'', cr_value = v\<rparr>]\<rparr>))"
| "exec_auth SelectAuthVersion d =
     (if applied d = 0 then (Inl (NoSuchTable ''_sqlx_migrations''), d)
      else (Inr (IntScalar (int (applied d))), d))"

text \<open>The three migration files, applied in order; those already applied are skipped.\<close>

definition migrate_auth_db :: "auth_db \<Rightarrow> auth_db" where
  "migrate_auth_db d = d\<lparr>applied := max 3 (applied d)\<rparr>"

section \<open>The statements of the consumer's database\<close>

fun exec_data :: "data_stmt \<Rightarrow> data_db \<Rightarrow> (sql_error + sql_result) \<times> data_db" where
  "exec_data (SelectProfile i) d =
     (if data_applied d < 1 then (Inl (NoSuchTable ''user_profiles''), d)
      else (Inr (ProfileRow (map_option (\<lambda>r. (pr_id r, pr_username r, pr_created_at r))
              (List.find (\<lambda>r. pr_id r = i) (profiles d)))), d))"
| "exec_data (InsertProfile i u t) d =
     (if data_applied d < 1 then (Inl (NoSuchTable ''user_profiles''), d)
      else if i \<in> pr_id ` set (profiles d) then (Inl (UniqueFailed ''user_profiles.id''), d)
      else (Inr (Affected 1),
            d\<lparr>profiles := profiles d @
                [\<lparr>pr_id = i, pr_username = u, pr_created_at = t\<rparr>]\<rparr>))"
| "exec_data SelectDataVersion d =
     (if data_applied d = 0 then (Inl (NoSuchTable ''_sqlx_migrations''), d)
      else (Inr (IntScalar (int (data_applied d))), d))"
| "exec_data CountProfiles d =
     (if data_applied d < 1 then (Inl (NoSuchTable ''user_profiles''), d)
      else (Inr (IntScalar (int (length (profiles d)))), d))"

definition migrate_data_db :: "data_db \<Rightarrow> data_db" where
  "migrate_data_db d = d\<lparr>data_applied := max 1 (data_applied d)\<rparr>"

section \<open>Integrity\<close>

text \<open>
  What the schema's constraints keep true of the tables: the keys are unique and every refresh
  token belongs to a user.
\<close>

definition auth_db_ok :: "auth_db \<Rightarrow> bool" where
  "auth_db_ok d \<longleftrightarrow>
     distinct (map ur_id (users d)) \<and> distinct (map ur_username (users d)) \<and>
     distinct (map tr_jti (refresh_tokens d)) \<and> distinct (map cr_key (config_rows d)) \<and>
     tr_user_id ` set (refresh_tokens d) \<subseteq> ur_id ` set (users d)"

definition data_db_ok :: "data_db \<Rightarrow> bool" where
  "data_db_ok d \<longleftrightarrow> distinct (map pr_id (profiles d))"

lemma distinct_map_filter: "distinct (map f xs) \<Longrightarrow> distinct (map f (filter P xs))"
  by (induction xs) auto

lemma exec_auth_ok:
  assumes "auth_db_ok d" and "exec_auth st d = (r, d')"
  shows "auth_db_ok d'"
  using assms
  by (cases st)
    (simp_all add: auth_db_ok_def Let_def distinct_map_filter image_subset_iff
      split: if_splits, auto simp: distinct_map_filter)

lemma exec_data_ok:
  assumes "data_db_ok d" and "exec_data st d = (r, d')"
  shows "data_db_ok d'"
  using assms by (cases st) (auto simp: data_db_ok_def split: if_splits)

lemma empty_db_ok [simp]: "auth_db_ok empty_auth_db" "data_db_ok empty_data_db"
  by (simp_all add: auth_db_ok_def data_db_ok_def empty_auth_db_def empty_data_db_def)

lemma migrate_ok [simp]:
  "auth_db_ok (migrate_auth_db d) = auth_db_ok d"
  "data_db_ok (migrate_data_db p) = data_db_ok p"
  by (simp_all add: auth_db_ok_def data_db_ok_def migrate_auth_db_def migrate_data_db_def)

text \<open>A failed statement changes nothing; users are never removed or altered.\<close>

lemma exec_auth_error: "exec_auth st d = (Inl e, d') \<Longrightarrow> d' = d"
  by (cases st) (auto simp: Let_def split: if_splits)

lemma exec_auth_users: "exec_auth st d = (r, d') \<Longrightarrow> \<exists>new. users d' = users d @ new"
  by (cases st) (auto simp: Let_def split: if_splits)

lemma exec_auth_config: "exec_auth st d = (r, d') \<Longrightarrow> \<exists>new. config_rows d' = config_rows d @ new"
  by (cases st) (auto simp: Let_def split: if_splits)

lemma exec_auth_applied: "exec_auth st d = (r, d') \<Longrightarrow> applied d' = applied d"
  by (cases st) (auto simp: Let_def split: if_splits)

text \<open>
  A primary key is at most once in its table, so a conditional delete by key hits at most one
  row.
\<close>

lemma delete_live_affected:
  assumes "auth_db_ok d" and "exec_auth (DeleteLiveRefreshToken j now) d = (Inr (Affected n), d')"
  shows "n \<le> 1"
  using assms length_filter_key_le1 [of tr_jti "refresh_tokens d" j]
  by (auto simp: auth_db_ok_def Let_def split: if_splits)

end
