(* ===== verification/Errors.thy ===== *)
theory Errors
  imports Prelude
begin

text \<open>
  The error types of \<open>src/error.rs\<close>: the structured context and its JSON form, the three
  error enums with their constructors and tables, the top-level \<open>ServirError\<close>, and the
  \<open>ErrorInfo\<close> trait as a locale that every error type interprets.
\<close>

section \<open>JSON values\<close>

text \<open>
  The serde data model as far as the library uses it. An object is the list of its entries in
  the order in which they were serialized.
\<close>

datatype json = JNull | JStr string | JObj "(string \<times> json) list"

section \<open>Identifier and ErrorContext\<close>

record error_identifier =
  id_kind :: string
  id_value :: string

definition identifier_new :: "string \<Rightarrow> string \<Rightarrow> error_identifier" where
  "identifier_new k v = \<lparr>id_kind = k, id_value = v\<rparr>"

record error_context =
  ctx_error :: "string option"
  ctx_identifier :: "error_identifier option"

definition ctx_new :: "string option \<Rightarrow> string \<Rightarrow> string \<Rightarrow> error_context" where
  "ctx_new e k v = \<lparr>ctx_error = e, ctx_identifier = Some (identifier_new k v)\<rparr>"

definition ctx_error_only :: "string \<Rightarrow> error_context" where
  "ctx_error_only e = \<lparr>ctx_error = Some e, ctx_identifier = None\<rparr>"

definition ctx_empty :: error_context where
  "ctx_empty = \<lparr>ctx_error = None, ctx_identifier = None\<rparr>"

text \<open>\<open>impl Serialize for ErrorContext\<close>: the entries of the map, in order.\<close>

definition json_opt_str :: "string option \<Rightarrow> json" where
  "json_opt_str o' = (case o' of None \<Rightarrow> JNull | Some s \<Rightarrow> JStr s)"

definition ctx_serialize :: "error_context \<Rightarrow> json" where
  "ctx_serialize c =
     JObj ((''error'', json_opt_str (ctx_error c)) #
           (case ctx_identifier c of
              None \<Rightarrow> []
            | Some i \<Rightarrow> [(id_kind i, JStr (id_value i))]))"

text \<open>The length announced to the serializer before the entries.\<close>

definition ctx_serialize_len :: "error_context \<Rightarrow> nat" where
  "ctx_serialize_len c = 1 + (if ctx_identifier c \<noteq> None then 1 else 0)"

section \<open>Status codes and Display\<close>

text \<open>\<open>StatusCode\<close> is its number; \<open>is_server_error\<close> is \<open>500..=599\<close>.\<close>

type_synonym status_code = nat

definition is_server_error :: "status_code \<Rightarrow> bool" where
  "is_server_error s = (500 \<le> s \<and> s < 600)"

definition is_client_error :: "status_code \<Rightarrow> bool" where
  "is_client_error s = (400 \<le> s \<and> s < 500)"

text \<open>The \<open>Display\<close> implementation that \<open>impl_err_from_info!\<close> generates.\<close>

definition display_info :: "string \<Rightarrow> error_context \<Rightarrow> string" where
  "display_info eid c =
     eid @
     (case ctx_identifier c of
        None \<Rightarrow> []
      | Some i \<Rightarrow> ''. '' @ id_kind i @ '': '' @ id_value i) @
     (case ctx_error c of None \<Rightarrow> [] | Some e \<Rightarrow> '' ('' @ e @ '')'')"

section \<open>DbError\<close>

datatype db_error =
    Connection string string            \<comment> \<open>url, error\<close>
  | Migration string                    \<comment> \<open>error\<close>
  | UserCreate string string            \<comment> \<open>username, error\<close>
  | UserFindByUsername string string    \<comment> \<open>username, error\<close>
  | UserFindById string string          \<comment> \<open>user id, error\<close>
  | StoreRefreshToken string string     \<comment> \<open>username, error\<close>
  | DeleteRefreshTokensForUser string string \<comment> \<open>username, error\<close>
  | ConsumeRefreshToken string          \<comment> \<open>error\<close>
  | DbUnknown string string             \<comment> \<open>operation, error\<close>

fun db_status_code :: "db_error \<Rightarrow> status_code" where
  "db_status_code _ = 500"

fun db_error_id :: "db_error \<Rightarrow> string" where
  "db_error_id (Connection _ _) = ''DB_CONNECTION_FAILED''"
| "db_error_id (Migration _) = ''DB_MIGRATION_FAILED''"
| "db_error_id (UserCreate _ _) = ''DB_USER_CREATE_FAILED''"
| "db_error_id (UserFindByUsername _ _) = ''DB_USER_FIND_BY_USERNAME_FAILED''"
| "db_error_id (UserFindById _ _) = ''DB_USER_FIND_BY_ID_FAILED''"
| "db_error_id (StoreRefreshToken _ _) = ''DB_STORE_REFRESH_TOKEN_FAILED''"
| "db_error_id (DeleteRefreshTokensForUser _ _) = ''DB_DELETE_REFRESH_TOKENS_FOR_USER_FAILED''"
| "db_error_id (ConsumeRefreshToken _) = ''DB_CONSUME_REFRESH_TOKEN_FAILED''"
| "db_error_id (DbUnknown _ _) = ''DB_UNKNOWN''"

fun db_context :: "db_error \<Rightarrow> error_context" where
  "db_context (Connection url e) = ctx_new (Some e) ''url'' url"
| "db_context (Migration e) = ctx_error_only e"
| "db_context (UserCreate u e) = ctx_new (Some e) ''username'' u"
| "db_context (UserFindByUsername u e) = ctx_new (Some e) ''username'' u"
| "db_context (UserFindById i e) = ctx_new (Some e) ''user_id'' i"
| "db_context (StoreRefreshToken u e) = ctx_new (Some e) ''username'' u"
| "db_context (DeleteRefreshTokensForUser u e) = ctx_new (Some e) ''username'' u"
| "db_context (ConsumeRefreshToken e) = ctx_error_only e"
| "db_context (DbUnknown op e) = ctx_new (Some e) ''operation'' op"

section \<open>AuthUserError\<close>

datatype auth_user_error =
    EmptyUsername
  | WeakPassword
  | AlreadyExists string string         \<comment> \<open>username, error\<close>
  | InvalidCredentials string           \<comment> \<open>username\<close>
  | PasswordHashFailed string           \<comment> \<open>error\<close>

fun auth_user_status_code :: "auth_user_error \<Rightarrow> status_code" where
  "auth_user_status_code EmptyUsername = 400"
| "auth_user_status_code WeakPassword = 400"
| "auth_user_status_code (AlreadyExists _ _) = 409"
| "auth_user_status_code (InvalidCredentials _) = 401"
| "auth_user_status_code (PasswordHashFailed _) = 500"

fun auth_user_error_id :: "auth_user_error \<Rightarrow> string" where
  "auth_user_error_id EmptyUsername = ''EMPTY_USERNAME''"
| "auth_user_error_id WeakPassword = ''WEAK_PASSWORD''"
| "auth_user_error_id (AlreadyExists _ _) = ''ALREADY_EXISTS''"
| "auth_user_error_id (InvalidCredentials _) = ''INVALID_CREDENTIALS''"
| "auth_user_error_id (PasswordHashFailed _) = ''PASSWORD_HASH_FAILED''"

fun auth_user_context :: "auth_user_error \<Rightarrow> error_context" where
  "auth_user_context (AlreadyExists u e) = ctx_new (Some e) ''username'' u"
| "auth_user_context (InvalidCredentials u) = ctx_new None ''username'' u"
| "auth_user_context (PasswordHashFailed e) = ctx_error_only e"
| "auth_user_context _ = ctx_empty"

section \<open>AuthTokenError\<close>

datatype auth_token_error =
    Expired
  | Invalid string                      \<comment> \<open>error\<close>
  | MissingHeader
  | WrongKind
  | InvalidRefreshToken
  | UserNotFound string                 \<comment> \<open>user id\<close>
  | MissingLayer
  | EncodeFailed string                 \<comment> \<open>error\<close>

fun auth_token_status_code :: "auth_token_error \<Rightarrow> status_code" where
  "auth_token_status_code MissingLayer = 500"
| "auth_token_status_code (EncodeFailed _) = 500"
| "auth_token_status_code _ = 401"

fun auth_token_error_id :: "auth_token_error \<Rightarrow> string" where
  "auth_token_error_id Expired = ''TOKEN_EXPIRED''"
| "auth_token_error_id (Invalid _) = ''TOKEN_INVALID''"
| "auth_token_error_id MissingHeader = ''MISSING_AUTHORIZATION_HEADER''"
| "auth_token_error_id WrongKind = ''WRONG_TOKEN_KIND''"
| "auth_token_error_id InvalidRefreshToken = ''INVALID_REFRESH_TOKEN''"
| "auth_token_error_id (UserNotFound _) = ''USER_NOT_FOUND''"
| "auth_token_error_id MissingLayer = ''AUTH_LAYER_MISSING''"
| "auth_token_error_id (EncodeFailed _) = ''TOKEN_ENCODE_FAILED''"

fun auth_token_context :: "auth_token_error \<Rightarrow> error_context" where
  "auth_token_context (Invalid e) = ctx_error_only e"
| "auth_token_context (UserNotFound i) = ctx_new None ''user_id'' i"
| "auth_token_context (EncodeFailed e) = ctx_error_only e"
| "auth_token_context _ = ctx_empty"

section \<open>ServirError\<close>

text \<open>The payload of \<open>Io\<close> is the text that the I/O error displays.\<close>

datatype servir_error =
    Db db_error
  | AuthUserErr auth_user_error
  | AuthTokenErr auth_token_error
  | BadRequest string
  | NotFound
  | Io string

fun servir_status_code :: "servir_error \<Rightarrow> status_code" where
  "servir_status_code (Db e) = db_status_code e"
| "servir_status_code (AuthUserErr e) = auth_user_status_code e"
| "servir_status_code (AuthTokenErr e) = auth_token_status_code e"
| "servir_status_code (BadRequest _) = 400"
| "servir_status_code NotFound = 404"
| "servir_status_code (Io _) = 500"

fun servir_error_id :: "servir_error \<Rightarrow> string" where
  "servir_error_id (Db e) = db_error_id e"
| "servir_error_id (AuthUserErr e) = auth_user_error_id e"
| "servir_error_id (AuthTokenErr e) = auth_token_error_id e"
| "servir_error_id (BadRequest _) = ''BAD_REQUEST''"
| "servir_error_id NotFound = ''NOT_FOUND''"
| "servir_error_id (Io _) = ''IO_ERROR''"

fun servir_context :: "servir_error \<Rightarrow> error_context" where
  "servir_context (Db e) = db_context e"
| "servir_context (AuthUserErr e) = auth_user_context e"
| "servir_context (AuthTokenErr e) = auth_token_context e"
| "servir_context (BadRequest m) = ctx_error_only m"
| "servir_context NotFound = ctx_empty"
| "servir_context (Io e) = ctx_error_only e"

definition servir_display :: "servir_error \<Rightarrow> string" where
  "servir_display e = display_info (servir_error_id e) (servir_context e)"

text \<open>The \<open>From\<close> implementations, and the constructor functions of the enums.\<close>

definition servir_from_db :: "db_error \<Rightarrow> servir_error" where
  "servir_from_db e = Db e"

definition servir_from_auth_user :: "auth_user_error \<Rightarrow> servir_error" where
  "servir_from_auth_user e = AuthUserErr e"

definition servir_from_auth_token :: "auth_token_error \<Rightarrow> servir_error" where
  "servir_from_auth_token e = AuthTokenErr e"

definition servir_from_io :: "string \<Rightarrow> servir_error" where
  "servir_from_io e = Io e"

definition db_connection :: "string \<Rightarrow> string \<Rightarrow> servir_error" where
  "db_connection url e = Db (Connection url e)"

definition db_migration :: "string \<Rightarrow> servir_error" where
  "db_migration e = Db (Migration e)"

definition db_user_create :: "string \<Rightarrow> string \<Rightarrow> servir_error" where
  "db_user_create u e = Db (UserCreate u e)"

definition db_user_find_by_username :: "string \<Rightarrow> string \<Rightarrow> servir_error" where
  "db_user_find_by_username u e = Db (UserFindByUsername u e)"

definition db_user_find_by_id :: "string \<Rightarrow> string \<Rightarrow> servir_error" where
  "db_user_find_by_id i e = Db (UserFindById i e)"

definition db_store_refresh_token :: "string \<Rightarrow> string \<Rightarrow> servir_error" where
  "db_store_refresh_token u e = Db (StoreRefreshToken u e)"

definition db_delete_refresh_tokens_for_user :: "string \<Rightarrow> string \<Rightarrow> servir_error" where
  "db_delete_refresh_tokens_for_user u e = Db (DeleteRefreshTokensForUser u e)"

definition db_consume_refresh_token :: "string \<Rightarrow> servir_error" where
  "db_consume_refresh_token e = Db (ConsumeRefreshToken e)"

definition db_unknown :: "string \<Rightarrow> string \<Rightarrow> servir_error" where
  "db_unknown op e = Db (DbUnknown op e)"

definition user_empty_username :: servir_error where
  "user_empty_username = AuthUserErr EmptyUsername"

definition user_weak_password :: servir_error where
  "user_weak_password = AuthUserErr WeakPassword"

definition user_already_exists :: "string \<Rightarrow> string \<Rightarrow> servir_error" where
  "user_already_exists u e = AuthUserErr (AlreadyExists u e)"

definition user_invalid_credentials :: "string \<Rightarrow> servir_error" where
  "user_invalid_credentials u = AuthUserErr (InvalidCredentials u)"

definition user_password_hash_failed :: "string \<Rightarrow> servir_error" where
  "user_password_hash_failed e = AuthUserErr (PasswordHashFailed e)"

definition token_expired :: servir_error where
  "token_expired = AuthTokenErr Expired"

definition token_invalid :: "string \<Rightarrow> servir_error" where
  "token_invalid e = AuthTokenErr (Invalid e)"

definition token_missing_header :: servir_error where
  "token_missing_header = AuthTokenErr MissingHeader"

definition token_wrong_kind :: servir_error where
  "token_wrong_kind = AuthTokenErr WrongKind"

definition token_invalid_refresh_token :: servir_error where
  "token_invalid_refresh_token = AuthTokenErr InvalidRefreshToken"

definition token_user_not_found :: "string \<Rightarrow> servir_error" where
  "token_user_not_found i = AuthTokenErr (UserNotFound i)"

definition token_missing_layer :: servir_error where
  "token_missing_layer = AuthTokenErr MissingLayer"

definition token_encode_failed :: "string \<Rightarrow> servir_error" where
  "token_encode_failed e = AuthTokenErr (EncodeFailed e)"

definition servir_bad_request :: "string \<Rightarrow> servir_error" where
  "servir_bad_request m = BadRequest m"

lemmas error_constructors [error_simps] =
  db_connection_def db_migration_def db_user_create_def db_user_find_by_username_def
  db_user_find_by_id_def db_store_refresh_token_def db_delete_refresh_tokens_for_user_def
  db_consume_refresh_token_def db_unknown_def user_empty_username_def user_weak_password_def
  user_already_exists_def user_invalid_credentials_def user_password_hash_failed_def
  token_expired_def token_invalid_def token_missing_header_def token_wrong_kind_def
  token_invalid_refresh_token_def token_user_not_found_def token_missing_layer_def
  token_encode_failed_def servir_bad_request_def
  servir_from_db_def servir_from_auth_user_def servir_from_auth_token_def servir_from_io_def

lemmas context_constructors [error_simps] =
  ctx_new_def ctx_error_only_def ctx_empty_def identifier_new_def

section \<open>The ErrorInfo trait\<close>

text \<open>
  What the rest of the library relies on of an implementation of \<open>ErrorInfo\<close>: a status in the
  error range, an identifier written in capitals and underscores, a context whose identifier,
  if any, is one of the four kinds in use, and that the error identifier alone fixes the status
  and the shape of the context.
\<close>

definition error_id_chars :: "char set" where
  "error_id_chars = set ''ABCDEFGHIJKLMNOPQRSTUVWXYZ_''"

definition context_kinds :: "string set" where
  "context_kinds = {''url'', ''username'', ''user_id'', ''operation''}"

definition context_shape :: "error_context \<Rightarrow> bool \<times> string option" where
  "context_shape c = (ctx_error c \<noteq> None, map_option id_kind (ctx_identifier c))"

locale error_info =
  fixes status_of :: "'e \<Rightarrow> status_code"
    and id_of :: "'e \<Rightarrow> string"
    and context_of :: "'e \<Rightarrow> error_context"
  assumes status_range: "400 \<le> status_of e \<and> status_of e < 600"
    and id_nonempty: "id_of e \<noteq> []"
    and id_charset: "set (id_of e) \<subseteq> error_id_chars"
    and kind_range: "ctx_identifier (context_of e) = Some i \<Longrightarrow> id_kind i \<in> context_kinds"
    and id_determines: "id_of e = id_of e' \<Longrightarrow>
      status_of e = status_of e' \<and> context_shape (context_of e) = context_shape (context_of e')"
begin

lemma status_not_ok: "status_of e \<noteq> 200"
  using status_range [of e] by auto

lemma client_or_server: "is_client_error (status_of e) \<noteq> is_server_error (status_of e)"
  using status_range [of e] by (auto simp: is_client_error_def is_server_error_def)

text \<open>The error identifier can be read back from the \<open>Display\<close> form of any error.\<close>

lemma display_starts_with_id:
  "takeWhile (\<lambda>c. c \<in> error_id_chars) (display_info (id_of e) (context_of e)) = id_of e"
proof -
  let ?tail = "(case ctx_identifier (context_of e) of None \<Rightarrow> []
      | Some i \<Rightarrow> ''. '' @ id_kind i @ '': '' @ id_value i) @
    (case ctx_error (context_of e) of None \<Rightarrow> [] | Some m \<Rightarrow> '' ('' @ m @ '')'')"
  have "takeWhile (\<lambda>c. c \<in> error_id_chars) ?tail = []"
    by (auto simp: error_id_chars_def split: option.splits)
  moreover have "\<forall>c \<in> set (id_of e). c \<in> error_id_chars"
    using id_charset [of e] by auto
  ultimately show ?thesis
    by (simp add: display_info_def takeWhile_append2)
qed

text \<open>The JSON map never has two entries of the same name, and \<open>error\<close> always comes first.\<close>

lemma context_keys:
  obtains entries where "ctx_serialize (context_of e) = JObj entries"
    and "distinct (map fst entries)" and "fst (hd entries) = ''error''"
    and "length entries = ctx_serialize_len (context_of e)"
proof -
  have "id_kind i \<noteq> ''error''" if "ctx_identifier (context_of e) = Some i" for i
    using kind_range [OF that] by (auto simp: context_kinds_def)
  then show thesis
    by (intro that [of "(''error'', json_opt_str (ctx_error (context_of e))) #
          (case ctx_identifier (context_of e) of None \<Rightarrow> []
           | Some i \<Rightarrow> [(id_kind i, JStr (id_value i))])"])
      (auto simp: ctx_serialize_def ctx_serialize_len_def split: option.splits)
qed

end

lemmas error_table_simps = error_id_chars_def context_kinds_def context_shape_def
  context_constructors

interpretation db_info: error_info db_status_code db_error_id db_context
proof unfold_locales
  fix e :: db_error
  show "400 \<le> db_status_code e \<and> db_status_code e < 600" by simp
  show "db_error_id e \<noteq> []" by (cases e) simp_all
  show "set (db_error_id e) \<subseteq> error_id_chars" by (cases e) (simp_all add: error_table_simps)
next
  fix e i
  assume "ctx_identifier (db_context e) = Some i"
  then show "id_kind i \<in> context_kinds" by (cases e) (auto simp: error_table_simps)
next
  fix e e'
  assume "db_error_id e = db_error_id e'"
  then show "db_status_code e = db_status_code e' \<and>
      context_shape (db_context e) = context_shape (db_context e')"
    by (cases e; cases e') (simp_all add: error_table_simps)
qed

interpretation auth_user_info: error_info auth_user_status_code auth_user_error_id auth_user_context
proof unfold_locales
  fix e :: auth_user_error
  show "400 \<le> auth_user_status_code e \<and> auth_user_status_code e < 600" by (cases e) simp_all
  show "auth_user_error_id e \<noteq> []" by (cases e) simp_all
  show "set (auth_user_error_id e) \<subseteq> error_id_chars"
    by (cases e) (simp_all add: error_table_simps)
next
  fix e i
  assume "ctx_identifier (auth_user_context e) = Some i"
  then show "id_kind i \<in> context_kinds" by (cases e) (auto simp: error_table_simps)
next
  fix e e'
  assume "auth_user_error_id e = auth_user_error_id e'"
  then show "auth_user_status_code e = auth_user_status_code e' \<and>
      context_shape (auth_user_context e) = context_shape (auth_user_context e')"
    by (cases e; cases e') (simp_all add: error_table_simps)
qed

interpretation auth_token_info:
  error_info auth_token_status_code auth_token_error_id auth_token_context
proof unfold_locales
  fix e :: auth_token_error
  show "400 \<le> auth_token_status_code e \<and> auth_token_status_code e < 600" by (cases e) simp_all
  show "auth_token_error_id e \<noteq> []" by (cases e) simp_all
  show "set (auth_token_error_id e) \<subseteq> error_id_chars"
    by (cases e) (simp_all add: error_table_simps)
next
  fix e i
  assume "ctx_identifier (auth_token_context e) = Some i"
  then show "id_kind i \<in> context_kinds" by (cases e) (auto simp: error_table_simps)
next
  fix e e'
  assume "auth_token_error_id e = auth_token_error_id e'"
  then show "auth_token_status_code e = auth_token_status_code e' \<and>
      context_shape (auth_token_context e) = context_shape (auth_token_context e')"
    by (cases e; cases e') (simp_all add: error_table_simps)
qed

text \<open>
  The identifiers of the three enums and of \<open>ServirError\<close>'s own variants do not overlap: the
  first is told by its \<open>DB_\<close> prefix, the others are compared one by one.
\<close>

lemma db_error_id_prefix: "take 3 (db_error_id e) = ''DB_''"
  by (cases e) simp_all

lemma auth_user_error_id_prefix: "take 3 (auth_user_error_id e) \<noteq> ''DB_''"
  by (cases e) simp_all

lemma auth_token_error_id_prefix: "take 3 (auth_token_error_id e) \<noteq> ''DB_''"
  by (cases e) simp_all

lemma auth_error_ids_disjoint: "auth_user_error_id e \<noteq> auth_token_error_id e'"
  by (cases e; cases e') simp_all

lemma own_error_ids:
  assumes "own \<in> {''BAD_REQUEST'', ''NOT_FOUND'', ''IO_ERROR''}"
  shows "db_error_id d \<noteq> own" "auth_user_error_id u \<noteq> own" "auth_token_error_id t \<noteq> own"
proof -
  show "db_error_id d \<noteq> own" using assms by (cases d) auto
  show "auth_user_error_id u \<noteq> own" using assms by (cases u) auto
  show "auth_token_error_id t \<noteq> own" using assms by (cases t) auto
qed

lemma db_ids_apart:
  "db_error_id d \<noteq> auth_user_error_id u" "db_error_id d \<noteq> auth_token_error_id t"
  using db_error_id_prefix [of d] auth_user_error_id_prefix [of u]
    auth_token_error_id_prefix [of t] by auto

lemmas error_ids_apart = own_error_ids own_error_ids [symmetric] db_ids_apart
  db_ids_apart [symmetric] auth_error_ids_disjoint auth_error_ids_disjoint [symmetric]

interpretation servir_info: error_info servir_status_code servir_error_id servir_context
proof unfold_locales
  fix e :: servir_error
  show "400 \<le> servir_status_code e \<and> servir_status_code e < 600"
    using auth_user_info.status_range auth_token_info.status_range by (cases e) simp_all
  show "servir_error_id e \<noteq> []"
    using db_info.id_nonempty auth_user_info.id_nonempty auth_token_info.id_nonempty
    by (cases e) simp_all
  show "set (servir_error_id e) \<subseteq> error_id_chars"
    using db_info.id_charset auth_user_info.id_charset auth_token_info.id_charset
    by (cases e) (simp_all add: error_id_chars_def)
next
  fix e i
  assume "ctx_identifier (servir_context e) = Some i"
  then show "id_kind i \<in> context_kinds"
    using db_info.kind_range auth_user_info.kind_range auth_token_info.kind_range
    by (cases e) (auto simp: context_constructors)
next
  fix e e'
  assume eq: "servir_error_id e = servir_error_id e'"
  show "servir_status_code e = servir_status_code e' \<and>
      context_shape (servir_context e) = context_shape (servir_context e')"
  proof (cases e)
    case e: (Db d)
    show ?thesis
    proof (cases e')
      case (Db d')
      with eq e show ?thesis
        using db_info.id_determines [of d d'] by simp
    qed (use eq e in \<open>simp_all add: error_ids_apart\<close>)
  next
    case e: (AuthUserErr u)
    show ?thesis
    proof (cases e')
      case (AuthUserErr u')
      with eq e show ?thesis
        using auth_user_info.id_determines [of u u'] by simp
    qed (use eq e in \<open>simp_all add: error_ids_apart\<close>)
  next
    case e: (AuthTokenErr t)
    show ?thesis
    proof (cases e')
      case (AuthTokenErr t')
      with eq e show ?thesis
        using auth_token_info.id_determines [of t t'] by simp
    qed (use eq e in \<open>simp_all add: error_ids_apart\<close>)
  qed (use eq in \<open>cases e'; simp add: error_ids_apart error_table_simps\<close>)+
qed

section \<open>The JSON form of a context\<close>

lemma ctx_serialize_inj: "ctx_serialize c = ctx_serialize d \<longleftrightarrow> c = d"
  by (cases c; cases d)
    (auto simp: ctx_serialize_def json_opt_str_def split: option.splits)

end
