(* ===== verification/Telemetry.thy ===== *)
theory Telemetry
  imports Prelude
begin

text \<open>
  The telemetry section of \<open>src/server.rs\<close> as data: the filter, the layers of the two
  subscribers, and the panic hook with the message and the location that it logs. Installing a
  subscriber and a hook changes the state of the process; those effects are in \<open>Runtime\<close>, and
  the two functions that perform them, \<open>init_tracing\<close> and \<open>init_logging\<close>, in \<open>Logging\<close>.
\<close>

section \<open>Subscribers\<close>

text \<open>
  A subscriber is its filter, as the text of the directives, and its formatting layers. A
  setting that the code leaves alone is \<open>None\<close>: the default of \<open>tracing_subscriber\<close>.
\<close>

datatype log_writer =
    Stdout
  | NonBlockingFile string string       \<comment> \<open>directory and prefix of the daily file\<close>

record fmt_layer =
  ly_json :: bool
  ly_target :: "bool option"
  ly_current_span :: "bool option"
  ly_span_list :: "bool option"
  ly_ansi :: "bool option"
  ly_writer :: log_writer

record subscriber =
  sub_filter :: string
  sub_layers :: "fmt_layer list"

definition fmt_default :: fmt_layer where
  "fmt_default = \<lparr>ly_json = False, ly_target = None, ly_current_span = None,
     ly_span_list = None, ly_ansi = None, ly_writer = Stdout\<rparr>"

text \<open>\<open>EnvFilter::try_from_default_env().unwrap_or_else(..)\<close>; the first argument is the filter in
  \<open>RUST_LOG\<close> if it is set and parses.\<close>

definition env_filter :: "string option \<Rightarrow> string \<Rightarrow> string" where
  "env_filter rust_log service_name =
     (case rust_log of
        Some directives \<Rightarrow> directives
      | None \<Rightarrow> service_name @ ''=debug,servir=debug,tower_http=debug'')"

definition tracing_subscriber :: "string option \<Rightarrow> string \<Rightarrow> subscriber" where
  "tracing_subscriber rust_log service_name =
     \<lparr>sub_filter = env_filter rust_log service_name, sub_layers = [fmt_default]\<rparr>"

definition stdout_layer :: "bool \<Rightarrow> fmt_layer" where
  "stdout_layer is_terminal = fmt_default\<lparr>ly_target := Some True, ly_ansi := Some is_terminal\<rparr>"

definition file_layer :: "string \<Rightarrow> string \<Rightarrow> fmt_layer" where
  "file_layer dir prefix =
     fmt_default\<lparr>ly_json := True, ly_target := Some True, ly_current_span := Some True,
       ly_span_list := Some True, ly_writer := NonBlockingFile dir prefix, ly_ansi := Some False\<rparr>"

definition logging_subscriber :: "string option \<Rightarrow> bool \<Rightarrow> string \<Rightarrow> string \<Rightarrow> subscriber" where
  "logging_subscriber rust_log is_terminal log_dir service_name =
     \<lparr>sub_filter = env_filter rust_log service_name,
      sub_layers = [stdout_layer is_terminal, file_layer log_dir (service_name @ ''.log'')]\<rparr>"

section \<open>The panic hook\<close>

datatype payload = StaticStr string | OwnedString string | OtherPayload

record location =
  loc_file :: string
  loc_line :: nat
  loc_column :: nat

record panic_info =
  pi_payload :: payload
  pi_location :: "location option"

fun decimal :: "nat \<Rightarrow> string" where
  "decimal n =
     (if n < 10 then [char_of (48 + n)] else decimal (n div 10) @ [char_of (48 + n mod 10)])"

declare decimal.simps [simp del]

fun panic_message :: "payload \<Rightarrow> string" where
  "panic_message (StaticStr s) = s"
| "panic_message (OwnedString s) = s"
| "panic_message OtherPayload = ''unknown panic''"

definition location_text :: "location \<Rightarrow> string" where
  "location_text l = loc_file l @ '':'' @ decimal (loc_line l) @ '':'' @ decimal (loc_column l)"

definition panic_location :: "location option \<Rightarrow> string" where
  "panic_location l = (case l of Some loc \<Rightarrow> location_text loc | None \<Rightarrow> [])"

text \<open>
  A hook: the default one of the standard library, one set by other code, or the closure of
  \<open>init_logging\<close>, which has captured the hook before it. Calling a hook leaves a trace of reports.
\<close>

datatype panic_hook =
    DefaultHook
  | ForeignHook string
  | ForwardingHook panic_hook

datatype hook_report =
    ErrorEvent string string            \<comment> \<open>\<open>tracing::error!\<close> with message and location\<close>
  | StderrReport panic_info
  | ForeignReport string panic_info

fun call_hook :: "panic_hook \<Rightarrow> panic_info \<Rightarrow> hook_report list" where
  "call_hook DefaultHook info = [StderrReport info]"
| "call_hook (ForeignHook h) info = [ForeignReport h info]"
| "call_hook (ForwardingHook default_hook) info =
     ErrorEvent (panic_message (pi_payload info)) (panic_location (pi_location info)) #
     call_hook default_hook info"

section \<open>The state of the process\<close>

record process =
  global_subscriber :: "subscriber option"
  current_hook :: panic_hook

definition new_process :: process where
  "new_process = \<lparr>global_subscriber = None, current_hook = DefaultHook\<rparr>"

section \<open>Locations can be read back\<close>

lemma decimal_chars: "set (decimal n) \<subseteq> {char_of k | k. 48 \<le> k \<and> k < (58::nat)}"
proof (induction n rule: decimal.induct)
  case (1 n)
  show ?case
  proof (cases "n < 10")
    case True
    then show ?thesis by (auto simp: decimal.simps [of n] intro!: exI [of _ "48 + n"])
  next
    case False
    have "char_of (48 + n mod 10) \<in> {char_of k | k. 48 \<le> k \<and> k < (58::nat)}"
      by (auto intro!: exI [of _ "48 + n mod 10"])
    with False 1 show ?thesis by (simp add: decimal.simps [of n])
  qed
qed

lemma decimal_no_colon: "CHR '':'' \<notin> set (decimal n)"
proof
  assume "CHR '':'' \<in> set (decimal n)"
  with decimal_chars [of n] obtain k where k: "CHR '':'' = char_of k" "k < (58::nat)"
    by blast
  then have "of_char (CHR '':'') = (of_char (char_of k :: char) :: nat)" by simp
  with k(2) show False by simp
qed

lemma char_of_digit_inject:
  "m < 208 \<Longrightarrow> n < 208 \<Longrightarrow> (char_of (48 + m) :: char) = char_of (48 + n) \<longleftrightarrow> m = (n::nat)"
  by (simp add: char_of_eq_iff take_bit_eq_mod)

lemma decimal_not_Nil [simp]: "decimal n \<noteq> []"
  by (subst decimal.simps) simp

lemma decimal_inject: "decimal m = decimal n \<longleftrightarrow> m = n"
proof (induction m arbitrary: n rule: decimal.induct)
  case (1 m)
  show ?case
  proof (cases "m < 10")
    case True
    then show ?thesis
      by (cases "n < 10") (auto simp: decimal.simps [of m] decimal.simps [of n] char_of_digit_inject
          Cons_eq_append_conv)
  next
    case False
    have "m div 10 = n div 10 \<and> m mod 10 = n mod 10 \<longleftrightarrow> m = n"
      by (metis div_mult_mod_eq)
    with False 1 [OF False, of "n div 10"] show ?thesis
      by (cases "n < 10") (auto simp: decimal.simps [of m] decimal.simps [of n] char_of_digit_inject
          append_eq_Cons_conv)
  qed
qed

lemma split_last_colon:
  assumes "a @ '':'' @ b = c @ '':'' @ d" and "CHR '':'' \<notin> set b" and "CHR '':'' \<notin> set d"
  shows "a = c \<and> b = d"
  using assms by (auto simp: append_eq_append_conv2 Cons_eq_append_conv append_eq_Cons_conv)

lemma location_text_inject:
  "location_text l = location_text (l' :: location) \<longleftrightarrow> l = l'"
proof
  assume eq: "location_text l = location_text l'"
  have "(loc_file l @ '':'' @ decimal (loc_line l)) = loc_file l' @ '':'' @ decimal (loc_line l') \<and>
      decimal (loc_column l) = decimal (loc_column l')"
    by (rule split_last_colon) (use eq in \<open>simp_all add: location_text_def decimal_no_colon\<close>)
  moreover from this have "loc_file l = loc_file l' \<and> decimal (loc_line l) = decimal (loc_line l')"
    using split_last_colon [OF _ decimal_no_colon decimal_no_colon] by blast
  ultimately show "l = l'"
    by (simp add: decimal_inject)
qed simp

end
