(* ===== verification/Runtime.thy ===== *)
theory Runtime
  imports Program Tokens Schema Errors Telemetry
begin

text \<open>
  The environment of the server: what the code obtains from the clock, the random sources, the
  database and the libraries it calls. \<open>env\<close> collects the parameters of the model: the
  functions of third-party crates (\<open>jsonwebtoken\<close>, \<open>argon2\<close>, \<open>hex\<close>, \<open>sqlx\<close>) and, for every
  moment, the reading of the clock, the identifier, salt and bytes drawn, and the failure of the
  database if it fails then. A moment is the number of effects performed so far. Nothing is
  assumed of these functions here; what a property relies on is one of the named conditions of
  the last section.
\<close>

section \<open>Effects and replies\<close>

datatype jwt_error = ExpiredSignature | OtherJwtError string

datatype effect =
    ReadClock
  | GenUuid
  | GenSalt
  | FillRandom nat                      \<comment> \<open>the length of the buffer\<close>
  | JwtDecode string string             \<comment> \<open>token, secret\<close>
  | AuthSql auth_stmt
  | DataSql data_stmt
  | ConnectDb string                    \<comment> \<open>url\<close>
  | MigrateAuth
  | MigrateData
  | CreateDirAll string                 \<comment> \<open>\<open>std::fs::create_dir_all\<close>\<close>
  | OpenDailyFile string string         \<comment> \<open>\<open>rolling::daily\<close>: directory, prefix\<close>
  | TryInit subscriber                  \<comment> \<open>install the global subscriber if there is none\<close>
  | TakeHook
  | SetHook panic_hook

datatype reply =
    is_RClock: RClock "u64 option"      \<comment> \<open>\<open>None\<close>: the clock is before the Unix epoch\<close>
  | is_RText: RText string
  | is_RBytes: RBytes "u8 list option"  \<comment> \<open>\<open>None\<close>: the random source failed\<close>
  | is_RDecoded: RDecoded "jwt_error + claims"
  | is_RSql: RSql "sql_error + sql_result"
  | is_RDone: RDone "sql_error option"
  | is_RIo: RIo "string option"         \<comment> \<open>the error, if any\<close>
  | is_RHook: RHook panic_hook

type_synonym 'a task = "('a, effect, reply) prog"

section \<open>The environment\<close>

record env =
  overflow_checks :: bool
  clock :: "nat \<Rightarrow> u64 option"
  uuid :: "nat \<Rightarrow> string"
  salt :: "nat \<Rightarrow> string"
  random_bytes :: "nat \<Rightarrow> nat \<Rightarrow> u8 list option"
  fault :: "nat \<Rightarrow> string option"
  sql_text :: "sql_error \<Rightarrow> string"
  url_error :: "string \<Rightarrow> string option"
  hex_encode :: "u8 list \<Rightarrow> string"
  jwt_encode :: "string \<Rightarrow> claims \<Rightarrow> string + string"
  jwt_decode :: "nat \<Rightarrow> string \<Rightarrow> string \<Rightarrow> jwt_error + claims"
  argon2_hash :: "string \<Rightarrow> string \<Rightarrow> string + string"
  phc_error :: "string \<Rightarrow> string option"
  argon2_verify :: "string \<Rightarrow> string \<Rightarrow> bool"
  rust_log :: "string option"
  stdout_is_terminal :: bool
  create_dir_error :: "nat \<Rightarrow> string \<Rightarrow> string option"
  open_file_error :: "nat \<Rightarrow> string \<Rightarrow> string \<Rightarrow> string option"

text \<open>The state behind the server: its two databases, its process, and the moment.\<close>

record world =
  auth :: auth_db
  data :: data_db
  proc :: process
  tick :: nat

definition empty_world :: world where
  "empty_world = \<lparr>auth = empty_auth_db, data = empty_data_db, proc = new_process, tick = 0\<rparr>"

text \<open>What \<open>try_init\<close> does: a subscriber that is installed already stays.\<close>

definition try_init :: "subscriber \<Rightarrow> process \<Rightarrow> string option \<times> process" where
  "try_init s p =
     (case global_subscriber p of
        None \<Rightarrow> (None, p\<lparr>global_subscriber := Some s\<rparr>)
      | Some _ \<Rightarrow> (Some ''a global default trace dispatcher has already been set'', p))"

text \<open>The effect of a statement: the database may fail, and then nothing has changed.\<close>

definition perform_auth :: "env \<Rightarrow> auth_stmt \<Rightarrow> world \<Rightarrow> reply \<times> world" where
  "perform_auth E st w =
     (case fault E (tick w) of
        Some m \<Rightarrow> (RSql (Inl (Fault m)), w\<lparr>tick := Suc (tick w)\<rparr>)
      | None \<Rightarrow> (case exec_auth st (auth w) of
          (r, d) \<Rightarrow> (RSql r, w\<lparr>auth := d, tick := Suc (tick w)\<rparr>)))"

definition perform_data :: "env \<Rightarrow> data_stmt \<Rightarrow> world \<Rightarrow> reply \<times> world" where
  "perform_data E st w =
     (case fault E (tick w) of
        Some m \<Rightarrow> (RSql (Inl (Fault m)), w\<lparr>tick := Suc (tick w)\<rparr>)
      | None \<Rightarrow> (case exec_data st (data w) of
          (r, d) \<Rightarrow> (RSql r, w\<lparr>data := d, tick := Suc (tick w)\<rparr>)))"

fun perform :: "env \<Rightarrow> effect \<Rightarrow> world \<Rightarrow> reply \<times> world" where
  "perform E ReadClock w = (RClock (clock E (tick w)), w\<lparr>tick := Suc (tick w)\<rparr>)"
| "perform E GenUuid w = (RText (uuid E (tick w)), w\<lparr>tick := Suc (tick w)\<rparr>)"
| "perform E GenSalt w = (RText (salt E (tick w)), w\<lparr>tick := Suc (tick w)\<rparr>)"
| "perform E (FillRandom n) w =
     (RBytes (random_bytes E (tick w) n), w\<lparr>tick := Suc (tick w)\<rparr>)"
| "perform E (JwtDecode t s) w =
     (RDecoded (jwt_decode E (tick w) s t), w\<lparr>tick := Suc (tick w)\<rparr>)"
| "perform E (AuthSql st) w = perform_auth E st w"
| "perform E (DataSql st) w = perform_data E st w"
| "perform E (ConnectDb url) w =
     (RDone (map_option Fault (fault E (tick w))), w\<lparr>tick := Suc (tick w)\<rparr>)"
| "perform E MigrateAuth w =
     (case fault E (tick w) of
        Some m \<Rightarrow> (RDone (Some (Fault m)), w\<lparr>tick := Suc (tick w)\<rparr>)
      | None \<Rightarrow> (RDone None, w\<lparr>auth := migrate_auth_db (auth w), tick := Suc (tick w)\<rparr>))"
| "perform E MigrateData w =
     (case fault E (tick w) of
        Some m \<Rightarrow> (RDone (Some (Fault m)), w\<lparr>tick := Suc (tick w)\<rparr>)
      | None \<Rightarrow> (RDone None, w\<lparr>data := migrate_data_db (data w), tick := Suc (tick w)\<rparr>))"
| "perform E (CreateDirAll dir) w =
     (RIo (create_dir_error E (tick w) dir), w\<lparr>tick := Suc (tick w)\<rparr>)"
| "perform E (OpenDailyFile dir prefix) w =
     (RIo (open_file_error E (tick w) dir prefix), w\<lparr>tick := Suc (tick w)\<rparr>)"
| "perform E (TryInit s) w =
     (RIo (fst (try_init s (proc w))),
      w\<lparr>proc := snd (try_init s (proc w)), tick := Suc (tick w)\<rparr>)"
| "perform E TakeHook w =
     (RHook (current_hook (proc w)),
      w\<lparr>proc := (proc w)\<lparr>current_hook := DefaultHook\<rparr>, tick := Suc (tick w)\<rparr>)"
| "perform E (SetHook h) w =
     (RIo None, w\<lparr>proc := (proc w)\<lparr>current_hook := h\<rparr>, tick := Suc (tick w)\<rparr>)"

section \<open>Requests to the environment, typed\<close>

text \<open>
  The replies are typed by the effect; the last branch of each definition is never taken
  (\<open>perform_typed\<close>).
\<close>

definition read_clock :: "(u64 option \<Rightarrow> 'a task) \<Rightarrow> 'a task" where
  "read_clock k = Do ReadClock (\<lambda>r. case r of RClock t \<Rightarrow> k t | _ \<Rightarrow> Panic ''reply'')"

definition gen_uuid :: "(string \<Rightarrow> 'a task) \<Rightarrow> 'a task" where
  "gen_uuid k = Do GenUuid (\<lambda>r. case r of RText t \<Rightarrow> k t | _ \<Rightarrow> Panic ''reply'')"

definition gen_salt :: "(string \<Rightarrow> 'a task) \<Rightarrow> 'a task" where
  "gen_salt k = Do GenSalt (\<lambda>r. case r of RText t \<Rightarrow> k t | _ \<Rightarrow> Panic ''reply'')"

definition fill_random :: "nat \<Rightarrow> (u8 list option \<Rightarrow> 'a task) \<Rightarrow> 'a task" where
  "fill_random n k = Do (FillRandom n) (\<lambda>r. case r of RBytes b \<Rightarrow> k b | _ \<Rightarrow> Panic ''reply'')"

definition decode_jwt :: "string \<Rightarrow> string \<Rightarrow> (jwt_error + claims \<Rightarrow> 'a task) \<Rightarrow> 'a task" where
  "decode_jwt t s k =
     Do (JwtDecode t s) (\<lambda>r. case r of RDecoded c \<Rightarrow> k c | _ \<Rightarrow> Panic ''reply'')"

definition execute :: "auth_stmt \<Rightarrow> (sql_error + nat) task" where
  "execute st = Do (AuthSql st) (\<lambda>r. case r of
       RSql (Inl e) \<Rightarrow> err e
     | RSql (Inr (Affected n)) \<Rightarrow> ok n
     | _ \<Rightarrow> Panic ''reply'')"

definition fetch_user :: "auth_stmt \<Rightarrow> (sql_error + user option) task" where
  "fetch_user st = Do (AuthSql st) (\<lambda>r. case r of
       RSql (Inl e) \<Rightarrow> err e
     | RSql (Inr (UserRow u)) \<Rightarrow> ok u
     | _ \<Rightarrow> Panic ''reply'')"

definition fetch_text :: "auth_stmt \<Rightarrow> (sql_error + string option) task" where
  "fetch_text st = Do (AuthSql st) (\<lambda>r. case r of
       RSql (Inl e) \<Rightarrow> err e
     | RSql (Inr (TextScalar v)) \<Rightarrow> ok v
     | _ \<Rightarrow> Panic ''reply'')"

definition fetch_int :: "effect \<Rightarrow> (sql_error + int) task" where
  "fetch_int e = Do e (\<lambda>r. case r of
       RSql (Inl e) \<Rightarrow> err e
     | RSql (Inr (IntScalar v)) \<Rightarrow> ok v
     | _ \<Rightarrow> Panic ''reply'')"

definition execute_data :: "data_stmt \<Rightarrow> (sql_error + nat) task" where
  "execute_data st = Do (DataSql st) (\<lambda>r. case r of
       RSql (Inl e) \<Rightarrow> err e
     | RSql (Inr (Affected n)) \<Rightarrow> ok n
     | _ \<Rightarrow> Panic ''reply'')"

definition fetch_profile :: "data_stmt \<Rightarrow> (sql_error + (string \<times> string \<times> i64) option) task" where
  "fetch_profile st = Do (DataSql st) (\<lambda>r. case r of
       RSql (Inl e) \<Rightarrow> err e
     | RSql (Inr (ProfileRow v)) \<Rightarrow> ok v
     | _ \<Rightarrow> Panic ''reply'')"

definition perform_done :: "effect \<Rightarrow> (sql_error + unit) task" where
  "perform_done e = Do e (\<lambda>r. case r of
       RDone None \<Rightarrow> ok ()
     | RDone (Some x) \<Rightarrow> err x
     | _ \<Rightarrow> Panic ''reply'')"

definition perform_io :: "effect \<Rightarrow> (string option \<Rightarrow> 'a task) \<Rightarrow> 'a task" where
  "perform_io e k = Do e (\<lambda>r. case r of RIo x \<Rightarrow> k x | _ \<Rightarrow> Panic ''reply'')"

definition take_hook :: "(panic_hook \<Rightarrow> 'a task) \<Rightarrow> 'a task" where
  "take_hook k = Do TakeHook (\<lambda>r. case r of RHook h \<Rightarrow> k h | _ \<Rightarrow> Panic ''reply'')"

lemmas request_defs [op_defs] =
  read_clock_def gen_uuid_def gen_salt_def fill_random_def decode_jwt_def execute_def
  fetch_user_def fetch_text_def fetch_int_def execute_data_def fetch_profile_def perform_done_def
  perform_io_def take_hook_def

section \<open>The type of a reply\<close>

fun result_fits :: "auth_stmt \<Rightarrow> sql_result \<Rightarrow> bool" where
  "result_fits (SelectUserByUsername _) (UserRow _) = True"
| "result_fits (SelectUserById _) (UserRow _) = True"
| "result_fits SelectSigningSecret (TextScalar _) = True"
| "result_fits SelectAuthVersion (IntScalar _) = True"
| "result_fits (InsertUser _ _ _ _) (Affected _) = True"
| "result_fits (InsertRefreshToken _ _ _ _) (Affected _) = True"
| "result_fits (DeleteLiveRefreshToken _ _) (Affected _) = True"
| "result_fits (DeleteRefreshTokensOf _) (Affected _) = True"
| "result_fits (InsertSigningSecret _) (Affected _) = True"
| "result_fits _ _ = False"

fun data_result_fits :: "data_stmt \<Rightarrow> sql_result \<Rightarrow> bool" where
  "data_result_fits (SelectProfile _) (ProfileRow _) = True"
| "data_result_fits SelectDataVersion (IntScalar _) = True"
| "data_result_fits CountProfiles (IntScalar _) = True"
| "data_result_fits (InsertProfile _ _ _) (Affected _) = True"
| "data_result_fits _ _ = False"

fun sql_fits :: "(sql_result \<Rightarrow> bool) \<Rightarrow> reply \<Rightarrow> bool" where
  "sql_fits fits (RSql (Inl _)) = True"
| "sql_fits fits (RSql (Inr v)) = fits v"
| "sql_fits fits _ = False"

fun reply_fits :: "effect \<Rightarrow> reply \<Rightarrow> bool" where
  "reply_fits ReadClock r = is_RClock r"
| "reply_fits GenUuid r = is_RText r"
| "reply_fits GenSalt r = is_RText r"
| "reply_fits (FillRandom _) r = is_RBytes r"
| "reply_fits (JwtDecode _ _) r = is_RDecoded r"
| "reply_fits (AuthSql st) r = sql_fits (result_fits st) r"
| "reply_fits (DataSql st) r = sql_fits (data_result_fits st) r"
| "reply_fits (ConnectDb _) r = is_RDone r"
| "reply_fits MigrateAuth r = is_RDone r"
| "reply_fits MigrateData r = is_RDone r"
| "reply_fits (CreateDirAll _) r = is_RIo r"
| "reply_fits (OpenDailyFile _ _) r = is_RIo r"
| "reply_fits (TryInit _) r = is_RIo r"
| "reply_fits TakeHook r = is_RHook r"
| "reply_fits (SetHook _) r = is_RIo r"

lemma exec_auth_fits: "exec_auth st d = (Inr v, d') \<Longrightarrow> result_fits st v"
  by (cases st) (auto simp: Let_def split: if_splits)

lemma exec_data_fits: "exec_data st d = (Inr v, d') \<Longrightarrow> data_result_fits st v"
  by (cases st) (auto split: if_splits)

lemma perform_typed: "perform E e w = (r, w') \<Longrightarrow> reply_fits e r"
proof (cases e)
  case (AuthSql st)
  obtain v d where "exec_auth st (auth w) = (v, d)"
    by fastforce
  moreover assume "perform E e w = (r, w')"
  ultimately show ?thesis
    using AuthSql exec_auth_fits [of st "auth w"]
    by (cases v) (auto simp: perform_auth_def split: option.splits)
next
  case (DataSql st)
  obtain v d where "exec_data st (data w) = (v, d)"
    by fastforce
  moreover assume "perform E e w = (r, w')"
  ultimately show ?thesis
    using DataSql exec_data_fits [of st "data w"]
    by (cases v) (auto simp: perform_data_def split: option.splits)
qed (auto split: option.splits)

lemma perform_tick: "perform E e w = (r, w') \<Longrightarrow> tick w' = Suc (tick w)"
  by (cases e) (auto simp: perform_auth_def perform_data_def split: option.splits prod.splits)

text \<open>Any effect either leaves the auth database alone or executes one statement or migration.\<close>

lemma perform_auth_db:
  assumes "perform E e w = (r, w')"
  shows "auth w' = auth w \<or> auth w' = migrate_auth_db (auth w) \<or>
    (\<exists>st v. e = AuthSql st \<and> exec_auth st (auth w) = (v, auth w') \<and> r = RSql v)"
  using assms
  by (cases e) (auto simp: perform_auth_def perform_data_def split: option.splits prod.splits)

section \<open>Runs of the requests\<close>

definition advance :: "world \<Rightarrow> world" where
  "advance w = w\<lparr>tick := Suc (tick w)\<rparr>"

definition set_auth :: "auth_db \<Rightarrow> world \<Rightarrow> world" where
  "set_auth d w = w\<lparr>auth := d\<rparr>"

definition set_data :: "data_db \<Rightarrow> world \<Rightarrow> world" where
  "set_data d w = w\<lparr>data := d\<rparr>"

definition set_proc :: "process \<Rightarrow> world \<Rightarrow> world" where
  "set_proc p w = w\<lparr>proc := p\<rparr>"

lemma world_simps [simp]:
  "auth (advance w) = auth w" "data (advance w) = data w" "tick (advance w) = Suc (tick w)"
  "auth (set_auth d w) = d" "data (set_auth d w) = data w" "tick (set_auth d w) = tick w"
  "auth (set_data p w) = auth w" "data (set_data p w) = p" "tick (set_data p w) = tick w"
  "set_auth d (set_auth d' w) = set_auth d w" "advance (set_auth d w) = set_auth d (advance w)"
  "advance (set_data p w) = set_data p (advance w)" "set_auth (auth w) w = w"
  "set_data (data w) w = w" "set_auth (auth w) (advance w) = advance w"
  "set_data (data w) (advance w) = advance w"
  "proc (advance w) = proc w" "proc (set_auth d w) = proc w" "proc (set_data p w) = proc w"
  "auth (set_proc q w) = auth w" "data (set_proc q w) = data w" "tick (set_proc q w) = tick w"
  "proc (set_proc q w) = q" "advance (set_proc q w) = set_proc q (advance w)"
  "set_proc q (set_proc q' w) = set_proc q w" "set_proc (proc w) w = w"
  by (simp_all add: advance_def set_auth_def set_data_def set_proc_def)

lemma run_random_requests [prog_simps]:
  "run (perform E) (read_clock k) w = run (perform E) (k (clock E (tick w))) (advance w)"
  "run (perform E) (gen_uuid l) w = run (perform E) (l (uuid E (tick w))) (advance w)"
  "run (perform E) (gen_salt l) w = run (perform E) (l (salt E (tick w))) (advance w)"
  "run (perform E) (fill_random n b) w =
     run (perform E) (b (random_bytes E (tick w) n)) (advance w)"
  "run (perform E) (decode_jwt t s d) w =
     run (perform E) (d (jwt_decode E (tick w) s t)) (advance w)"
  by (simp_all add: request_defs advance_def)

lemma run_process_requests [prog_simps]:
  "run (perform E) (perform_io (CreateDirAll dir) k) w =
     run (perform E) (k (create_dir_error E (tick w) dir)) (advance w)"
  "run (perform E) (perform_io (OpenDailyFile dir pre) k) w =
     run (perform E) (k (open_file_error E (tick w) dir pre)) (advance w)"
  "run (perform E) (perform_io (TryInit s) k) w =
     run (perform E) (k (fst (try_init s (proc w)))) (set_proc (snd (try_init s (proc w))) (advance w))"
  "run (perform E) (take_hook l) w =
     run (perform E) (l (current_hook (proc w)))
       (set_proc ((proc w)\<lparr>current_hook := DefaultHook\<rparr>) (advance w))"
  "run (perform E) (perform_io (SetHook h) k) w =
     run (perform E) (k None) (set_proc ((proc w)\<lparr>current_hook := h\<rparr>) (advance w))"
  by (cases w; simp add: request_defs advance_def set_proc_def)+

text \<open>
  The outcome of a database request, read off the statement's effect: a fault of the moment,
  the statement's error, or its result seen at the type that the caller asked for.
\<close>

definition sql_outcome ::
  "string option \<Rightarrow> (sql_result \<Rightarrow> 'a) \<Rightarrow> sql_error + sql_result \<Rightarrow> sql_error + 'a" where
  "sql_outcome f view r = (case f of Some m \<Rightarrow> Inl (Fault m) | None \<Rightarrow> map_sum id view r)"

definition after_auth :: "env \<Rightarrow> auth_stmt \<Rightarrow> world \<Rightarrow> world" where
  "after_auth E st w =
     advance (if fault E (tick w) = None then set_auth (snd (exec_auth st (auth w))) w else w)"

definition after_data :: "env \<Rightarrow> data_stmt \<Rightarrow> world \<Rightarrow> world" where
  "after_data E st w =
     advance (if fault E (tick w) = None then set_data (snd (exec_data st (data w))) w else w)"

fun affected_of :: "sql_result \<Rightarrow> nat" where
  "affected_of (Affected n) = n"
| "affected_of _ = 0"

fun user_row_of :: "sql_result \<Rightarrow> user option" where
  "user_row_of (UserRow u) = u"
| "user_row_of _ = None"

fun text_of :: "sql_result \<Rightarrow> string option" where
  "text_of (TextScalar t) = t"
| "text_of _ = None"

fun profile_of :: "sql_result \<Rightarrow> (string \<times> string \<times> i64) option" where
  "profile_of (ProfileRow p) = p"
| "profile_of _ = None"

lemma run_execute:
  assumes "\<And>v. result_fits st v \<Longrightarrow> \<exists>n. v = Affected n"
  shows "run (perform E) (execute st) w =
    (Returned (sql_outcome (fault E (tick w)) affected_of (fst (exec_auth st (auth w)))),
     after_auth E st w)"
proof (cases "exec_auth st (auth w)")
  case (Pair r d)
  then show ?thesis
    using assms exec_auth_fits [of st "auth w"]
    by (cases r) (fastforce simp: execute_def perform_auth_def sql_outcome_def after_auth_def
        set_auth_def advance_def split: option.splits)+
qed

lemma run_fetch_user:
  assumes "\<And>v. result_fits st v \<Longrightarrow> \<exists>u. v = UserRow u"
  shows "run (perform E) (fetch_user st) w =
    (Returned (sql_outcome (fault E (tick w)) user_row_of (fst (exec_auth st (auth w)))),
     after_auth E st w)"
proof (cases "exec_auth st (auth w)")
  case (Pair r d)
  then show ?thesis
    using assms exec_auth_fits [of st "auth w"]
    by (cases r) (fastforce simp: fetch_user_def perform_auth_def sql_outcome_def after_auth_def
        set_auth_def advance_def split: option.splits)+
qed

lemma run_fetch_text:
  assumes "\<And>v. result_fits st v \<Longrightarrow> \<exists>u. v = TextScalar u"
  shows "run (perform E) (fetch_text st) w =
    (Returned (sql_outcome (fault E (tick w)) text_of (fst (exec_auth st (auth w)))),
     after_auth E st w)"
proof (cases "exec_auth st (auth w)")
  case (Pair r d)
  then show ?thesis
    using assms exec_auth_fits [of st "auth w"]
    by (cases r) (fastforce simp: fetch_text_def perform_auth_def sql_outcome_def after_auth_def
        set_auth_def advance_def split: option.splits)+
qed

lemma run_execute_data:
  assumes "\<And>v. data_result_fits st v \<Longrightarrow> \<exists>n. v = Affected n"
  shows "run (perform E) (execute_data st) w =
    (Returned (sql_outcome (fault E (tick w)) affected_of (fst (exec_data st (data w)))),
     after_data E st w)"
proof (cases "exec_data st (data w)")
  case (Pair r d)
  then show ?thesis
    using assms exec_data_fits [of st "data w"]
    by (cases r) (fastforce simp: execute_data_def perform_data_def sql_outcome_def after_data_def
        set_data_def advance_def split: option.splits)+
qed

lemma run_fetch_profile:
  assumes "\<And>v. data_result_fits st v \<Longrightarrow> \<exists>p. v = ProfileRow p"
  shows "run (perform E) (fetch_profile st) w =
    (Returned (sql_outcome (fault E (tick w)) profile_of (fst (exec_data st (data w)))),
     after_data E st w)"
proof (cases "exec_data st (data w)")
  case (Pair r d)
  then show ?thesis
    using assms exec_data_fits [of st "data w"]
    by (cases r) (fastforce simp: fetch_profile_def perform_data_def sql_outcome_def after_data_def
        set_data_def advance_def split: option.splits)+
qed

text \<open>The statements of the code, each with the type of its result.\<close>

fun affects :: "auth_stmt \<Rightarrow> bool" where
  "affects (SelectUserByUsername _) = False"
| "affects (SelectUserById _) = False"
| "affects SelectSigningSecret = False"
| "affects SelectAuthVersion = False"
| "affects _ = True"

lemma affects_result: "affects st \<Longrightarrow> result_fits st v \<Longrightarrow> \<exists>n. v = Affected n"
  by (cases st; cases v) simp_all

lemma run_affects [prog_simps]:
  "affects st \<Longrightarrow> run (perform E) (execute st) w =
    (Returned (sql_outcome (fault E (tick w)) affected_of (fst (exec_auth st (auth w)))),
     after_auth E st w)"
  by (intro run_execute affects_result)

lemma run_select_by_username [prog_simps]:
  "run (perform E) (fetch_user (SelectUserByUsername u)) w =
    (Returned (sql_outcome (fault E (tick w)) user_row_of (fst (exec_auth (SelectUserByUsername u) (auth w)))),
     after_auth E (SelectUserByUsername u) w)"
proof (rule run_fetch_user)
  fix v
  assume "result_fits (SelectUserByUsername u) v"
  then show "\<exists>x. v = UserRow x"
    by (cases v) simp_all
qed

lemma run_select_by_id [prog_simps]:
  "run (perform E) (fetch_user (SelectUserById i)) w =
    (Returned (sql_outcome (fault E (tick w)) user_row_of (fst (exec_auth (SelectUserById i) (auth w)))),
     after_auth E (SelectUserById i) w)"
proof (rule run_fetch_user)
  fix v
  assume "result_fits (SelectUserById i) v"
  then show "\<exists>x. v = UserRow x"
    by (cases v) simp_all
qed

lemma run_select_secret [prog_simps]:
  "run (perform E) (fetch_text SelectSigningSecret) w =
    (Returned (sql_outcome (fault E (tick w)) text_of (fst (exec_auth SelectSigningSecret (auth w)))),
     after_auth E SelectSigningSecret w)"
proof (rule run_fetch_text)
  fix v
  assume "result_fits SelectSigningSecret v"
  then show "\<exists>x. v = TextScalar x"
    by (cases v) simp_all
qed

lemma run_insert_profile [prog_simps]:
  "run (perform E) (execute_data (InsertProfile i u t)) w =
    (Returned (sql_outcome (fault E (tick w)) affected_of (fst (exec_data (InsertProfile i u t) (data w)))),
     after_data E (InsertProfile i u t) w)"
proof (rule run_execute_data)
  fix v
  assume "data_result_fits (InsertProfile i u t) v"
  then show "\<exists>x. v = Affected x"
    by (cases v) simp_all
qed

lemma run_select_profile [prog_simps]:
  "run (perform E) (fetch_profile (SelectProfile i)) w =
    (Returned (sql_outcome (fault E (tick w)) profile_of (fst (exec_data (SelectProfile i) (data w)))),
     after_data E (SelectProfile i) w)"
proof (rule run_fetch_profile)
  fix v
  assume "data_result_fits (SelectProfile i) v"
  then show "\<exists>x. v = ProfileRow x"
    by (cases v) simp_all
qed

section \<open>Integrity of the databases\<close>

definition world_ok :: "world \<Rightarrow> bool" where
  "world_ok w \<longleftrightarrow> auth_db_ok (auth w) \<and> data_db_ok (data w)"

lemma perform_world_ok:
  assumes "world_ok w" and "perform E e w = (r, w')"
  shows "world_ok w'"
  using assms exec_auth_ok exec_data_ok
  by (cases e)
    (auto simp: world_ok_def perform_auth_def perform_data_def split: option.splits prod.splits)

interpretation integrity: shared_invariant "perform E" world_ok for E
  by unfold_locales (rule perform_world_ok)

section \<open>Named conditions on the environment\<close>

text \<open>
  \<open>uuids_fresh\<close>: version 4 UUIDs do not repeat (the documented use of \<open>Uuid::new_v4\<close>).
  \<open>jwt_stable\<close>: what a token says does not depend on when it is decoded, only whether it is
  accepted does. \<open>jwt_roundtrip\<close>: \<open>jsonwebtoken::decode\<close> with the default validation returns
  the claims that \<open>encode\<close> was given under the same secret, or reports the signature expired
  when \<open>exp\<close> lies more than the default leeway of sixty seconds in the past.
  \<open>hash_roundtrip\<close>: a password hash parses and verifies for exactly the password hashed.
\<close>

definition uuids_fresh :: "env \<Rightarrow> bool" where
  "uuids_fresh E \<longleftrightarrow> inj (uuid E)"

definition jwt_stable :: "env \<Rightarrow> bool" where
  "jwt_stable E \<longleftrightarrow>
     (\<forall>n m s t c c'. jwt_decode E n s t = Inr c \<longrightarrow> jwt_decode E m s t = Inr c' \<longrightarrow> c = c')"

definition jwt_roundtrip :: "env \<Rightarrow> bool" where
  "jwt_roundtrip E \<longleftrightarrow>
     (\<forall>n now s c t. jwt_encode E s c = Inr t \<longrightarrow> clock E n = Some now \<longrightarrow>
        jwt_decode E n s t =
          (if uint (cl_exp c) + 60 < uint now then Inl ExpiredSignature else Inr c))"

definition hash_roundtrip :: "env \<Rightarrow> bool" where
  "hash_roundtrip E \<longleftrightarrow>
     (\<forall>s p h. argon2_hash E s p = Inr h \<longrightarrow>
        phc_error E h = None \<and> (\<forall>q. argon2_verify E q h \<longleftrightarrow> q = p))"

text \<open>
  A healthy environment: the database does not fail, the clock is past the epoch, and the
  libraries encode and hash what they are given.
\<close>

definition db_healthy :: "env \<Rightarrow> bool" where
  "db_healthy E \<longleftrightarrow> (\<forall>n. fault E n = None)"

definition clock_runs :: "env \<Rightarrow> bool" where
  "clock_runs E \<longleftrightarrow> (\<forall>n. clock E n \<noteq> None)"

definition crypto_healthy :: "env \<Rightarrow> bool" where
  "crypto_healthy E \<longleftrightarrow>
     (\<forall>s c. \<exists>t. jwt_encode E s c = Inr t) \<and> (\<forall>s p. \<exists>h. argon2_hash E s p = Inr h)"

end
