(* ===== verification/Repository.thy ===== *)
theory Repository
  imports Runtime
begin

text \<open>
  The database layer: \<open>Db::connect\<close> and \<open>migrate_auth\<close> of \<open>src/db/mod.rs\<close>, and the
  \<open>AuthRepository\<close> operations of \<open>src/db/auth.rs\<close>, as programs over the effects of
  the runtime. The connection pool is the world's auth database. Each operation comes with its
  run: the outcome and the database it leaves, on every branch.
\<close>

section \<open>The clock\<close>

definition clock_message :: string where
  "clock_message = ''system clock is before Unix epoch''"

definition overflow_message :: string where
  "overflow_message = ''attempt to add with overflow''"

definition now_secs :: "(u64 \<Rightarrow> 'a task) \<Rightarrow> 'a task" where
  "now_secs k = read_clock (\<lambda>t. case t of None \<Rightarrow> Panic clock_message | Some s \<Rightarrow> k s)"

section \<open>Connection and migrations\<close>

definition db_connect :: "env \<Rightarrow> string \<Rightarrow> (servir_error + unit) task" where
  "db_connect E url =
     (case url_error E url of
        Some m \<Rightarrow> err (db_connection url m)
      | None \<Rightarrow> map_err (\<lambda>e. db_connection url (sql_text E e)) (perform_done (ConnectDb url)))"

text \<open>The version query cannot fail the migration: its error counts as version 0.\<close>

definition migrate_auth :: "env \<Rightarrow> (servir_error + unit) task" where
  "migrate_auth E =
     bind_ok (map_err (\<lambda>e. db_migration (sql_text E e)) (perform_done MigrateAuth)) (\<lambda>_.
     bind_prog (fetch_int (AuthSql SelectAuthVersion)) (\<lambda>version.
     ok ()))"

section \<open>Users\<close>

definition create_user_error :: "env \<Rightarrow> string \<Rightarrow> sql_error \<Rightarrow> servir_error" where
  "create_user_error E username e =
     (if is_unique_violation e then user_already_exists username (sql_text E e)
      else db_user_create username (sql_text E e))"

definition create_user :: "env \<Rightarrow> string \<Rightarrow> string \<Rightarrow> (servir_error + user) task" where
  "create_user E username password_hash =
     gen_uuid (\<lambda>id.
     now_secs (\<lambda>now.
     bind_ok (map_err (create_user_error E username)
                (execute (InsertUser id username password_hash now))) (\<lambda>_.
     ok \<lparr>usr_id = id, usr_username = username, usr_password_hash = password_hash\<rparr>)))"

definition find_user_by_username :: "env \<Rightarrow> string \<Rightarrow> (servir_error + user option) task" where
  "find_user_by_username E username =
     map_err (\<lambda>e. db_user_find_by_username username (sql_text E e))
       (fetch_user (SelectUserByUsername username))"

definition find_user_by_id :: "env \<Rightarrow> string \<Rightarrow> (servir_error + user option) task" where
  "find_user_by_id E user_id =
     map_err (\<lambda>e. db_user_find_by_id user_id (sql_text E e)) (fetch_user (SelectUserById user_id))"

section \<open>Refresh tokens\<close>

text \<open>
  The clock is read twice: for the expiry and for the creation time. The addition is on
  \<open>i64\<close> after two bit-preserving casts.
\<close>

definition store_refresh_token ::
  "env \<Rightarrow> string \<Rightarrow> string \<Rightarrow> string \<Rightarrow> u64 \<Rightarrow> (servir_error + unit) task" where
  "store_refresh_token E jti user_id username ttl_secs =
     now_secs (\<lambda>now.
     case add_i64 (overflow_checks E) now ttl_secs of
       None \<Rightarrow> Panic overflow_message
     | Some expires_at \<Rightarrow>
         now_secs (\<lambda>created_at.
         bind_ok (map_err (\<lambda>e. db_store_refresh_token username (sql_text E e))
                    (execute (InsertRefreshToken jti user_id expires_at created_at))) (\<lambda>_.
         ok ())))"

definition consume_refresh_token :: "env \<Rightarrow> string \<Rightarrow> (servir_error + bool) task" where
  "consume_refresh_token E jti =
     now_secs (\<lambda>now.
     bind_ok (map_err (\<lambda>e. db_consume_refresh_token (sql_text E e))
                (execute (DeleteLiveRefreshToken jti now))) (\<lambda>rows_affected.
     ok (0 < rows_affected)))"

definition delete_refresh_tokens_for_user :: "env \<Rightarrow> string \<Rightarrow> (servir_error + unit) task" where
  "delete_refresh_tokens_for_user E user_id =
     bind_ok (map_err (\<lambda>e. db_delete_refresh_tokens_for_user user_id (sql_text E e))
                (execute (DeleteRefreshTokensOf user_id))) (\<lambda>_.
     ok ())"

section \<open>The signing secret\<close>

definition load_or_generate_secret :: "env \<Rightarrow> (servir_error + string) task" where
  "load_or_generate_secret E =
     bind_ok (map_err (\<lambda>e. db_unknown ''load_signing_secret'' (sql_text E e))
                (fetch_text SelectSigningSecret)) (\<lambda>existing.
     case existing of
       Some secret \<Rightarrow> ok secret
     | None \<Rightarrow>
         fill_random 32 (\<lambda>filled.
         case filled of
           None \<Rightarrow> Panic ''getrandom fill''
         | Some bytes \<Rightarrow>
             (let secret = hex_encode E bytes in
              bind_ok (map_err (\<lambda>e. db_unknown ''store_signing_secret'' (sql_text E e))
                         (execute (InsertSigningSecret secret))) (\<lambda>_.
              ok secret))))"

section \<open>Runs\<close>

text \<open>The tables of the three migrations exist.\<close>

definition migrated :: "world \<Rightarrow> bool" where
  "migrated w \<longleftrightarrow> 3 \<le> applied (auth w)"

lemma run_now_secs [prog_simps]:
  "run (perform E) (now_secs k) w =
     (case clock E (tick w) of
        None \<Rightarrow> (Panicked clock_message, advance w)
      | Some s \<Rightarrow> run (perform E) (k s) (advance w))"
  by (simp add: now_secs_def prog_simps split: option.splits)

lemmas run_bind = run_bind_prog run_bind_ok run_map_err

lemma sql_outcome_simps [simp]:
  "sql_outcome (Some m) f r = Inl (Fault m)"
  "sql_outcome None f r = map_sum id f r"
  by (simp_all add: sql_outcome_def)

lemma run_perform_done [prog_simps]:
  "run (perform E) (perform_done (ConnectDb url)) w =
     (Returned (case fault E (tick w) of Some m \<Rightarrow> Inl (Fault m) | None \<Rightarrow> Inr ()), advance w)"
  "run (perform E) (perform_done MigrateAuth) w =
     (Returned (case fault E (tick w) of Some m \<Rightarrow> Inl (Fault m) | None \<Rightarrow> Inr ()),
      advance (if fault E (tick w) = None then set_auth (migrate_auth_db (auth w)) w else w))"
  "run (perform E) (perform_done MigrateData) w =
     (Returned (case fault E (tick w) of Some m \<Rightarrow> Inl (Fault m) | None \<Rightarrow> Inr ()),
      advance (if fault E (tick w) = None then set_data (migrate_data_db (data w)) w else w))"
  by (simp_all add: perform_done_def advance_def set_auth_def set_data_def split: option.splits)

lemma run_create_user:
  "run (perform E) (create_user E u h) w =
     (case clock E (Suc (tick w)) of
        None \<Rightarrow> (Panicked clock_message, advance (advance w))
      | Some now \<Rightarrow>
          (Returned (map_sum (create_user_error E u)
             (\<lambda>_. \<lparr>usr_id = uuid E (tick w), usr_username = u, usr_password_hash = h\<rparr>)
             (sql_outcome (fault E (Suc (Suc (tick w)))) id
                (fst (exec_auth (InsertUser (uuid E (tick w)) u h now) (auth w))))),
           after_auth E (InsertUser (uuid E (tick w)) u h now) (advance (advance w))))"
  by (auto simp: create_user_def prog_simps run_bind sql_outcome_def split: option.splits sum.splits)

lemma run_find_user_by_username:
  "run (perform E) (find_user_by_username E u) w =
     (Returned (map_sum (\<lambda>e. db_user_find_by_username u (sql_text E e)) id
        (sql_outcome (fault E (tick w)) user_row_of
           (fst (exec_auth (SelectUserByUsername u) (auth w))))), advance w)"
  by (auto simp: find_user_by_username_def prog_simps run_bind after_auth_def
      split: option.splits sum.splits)

lemma run_find_user_by_id:
  "run (perform E) (find_user_by_id E i) w =
     (Returned (map_sum (\<lambda>e. db_user_find_by_id i (sql_text E e)) id
        (sql_outcome (fault E (tick w)) user_row_of
           (fst (exec_auth (SelectUserById i) (auth w))))), advance w)"
  by (auto simp: find_user_by_id_def prog_simps run_bind after_auth_def
      split: option.splits sum.splits)

lemma run_store_refresh_token:
  "run (perform E) (store_refresh_token E j i u ttl) w =
     (case clock E (tick w) of
        None \<Rightarrow> (Panicked clock_message, advance w)
      | Some now \<Rightarrow>
          (case add_i64 (overflow_checks E) now ttl of
             None \<Rightarrow> (Panicked overflow_message, advance w)
           | Some x \<Rightarrow>
               (case clock E (Suc (tick w)) of
                  None \<Rightarrow> (Panicked clock_message, advance (advance w))
                | Some t \<Rightarrow>
                    (Returned (map_sum (\<lambda>e. db_store_refresh_token u (sql_text E e)) (\<lambda>_. ())
                       (sql_outcome (fault E (Suc (Suc (tick w)))) id
                          (fst (exec_auth (InsertRefreshToken j i x t) (auth w))))),
                     after_auth E (InsertRefreshToken j i x t) (advance (advance w))))))"
  by (auto simp: store_refresh_token_def prog_simps run_bind sql_outcome_def
      split: option.splits sum.splits)

lemma run_consume_refresh_token:
  "run (perform E) (consume_refresh_token E j) w =
     (case clock E (tick w) of
        None \<Rightarrow> (Panicked clock_message, advance w)
      | Some now \<Rightarrow>
          (Returned (map_sum (\<lambda>e. db_consume_refresh_token (sql_text E e)) (\<lambda>n. 0 < n)
             (sql_outcome (fault E (Suc (tick w))) affected_of
                (fst (exec_auth (DeleteLiveRefreshToken j now) (auth w))))),
           after_auth E (DeleteLiveRefreshToken j now) (advance w)))"
  by (auto simp: consume_refresh_token_def prog_simps run_bind sql_outcome_def
      split: option.splits sum.splits)

lemma run_delete_refresh_tokens_for_user:
  "run (perform E) (delete_refresh_tokens_for_user E i) w =
     (Returned (map_sum (\<lambda>e. db_delete_refresh_tokens_for_user i (sql_text E e)) (\<lambda>_. ())
        (sql_outcome (fault E (tick w)) id
           (fst (exec_auth (DeleteRefreshTokensOf i) (auth w))))),
      after_auth E (DeleteRefreshTokensOf i) w)"
  by (auto simp: delete_refresh_tokens_for_user_def prog_simps run_bind sql_outcome_def
      split: option.splits sum.splits)

lemmas run_repository [prog_simps] =
  run_create_user run_find_user_by_username run_find_user_by_id run_store_refresh_token
  run_consume_refresh_token run_delete_refresh_tokens_for_user

lemmas run_reads_defs = sql_outcome_def after_auth_def after_data_def

end
