(* ===== verification/Auth_Core.thy ===== *)
theory Auth_Core
  imports Repository
begin

text \<open>
  Password hashing and tokens, \<open>src/auth/core.rs\<close>. Argon2 and \<open>jsonwebtoken\<close> are parameters of
  the environment. The order of the effects is the order of evaluation of the Rust code: the
  clock, then (for an access token, inside the struct literal, after the overflow check of
  \<open>exp\<close>) the identifier.
\<close>

section \<open>Passwords\<close>

definition hash_password :: "env \<Rightarrow> string \<Rightarrow> (servir_error + string) task" where
  "hash_password E plaintext =
     gen_salt (\<lambda>salt'.
     Ret (map_sum user_password_hash_failed id (argon2_hash E salt' plaintext)))"

definition verify_password :: "env \<Rightarrow> string \<Rightarrow> string \<Rightarrow> servir_error + bool" where
  "verify_password E plaintext hash =
     (case phc_error E hash of
        Some m \<Rightarrow> Inl (user_password_hash_failed m)
      | None \<Rightarrow> Inr (argon2_verify E plaintext hash))"

section \<open>Tokens\<close>

definition issue_access_token ::
  "env \<Rightarrow> string \<Rightarrow> string \<Rightarrow> auth_config \<Rightarrow> (servir_error + string) task" where
  "issue_access_token E user_id username config =
     now_secs (\<lambda>now.
     case add_usize (overflow_checks E) now (cfg_access_token_ttl_secs config) of
       None \<Rightarrow> Panic overflow_message
     | Some exp' \<Rightarrow>
         gen_uuid (\<lambda>jti.
         let claims = \<lparr>cl_sub = user_id, cl_username = username, cl_exp = exp', cl_iat = now,
                       cl_jti = jti, cl_kind = Access\<rparr>
         in Ret (map_sum token_encode_failed id (jwt_encode E (cfg_secret config) claims))))"

definition issue_refresh_token ::
  "env \<Rightarrow> string \<Rightarrow> string \<Rightarrow> auth_config \<Rightarrow> (servir_error + (string \<times> string)) task" where
  "issue_refresh_token E user_id username config =
     now_secs (\<lambda>now.
     gen_uuid (\<lambda>jti.
     case add_usize (overflow_checks E) now (cfg_refresh_token_ttl_secs config) of
       None \<Rightarrow> Panic overflow_message
     | Some exp' \<Rightarrow>
         (let claims = \<lparr>cl_sub = user_id, cl_username = username, cl_exp = exp', cl_iat = now,
                        cl_jti = jti, cl_kind = Refresh\<rparr>
          in Ret (map_sum token_encode_failed (\<lambda>token. (token, jti))
                    (jwt_encode E (cfg_secret config) claims)))))"

fun token_error_of :: "jwt_error \<Rightarrow> servir_error" where
  "token_error_of ExpiredSignature = token_expired"
| "token_error_of (OtherJwtError m) = token_invalid m"

definition verify_token :: "string \<Rightarrow> auth_config \<Rightarrow> (servir_error + claims) task" where
  "verify_token token config =
     decode_jwt token (cfg_secret config) (\<lambda>r. Ret (map_sum token_error_of id r))"

section \<open>Runs\<close>

lemma run_hash_password:
  "run (perform E) (hash_password E p) w =
     (Returned (map_sum user_password_hash_failed id (argon2_hash E (salt E (tick w)) p)),
      advance w)"
  by (simp add: hash_password_def prog_simps)

text \<open>The claims of a token issued at \<open>now\<close>.\<close>

definition claims_at ::
  "string \<Rightarrow> string \<Rightarrow> u64 \<Rightarrow> u64 \<Rightarrow> string \<Rightarrow> token_kind \<Rightarrow> claims" where
  "claims_at i u now ttl j kind =
     \<lparr>cl_sub = i, cl_username = u, cl_exp = now + ttl, cl_iat = now, cl_jti = j, cl_kind = kind\<rparr>"

lemma add_usize_SomeD: "add_usize checks a b = Some c \<Longrightarrow> c = a + b"
  by (simp add: add_usize_def split: if_splits)

lemma add_i64_SomeD: "add_i64 checks a b = Some c \<Longrightarrow> c = a + b"
  by (simp add: add_i64_def split: if_splits)

lemma run_issue_access_token:
  "run (perform E) (issue_access_token E i u cfg) w =
     (case clock E (tick w) of
        None \<Rightarrow> (Panicked clock_message, advance w)
      | Some now \<Rightarrow>
          (case add_usize (overflow_checks E) now (cfg_access_token_ttl_secs cfg) of
             None \<Rightarrow> (Panicked overflow_message, advance w)
           | Some x \<Rightarrow>
               (Returned (map_sum token_encode_failed id
                  (jwt_encode E (cfg_secret cfg)
                    (claims_at i u now (cfg_access_token_ttl_secs cfg)
                      (uuid E (Suc (tick w))) Access))),
                advance (advance w))))"
  by (auto simp: issue_access_token_def prog_simps claims_at_def split: option.splits
      dest: add_usize_SomeD)

lemma run_issue_refresh_token:
  "run (perform E) (issue_refresh_token E i u cfg) w =
     (case clock E (tick w) of
        None \<Rightarrow> (Panicked clock_message, advance w)
      | Some now \<Rightarrow>
          (case add_usize (overflow_checks E) now (cfg_refresh_token_ttl_secs cfg) of
             None \<Rightarrow> (Panicked overflow_message, advance (advance w))
           | Some x \<Rightarrow>
               (Returned (map_sum token_encode_failed (\<lambda>t. (t, uuid E (Suc (tick w))))
                  (jwt_encode E (cfg_secret cfg)
                    (claims_at i u now (cfg_refresh_token_ttl_secs cfg)
                      (uuid E (Suc (tick w))) Refresh))),
                advance (advance w))))"
  by (auto simp: issue_refresh_token_def prog_simps claims_at_def split: option.splits
      dest: add_usize_SomeD)

lemma run_verify_token:
  "run (perform E) (verify_token t cfg) w =
     (Returned (map_sum token_error_of id (jwt_decode E (tick w) (cfg_secret cfg) t)), advance w)"
  by (simp add: verify_token_def prog_simps)

lemmas run_core [prog_simps] =
  run_hash_password run_issue_access_token run_issue_refresh_token run_verify_token

end
