(* ===== verification/Response.thy ===== *)
theory Response
  imports Errors
begin

text \<open>
  The response envelope of \<open>src/response.rs\<close> and the conversion of errors into HTTP responses
  (\<open>impl IntoResponse for ServirError\<close> of \<open>src/error.rs\<close>). The serializer of the payload type
  is an argument where the Rust code asks for \<open>T: Serialize\<close>.
\<close>

section \<open>ErrorBody and ApiResponse\<close>

record error_body =
  body_status_code :: status_code
  body_error_id :: string
  body_context :: error_context

definition error_body_new :: "status_code \<Rightarrow> string \<Rightarrow> error_context \<Rightarrow> error_body" where
  "error_body_new s i c = \<lparr>body_status_code = s, body_error_id = i, body_context = c\<rparr>"

datatype 'a api_response = ApiOk 'a | ApiError error_body

definition api_ok :: "'a \<Rightarrow> 'a api_response" where
  "api_ok d = ApiOk d"

definition api_error :: "servir_error \<Rightarrow> 'a api_response" where
  "api_error e =
     ApiError (error_body_new (servir_status_code e) (servir_error_id e) (servir_context e))"

fun api_map :: "('a \<Rightarrow> 'b) \<Rightarrow> 'a api_response \<Rightarrow> 'b api_response" where
  "api_map f (ApiOk d) = ApiOk (f d)"
| "api_map f (ApiError b) = ApiError b"

definition api_from_error :: "servir_error \<Rightarrow> 'a api_response" where
  "api_from_error e = api_error e"

fun api_from_result :: "servir_error + 'a \<Rightarrow> 'a api_response" where
  "api_from_result (Inr d) = api_ok d"
| "api_from_result (Inl e) = api_error e"

text \<open>
  The derived serializers: \<open>ErrorBody\<close> skips \<open>status_code\<close>; the enum is tagged by
  \<open>status\<close>, its variants named in lower case.
\<close>

definition error_body_json :: "error_body \<Rightarrow> json" where
  "error_body_json b =
     JObj [(''error_id'', JStr (body_error_id b)), (''context'', ctx_serialize (body_context b))]"

fun api_json :: "('a \<Rightarrow> json) \<Rightarrow> 'a api_response \<Rightarrow> json" where
  "api_json ser (ApiOk d) = JObj [(''status'', JStr ''ok''), (''data'', ser d)]"
| "api_json ser (ApiError b) = JObj [(''status'', JStr ''error''), (''error'', error_body_json b)]"

text \<open>\<open>()\<close> serializes to \<open>null\<close>, a string to itself.\<close>

definition unit_json :: "unit \<Rightarrow> json" where
  "unit_json u = JNull"

section \<open>HTTP responses\<close>

record response =
  rs_status :: status_code
  rs_body :: json

definition api_into_response :: "('a \<Rightarrow> json) \<Rightarrow> 'a api_response \<Rightarrow> response" where
  "api_into_response ser r =
     \<lparr>rs_status = (case r of ApiOk _ \<Rightarrow> 200 | ApiError b \<Rightarrow> body_status_code b),
      rs_body = api_json ser r\<rparr>"

text \<open>
  The error event that \<open>into_response\<close> emits for a server error: its identifier and display
  text. The second component is the response itself.
\<close>

definition servir_into_response :: "servir_error \<Rightarrow> (string \<times> string) list \<times> response" where
  "servir_into_response e =
     (let status = servir_status_code e in
      (if is_server_error status then [(servir_error_id e, servir_display e)] else [],
       api_into_response unit_json
         (ApiError (error_body_new status (servir_error_id e) (servir_context e)))))"

text \<open>\<open>IntoResponse for Result\<close> of axum: either side is turned into a response.\<close>

definition result_into_response ::
  "('a \<Rightarrow> json) \<Rightarrow> servir_error + 'a api_response \<Rightarrow> response" where
  "result_into_response ser r =
     (case r of Inl e \<Rightarrow> snd (servir_into_response e) | Inr a \<Rightarrow> api_into_response ser a)"

section \<open>Lemmas\<close>

lemma api_map_id: "api_map (\<lambda>x. x) r = r"
  by (cases r) simp_all

lemma api_map_comp: "api_map g (api_map f r) = api_map (g \<circ> f) r"
  by (cases r) simp_all

lemma api_into_response_map:
  "api_into_response ser (api_map f r) = api_into_response (ser \<circ> f) r"
  by (cases r) (simp_all add: api_into_response_def)

lemma error_body_json_inj:
  "error_body_json b = error_body_json b' \<longleftrightarrow>
     body_error_id b = body_error_id b' \<and> body_context b = body_context b'"
  by (simp add: error_body_json_def ctx_serialize_inj)

lemma servir_into_response_status [simp]:
  "rs_status (snd (servir_into_response e)) = servir_status_code e"
  by (simp add: servir_into_response_def api_into_response_def error_body_new_def Let_def)

lemma servir_into_response_api_error:
  "snd (servir_into_response e) = api_into_response ser (api_error e)"
  by (simp add: servir_into_response_def api_into_response_def api_error_def
      error_body_new_def Let_def)

lemma servir_into_response_inj:
  "snd (servir_into_response e) = snd (servir_into_response e') \<longleftrightarrow>
     servir_error_id e = servir_error_id e' \<and> servir_context e = servir_context e'"
  using servir_info.id_determines [of e e']
  by (auto simp: servir_into_response_def api_into_response_def Let_def error_body_new_def
      error_body_json_inj)

lemma result_into_response_ok_iff:
  "rs_status (result_into_response ser r) = 200 \<longleftrightarrow>
     (\<exists>d. r = Inr (ApiOk d)) \<or> (\<exists>b. r = Inr (ApiError b) \<and> body_status_code b = 200)"
  using servir_info.status_not_ok
  by (auto simp: result_into_response_def api_into_response_def
      split: sum.splits api_response.splits)

lemma api_error_status [simp]:
  "rs_status (api_into_response ser (api_error e)) = servir_status_code e"
  by (simp add: api_into_response_def api_error_def error_body_new_def)

end
