(* ===== verification/Auth_Http.thy ===== *)
theory Auth_Http
  imports Auth_Core Response
begin

text \<open>
  The HTTP side of authentication, \<open>src/auth/http.rs\<close>: the layer that puts the configuration
  into the request's extensions, the \<open>AuthUser\<close> extractor, and the five handlers.
\<close>

section \<open>Requests and their bodies\<close>

text \<open>
  A request as far as the code looks at it: method and path, the bytes of the \<open>Authorization\<close>
  header, the body, and the extension slot of type \<open>Arc<AuthConfig>\<close>.
\<close>

record request =
  rq_method :: string
  rq_path :: string
  rq_authorization :: "string option"
  rq_content_type :: "string option"
  rq_body :: string
  rq_extension :: "auth_config option"

record register_request =
  reg_username :: string
  reg_password :: string

record login_request =
  log_username :: string
  log_password :: string

record refresh_request =
  ref_refresh_token :: string

record logout_request =
  out_refresh_token :: string

text \<open>
  What \<open>axum\<close>, \<open>serde_json\<close> and the \<open>http\<close> crate do with the bytes: \<open>HeaderValue::to_str\<close>, and
  \<open>axum::Json::<T>::from_request\<close> at the four payload types, which gives the value or the
  text of the rejection.
\<close>

record web =
  header_to_str :: "string \<Rightarrow> string option"
  json_register :: "request \<Rightarrow> string + register_request"
  json_login :: "request \<Rightarrow> string + login_request"
  json_refresh :: "request \<Rightarrow> string + refresh_request"
  json_logout :: "request \<Rightarrow> string + logout_request"
  json_to_string :: "json \<Rightarrow> string"

record token_response =
  tk_access_token :: string
  tk_refresh_token :: string
  tk_token_type :: string

record me_response =
  me_user_id :: string
  me_username :: string

definition token_json :: "token_response \<Rightarrow> json" where
  "token_json t =
     JObj [(''access_token'', JStr (tk_access_token t)),
           (''refresh_token'', JStr (tk_refresh_token t)),
           (''token_type'', JStr (tk_token_type t))]"

definition me_json :: "me_response \<Rightarrow> json" where
  "me_json m = JObj [(''user_id'', JStr (me_user_id m)), (''username'', JStr (me_username m))]"

text \<open>\<open>AppJson\<close> of \<open>src/server.rs\<close>: a rejected body becomes a bad request.\<close>

definition app_json :: "(request \<Rightarrow> string + 't) \<Rightarrow> request \<Rightarrow> servir_error + 't" where
  "app_json from_request req = map_sum servir_bad_request id (from_request req)"

section \<open>The layer\<close>

definition auth_service_call ::
  "auth_config \<Rightarrow> (request \<Rightarrow> 'b task) \<Rightarrow> request \<Rightarrow> 'b task" where
  "auth_service_call config inner req = inner (req\<lparr>rq_extension := Some config\<rparr>)"

section \<open>The extractor\<close>

definition bearer_token :: "web \<Rightarrow> request \<Rightarrow> string option" where
  "bearer_token W req =
     (case rq_authorization req of
        None \<Rightarrow> None
      | Some v \<Rightarrow> (case header_to_str W v of
          None \<Rightarrow> None
        | Some s \<Rightarrow> strip_prefix ''Bearer '' s))"

definition auth_user :: "web \<Rightarrow> request \<Rightarrow> (servir_error + claims) task" where
  "auth_user W req =
     (case rq_extension req of
        None \<Rightarrow> err token_missing_layer
      | Some config \<Rightarrow>
          (case bearer_token W req of
             None \<Rightarrow> err token_missing_header
           | Some token \<Rightarrow>
               bind_ok (verify_token token config) (\<lambda>claims.
               if claims_kind claims \<noteq> Access then err token_wrong_kind
               else ok claims)))"

section \<open>The handlers\<close>

text \<open>The part shared by the three handlers that end in a pair of tokens.\<close>

definition issue_tokens ::
  "env \<Rightarrow> auth_config \<Rightarrow> user \<Rightarrow> (servir_error + token_response api_response) task" where
  "issue_tokens E config user =
     bind_ok (issue_access_token E (usr_id user) (usr_username user) config) (\<lambda>access_token.
     bind_ok (issue_refresh_token E (usr_id user) (usr_username user) config)
       (\<lambda>(refresh_token, jti).
     bind_ok (store_refresh_token E jti (usr_id user) (usr_username user)
                (config_refresh_token_ttl_secs config)) (\<lambda>_.
     ok (api_ok \<lparr>tk_access_token = access_token, tk_refresh_token = refresh_token,
                 tk_token_type = ''Bearer''\<rparr>))))"

definition register ::
  "env \<Rightarrow> auth_config \<Rightarrow> register_request \<Rightarrow> (servir_error + token_response api_response) task"
  where
  "register E config body =
     (if reg_username body = [] then err user_empty_username
      else if length (reg_password body) < 8 then err user_weak_password
      else
        bind_ok (hash_password E (reg_password body)) (\<lambda>hash.
        bind_ok (create_user E (reg_username body) hash) (\<lambda>user.
        issue_tokens E config user)))"

definition login ::
  "env \<Rightarrow> auth_config \<Rightarrow> login_request \<Rightarrow> (servir_error + token_response api_response) task" where
  "login E config body =
     bind_ok (find_user_by_username E (log_username body)) (\<lambda>found.
     case found of
       None \<Rightarrow> err (user_invalid_credentials (log_username body))
     | Some user \<Rightarrow>
         bind_ok (Ret (verify_password E (log_password body) (usr_password_hash user)))
           (\<lambda>matches.
         if \<not> matches then err (user_invalid_credentials (log_username body))
         else issue_tokens E config user))"

definition refresh ::
  "env \<Rightarrow> auth_config \<Rightarrow> refresh_request \<Rightarrow> (servir_error + token_response api_response) task"
  where
  "refresh E config body =
     bind_ok (verify_token (ref_refresh_token body) config) (\<lambda>claims.
     if claims_kind claims \<noteq> Refresh then err token_wrong_kind
     else
       bind_ok (consume_refresh_token E (claims_jti claims)) (\<lambda>valid.
       if \<not> valid then err token_invalid_refresh_token
       else
         bind_ok (find_user_by_id E (claims_sub claims)) (\<lambda>found.
         case found of
           None \<Rightarrow> err (token_user_not_found (claims_sub claims))
         | Some user \<Rightarrow> issue_tokens E config user)))"

definition logout ::
  "env \<Rightarrow> auth_config \<Rightarrow> logout_request \<Rightarrow> (servir_error + unit api_response) task" where
  "logout E config body =
     bind_ok (verify_token (out_refresh_token body) config) (\<lambda>claims.
     if claims_kind claims \<noteq> Refresh then err token_wrong_kind
     else
       bind_ok (delete_refresh_tokens_for_user E (claims_sub claims)) (\<lambda>_.
       ok (api_ok ())))"

definition me :: "claims \<Rightarrow> me_response api_response" where
  "me claims = api_ok \<lparr>me_user_id = claims_sub claims, me_username = claims_username claims\<rparr>"

section \<open>The endpoints\<close>

text \<open>
  A handler as axum's \<open>Handler\<close> trait makes it of the function: the extractors run first, and a
  rejection is the response.
\<close>

definition respond :: "('a \<Rightarrow> json) \<Rightarrow> (servir_error + 'a api_response) task \<Rightarrow> response task" where
  "respond ser p = bind_prog p (\<lambda>r. Ret (result_into_response ser r))"

definition register_endpoint :: "env \<Rightarrow> web \<Rightarrow> auth_config \<Rightarrow> request \<Rightarrow> response task" where
  "register_endpoint E W config req =
     respond token_json (bind_ok (Ret (app_json (json_register W) req)) (register E config))"

definition login_endpoint :: "env \<Rightarrow> web \<Rightarrow> auth_config \<Rightarrow> request \<Rightarrow> response task" where
  "login_endpoint E W config req =
     respond token_json (bind_ok (Ret (app_json (json_login W) req)) (login E config))"

definition refresh_endpoint :: "env \<Rightarrow> web \<Rightarrow> auth_config \<Rightarrow> request \<Rightarrow> response task" where
  "refresh_endpoint E W config req =
     respond token_json (bind_ok (Ret (app_json (json_refresh W) req)) (refresh E config))"

definition logout_endpoint :: "env \<Rightarrow> web \<Rightarrow> auth_config \<Rightarrow> request \<Rightarrow> response task" where
  "logout_endpoint E W config req =
     respond unit_json (bind_ok (Ret (app_json (json_logout W) req)) (logout E config))"

definition me_endpoint :: "web \<Rightarrow> request \<Rightarrow> response task" where
  "me_endpoint W req =
     respond me_json (bind_ok (auth_user W req) (\<lambda>claims. ok (me claims)))"

end
