(* ===== verification/Consumer.thy ===== *)
theory Consumer
  imports Auth_Http
begin

text \<open>
  The example application of \<open>consumer/\<close>: its profile database (\<open>consumer/src/db/mod.rs\<close>) and
  its authenticated route (\<open>consumer/src/lib.rs\<close>). The application's pool is the world's second
  database.
\<close>

section \<open>The profile database\<close>

record user_profile =
  prof_id :: string
  prof_username :: string
  prof_created_at :: i64

definition data_connect :: "env \<Rightarrow> string \<Rightarrow> (servir_error + unit) task" where
  "data_connect E database_url =
     (case url_error E database_url of
        Some m \<Rightarrow> err (db_connection database_url m)
      | None \<Rightarrow>
          map_err (\<lambda>e. db_connection database_url (sql_text E e))
            (perform_done (ConnectDb database_url)))"

definition data_migrate :: "env \<Rightarrow> (servir_error + unit) task" where
  "data_migrate E =
     bind_ok (map_err (\<lambda>e. db_migration (sql_text E e)) (perform_done MigrateData)) (\<lambda>_.
     bind_prog (fetch_int (DataSql SelectDataVersion)) (\<lambda>version.
     ok ()))"

definition profile_clock_message :: string where
  "profile_clock_message = ''system clock before epoch''"

definition find_or_create_profile ::
  "env \<Rightarrow> string \<Rightarrow> string \<Rightarrow> (servir_error + user_profile) task" where
  "find_or_create_profile E user_id username =
     bind_ok (map_err (\<lambda>e. db_unknown ''find_user_profile'' (sql_text E e))
                (fetch_profile (SelectProfile user_id))) (\<lambda>row.
     case row of
       Some (i, u, t) \<Rightarrow> ok \<lparr>prof_id = i, prof_username = u, prof_created_at = t\<rparr>
     | None \<Rightarrow>
         read_clock (\<lambda>c.
         case c of
           None \<Rightarrow> Panic profile_clock_message
         | Some now \<Rightarrow>
             bind_ok (map_err (\<lambda>e. db_unknown ''insert_user_profile'' (sql_text E e))
                        (execute_data (InsertProfile user_id username now))) (\<lambda>_.
             ok \<lparr>prof_id = user_id, prof_username = username, prof_created_at = now\<rparr>)))"

section \<open>The user route\<close>

record user_response =
  ures_id :: string
  ures_username :: string

definition user_json :: "user_response \<Rightarrow> json" where
  "user_json u = JObj [(''id'', JStr (ures_id u)), (''username'', JStr (ures_username u))]"

definition user_handler ::
  "env \<Rightarrow> claims \<Rightarrow> (servir_error + user_response api_response) task" where
  "user_handler E claims =
     bind_ok (find_or_create_profile E (claims_sub claims) (claims_username claims)) (\<lambda>profile.
     ok (api_ok \<lparr>ures_id = prof_id profile, ures_username = prof_username profile\<rparr>))"

definition user_endpoint :: "env \<Rightarrow> web \<Rightarrow> request \<Rightarrow> response task" where
  "user_endpoint E W req = respond user_json (bind_ok (auth_user W req) (user_handler E))"

section \<open>Runs\<close>

lemma run_find_or_create_profile:
  "run (perform E) (find_or_create_profile E i u) w =
     (case sql_outcome (fault E (tick w)) profile_of (fst (exec_data (SelectProfile i) (data w))) of
        Inl e \<Rightarrow> (Returned (Inl (db_unknown ''find_user_profile'' (sql_text E e))), advance w)
      | Inr (Some (j, v, t)) \<Rightarrow>
          (Returned (Inr \<lparr>prof_id = j, prof_username = v, prof_created_at = t\<rparr>), advance w)
      | Inr None \<Rightarrow>
          (case clock E (Suc (tick w)) of
             None \<Rightarrow> (Panicked profile_clock_message, advance (advance w))
           | Some now \<Rightarrow>
               (Returned (map_sum (\<lambda>e. db_unknown ''insert_user_profile'' (sql_text E e))
                  (\<lambda>_. \<lparr>prof_id = i, prof_username = u, prof_created_at = now\<rparr>)
                  (sql_outcome (fault E (Suc (Suc (tick w)))) id
                     (fst (exec_data (InsertProfile i u now) (data w))))),
                after_data E (InsertProfile i u now) (advance (advance w)))))"
  by (auto simp: find_or_create_profile_def prog_simps run_bind sql_outcome_def after_data_def
      split: option.splits sum.splits)

end
