(* ===== verification/Logging.thy ===== *)
theory Logging
  imports Runtime
begin

text \<open>
  \<open>init_tracing\<close> and \<open>init_logging\<close> of \<open>src/server.rs\<close> as programs. The guard that
  \<open>init_logging\<close> returns stands for the background writer of the log file; what dropping it
  does to the file is left to \<open>tracing_appender\<close>.
\<close>

section \<open>The programs\<close>

definition init_tracing :: "env \<Rightarrow> string \<Rightarrow> unit task" where
  "init_tracing E service_name =
     perform_io (TryInit (tracing_subscriber (rust_log E) service_name)) (\<lambda>_. Ret ())"

datatype worker_guard = WorkerGuard string string

definition create_dir_message :: string where
  "create_dir_message = ''failed to create log directory''"

definition appender_message :: string where
  "appender_message = ''initializing rolling file appender failed''"

definition init_message :: string where
  "init_message = ''failed to set global default subscriber''"

definition init_logging :: "env \<Rightarrow> string \<Rightarrow> string \<Rightarrow> worker_guard task" where
  "init_logging E log_dir service_name =
     perform_io (CreateDirAll log_dir) (\<lambda>created.
     case created of
       Some e \<Rightarrow> Panic create_dir_message
     | None \<Rightarrow>
         perform_io (OpenDailyFile log_dir (service_name @ ''.log'')) (\<lambda>opened.
         case opened of
           Some e \<Rightarrow> Panic appender_message
         | None \<Rightarrow>
             (let guard = WorkerGuard log_dir (service_name @ ''.log'') in
              perform_io (TryInit (logging_subscriber (rust_log E) (stdout_is_terminal E)
                log_dir service_name)) (\<lambda>installed.
              case installed of
                Some e \<Rightarrow> Panic init_message
              | None \<Rightarrow>
                  take_hook (\<lambda>default_hook.
                  perform_io (SetHook (ForwardingHook default_hook)) (\<lambda>_.
                  Ret guard))))))"

section \<open>Runs\<close>

lemma run_init_tracing [prog_simps]:
  "run (perform E) (init_tracing E name) w =
     (Returned (), set_proc (snd (try_init (tracing_subscriber (rust_log E) name) (proc w))) (advance w))"
  by (simp add: init_tracing_def prog_simps)

lemma init_tracing_world:
  assumes "run (perform E) (init_tracing E name) w = (out, w')"
  shows "out = Returned () \<and> auth w' = auth w \<and> data w' = data w \<and> tick w' = Suc (tick w) \<and>
    current_hook (proc w') = current_hook (proc w)"
  using assms by (auto simp: run_init_tracing try_init_def split: option.splits)

lemma run_init_logging:
  "run (perform E) (init_logging E dir name) w =
     (if create_dir_error E (tick w) dir \<noteq> None then (Panicked create_dir_message, advance w)
      else if open_file_error E (Suc (tick w)) dir (name @ ''.log'') \<noteq> None
      then (Panicked appender_message, advance (advance w))
      else if global_subscriber (proc w) \<noteq> None
      then (Panicked init_message, advance (advance (advance w)))
      else (Returned (WorkerGuard dir (name @ ''.log'')),
        set_proc \<lparr>global_subscriber =
            Some (logging_subscriber (rust_log E) (stdout_is_terminal E) dir name),
          current_hook = ForwardingHook (current_hook (proc w))\<rparr>
          (advance (advance (advance (advance (advance w)))))))"
  by (cases "proc w") (auto simp: init_logging_def prog_simps try_init_def Let_def
      split: option.splits)

section \<open>The subscriber stays\<close>

definition subscribed :: "subscriber \<Rightarrow> world \<Rightarrow> bool" where
  "subscribed s w \<longleftrightarrow> global_subscriber (proc w) = Some s"

lemma perform_subscribed: "subscribed s w \<Longrightarrow> perform E e w = (r, w') \<Longrightarrow> subscribed s w'"
  by (cases e) (auto simp: subscribed_def perform_auth_def perform_data_def try_init_def
      split: option.splits prod.splits)

interpretation subscription: shared_invariant "perform E" "subscribed s" for E s
  by unfold_locales (rule perform_subscribed)

lemma init_tracing_noop:
  "subscribed s w \<Longrightarrow> run (perform E) (init_tracing E name) w = (Returned (), advance w)"
  by (simp add: run_init_tracing subscribed_def try_init_def set_proc_def advance_def)

section \<open>Programs that leave the panic hook alone\<close>

fun hook_effect :: "effect \<Rightarrow> bool" where
  "hook_effect TakeHook = True"
| "hook_effect (SetHook h) = True"
| "hook_effect _ = False"

abbreviation keeps_hook :: "'a task \<Rightarrow> bool" where
  "keeps_hook \<equiv> performs_only (\<lambda>e. \<not> hook_effect e)"

lemma perform_keeps_hook:
  "\<not> hook_effect e \<Longrightarrow> perform E e w = (r, w') \<Longrightarrow> current_hook (proc w') = current_hook (proc w)"
  by (cases e) (auto simp: perform_auth_def perform_data_def try_init_def
      split: option.splits prod.splits)

lemma keeps_hook_run:
  assumes "keeps_hook p" and "run (perform E) p w = (out, w')"
  shows "current_hook (proc w') = current_hook (proc w)"
  by (rule performs_only_run [where keep = "\<lambda>v. current_hook (proc v) = current_hook (proc w)",
        OF _ assms(1) _ assms(2)]) (auto dest: perform_keeps_hook)

section \<open>The requests, effect by effect\<close>

lemma performs_only_requests:
  "performs_only P (perform_done e) \<longleftrightarrow> P e"
  "performs_only P (fetch_int e) \<longleftrightarrow> P e"
  "performs_only P (execute st) \<longleftrightarrow> P (AuthSql st)"
  "performs_only P (fetch_text st) \<longleftrightarrow> P (AuthSql st)"
  by (auto simp: request_defs split: reply.splits sum.splits option.splits sql_result.splits)

lemma performs_only_fill_random:
  "P (FillRandom n) \<Longrightarrow> (\<And>x. performs_only P (k x)) \<Longrightarrow> performs_only P (fill_random n k)"
  by (auto simp: request_defs split: reply.splits)

lemma performs_only_init_tracing:
  "performs_only P (init_tracing E name) \<longleftrightarrow>
     P (TryInit (tracing_subscriber (rust_log E) name))"
  by (auto simp: init_tracing_def perform_io_def split: reply.splits)

end
