(* ===== verification/Server.thy ===== *)
theory Server
  imports Auth_Http Consumer Logging
begin

text \<open>
  The server of \<open>src/server.rs\<close>: the builder, the health and not-found handlers, the assembly
  of the router, and \<open>serve\<close>; and the program of \<open>consumer/src/main.rs\<close> that uses it. A router
  is the term that the code builds with axum's methods.
\<close>

section \<open>Handlers and routers\<close>

datatype http_method = Get | Post

text \<open>
  The handlers of the library, with the state that \<open>with_state\<close> closes over, and those of the
  application that uses it.
\<close>

datatype 'c handler =
    HRegister auth_config
  | HLogin auth_config
  | HRefresh auth_config
  | HLogout auth_config
  | HMe
  | HHealth
  | HNotFound
  | HApp 'c

datatype layer = AuthLayer auth_config | TraceLayer | PropagateRequestId | SetRequestIdUuid

datatype 'h router =
    RouterNew
  | Route "'h router" string http_method 'h
  | Merge "'h router" "'h router"
  | Nest "'h router" string "'h router"
  | Fallback "'h router" 'h
  | Layered "'h router" layer

definition mount_auth_routes :: "auth_config \<Rightarrow> 'c handler router" where
  "mount_auth_routes config =
     Route (Route (Route (Route (Route RouterNew
       ''/auth/register'' Post (HRegister config))
       ''/auth/login'' Post (HLogin config))
       ''/auth/refresh'' Post (HRefresh config))
       ''/auth/logout'' Post (HLogout config))
       ''/auth/me'' Get HMe"

definition standard_middleware :: "'h router \<Rightarrow> 'h router" where
  "standard_middleware router =
     Layered (Layered (Layered router TraceLayer) PropagateRequestId) SetRequestIdUuid"

text \<open>
  The table that a router term stands for: every handler with its path and method (none for a
  fallback) and the layers around it, outermost first. A layer wraps what was added before it.
\<close>

type_synonym 'h entry = "string \<times> http_method option \<times> layer list \<times> 'h"

fun routes_of :: "'h router \<Rightarrow> 'h entry list" where
  "routes_of RouterNew = []"
| "routes_of (Route r p m h) = routes_of r @ [(p, Some m, [], h)]"
| "routes_of (Merge r s) = routes_of r @ routes_of s"
| "routes_of (Nest r p s) = routes_of r @ map (\<lambda>(q, m, ls, h). (p @ q, m, ls, h)) (routes_of s)"
| "routes_of (Fallback r h) = routes_of r @ [([], None, [], h)]"
| "routes_of (Layered r l) = map (\<lambda>(p, m, ls, h). (p, m, l # ls, h)) (routes_of r)"

section \<open>Health and not found\<close>

definition health :: "string api_response" where
  "health = api_ok ''healthy''"

definition health_json :: "string \<Rightarrow> json" where
  "health_json s = JObj [(''status'', JStr s)]"

definition not_found :: "unit api_response" where
  "not_found = api_error NotFound"

text \<open>What a handler does with a request, and the effect of the layers on the request.\<close>

fun run_handler ::
  "env \<Rightarrow> web \<Rightarrow> ('c \<Rightarrow> request \<Rightarrow> response task) \<Rightarrow> 'c handler \<Rightarrow> request \<Rightarrow> response task" where
  "run_handler E W app (HRegister config) req = register_endpoint E W config req"
| "run_handler E W app (HLogin config) req = login_endpoint E W config req"
| "run_handler E W app (HRefresh config) req = refresh_endpoint E W config req"
| "run_handler E W app (HLogout config) req = logout_endpoint E W config req"
| "run_handler E W app HMe req = me_endpoint W req"
| "run_handler E W app HHealth req = Ret (api_into_response health_json health)"
| "run_handler E W app HNotFound req = Ret (api_into_response unit_json not_found)"
| "run_handler E W app (HApp a) req = app a req"

fun through_layers ::
  "layer list \<Rightarrow> (request \<Rightarrow> response task) \<Rightarrow> request \<Rightarrow> response task" where
  "through_layers [] inner = inner"
| "through_layers (AuthLayer config # ls) inner =
     auth_service_call config (through_layers ls inner)"
| "through_layers (_ # ls) inner = through_layers ls inner"

section \<open>The builder\<close>

type_synonym socket_addr = "nat list \<times> nat"

record 'c server_builder =
  sb_service_name :: "string option"
  sb_addr :: "socket_addr option"
  sb_routes :: "'c handler router option"
  sb_auth_database_url :: "string option"
  sb_access_token_ttl_secs :: "u64 option"
  sb_refresh_token_ttl_secs :: "u64 option"

record 'c servir =
  sv_router :: "'c handler router"
  sv_addr :: socket_addr

definition servir_builder :: "'c server_builder" where
  "servir_builder =
     \<lparr>sb_service_name = None, sb_addr = None, sb_routes = None, sb_auth_database_url = None,
      sb_access_token_ttl_secs = None, sb_refresh_token_ttl_secs = None\<rparr>"

definition servir_new :: "'c handler router \<Rightarrow> socket_addr \<Rightarrow> 'c servir" where
  "servir_new router a = \<lparr>sv_router = router, sv_addr = a\<rparr>"

definition set_service_name :: "string \<Rightarrow> 'c server_builder \<Rightarrow> 'c server_builder" where
  "set_service_name n b = b\<lparr>sb_service_name := Some n\<rparr>"

definition set_addr :: "socket_addr \<Rightarrow> 'c server_builder \<Rightarrow> 'c server_builder" where
  "set_addr a b = b\<lparr>sb_addr := Some a\<rparr>"

definition set_routes :: "'c handler router \<Rightarrow> 'c server_builder \<Rightarrow> 'c server_builder" where
  "set_routes r b = b\<lparr>sb_routes := Some r\<rparr>"

definition set_auth_database_url :: "string \<Rightarrow> 'c server_builder \<Rightarrow> 'c server_builder" where
  "set_auth_database_url u b = b\<lparr>sb_auth_database_url := Some u\<rparr>"

definition set_access_token_ttl_secs :: "u64 \<Rightarrow> 'c server_builder \<Rightarrow> 'c server_builder" where
  "set_access_token_ttl_secs s b = b\<lparr>sb_access_token_ttl_secs := Some s\<rparr>"

definition set_refresh_token_ttl_secs :: "u64 \<Rightarrow> 'c server_builder \<Rightarrow> 'c server_builder" where
  "set_refresh_token_ttl_secs s b = b\<lparr>sb_refresh_token_ttl_secs := Some s\<rparr>"

definition routes_message :: string where
  "routes_message = ''routes must be set before calling serve()''"

definition database_message :: string where
  "database_message = ''auth_database_url must be set before calling build()''"

definition addr_message :: string where
  "addr_message = ''addr must be set before calling build()''"

text \<open>The configuration that \<open>build\<close> makes of the builder's settings and the secret.\<close>

definition build_config :: "'c server_builder \<Rightarrow> string \<Rightarrow> auth_config" where
  "build_config b secret =
     (let c0 = config_with_defaults;
          c1 = (case sb_access_token_ttl_secs b of
                  None \<Rightarrow> c0 | Some ttl \<Rightarrow> set_access_token_ttl ttl c0);
          c2 = (case sb_refresh_token_ttl_secs b of
                  None \<Rightarrow> c1 | Some ttl \<Rightarrow> set_refresh_token_ttl ttl c1)
      in set_secret secret c2)"

definition build_router :: "'c handler router \<Rightarrow> auth_config \<Rightarrow> 'c handler router" where
  "build_router api config =
     (let api1 = Merge api (mount_auth_routes config);
          api2 = Route api1 ''/health'' Get HHealth;
          api3 = Layered api2 (AuthLayer config)
      in standard_middleware (Fallback (Nest RouterNew ''/api/v1'' api3) HNotFound))"

definition build_service_name :: "'c server_builder \<Rightarrow> string" where
  "build_service_name b = (case sb_service_name b of None \<Rightarrow> ''servir'' | Some n \<Rightarrow> n)"

text \<open>\<open>build\<close> with the default features of the crate, \<open>telemetry\<close> and \<open>auth\<close>.\<close>

definition build :: "env \<Rightarrow> 'c server_builder \<Rightarrow> (servir_error + 'c servir) task" where
  "build E b =
     bind_prog (init_tracing E (build_service_name b)) (\<lambda>_.
     case sb_routes b of
        None \<Rightarrow> Panic routes_message
      | Some api \<Rightarrow>
          (case sb_auth_database_url b of
             None \<Rightarrow> Panic database_message
           | Some database_url \<Rightarrow>
               bind_ok (db_connect E database_url) (\<lambda>_.
               bind_ok (migrate_auth E) (\<lambda>_.
               bind_ok (load_or_generate_secret E) (\<lambda>secret.
               let router = build_router api (build_config b secret) in
               case sb_addr b of
                 None \<Rightarrow> Panic addr_message
               | Some a \<Rightarrow> ok (servir_new router a))))))"

text \<open>
  \<open>build\<close> without the feature \<open>auth\<close>, where the builder has no auth settings; the flag is the
  feature \<open>telemetry\<close>.
\<close>

definition build_router_without_auth :: "'c handler router \<Rightarrow> 'c handler router" where
  "build_router_without_auth api =
     standard_middleware
       (Fallback (Nest RouterNew ''/api/v1'' (Route api ''/health'' Get HHealth)) HNotFound)"

definition build_without_auth ::
  "env \<Rightarrow> bool \<Rightarrow> 'c server_builder \<Rightarrow> (servir_error + 'c servir) task" where
  "build_without_auth E telemetry b =
     bind_prog (if telemetry then init_tracing E (build_service_name b) else Ret ()) (\<lambda>_.
     case sb_routes b of
        None \<Rightarrow> Panic routes_message
      | Some api \<Rightarrow>
          (let router = build_router_without_auth api in
           case sb_addr b of
             None \<Rightarrow> Panic addr_message
           | Some a \<Rightarrow> ok (servir_new router a)))"

section \<open>Serving\<close>

text \<open>The network: binding, the local address and the accept loop, each with its I/O error.\<close>

record 'c network =
  net_bind :: "socket_addr \<Rightarrow> string + nat"
  net_local_addr :: "nat \<Rightarrow> string + socket_addr"
  net_serve :: "nat \<Rightarrow> 'c handler router \<Rightarrow> string + unit"

definition serve_router ::
  "'c network \<Rightarrow> socket_addr \<Rightarrow> 'c handler router \<Rightarrow> string + unit" where
  "serve_router N a router =
     (case net_bind N a of
        Inl e \<Rightarrow> Inl e
      | Inr listener \<Rightarrow> (case net_local_addr N listener of
          Inl e \<Rightarrow> Inl e
        | Inr local_addr \<Rightarrow> net_serve N listener router))"

definition servir_serve :: "'c network \<Rightarrow> 'c servir \<Rightarrow> servir_error + unit" where
  "servir_serve N s = map_sum servir_from_io id (serve_router N (sv_addr s) (sv_router s))"

definition builder_serve ::
  "env \<Rightarrow> 'c network \<Rightarrow> 'c server_builder \<Rightarrow> (servir_error + unit) task" where
  "builder_serve E N b = bind_ok (build E b) (\<lambda>s. Ret (servir_serve N s))"

section \<open>The consumer's program\<close>

datatype app_handler = HUser

definition app_routes :: "app_handler handler router" where
  "app_routes = Route RouterNew ''/user'' Get (HApp HUser)"

fun run_app :: "env \<Rightarrow> web \<Rightarrow> app_handler \<Rightarrow> request \<Rightarrow> response task" where
  "run_app E W HUser req = user_endpoint E W req"

record args =
  arg_auth_db :: string
  arg_data_db :: string
  arg_log_dir :: string

text \<open>The declared arguments: the command line, then the environment variable, then the default.\<close>

definition arg_value :: "string option \<Rightarrow> string option \<Rightarrow> string \<Rightarrow> string" where
  "arg_value flag var dflt =
     (case flag of Some v \<Rightarrow> v | None \<Rightarrow> (case var of Some v \<Rightarrow> v | None \<Rightarrow> dflt))"

definition parse_args ::
  "(string \<Rightarrow> string option) \<Rightarrow> (string \<Rightarrow> string option) \<Rightarrow> args" where
  "parse_args flag var =
     \<lparr>arg_auth_db = arg_value (flag ''--auth-db'') (var ''CONSUMER_AUTH_DB'') ''./data/db/auth.db'',
      arg_data_db = arg_value (flag ''--data-db'') (var ''CONSUMER_DATA_DB'') ''./data/db/data.db'',
      arg_log_dir = arg_value (flag ''--log-dir'') (var ''CONSUMER_LOG_DIR'') ''./data/logs''\<rparr>"

text \<open>\<open>Result::expect\<close>; the error that the panic message goes on to show is left out.\<close>

definition expect_ok :: "string \<Rightarrow> ('x + 'a) task \<Rightarrow> 'a task" where
  "expect_ok m p = bind_prog p (\<lambda>r. case r of Inl e \<Rightarrow> Panic m | Inr a \<Rightarrow> Ret a)"

definition consumer_main :: "env \<Rightarrow> app_handler network \<Rightarrow> args \<Rightarrow> unit task" where
  "consumer_main E N args' =
     bind_prog (init_logging E (arg_log_dir args') ''echo-server'') (\<lambda>guard.
     (let auth_db_url = ''sqlite://'' @ arg_auth_db args';
          data_db_url = ''sqlite://'' @ arg_data_db args'
      in bind_prog (expect_ok ''app db connect'' (data_connect E data_db_url)) (\<lambda>_.
         bind_prog (expect_ok ''app db migrate'' (data_migrate E)) (\<lambda>_.
         expect_ok ''server failed''
           (builder_serve E N
             (set_routes app_routes
               (set_auth_database_url auth_db_url
                 (set_addr ([0, 0, 0, 0], 3000)
                   (set_service_name ''echo-server'' servir_builder)))))))))"

end
