(* ===== verification/Routing.thy ===== *)
theory Routing
  imports Server
begin

text \<open>
  From a request to the response of the assembled router. How axum finds the handler of a
  request is a parameter, the \<open>dispatcher\<close>; what the code relies on is \<open>axum_routes\<close>: a route
  with a plain path is found by path and method, and a path without a route goes to the fallback.
  What axum answers to a known path under another method (405, or \<open>GET\<close> for \<open>HEAD\<close>) is left to it.
\<close>

section \<open>Dispatch\<close>

type_synonym 'c dispatcher =
  "'c handler router \<Rightarrow> request \<Rightarrow> response + (layer list \<times> 'c handler)"

fun method_name :: "http_method \<Rightarrow> string" where
  "method_name Get = ''GET''"
| "method_name Post = ''POST''"

text \<open>
  Plain tables: paths without captures or trailing slash, no two handlers for a path and method
  (axum panics on the second), and a single fallback, at the root.
\<close>

definition plain_path :: "string \<Rightarrow> bool" where
  "plain_path p \<longleftrightarrow> p \<noteq> [] \<and> hd p = CHR ''/'' \<and> last p \<noteq> CHR ''/'' \<and> CHR ''{'' \<notin> set p"

definition endpoints :: "'h entry list \<Rightarrow> (string \<times> http_method) list" where
  "endpoints es = [(p, the m). (p, m, ls, h) \<leftarrow> es, m \<noteq> None]"

definition fallbacks :: "'h entry list \<Rightarrow> (string \<times> layer list \<times> 'h) list" where
  "fallbacks es = [(p, ls, h). (p, m, ls, h) \<leftarrow> es, m = None]"

definition plain_table :: "'h entry list \<Rightarrow> bool" where
  "plain_table es \<longleftrightarrow> distinct (endpoints es) \<and> list_all (\<lambda>(p, m). plain_path p) (endpoints es) \<and>
     (case fallbacks es of [] \<Rightarrow> True | [(p, ls, h)] \<Rightarrow> p = [] | _ \<Rightarrow> False)"

definition axum_routes :: "'c dispatcher \<Rightarrow> bool" where
  "axum_routes D \<longleftrightarrow> (\<forall>r req. plain_table (routes_of r) \<longrightarrow>
     (\<forall>p m ls h. (p, Some m, ls, h) \<in> set (routes_of r) \<longrightarrow>
        rq_path req = p \<longrightarrow> rq_method req = method_name m \<longrightarrow> D r req = Inr (ls, h)) \<and>
     (\<forall>ls h. rq_path req \<notin> fst ` set (endpoints (routes_of r)) \<longrightarrow>
        ([], None, ls, h) \<in> set (routes_of r) \<longrightarrow> D r req = Inr (ls, h)))"

text \<open>The response of a router to a request.\<close>

definition app_call ::
  "'c dispatcher \<Rightarrow> env \<Rightarrow> web \<Rightarrow> ('c \<Rightarrow> request \<Rightarrow> response task) \<Rightarrow> 'c handler router \<Rightarrow>
   request \<Rightarrow> response task" where
  "app_call D E W app router req =
     (case D router req of
        Inl resp \<Rightarrow> Ret resp
      | Inr (ls, h) \<Rightarrow> through_layers ls (run_handler E W app h) req)"

lemma app_call_route:
  assumes "axum_routes D" and "plain_table (routes_of r)"
    and "(rq_path req, Some m, ls, h) \<in> set (routes_of r)" and "rq_method req = method_name m"
  shows "app_call D E W app r req = through_layers ls (run_handler E W app h) req"
  using assms by (auto simp: axum_routes_def app_call_def)

lemma app_call_fallback:
  assumes "axum_routes D" and "plain_table (routes_of r)"
    and "([], None, ls, h) \<in> set (routes_of r)"
    and "rq_path req \<notin> fst ` set (endpoints (routes_of r))"
  shows "app_call D E W app r req = through_layers ls (run_handler E W app h) req"
proof -
  have "D r req = Inr (ls, h)"
    using assms unfolding axum_routes_def by blast
  then show ?thesis by (simp add: app_call_def)
qed

section \<open>A dispatcher over the table\<close>

text \<open>First match in the table, then the fallback; a known path under another method is refused.\<close>

definition table_dispatch :: "'c dispatcher" where
  "table_dispatch r req =
     (let es = routes_of r in
      case List.find (\<lambda>(p, m, ls, h). p = rq_path req \<and>
             map_option method_name m = Some (rq_method req)) es of
        Some (p, m, ls, h) \<Rightarrow> Inr (ls, h)
      | None \<Rightarrow>
          (if rq_path req \<in> fst ` set (endpoints es)
           then Inl \<lparr>rs_status = 405, rs_body = JNull\<rparr>
           else (case fallbacks es of
                   (p, ls, h) # _ \<Rightarrow> Inr (ls, h)
                 | [] \<Rightarrow> Inl \<lparr>rs_status = 404, rs_body = JNull\<rparr>)))"

lemma method_name_inject [simp]: "method_name m = method_name m' \<longleftrightarrow> m = m'"
  by (cases m; cases m') simp_all

lemma endpoints_simps [simp]:
  "endpoints [] = []"
  "endpoints ((p, Some m, ls, h) # es) = (p, m) # endpoints es"
  "endpoints ((p, None, ls, h) # es) = endpoints es"
  "endpoints (es @ es') = endpoints es @ endpoints es'"
  by (simp_all add: endpoints_def)

lemma fallbacks_simps [simp]:
  "fallbacks [] = []"
  "fallbacks ((p, Some m, ls, h) # es) = fallbacks es"
  "fallbacks ((p, None, ls, h) # es) = (p, ls, h) # fallbacks es"
  "fallbacks (es @ es') = fallbacks es @ fallbacks es'"
  by (simp_all add: fallbacks_def)

lemma in_endpoints: "(p, Some m, ls, h) \<in> set es \<Longrightarrow> (p, m) \<in> set (endpoints es)"
  by (induction es) (auto simp: endpoints_def)

lemma in_fallbacks: "(p, None, ls, h) \<in> set es \<Longrightarrow> (p, ls, h) \<in> set (fallbacks es)"
  by (induction es) (auto simp: fallbacks_def)

lemma find_entry:
  assumes "distinct (endpoints es)" and "(p, Some m, ls, h) \<in> set es"
  shows "List.find (\<lambda>(q, n, ls, h). q = p \<and> map_option method_name n = Some (method_name m)) es =
    Some (p, Some m, ls, h)"
  using assms
proof (induction es)
  case (Cons e es)
  obtain q n ls' h' where e: "e = (q, n, ls', h')"
    by (cases e)
  show ?case
  proof (cases n)
    case None
    with Cons e show ?thesis by auto
  next
    case (Some k)
    have "(p, m) \<in> set (endpoints es)" if "(p, Some m, ls, h) \<in> set es"
      using in_endpoints [OF that] .
    with Cons e Some show ?thesis by auto
  qed
qed simp

lemma table_dispatch_axum: "axum_routes table_dispatch"
  unfolding axum_routes_def
proof (intro allI impI conjI)
  fix r :: "'a handler router" and req :: request and p m ls h
  assume "plain_table (routes_of r)" and "(p, Some m, ls, h) \<in> set (routes_of r)"
    and "rq_path req = p" and "rq_method req = method_name m"
  then show "table_dispatch r req = Inr (ls, h)"
    using find_entry [of "routes_of r" p m ls h]
    by (simp add: table_dispatch_def plain_table_def)
next
  fix r :: "'a handler router" and req :: request and ls h
  assume plain: "plain_table (routes_of r)"
    and unknown: "rq_path req \<notin> fst ` set (endpoints (routes_of r))"
    and fb: "([], None, ls, h) \<in> set (routes_of r)"
  have "List.find (\<lambda>(p, m, ls, h). p = rq_path req \<and>
      map_option method_name m = Some (rq_method req)) (routes_of r) = None"
    using unknown in_endpoints [of "rq_path req" _ _ _ "routes_of r"]
    by (fastforce simp: find_None_iff image_iff)
  moreover have "fallbacks (routes_of r) = [([], ls, h)]"
    using plain in_fallbacks [OF fb]
    by (auto simp: plain_table_def split: list.splits)
  ultimately show "table_dispatch r req = Inr (ls, h)"
    using unknown by (simp add: table_dispatch_def)
qed

section \<open>The table of the assembled router\<close>

lemma routes_of_build_router:
  "routes_of (build_router api cfg) =
     map (\<lambda>(p, m, ls, h). (''/api/v1'' @ p, m,
           [SetRequestIdUuid, PropagateRequestId, TraceLayer, AuthLayer cfg] @ ls, h))
       (routes_of api @
        [(''/auth/register'', Some Post, [], HRegister cfg),
         (''/auth/login'', Some Post, [], HLogin cfg),
         (''/auth/refresh'', Some Post, [], HRefresh cfg),
         (''/auth/logout'', Some Post, [], HLogout cfg),
         (''/auth/me'', Some Get, [], HMe),
         (''/health'', Some Get, [], HHealth)]) @
     [([], None, [SetRequestIdUuid, PropagateRequestId, TraceLayer], HNotFound)]"
  by (simp add: build_router_def standard_middleware_def mount_auth_routes_def Let_def comp_def
      case_prod_unfold)

text \<open>What the application's own routes must be for the assembled table to be plain.\<close>

definition library_endpoints :: "(string \<times> http_method) list" where
  "library_endpoints =
     [(''/auth/register'', Post), (''/auth/login'', Post), (''/auth/refresh'', Post),
      (''/auth/logout'', Post), (''/auth/me'', Get), (''/health'', Get)]"

definition plain_api :: "'h router \<Rightarrow> bool" where
  "plain_api api \<longleftrightarrow> fallbacks (routes_of api) = [] \<and>
     distinct (endpoints (routes_of api) @ library_endpoints) \<and>
     list_all (\<lambda>(p, m). plain_path p) (endpoints (routes_of api))"

lemma endpoints_nested:
  "endpoints (map (\<lambda>(p, m, ls, h). (pre @ p, m, f ls, h)) es) =
     map (\<lambda>(p, m). (pre @ p, m)) (endpoints es)"
  by (induction es) (auto simp: endpoints_def)

lemma fallbacks_nested:
  "fallbacks (map (\<lambda>(p, m, ls, h). (pre @ p, m, f ls, h)) es) =
     map (\<lambda>(p, ls, h). (pre @ p, f ls, h)) (fallbacks es)"
  by (induction es) (auto simp: fallbacks_def)

lemma plain_path_nested: "plain_path p \<Longrightarrow> plain_path (''/api/v1'' @ p)"
  by (auto simp: plain_path_def)

lemma library_endpoints_plain: "list_all (\<lambda>(p, m). plain_path p) library_endpoints"
  by (simp add: library_endpoints_def plain_path_def)

lemma endpoints_build_router:
  "endpoints (routes_of (build_router api cfg)) =
     map (\<lambda>(p, m). (''/api/v1'' @ p, m)) (endpoints (routes_of api) @ library_endpoints)"
  unfolding routes_of_build_router endpoints_simps endpoints_nested library_endpoints_def
  by (simp add: endpoints_nested [where f = "\<lambda>ls. _ # ls", simplified])

lemma plain_build_router:
  assumes "plain_api api"
  shows "plain_table (routes_of (build_router api cfg))"
proof -
  let ?es = "endpoints (routes_of api) @ library_endpoints"
  let ?f = "\<lambda>(p, m :: http_method). (''/api/v1'' @ p, m)"
  have "inj_on ?f (set ?es)"
    by (auto simp: inj_on_def)
  moreover have "distinct ?es"
    using assms by (simp add: plain_api_def)
  ultimately have "distinct (map ?f ?es)"
    unfolding distinct_map by blast
  moreover have "list_all (\<lambda>(p, m). plain_path p) ?es"
    using assms library_endpoints_plain by (simp add: plain_api_def)
  then have "list_all (\<lambda>(p, m). plain_path p) (map ?f ?es)"
    unfolding list_all_iff set_map by (fastforce intro: plain_path_nested simp del: append_Cons)
  moreover have "fallbacks (routes_of (build_router api cfg)) =
      [([], [SetRequestIdUuid, PropagateRequestId, TraceLayer], HNotFound)]"
    using assms unfolding routes_of_build_router fallbacks_simps fallbacks_nested
    by (simp add: plain_api_def)
  ultimately show ?thesis
    unfolding plain_table_def endpoints_build_router by simp
qed

lemma app_routes_plain: "plain_api app_routes"
  by (simp add: plain_api_def app_routes_def library_endpoints_def plain_path_def)

section \<open>Constant handlers under layers\<close>

lemma through_layers_const:
  fixes p :: "response task"
  shows "through_layers ls (\<lambda>_. p) req = p"
proof (induction ls arbitrary: req)
  case (Cons l ls)
  then show ?case by (cases l) (simp_all add: auth_service_call_def)
qed simp

lemma through_build_layers:
  "through_layers ([SetRequestIdUuid, PropagateRequestId, TraceLayer, AuthLayer cfg] @ ls) inner req =
     through_layers ls inner (req\<lparr>rq_extension := Some cfg\<rparr>)"
  by (simp add: auth_service_call_def)

end
