(* ===== verification/Sessions.thy ===== *)
theory Sessions
  imports Runtime
begin

text \<open>
  What the auth database promises, without tables: accounts and live sessions. A session is a
  refresh token identifier with its owner and expiry. The interface \<open>session_store\<close> is what a
  client of the \<open>AuthRepository\<close> relies on; the SQLite tables with the statements of
  \<open>src/db/auth.rs\<close> implement it.
\<close>

section \<open>The abstract store\<close>

record session_state =
  accounts :: "string \<rightharpoonup> user"
  sessions :: "string \<rightharpoonup> string \<times> i64"

datatype session_op =
    Register string string string i64
  | Issue string string i64 i64
  | Redeem string i64
  | RevokeAll string

text \<open>The flag says whether the operation succeeded; for \<open>Redeem\<close>, whether the session was live.\<close>

fun sess_step :: "session_op \<Rightarrow> session_state \<Rightarrow> bool \<times> session_state" where
  "sess_step (Register i u h t) s =
     (if i \<in> dom (accounts s) \<or> u \<in> usr_username ` ran (accounts s) then (False, s)
      else (True, s\<lparr>accounts := (accounts s)(i \<mapsto>
             \<lparr>usr_id = i, usr_username = u, usr_password_hash = h\<rparr>)\<rparr>))"
| "sess_step (Issue j i x t) s =
     (if j \<in> dom (sessions s) \<or> i \<notin> dom (accounts s) then (False, s)
      else (True, s\<lparr>sessions := (sessions s)(j \<mapsto> (i, x))\<rparr>))"
| "sess_step (Redeem j now) s =
     (case sessions s j of
        None \<Rightarrow> (False, s)
      | Some (i, x) \<Rightarrow>
          (if sint now < sint x then (True, s\<lparr>sessions := (sessions s)(j := None)\<rparr>)
           else (False, s)))"
| "sess_step (RevokeAll i) s =
     (True, s\<lparr>sessions := (\<lambda>j. case sessions s j of
        None \<Rightarrow> None
      | Some (i', x) \<Rightarrow> if i' = i then None else Some (i', x))\<rparr>)"

section \<open>The interface\<close>

fun run_ops :: "(session_op \<Rightarrow> 's \<Rightarrow> bool \<times> 's) \<Rightarrow> session_op list \<Rightarrow> 's \<Rightarrow> 's" where
  "run_ops f [] s = s"
| "run_ops f (x # xs) s = run_ops f xs (snd (f x s))"

locale session_store =
  fixes well_formed :: "'s \<Rightarrow> bool"
    and view :: "'s \<Rightarrow> session_state"
    and apply_op :: "session_op \<Rightarrow> 's \<Rightarrow> bool \<times> 's"
  assumes keeps_well_formed: "well_formed s \<Longrightarrow> well_formed (snd (apply_op x s))"
    and simulates: "well_formed s \<Longrightarrow>
      sess_step x (view s) = (fst (apply_op x s), view (snd (apply_op x s)))"
begin

lemma run_ops_well_formed: "well_formed s \<Longrightarrow> well_formed (run_ops apply_op xs s)"
  by (induction xs arbitrary: s) (auto dest: keeps_well_formed)

lemma view_apply: "well_formed s \<Longrightarrow> view (snd (apply_op x s)) = snd (sess_step x (view s))"
  by (simp add: simulates)

text \<open>A session that is not there stays away until it is issued.\<close>

lemma session_stays_away:
  assumes "well_formed s" and "sessions (view s) j = None"
    and "\<forall>i x t. Issue j i x t \<notin> set xs"
  shows "sessions (view (run_ops apply_op xs s)) j = None"
  using assms
proof (induction xs arbitrary: s)
  case Nil
  then show ?case by simp
next
  case (Cons y xs)
  have "sessions (snd (sess_step y (view s))) j = None"
    using Cons.prems by (cases y) (auto split: option.splits)
  with Cons show ?case
    by (simp add: keeps_well_formed view_apply)
qed

lemma redeem_needs_session:
  assumes "well_formed s" and "fst (apply_op (Redeem j now) s)"
  shows "\<exists>i x. sessions (view s) j = Some (i, x) \<and> sint now < sint x"
  using assms simulates [of s "Redeem j now"]
  by (auto split: option.splits if_splits)

lemma redeemed_is_gone:
  assumes "well_formed s" and "fst (apply_op (Redeem j now) s)"
  shows "sessions (view (snd (apply_op (Redeem j now) s))) j = None"
  using redeem_needs_session [OF assms] by (auto simp: view_apply [OF assms(1)])

text \<open>A session is redeemed at most once, whatever happens in between short of reissuing it.\<close>

lemma redeem_once:
  assumes "well_formed s" and "fst (apply_op (Redeem j now) s)"
    and "\<forall>i x t. Issue j i x t \<notin> set xs"
  shows "\<not> fst (apply_op (Redeem j now') (run_ops apply_op xs (snd (apply_op (Redeem j now) s))))"
proof -
  let ?s = "snd (apply_op (Redeem j now) s)"
  have wf: "well_formed ?s"
    using assms(1) by (rule keeps_well_formed)
  have "sessions (view (run_ops apply_op xs ?s)) j = None"
    using wf redeemed_is_gone [OF assms(1,2)] assms(3) by (rule session_stays_away)
  with redeem_needs_session [OF run_ops_well_formed [OF wf]] show ?thesis by fastforce
qed

lemma revoked_is_gone:
  assumes "well_formed s" and "sessions (view s) j = Some (i, x)"
  shows "sessions (view (snd (apply_op (RevokeAll i) s))) j = None"
  using assms by (simp add: view_apply)

lemma revoked_not_redeemed:
  assumes "well_formed s" and "sessions (view s) j = Some (i, x)"
    and "\<forall>i x t. Issue j i x t \<notin> set xs"
  shows "\<not> fst (apply_op (Redeem j now) (run_ops apply_op xs (snd (apply_op (RevokeAll i) s))))"
proof -
  let ?s = "snd (apply_op (RevokeAll i) s)"
  have wf: "well_formed ?s"
    using assms(1) by (rule keeps_well_formed)
  have "sessions (view (run_ops apply_op xs ?s)) j = None"
    using wf revoked_is_gone [OF assms(1,2)] assms(3) by (rule session_stays_away)
  with redeem_needs_session [OF run_ops_well_formed [OF wf]] show ?thesis by fastforce
qed

end

section \<open>The tables implement the store\<close>

definition stmt_of :: "session_op \<Rightarrow> auth_stmt" where
  "stmt_of x = (case x of
     Register i u h t \<Rightarrow> InsertUser i u h t
   | Issue j i e t \<Rightarrow> InsertRefreshToken j i e t
   | Redeem j now \<Rightarrow> DeleteLiveRefreshToken j now
   | RevokeAll i \<Rightarrow> DeleteRefreshTokensOf i)"

text \<open>As the code reads the result: an error is a failure, and so is a redemption of no rows.\<close>

definition succeeded :: "session_op \<Rightarrow> sql_error + sql_result \<Rightarrow> bool" where
  "succeeded x r = (case r of
     Inl e \<Rightarrow> False
   | Inr (Affected n) \<Rightarrow> (case x of Redeem _ _ \<Rightarrow> 0 < n | _ \<Rightarrow> True)
   | Inr _ \<Rightarrow> False)"

definition sqlite_apply :: "session_op \<Rightarrow> auth_db \<Rightarrow> bool \<times> auth_db" where
  "sqlite_apply x d = (case exec_auth (stmt_of x) d of (r, d') \<Rightarrow> (succeeded x r, d'))"

definition sqlite_view :: "auth_db \<Rightarrow> session_state" where
  "sqlite_view d =
     \<lparr>accounts = (\<lambda>i. map_option user_of_row (List.find (\<lambda>r. ur_id r = i) (users d))),
      sessions = (\<lambda>j. map_option (\<lambda>r. (tr_user_id r, tr_expires_at r))
                   (List.find (\<lambda>r. tr_jti r = j) (refresh_tokens d)))\<rparr>"

definition sqlite_ok :: "auth_db \<Rightarrow> bool" where
  "sqlite_ok d \<longleftrightarrow> auth_db_ok d \<and> 3 \<le> applied d"

lemma view_dom:
  "dom (accounts (sqlite_view d)) = ur_id ` set (users d)"
  "dom (sessions (sqlite_view d)) = tr_jti ` set (refresh_tokens d)"
proof -
  show "dom (accounts (sqlite_view d)) = ur_id ` set (users d)"
    by (simp add: sqlite_view_def dom_def find_None_iff_notin del: not_None_eq image_iff)
  show "dom (sessions (sqlite_view d)) = tr_jti ` set (refresh_tokens d)"
    by (simp add: sqlite_view_def dom_def find_None_iff_notin del: not_None_eq image_iff)
qed

lemma find_key_Some_iff:
  assumes "distinct (map f rs)"
  shows "List.find (\<lambda>x. f x = k) rs = Some r \<longleftrightarrow> r \<in> set rs \<and> f r = k"
  using find_key_unique [OF assms] find_key [of f k rs r] by auto

lemma view_usernames:
  assumes "auth_db_ok d"
  shows "usr_username ` ran (accounts (sqlite_view d)) = ur_username ` set (users d)"
proof -
  have "distinct (map ur_id (users d))"
    using assms by (simp add: auth_db_ok_def)
  then have "ran (accounts (sqlite_view d)) = user_of_row ` set (users d)"
    by (auto simp: ran_def sqlite_view_def find_key_Some_iff)
  then show ?thesis by (simp add: image_image user_of_row_def)
qed

lemma find_filter_key:
  assumes "distinct (map f rs)"
  shows "List.find (\<lambda>r. f r = j) (filter Q rs) =
    (case List.find (\<lambda>r. f r = j) rs of
       None \<Rightarrow> None
     | Some r \<Rightarrow> if Q r then Some r else None)"
  using assms
proof (induction rs)
  case Nil
  then show ?case by simp
next
  case (Cons x rs)
  show ?case
  proof (cases "f x = j")
    case True
    with Cons.prems have "List.find (\<lambda>r. f r = j) rs = None"
      by (auto simp: find_None_iff_notin)
    with Cons True show ?thesis by simp
  next
    case False
    with Cons show ?thesis by simp
  qed
qed

lemma filter_hit_nonempty:
  assumes "distinct (map f rs)"
  shows "filter (\<lambda>r. f r = k \<and> P r) rs \<noteq> [] \<longleftrightarrow>
    (\<exists>r. List.find (\<lambda>r. f r = k) rs = Some r \<and> P r)"
  using assms by (auto simp: filter_empty_conv find_key_Some_iff)

lemma simulate_register:
  assumes "sqlite_ok d"
  shows "sess_step (Register i u h t) (sqlite_view d) =
    (fst (sqlite_apply (Register i u h t) d),
     sqlite_view (snd (sqlite_apply (Register i u h t) d)))"
proof -
  have ok: "auth_db_ok d" and ap: "3 \<le> applied d"
    using assms by (auto simp: sqlite_ok_def)
  have "sqlite_view (d\<lparr>users := users d @ [r]\<rparr>) =
      (sqlite_view d)\<lparr>accounts := (accounts (sqlite_view d))(ur_id r \<mapsto> user_of_row r)\<rparr>"
    if "ur_id r \<notin> ur_id ` set (users d)" for r
    using that find_None_iff_notin [of ur_id "ur_id r" "users d"]
    by (auto simp: sqlite_view_def find_snoc fun_eq_iff split: option.splits)
  with ap show ?thesis
    by (auto simp: sqlite_apply_def stmt_of_def succeeded_def view_dom view_usernames [OF ok]
        user_of_row_def)
qed

lemma simulate_issue:
  assumes "sqlite_ok d"
  shows "sess_step (Issue j i x t) (sqlite_view d) =
    (fst (sqlite_apply (Issue j i x t) d),
     sqlite_view (snd (sqlite_apply (Issue j i x t) d)))"
proof -
  have ap: "3 \<le> applied d"
    using assms by (auto simp: sqlite_ok_def)
  have "sqlite_view (d\<lparr>refresh_tokens := refresh_tokens d @ [r]\<rparr>) =
      (sqlite_view d)\<lparr>sessions := (sessions (sqlite_view d))
         (tr_jti r \<mapsto> (tr_user_id r, tr_expires_at r))\<rparr>"
    if "tr_jti r \<notin> tr_jti ` set (refresh_tokens d)" for r
    using that find_None_iff_notin [of tr_jti "tr_jti r" "refresh_tokens d"]
    by (auto simp: sqlite_view_def find_snoc fun_eq_iff split: option.splits)
  with ap show ?thesis
    by (auto simp: sqlite_apply_def stmt_of_def succeeded_def view_dom)
qed

lemma simulate_redeem:
  assumes "sqlite_ok d"
  shows "sess_step (Redeem j now) (sqlite_view d) =
    (fst (sqlite_apply (Redeem j now) d), sqlite_view (snd (sqlite_apply (Redeem j now) d)))"
proof -
  let ?live = "\<lambda>r. sint now < sint (tr_expires_at r)"
  have ap: "3 \<le> applied d" and dist: "distinct (map tr_jti (refresh_tokens d))"
    using assms by (auto simp: sqlite_ok_def auth_db_ok_def)
  have view: "sqlite_view (d\<lparr>refresh_tokens :=
        filter (\<lambda>r. \<not> (tr_jti r = j \<and> ?live r)) (refresh_tokens d)\<rparr>) =
      snd (sess_step (Redeem j now) (sqlite_view d))"
  proof -
    have "map_option g (List.find (\<lambda>r. tr_jti r = x)
            (filter (\<lambda>r. \<not> (tr_jti r = j \<and> ?live r)) (refresh_tokens d))) =
        (case List.find (\<lambda>r. tr_jti r = j) (refresh_tokens d) of
           None \<Rightarrow> map_option g (List.find (\<lambda>r. tr_jti r = x) (refresh_tokens d))
         | Some r \<Rightarrow> if ?live r \<and> x = j then None
                     else map_option g (List.find (\<lambda>r. tr_jti r = x) (refresh_tokens d)))"
      for x and g :: "token_row \<Rightarrow> string \<times> i64"
      using find_key [of tr_jti x "refresh_tokens d"]
      by (cases "List.find (\<lambda>r. tr_jti r = x) (refresh_tokens d)")
        (auto simp: find_filter_key [OF dist] split: option.splits)
    then show ?thesis
      by (auto simp: sqlite_view_def fun_eq_iff split: option.splits)
  qed
  have flag: "0 < length (filter (\<lambda>r. tr_jti r = j \<and> ?live r) (refresh_tokens d)) \<longleftrightarrow>
      fst (sess_step (Redeem j now) (sqlite_view d))"
    using filter_hit_nonempty [OF dist, of j ?live]
    by (auto simp: sqlite_view_def split: option.splits)
  show ?thesis
    using ap view flag
    by (intro prod_eqI) (simp_all add: sqlite_apply_def stmt_of_def succeeded_def Let_def
        del: sess_step.simps de_Morgan_conj length_greater_0_conv)
qed

lemma simulate_revoke:
  assumes "sqlite_ok d"
  shows "sess_step (RevokeAll i) (sqlite_view d) =
    (fst (sqlite_apply (RevokeAll i) d), sqlite_view (snd (sqlite_apply (RevokeAll i) d)))"
proof -
  have ap: "3 \<le> applied d" and dist: "distinct (map tr_jti (refresh_tokens d))"
    using assms by (auto simp: sqlite_ok_def auth_db_ok_def)
  show ?thesis
    using ap
    by (auto simp: sqlite_apply_def stmt_of_def succeeded_def sqlite_view_def
        find_filter_key [OF dist] fun_eq_iff split: option.splits)
qed

interpretation store: session_store sqlite_ok sqlite_view sqlite_apply
proof unfold_locales
  fix d x
  assume ok: "sqlite_ok d"
  obtain r d' where ex: "exec_auth (stmt_of x) d = (r, d')"
    by fastforce
  then show "sqlite_ok (snd (sqlite_apply x d))"
    using ok exec_auth_ok [of d "stmt_of x" r d'] exec_auth_applied [OF ex]
    by (simp add: sqlite_ok_def sqlite_apply_def)
  show "sess_step x (sqlite_view d) =
      (fst (sqlite_apply x d), sqlite_view (snd (sqlite_apply x d)))"
    using ok simulate_register simulate_issue simulate_redeem simulate_revoke
    by (cases x) blast+
qed

end
