(* ===== verification/Demo.thy ===== *)
theory Demo
  imports Routing Sessions
begin

text \<open>
  One concrete environment in which every named condition of \<open>Runtime\<close> holds, with databases
  to go with it, so that the hypotheses of the theorems can be shown to be satisfiable. Tokens
  are encoded field by field, and decoding checks the secret and the expiry.
\<close>

section \<open>A token format\<close>

fun enc_str :: "string \<Rightarrow> string" where
  "enc_str [] = ''.''"
| "enc_str (c # cs) = CHR ''x'' # c # enc_str cs"

fun dec_str :: "string \<Rightarrow> (string \<times> string) option" where
  "dec_str (a # c # r) =
     (if a = CHR ''.'' then Some ([], c # r)
      else map_option (\<lambda>(s, t). (c # s, t)) (dec_str r))"
| "dec_str [a] = (if a = CHR ''.'' then Some ([], []) else None)"
| "dec_str [] = None"

lemma dec_enc_str: "dec_str (enc_str s @ r) = Some (s, r)"
proof (induction s)
  case Nil
  then show ?case by (cases r) simp_all
qed simp

definition enc_word :: "u64 \<Rightarrow> string" where
  "enc_word w = map (\<lambda>i. if bit w i then CHR ''1'' else CHR ''0'') [0..<64]"

definition dec_word :: "string \<Rightarrow> u64 \<times> string" where
  "dec_word s = (horner_sum of_bool 2 (map (\<lambda>c. c = CHR ''1'') (take 64 s)), drop 64 s)"

lemma dec_enc_word: "dec_word (enc_word w @ r) = (w, r)"
proof -
  have "map (\<lambda>c. c = CHR ''1'') (enc_word w) = map (bit w) [0..<64]"
    by (simp add: enc_word_def)
  moreover have "horner_sum of_bool 2 (map (bit w) [0..<64]) = w"
    by (simp add: horner_sum_bit_eq_take_bit take_bit_word_eq_self)
  moreover have "length (enc_word w) = 64"
    by (simp add: enc_word_def)
  ultimately show ?thesis
    by (simp add: dec_word_def)
qed

definition demo_encode :: "string \<Rightarrow> claims \<Rightarrow> string + string" where
  "demo_encode s c = Inr (enc_str s @ enc_str (cl_sub c) @ enc_str (cl_username c) @
     enc_str (cl_jti c) @ enc_word (cl_exp c) @ enc_word (cl_iat c) @
     (if cl_kind c = Access then ''A'' else ''R''))"

definition demo_parse :: "string \<Rightarrow> (string \<times> claims) option" where
  "demo_parse t =
     Option.bind (dec_str t) (\<lambda>(s, t1).
     Option.bind (dec_str t1) (\<lambda>(i, t2).
     Option.bind (dec_str t2) (\<lambda>(u, t3).
     Option.bind (dec_str t3) (\<lambda>(j, t4).
     case dec_word t4 of (x, t5) \<Rightarrow> case dec_word t5 of (y, t6) \<Rightarrow>
       Some (s, \<lparr>cl_sub = i, cl_username = u, cl_exp = x, cl_iat = y, cl_jti = j,
                 cl_kind = (if t6 = ''A'' then Access else Refresh)\<rparr>)))))"

definition demo_clock :: "nat \<Rightarrow> u64 option" where
  "demo_clock n = Some 1000"

definition demo_decode :: "nat \<Rightarrow> string \<Rightarrow> string \<Rightarrow> jwt_error + claims" where
  "demo_decode n s t =
     (case demo_parse t of
        None \<Rightarrow> Inl (OtherJwtError ''InvalidToken'')
      | Some (s', c) \<Rightarrow>
          if s' \<noteq> s then Inl (OtherJwtError ''InvalidSignature'')
          else if uint (cl_exp c) + 60 < 1000 then Inl ExpiredSignature
          else Inr c)"

lemma demo_parse_encode: "demo_encode s c = Inr t \<Longrightarrow> demo_parse t = Some (s, c)"
  by (cases c) (auto simp: demo_encode_def demo_parse_def dec_enc_str dec_enc_word
      intro: token_kind.exhaust)

section \<open>The environment\<close>

definition demo_uuid :: "nat \<Rightarrow> string" where
  "demo_uuid n = replicate n (CHR ''u'')"

definition demo_env :: env where
  "demo_env =
     \<lparr>overflow_checks = True,
      clock = demo_clock,
      uuid = demo_uuid,
      salt = (\<lambda>n. ''salt''),
      random_bytes = (\<lambda>n len. Some (replicate len 7)),
      fault = (\<lambda>n. None),
      sql_text = (\<lambda>e. ''sql''),
      url_error = (\<lambda>u. None),
      hex_encode = map (\<lambda>b. char_of (unat b + 48)),
      jwt_encode = demo_encode,
      jwt_decode = demo_decode,
      argon2_hash = (\<lambda>s p. Inr (CHR ''$'' # p)),
      phc_error = (\<lambda>h. if take 1 h = ''$'' then None else Some ''phc''),
      argon2_verify = (\<lambda>q h. h = CHR ''$'' # q),
      rust_log = None, stdout_is_terminal = False,
      create_dir_error = (\<lambda>n d. None), open_file_error = (\<lambda>n d p. None)\<rparr>"

lemma demo_env_simps [simp]:
  "overflow_checks demo_env" "clock demo_env n = Some 1000" "uuid demo_env n = demo_uuid n"
  "salt demo_env n = ''salt''" "fault demo_env n = None" "jwt_encode demo_env = demo_encode"
  "sql_text demo_env e = ''sql''" "url_error demo_env u = None"
  "jwt_decode demo_env = demo_decode" "argon2_hash demo_env s p = Inr (CHR ''$'' # p)"
  "phc_error demo_env h = (if take 1 h = ''$'' then None else Some ''phc'')"
  "argon2_verify demo_env p h \<longleftrightarrow> h = CHR ''$'' # p"
  "random_bytes demo_env n len = Some (replicate len 7)"
  "hex_encode demo_env bs = map (\<lambda>b. char_of (unat b + 48)) bs"
  "rust_log demo_env = None" "\<not> stdout_is_terminal demo_env"
  "create_dir_error demo_env n d = None" "open_file_error demo_env n d p = None"
  by (simp_all add: demo_env_def demo_clock_def)

lemma demo_uuid_inj: "demo_uuid m = demo_uuid n \<longleftrightarrow> m = n"
  by (metis demo_uuid_def length_replicate)

lemma demo_conditions:
  "uuids_fresh demo_env" "jwt_stable demo_env" "jwt_roundtrip demo_env"
  "hash_roundtrip demo_env" "db_healthy demo_env" "clock_runs demo_env"
  "crypto_healthy demo_env"
proof -
  show "uuids_fresh demo_env"
    by (auto simp: uuids_fresh_def inj_on_def demo_uuid_inj)
  show "jwt_stable demo_env"
    by (auto simp: jwt_stable_def demo_decode_def split: option.splits if_splits)
  show "jwt_roundtrip demo_env"
    by (auto simp: jwt_roundtrip_def demo_decode_def demo_parse_encode)
  show "hash_roundtrip demo_env" "db_healthy demo_env" "clock_runs demo_env"
    by (auto simp: hash_roundtrip_def db_healthy_def clock_runs_def)
  show "crypto_healthy demo_env"
    by (simp add: crypto_healthy_def demo_encode_def)
qed

section \<open>Databases and requests\<close>

definition demo_config :: auth_config where
  "demo_config = config_new ''secret''"

lemma demo_config_simps [simp]:
  "cfg_secret demo_config = ''secret''" "cfg_access_token_ttl_secs demo_config = 900"
  "cfg_refresh_token_ttl_secs demo_config = 604800"
  by (simp_all add: demo_config_def config_new_def)

text \<open>A fresh server, and one where alice has registered and holds one refresh token.\<close>

definition fresh_world :: world where
  "fresh_world = \<lparr>auth = empty_auth_db\<lparr>applied := 3\<rparr>, data = empty_data_db\<lparr>data_applied := 1\<rparr>,
                  proc = new_process, tick = 0\<rparr>"

definition alice_row :: user_row where
  "alice_row = \<lparr>ur_id = ''A1'', ur_username = ''alice'', ur_password_hash = ''$hunter22'',
                ur_created_at = 500\<rparr>"

definition alice_claims :: "token_kind \<Rightarrow> claims" where
  "alice_claims k = \<lparr>cl_sub = ''A1'', cl_username = ''alice'', cl_exp = 605300, cl_iat = 500,
                     cl_jti = ''J1'', cl_kind = k\<rparr>"

definition alice_token_row :: token_row where
  "alice_token_row = \<lparr>tr_jti = ''J1'', tr_user_id = ''A1'', tr_expires_at = 605300,
                      tr_created_at = 500\<rparr>"

definition alice_world :: world where
  "alice_world =
     \<lparr>auth = \<lparr>applied = 3, users = [alice_row], refresh_tokens = [alice_token_row],
              config_rows = [\<lparr>cr_key = ''signing_secret'', cr_value = ''secret''\<rparr>]\<rparr>,
      data = \<lparr>data_applied = 1, profiles = []\<rparr>, proc = new_process, tick = 0\<rparr>"

definition alice_token :: "token_kind \<Rightarrow> string" where
  "alice_token k = projr (demo_encode ''secret'' (alice_claims k))"

lemma alice_token_encoded: "demo_encode ''secret'' (alice_claims k) = Inr (alice_token k)"
  by (simp add: alice_token_def demo_encode_def)

lemma alice_token_decodes [simp]:
  "demo_decode n ''secret'' (alice_token k) = Inr (alice_claims k)"
  using demo_parse_encode [OF alice_token_encoded, of k]
  by (simp add: demo_decode_def alice_claims_def)

lemma demo_worlds_ok:
  "world_ok fresh_world" "world_ok alice_world" "migrated fresh_world" "migrated alice_world"
  "sqlite_ok (auth fresh_world)" "sqlite_ok (auth alice_world)"
  by (simp_all add: world_ok_def auth_db_ok_def data_db_ok_def fresh_world_def empty_auth_db_def
      empty_data_db_def alice_world_def alice_row_def alice_token_row_def migrated_def
      sqlite_ok_def)

lemma demo_uuid_not_alice: "demo_uuid n \<noteq> ''A1''" "demo_uuid n \<noteq> ''J1''"
  by (cases n; simp add: demo_uuid_def)+

text \<open>A web layer whose body extractors accept everything, and a request.\<close>

definition demo_web :: web where
  "demo_web =
     \<lparr>header_to_str = (\<lambda>v. Some v),
      json_register = (\<lambda>r. Inr \<lparr>reg_username = ''bob'', reg_password = ''hunter22''\<rparr>),
      json_login = (\<lambda>r. Inr \<lparr>log_username = ''alice'', log_password = ''hunter22''\<rparr>),
      json_refresh = (\<lambda>r. Inr \<lparr>ref_refresh_token = rq_body r\<rparr>),
      json_logout = (\<lambda>r. Inr \<lparr>out_refresh_token = rq_body r\<rparr>),
      json_to_string = (\<lambda>v. [])\<rparr>"

definition demo_request :: "string \<Rightarrow> request" where
  "demo_request body =
     \<lparr>rq_method = ''POST'', rq_path = ''/'', rq_authorization = None, rq_content_type = None,
      rq_body = body, rq_extension = None\<rparr>"

end
