(* ===== verification/Core_Properties.thy ===== *)
theory Core_Properties
  imports Demo
begin

text \<open>
  The properties of the lower layers: the error types and their responses, the session store
  that the tables implement, passwords, and the configuration of the builder.
\<close>

section \<open>Errors and responses\<close>

text \<open>C35: Every error becomes a response with its own status, which is a client or a server error
  and never a success; an error event is logged exactly for server errors, with the identifier
  and display text, from which the identifier can be read back; and two errors give the same response only when identifier and context
  agree, so the response loses nothing of them.\<close>

theorem error_responses:
  "case servir_into_response e of (log, resp) \<Rightarrow>
     rs_status resp = servir_status_code e \<and>
     is_client_error (rs_status resp) \<noteq> is_server_error (rs_status resp) \<and>
     (log = [(servir_error_id e, servir_display e)]) = is_server_error (rs_status resp) \<and>
     (log = []) = is_client_error (rs_status resp) \<and>
     takeWhile (\<lambda>c. c \<in> error_id_chars) (servir_display e) = servir_error_id e \<and>
     (resp = snd (servir_into_response e')) =
       (servir_error_id e = servir_error_id e' \<and> servir_context e = servir_context e')"
proof -
  have "is_client_error (servir_status_code e) \<noteq> is_server_error (servir_status_code e)"
    by (rule servir_info.client_or_server)
  moreover have "fst (servir_into_response e) = (if is_server_error (servir_status_code e)
      then [(servir_error_id e, servir_display e)] else [])"
    by (simp add: servir_into_response_def Let_def)
  moreover have "takeWhile (\<lambda>c. c \<in> error_id_chars) (servir_display e) = servir_error_id e"
    unfolding servir_display_def by (rule servir_info.display_starts_with_id)
  ultimately show ?thesis
    using servir_into_response_inj [of e e'] servir_into_response_status [of e]
    by (cases "servir_into_response e") auto
qed

text \<open>C36: The context of an error serializes to an object whose first entry is \<open>error\<close>, which
  never has two entries of one name, and which has as many entries as were announced to the
  serializer; and different contexts serialize differently.\<close>

theorem context_json_faithful:
  "\<exists>entries. ctx_serialize (servir_context e) = JObj entries \<and>
     distinct (map fst entries) \<and> fst (hd entries) = ''error'' \<and>
     length entries = ctx_serialize_len (servir_context e) \<and>
     (ctx_serialize (servir_context e) = ctx_serialize c) = (servir_context e = c)"
proof -
  obtain entries where "ctx_serialize (servir_context e) = JObj entries"
    "distinct (map fst entries)" "fst (hd entries) = ''error''"
    "length entries = ctx_serialize_len (servir_context e)"
    by (rule servir_info.context_keys)
  then show ?thesis using ctx_serialize_inj by blast
qed

section \<open>The session store\<close>

text \<open>C32: The tables and statements of the auth database implement the abstract store of accounts
  and sessions: in every well-formed database each operation succeeds exactly when the abstract
  one does, and leads to the database that stands for the abstract result.\<close>

theorem tables_refine_store:
  assumes "sqlite_ok d"
  shows "sess_step x (sqlite_view d) =
      (fst (sqlite_apply x d), sqlite_view (snd (sqlite_apply x d))) \<and>
    sqlite_ok (snd (sqlite_apply x d))"
  using store.simulates [OF assms] store.keeps_well_formed [OF assms] by blast

theorem tables_refine_store_witness:
  "sess_step (Redeem ''J1'' 1000) (sqlite_view (auth alice_world)) =
     (fst (sqlite_apply (Redeem ''J1'' 1000) (auth alice_world)),
      sqlite_view (snd (sqlite_apply (Redeem ''J1'' 1000) (auth alice_world)))) \<and>
   fst (sqlite_apply (Redeem ''J1'' 1000) (auth alice_world))"
proof
  show "sess_step (Redeem ''J1'' 1000) (sqlite_view (auth alice_world)) =
     (fst (sqlite_apply (Redeem ''J1'' 1000) (auth alice_world)),
      sqlite_view (snd (sqlite_apply (Redeem ''J1'' 1000) (auth alice_world))))"
    using tables_refine_store [OF demo_worlds_ok(6)] by blast
  show "fst (sqlite_apply (Redeem ''J1'' 1000) (auth alice_world))"
    by (simp add: sqlite_apply_def stmt_of_def succeeded_def alice_world_def alice_token_row_def
        Let_def)
qed

text \<open>On the tables, a session that was redeemed or revoked is never redeemed again, whatever
  operations follow, unless its identifier is issued anew.\<close>

lemma sessions_end:
  assumes "sqlite_ok d"
    and "fst (sqlite_apply (Redeem j now) d) \<and> d' = snd (sqlite_apply (Redeem j now) d) \<or>
      sessions (sqlite_view d) j = Some (i, x) \<and> d' = snd (sqlite_apply (RevokeAll i) d)"
    and "\<forall>i x t. Issue j i x t \<notin> set ops"
  shows "\<not> fst (sqlite_apply (Redeem j later) (run_ops sqlite_apply ops d'))"
  using assms store.redeem_once [of d j now ops later]
    store.revoked_not_redeemed [of d j i x ops later] by blast

section \<open>Passwords\<close>

text \<open>A hash made by \<open>hash_password\<close> is accepted by \<open>verify_password\<close> for the hashed password
  and for no other.\<close>

lemma password_roundtrip:
  assumes "hash_roundtrip E"
    and "run (perform E) (hash_password E p) w = (Returned (Inr h), w')"
  shows "verify_password E q h = Inr (q = p)"
proof -
  have "argon2_hash E (salt E (tick w)) p = Inr h"
    using assms(2) by (cases "argon2_hash E (salt E (tick w)) p") (auto simp: run_hash_password)
  with assms(1) show ?thesis
    unfolding hash_roundtrip_def by (auto simp: verify_password_def)
qed

section \<open>The configuration\<close>

text \<open>The configuration of a built server has the lifetimes set on the builder, or fifteen
  minutes and seven days where none was set, in whatever order the setters were called, and
  always the loaded secret.\<close>

lemma built_configuration:
  "build_config b secret =
     \<lparr>cfg_secret = secret,
      cfg_access_token_ttl_secs = (case sb_access_token_ttl_secs b of None \<Rightarrow> 900 | Some t \<Rightarrow> t),
      cfg_refresh_token_ttl_secs =
        (case sb_refresh_token_ttl_secs b of None \<Rightarrow> 604800 | Some t \<Rightarrow> t)\<rparr> \<and>
   build_config (set_access_token_ttl_secs s (set_refresh_token_ttl_secs t b)) secret =
     build_config (set_refresh_token_ttl_secs t (set_access_token_ttl_secs s b)) secret"
  by (simp add: build_config_def config_with_defaults_def set_access_token_ttl_secs_def
      set_refresh_token_ttl_secs_def Let_def split: option.splits)

end
