(* ===== verification/Auth_Results.thy ===== *)
theory Auth_Results
  imports Demo
begin

text \<open>
  What the handlers of \<open>src/auth/http.rs\<close> do to the auth database, for every outcome and in
  every environment: failing databases, clocks before the epoch and refused encodings included.
\<close>

section \<open>Issuing a pair of tokens\<close>

definition new_token_row :: "string \<Rightarrow> string \<Rightarrow> u64 \<Rightarrow> u64 \<Rightarrow> u64 \<Rightarrow> token_row" where
  "new_token_row j i now ttl created =
     \<lparr>tr_jti = j, tr_user_id = i, tr_expires_at = now + ttl, tr_created_at = created\<rparr>"

text \<open>
  \<open>issued E cfg u w t w'\<close>: the response carries an access and a refresh token for \<open>u\<close>, signed
  with the configured secret, and the one change to the auth database is the row of that
  refresh token, under an identifier drawn during the run.
\<close>

definition issued ::
  "env \<Rightarrow> auth_config \<Rightarrow> user \<Rightarrow> world \<Rightarrow> token_response \<Rightarrow> world \<Rightarrow> bool" where
  "issued E cfg u w t w' \<longleftrightarrow>
     (\<exists>now1 now2 now3 now4 m n.
        jwt_encode E (cfg_secret cfg) (claims_at (usr_id u) (usr_username u) now1
          (cfg_access_token_ttl_secs cfg) (uuid E m) Access) = Inr (tk_access_token t) \<and>
        jwt_encode E (cfg_secret cfg) (claims_at (usr_id u) (usr_username u) now2
          (cfg_refresh_token_ttl_secs cfg) (uuid E n) Refresh) = Inr (tk_refresh_token t) \<and>
        tk_token_type t = ''Bearer'' \<and> tick w \<le> m \<and> m < n \<and> n < tick w' \<and>
        clock E (m - 1) = Some now1 \<and> clock E (n - 1) = Some now2 \<and> clock E (n + 1) = Some now3 \<and>
        uuid E n \<notin> tr_jti ` set (refresh_tokens (auth w)) \<and>
        usr_id u \<in> ur_id ` set (users (auth w)) \<and>
        auth w' = (auth w)\<lparr>refresh_tokens := refresh_tokens (auth w) @
          [new_token_row (uuid E n) (usr_id u) now3 (cfg_refresh_token_ttl_secs cfg) now4]\<rparr>)"

lemma exec_insert_token:
  "exec_auth (InsertRefreshToken j i x t) d = (r, d') \<Longrightarrow>
   (\<exists>e. r = Inl e) \<and> d' = d \<or>
   r = Inr (Affected 1) \<and> j \<notin> tr_jti ` set (refresh_tokens d) \<and> i \<in> ur_id ` set (users d) \<and>
   d' = d\<lparr>refresh_tokens := refresh_tokens d @
     [\<lparr>tr_jti = j, tr_user_id = i, tr_expires_at = x, tr_created_at = t\<rparr>]\<rparr>"
  by (auto split: if_splits)

definition failed :: "('e + 'a) outcome \<Rightarrow> bool" where
  "failed out \<longleftrightarrow> (\<forall>a. out \<noteq> Returned (Inr a))"

lemma failed_simps [simp]:
  "failed (Returned (Inl e))" "failed (Panicked m)" "\<not> failed (Returned (Inr a))"
  by (simp_all add: failed_def)

lemma store_refresh_token_cases:
  assumes "run (perform E) (store_refresh_token E j i u ttl) w = (out, w')"
  shows "(\<exists>now t. out = Returned (Inr ()) \<and> clock E (tick w) = Some now \<and>
       j \<notin> tr_jti ` set (refresh_tokens (auth w)) \<and> i \<in> ur_id ` set (users (auth w)) \<and>
       tick w' = tick w + 3 \<and> auth w' = (auth w)\<lparr>refresh_tokens := refresh_tokens (auth w) @
         [new_token_row j i now ttl t]\<rparr>) \<or>
     failed out \<and> auth w' = auth w"
proof (cases "clock E (tick w)")
  case None
  with assms show ?thesis by (auto simp: run_store_refresh_token)
next
  case now: (Some now)
  show ?thesis
  proof (cases "add_i64 (overflow_checks E) now ttl")
    case None
    with assms now show ?thesis by (auto simp: run_store_refresh_token)
  next
    case x: (Some x)
    show ?thesis
    proof (cases "clock E (Suc (tick w))")
      case None
      with assms now x show ?thesis by (auto simp: run_store_refresh_token)
    next
      case t: (Some t)
      obtain r d where ex: "exec_auth (InsertRefreshToken j i x t) (auth w) = (r, d)"
        by fastforce
      from exec_insert_token [OF ex] add_i64_SomeD [OF x] assms now x t ex show ?thesis
        by (cases "fault E (Suc (Suc (tick w)))"; cases r)
          (auto simp: run_store_refresh_token after_auth_def new_token_row_def
            simp del: exec_auth.simps)
    qed
  qed
qed

lemma issue_access_token_cases:
  assumes "run (perform E) (issue_access_token E i u cfg) w = (out, w')"
  shows "(\<exists>now t. out = Returned (Inr t) \<and> clock E (tick w) = Some now \<and>
       jwt_encode E (cfg_secret cfg) (claims_at i u now (cfg_access_token_ttl_secs cfg)
         (uuid E (Suc (tick w))) Access) = Inr t \<and> w' = advance (advance w)) \<or>
     failed out \<and> auth w' = auth w"
  using assms
  by (cases "jwt_encode E (cfg_secret cfg)
        (claims_at i u (the (clock E (tick w))) (cfg_access_token_ttl_secs cfg)
          (uuid E (Suc (tick w))) Access)")
    (auto simp: run_issue_access_token split: option.splits)

lemma issue_refresh_token_cases:
  assumes "run (perform E) (issue_refresh_token E i u cfg) w = (out, w')"
  shows "(\<exists>now t. out = Returned (Inr (t, uuid E (Suc (tick w)))) \<and> clock E (tick w) = Some now \<and>
       jwt_encode E (cfg_secret cfg) (claims_at i u now (cfg_refresh_token_ttl_secs cfg)
         (uuid E (Suc (tick w))) Refresh) = Inr t \<and> w' = advance (advance w)) \<or>
     failed out \<and> auth w' = auth w"
  using assms
  by (cases "jwt_encode E (cfg_secret cfg)
        (claims_at i u (the (clock E (tick w))) (cfg_refresh_token_ttl_secs cfg)
          (uuid E (Suc (tick w))) Refresh)")
    (auto simp: run_issue_refresh_token split: option.splits)

lemma run_bind_ok_cases:
  assumes "run p (bind_ok m f) w = (out, w')"
  obtains (fail) out1 where "run p m w = (out1, w')" "failed out1" "failed out"
  | (cont) a w1 where "run p m w = (Returned (Inr a), w1)" "run p (f a) w1 = (out, w')"
  using assms by (auto simp: run_bind_ok split: prod.splits outcome.splits sum.splits)

lemma issue_tokens_cases:
  assumes "run (perform E) (issue_tokens E cfg u) w = (out, w')"
  shows "(\<exists>t. out = Returned (Inr (ApiOk t)) \<and> issued E cfg u w t w') \<or>
     failed out \<and> auth w' = auth w"
  using assms unfolding issue_tokens_def
proof (cases rule: run_bind_ok_cases)
  case (fail out1)
  with issue_access_token_cases [OF fail(1)] show ?thesis by auto
next
  case (cont a w1)
  obtain now1 where now1: "clock E (tick w) = Some now1" and
    acc: "jwt_encode E (cfg_secret cfg) (claims_at (usr_id u) (usr_username u) now1
       (cfg_access_token_ttl_secs cfg) (uuid E (Suc (tick w))) Access) = Inr a"
    and w1: "w1 = advance (advance w)"
    using issue_access_token_cases [OF cont(1)] by auto
  from cont(2) show ?thesis
  proof (cases rule: run_bind_ok_cases)
    case (fail out1)
    with issue_refresh_token_cases [OF fail(1)] w1 show ?thesis by auto
  next
    case (cont rj w2)
    obtain now2 r where rj: "rj = (r, uuid E (Suc (tick w1)))"
      and now2: "clock E (tick w1) = Some now2"
      and ref: "jwt_encode E (cfg_secret cfg) (claims_at (usr_id u) (usr_username u) now2
         (cfg_refresh_token_ttl_secs cfg) (uuid E (Suc (tick w1))) Refresh) = Inr r"
      and w2: "w2 = advance (advance w1)"
      using issue_refresh_token_cases [OF cont(1)] by auto
    from cont(2) have "run (perform E) (bind_ok (store_refresh_token E (uuid E (Suc (tick w1)))
        (usr_id u) (usr_username u) (cfg_refresh_token_ttl_secs cfg))
        (\<lambda>_. ok (api_ok \<lparr>tk_access_token = a, tk_refresh_token = r,
          tk_token_type = ''Bearer''\<rparr>))) w2 = (out, w')"
      by (simp add: rj)
    then show ?thesis
    proof (cases rule: run_bind_ok_cases)
      case (fail out1)
      with store_refresh_token_cases [OF fail(1)] w1 w2 show ?thesis by auto
    next
      case (cont x w3)
      obtain now t where now: "clock E (tick w2) = Some now"
        and fresh: "uuid E (Suc (tick w1)) \<notin> tr_jti ` set (refresh_tokens (auth w2))"
        and owner: "usr_id u \<in> ur_id ` set (users (auth w2))"
        and tick3: "tick w3 = tick w2 + 3"
        and d: "auth w3 = (auth w2)\<lparr>refresh_tokens := refresh_tokens (auth w2) @
           [new_token_row (uuid E (Suc (tick w1))) (usr_id u) now
             (cfg_refresh_token_ttl_secs cfg) t]\<rparr>"
        using store_refresh_token_cases [OF cont(1)] by auto
      have out: "out = Returned (Inr (ApiOk \<lparr>tk_access_token = a, tk_refresh_token = r,
          tk_token_type = ''Bearer''\<rparr>))" and w': "w' = w3"
        using cont(2) by (simp_all add: api_ok_def)
      have "issued E cfg u w \<lparr>tk_access_token = a, tk_refresh_token = r,
          tk_token_type = ''Bearer''\<rparr> w'"
        unfolding issued_def
        by (rule exI [of _ now1], rule exI [of _ now2], rule exI [of _ now], rule exI [of _ t],
            rule exI [of _ "Suc (tick w)"], rule exI [of _ "Suc (tick w1)"])
          (use acc ref now now1 now2 fresh owner tick3 d w1 w2 w' in simp)
      with out show ?thesis by blast
    qed
  qed
qed


section \<open>The handlers\<close>

lemma issued_from:
  assumes "issued E cfg u w1 t w'" and "auth w1 = auth w" and "tick w \<le> tick w1"
  shows "issued E cfg u w t w'"
  using assms(1) unfolding issued_def assms(2) by (blast intro: order_trans [OF assms(3)])

lemma find_user_by_username_cases:
  assumes "run (perform E) (find_user_by_username E k) w = (out, w')"
  shows "w' = advance w \<and>
    (failed out \<or> out = Returned (Inr None) \<or>
     (\<exists>r \<in> set (users (auth w)). out = Returned (Inr (Some (user_of_row r))) \<and> ur_username r = k))"
proof (cases "List.find (\<lambda>r. ur_username r = k) (users (auth w))")
  case None
  with assms show ?thesis
    by (cases "fault E (tick w)"; cases "applied (auth w) = 0")
      (auto simp: run_find_user_by_username)
next
  case (Some r)
  with find_key [OF Some] assms show ?thesis
    by (cases "fault E (tick w)"; cases "applied (auth w) = 0")
      (auto simp: run_find_user_by_username)
qed

lemma find_user_by_id_cases:
  assumes "run (perform E) (find_user_by_id E k) w = (out, w')"
  shows "w' = advance w \<and>
    (failed out \<or> out = Returned (Inr None) \<or>
     (\<exists>r \<in> set (users (auth w)). out = Returned (Inr (Some (user_of_row r))) \<and> ur_id r = k))"
proof (cases "List.find (\<lambda>r. ur_id r = k) (users (auth w))")
  case None
  with assms show ?thesis
    by (cases "fault E (tick w)"; cases "applied (auth w) = 0")
      (auto simp: run_find_user_by_id)
next
  case (Some r)
  with find_key [OF Some] assms show ?thesis
    by (cases "fault E (tick w)"; cases "applied (auth w) = 0")
      (auto simp: run_find_user_by_id)
qed

lemma login_cases:
  assumes "run (perform E) (login E cfg body) w = (out, w')"
  shows "(\<exists>r \<in> set (users (auth w)). \<exists>t. out = Returned (Inr (ApiOk t)) \<and>
       ur_username r = log_username body \<and>
       argon2_verify E (log_password body) (ur_password_hash r) \<and>
       issued E cfg (user_of_row r) w t w') \<or>
     failed out \<and> auth w' = auth w"
  using assms unfolding login_def
proof (cases rule: run_bind_ok_cases)
  case (fail out1)
  with find_user_by_username_cases [OF fail(1)] show ?thesis by auto
next
  case (cont found w1)
  show ?thesis
  proof (cases found)
    case None
    with cont find_user_by_username_cases [OF cont(1)] show ?thesis by auto
  next
    case (Some usr)
    obtain r where r: "r \<in> set (users (auth w))" "ur_username r = log_username body"
      and usr: "usr = user_of_row r" and w1: "w1 = advance w"
      using find_user_by_username_cases [OF cont(1)] Some by auto
    from cont(2) Some have "run (perform E)
        (bind_ok (Ret (verify_password E (log_password body) (usr_password_hash usr))) (\<lambda>matches.
           if \<not> matches then err (user_invalid_credentials (log_username body))
           else issue_tokens E cfg usr)) w1 = (out, w')" by simp
    then show ?thesis
    proof (cases rule: run_bind_ok_cases)
      case (fail out1)
      then show ?thesis using w1 by auto
    next
      case (cont matches w2)
      show ?thesis
      proof (cases matches)
        case False
        with cont w1 show ?thesis by auto
      next
        case True
        have ver: "argon2_verify E (log_password body) (ur_password_hash r)"
          using cont(1) True by (auto simp: verify_password_def usr user_of_row_def
              split: option.splits)
        have "run (perform E) (issue_tokens E cfg usr) w1 = (out, w')"
          using cont True by simp
        from issue_tokens_cases [OF this] show ?thesis
          using r ver usr w1 issued_from [of E cfg usr w1 _ w' w] by auto
      qed
    qed
  qed
qed

definition new_user_row :: "string \<Rightarrow> string \<Rightarrow> string \<Rightarrow> u64 \<Rightarrow> user_row" where
  "new_user_row i u h now =
     \<lparr>ur_id = i, ur_username = u, ur_password_hash = h, ur_created_at = now\<rparr>"

definition with_user :: "user_row \<Rightarrow> auth_db \<Rightarrow> auth_db" where
  "with_user r d = d\<lparr>users := users d @ [r]\<rparr>"

lemma create_user_cases:
  assumes "run (perform E) (create_user E u h) w = (out, w')"
  shows "(\<exists>now. out = Returned (Inr (user_of_row (new_user_row (uuid E (tick w)) u h now))) \<and>
       u \<notin> ur_username ` set (users (auth w)) \<and>
       auth w' = with_user (new_user_row (uuid E (tick w)) u h now) (auth w) \<and>
       tick w \<le> tick w') \<or>
     failed out \<and> auth w' = auth w"
  using assms
  by (cases "fault E (Suc (Suc (tick w)))")
    (auto simp: run_create_user after_auth_def with_user_def new_user_row_def user_of_row_def
      split: option.splits if_splits)

lemma register_cases:
  assumes "run (perform E) (register E cfg body) w = (out, w')"
  shows "(\<exists>i h now w1 t. out = Returned (Inr (ApiOk t)) \<and> i = uuid E (Suc (tick w)) \<and>
       reg_username body \<noteq> [] \<and> 8 \<le> length (reg_password body) \<and>
       argon2_hash E (salt E (tick w)) (reg_password body) = Inr h \<and>
       reg_username body \<notin> ur_username ` set (users (auth w)) \<and>
       auth w1 = with_user (new_user_row i (reg_username body) h now) (auth w) \<and>
       tick w \<le> tick w1 \<and>
       issued E cfg (user_of_row (new_user_row i (reg_username body) h now)) w1 t w') \<or>
     failed out \<and> (auth w' = auth w \<or>
       (\<exists>i h now. auth w' = with_user (new_user_row i (reg_username body) h now) (auth w) \<and>
          reg_username body \<notin> ur_username ` set (users (auth w))))"
proof (cases "reg_username body = [] \<or> length (reg_password body) < 8")
  case True
  with assms have "failed out \<and> w' = w"
    by (auto simp: register_def split: if_splits)
  then show ?thesis by simp
next
  case False
  with assms have "run (perform E) (bind_ok (hash_password E (reg_password body)) (\<lambda>hash.
      bind_ok (create_user E (reg_username body) hash) (\<lambda>user. issue_tokens E cfg user))) w
    = (out, w')" by (auto simp: register_def)
  then show ?thesis
  proof (cases rule: run_bind_ok_cases)
    case (fail out1)
    then show ?thesis by (auto simp: run_hash_password)
  next
    case (cont h w1)
    from cont(1) have h: "argon2_hash E (salt E (tick w)) (reg_password body) = Inr h"
      and w1: "w1 = advance w"
      by (cases "argon2_hash E (salt E (tick w)) (reg_password body)";
          auto simp: run_hash_password)+
    from cont(2) show ?thesis
    proof (cases rule: run_bind_ok_cases)
      case (fail out1)
      with create_user_cases [OF fail(1)] w1 show ?thesis by auto
    next
      case (cont usr w2)
      let ?r = "\<lambda>now. new_user_row (uuid E (tick w1)) (reg_username body) h now"
      obtain now where usr: "usr = user_of_row (?r now)"
        and fresh: "reg_username body \<notin> ur_username ` set (users (auth w))"
        and w2: "auth w2 = with_user (?r now) (auth w)" "tick w \<le> tick w2"
        using create_user_cases [OF cont(1)] w1 by auto
      from issue_tokens_cases [OF cont(2)] show ?thesis
      proof (elim disjE conjE exE)
        fix t
        assume "out = Returned (Inr (ApiOk t))" "issued E cfg usr w2 t w'"
        with usr fresh w1 w2 h False show ?thesis
          by (intro disjI1 exI [of _ "uuid E (tick w1)"] exI [of _ h] exI [of _ now]
              exI [of _ w2] exI [of _ t]) auto
      next
        assume "failed out" "auth w' = auth w2"
        with w2 fresh show ?thesis by (intro disjI2) auto
      qed
    qed
  qed
qed

text \<open>What a redemption of \<open>j\<close> at \<open>now\<close> does to the tables.\<close>

definition live_at :: "u64 \<Rightarrow> token_row \<Rightarrow> bool" where
  "live_at now r \<longleftrightarrow> sint now < sint (tr_expires_at r)"

definition without_live :: "string \<Rightarrow> u64 \<Rightarrow> auth_db \<Rightarrow> auth_db" where
  "without_live j now d =
     d\<lparr>refresh_tokens := filter (\<lambda>r. \<not> (tr_jti r = j \<and> live_at now r)) (refresh_tokens d)\<rparr>"

lemma consume_cases:
  assumes "run (perform E) (consume_refresh_token E j) w = (out, w')"
  shows "(\<exists>now r. out = Returned (Inr True) \<and> clock E (tick w) = Some now \<and>
       r \<in> set (refresh_tokens (auth w)) \<and> tr_jti r = j \<and> live_at now r \<and>
       auth w' = without_live j now (auth w) \<and> tick w \<le> tick w') \<or>
     out = Returned (Inr False) \<and> auth w' = auth w \<and> (\<exists>now. clock E (tick w) = Some now \<and>
       (\<forall>r. r \<in> set (refresh_tokens (auth w)) \<longrightarrow> tr_jti r = j \<longrightarrow> \<not> live_at now r)) \<or>
     failed out \<and> auth w' = auth w"
proof (cases "clock E (tick w)")
  case None
  with assms show ?thesis by (auto simp: run_consume_refresh_token)
next
  case now: (Some now)
  let ?hit = "filter (\<lambda>r. tr_jti r = j \<and> live_at now r) (refresh_tokens (auth w))"
  have gone: "without_live j now (auth w) = auth w" if "?hit = []"
  proof -
    have "filter (\<lambda>r. \<not> (tr_jti r = j \<and> live_at now r)) (refresh_tokens (auth w)) =
        refresh_tokens (auth w)"
      using that by (auto simp: filter_empty_conv filter_id_conv)
    then show ?thesis by (simp add: without_live_def)
  qed
  have "fault E (Suc (tick w)) \<noteq> None \<or> applied (auth w) < 2 \<or> failed out \<or>
      out = Returned (Inr (?hit \<noteq> [])) \<and> auth w' = without_live j now (auth w) \<and>
      tick w \<le> tick w'"
    using assms now
    by (cases "fault E (Suc (tick w))")
      (auto simp: run_consume_refresh_token after_auth_def without_live_def live_at_def Let_def
        simp del: de_Morgan_conj split: if_splits)
  moreover have "failed out \<and> auth w' = auth w"
    if "fault E (Suc (tick w)) \<noteq> None \<or> applied (auth w) < 2"
    using assms now that
    by (cases "fault E (Suc (tick w))")
      (auto simp: run_consume_refresh_token after_auth_def Let_def split: if_splits)
  moreover have "\<not> failed out" if "fault E (Suc (tick w)) = None" "\<not> applied (auth w) < 2"
    using assms now that
    by (auto simp: run_consume_refresh_token after_auth_def Let_def split: if_splits)
  ultimately show ?thesis
    using now gone by (cases "?hit = []") (auto simp: filter_empty_conv)
qed

text \<open>The refresh token \<open>t\<close> says \<open>c\<close> at the start of the run, and names a live row.\<close>

definition presents ::
  "env \<Rightarrow> auth_config \<Rightarrow> string \<Rightarrow> world \<Rightarrow> claims \<Rightarrow> bool" where
  "presents E cfg t w c \<longleftrightarrow>
     jwt_decode E (tick w) (cfg_secret cfg) t = Inr c \<and> cl_kind c = Refresh"

lemma verify_token_cases:
  assumes "run (perform E) (verify_token t cfg) w = (out, w')"
  shows "w' = advance w \<and> (failed out \<or>
    (\<exists>c. out = Returned (Inr c) \<and> jwt_decode E (tick w) (cfg_secret cfg) t = Inr c))"
  using assms
  by (cases "jwt_decode E (tick w) (cfg_secret cfg) t") (auto simp: run_verify_token)

lemma redeemed_cases:
  assumes "run (perform E) (bind_ok (find_user_by_id E i) (\<lambda>found.
      case found of None \<Rightarrow> err (token_user_not_found i)
      | Some user \<Rightarrow> issue_tokens E cfg user)) w = (out, w')"
  shows "(\<exists>r t. out = Returned (Inr (ApiOk t)) \<and> r \<in> set (users (auth w)) \<and> ur_id r = i \<and>
      issued E cfg (user_of_row r) (advance w) t w') \<or> failed out \<and> auth w' = auth w"
  using assms
proof (cases rule: run_bind_ok_cases)
  case (fail out1)
  with find_user_by_id_cases [OF fail(1)] show ?thesis by auto
next
  case (cont found w1)
  show ?thesis
  proof (cases found)
    case None
    with cont find_user_by_id_cases [OF cont(1)] show ?thesis by auto
  next
    case (Some usr)
    obtain r where r: "r \<in> set (users (auth w))" "ur_id r = i" "usr = user_of_row r"
      and w1: "w1 = advance w"
      using find_user_by_id_cases [OF cont(1)] Some by auto
    have "run (perform E) (issue_tokens E cfg usr) w1 = (out, w')"
      using cont(2) Some by simp
    from issue_tokens_cases [OF this] r w1 show ?thesis by auto
  qed
qed

lemma refresh_cases:
  assumes "run (perform E) (refresh E cfg body) w = (out, w')"
  shows "(\<exists>c now row r w1 t. out = Returned (Inr (ApiOk t)) \<and>
       presents E cfg (ref_refresh_token body) w c \<and>
       row \<in> set (refresh_tokens (auth w)) \<and> tr_jti row = cl_jti c \<and> live_at now row \<and>
       r \<in> set (users (auth w)) \<and> ur_id r = cl_sub c \<and>
       clock E (Suc (tick w)) = Some now \<and> tick w \<le> tick w1 \<and>
       auth w1 = without_live (cl_jti c) now (auth w) \<and>
       issued E cfg (user_of_row r) w1 t w') \<or>
     failed out \<and> (auth w' = auth w \<or> (\<exists>c now row.
       presents E cfg (ref_refresh_token body) w c \<and>
       row \<in> set (refresh_tokens (auth w)) \<and> tr_jti row = cl_jti c \<and> live_at now row \<and>
       auth w' = without_live (cl_jti c) now (auth w)))"
  using assms unfolding refresh_def claims_accessors
proof (cases rule: run_bind_ok_cases)
  case (fail out1)
  with verify_token_cases [OF fail(1)] show ?thesis by auto
next
  case (cont c w1)
  have w1: "w1 = advance w"
    and c: "jwt_decode E (tick w) (cfg_secret cfg) (ref_refresh_token body) = Inr c"
    using verify_token_cases [OF cont(1)] by auto
  show ?thesis
  proof (cases "cl_kind c = Refresh")
    case False
    with cont(2) w1 show ?thesis by auto
  next
    case True
    with c have pres: "presents E cfg (ref_refresh_token body) w c"
      by (simp add: presents_def)
    from cont(2) True have "run (perform E) (bind_ok (consume_refresh_token E (cl_jti c)) (\<lambda>valid.
         if \<not> valid then err token_invalid_refresh_token
         else bind_ok (find_user_by_id E (cl_sub c)) (\<lambda>found.
           case found of
             None \<Rightarrow> err (token_user_not_found (cl_sub c))
           | Some user \<Rightarrow> issue_tokens E cfg user))) w1 = (out, w')" by simp
    then show ?thesis
    proof (cases rule: run_bind_ok_cases)
      case (fail out1)
      with consume_cases [OF fail(1)] w1 show ?thesis by auto
    next
      case (cont valid w2)
      show ?thesis
      proof (cases valid)
        case False
        with consume_cases [OF cont(1)] cont(2) w1 show ?thesis by auto
      next
        case True
        obtain now row where row: "row \<in> set (refresh_tokens (auth w))" "tr_jti row = cl_jti c"
            "live_at now row"
          and now: "clock E (Suc (tick w)) = Some now"
          and w2: "auth w2 = without_live (cl_jti c) now (auth w)" "tick w \<le> tick w2"
          using consume_cases [OF cont(1)] True w1 by auto
        have half: ?thesis if "failed out" "auth w' = auth w2"
          using that w2 row pres by (intro disjI2) auto
        from cont(2) True have "run (perform E) (bind_ok (find_user_by_id E (cl_sub c)) (\<lambda>found.
           case found of
             None \<Rightarrow> err (token_user_not_found (cl_sub c))
           | Some user \<Rightarrow> issue_tokens E cfg user)) w2 = (out, w')" by simp
        from redeemed_cases [OF this] show ?thesis
        proof (elim disjE conjE exE)
          fix r t
          assume "out = Returned (Inr (ApiOk t))" "r \<in> set (users (auth w2))" "ur_id r = cl_sub c"
            "issued E cfg (user_of_row r) (advance w2) t w'"
          with w2 row now pres show ?thesis
            by (intro disjI1 exI [of _ c] exI [of _ now] exI [of _ row] exI [of _ r]
                exI [of _ "advance w2"] exI [of _ t]) (auto simp: without_live_def)
        qed (rule half)
      qed
    qed
  qed
qed

definition without_user :: "string \<Rightarrow> auth_db \<Rightarrow> auth_db" where
  "without_user i d = d\<lparr>refresh_tokens := filter (\<lambda>r. tr_user_id r \<noteq> i) (refresh_tokens d)\<rparr>"

lemma logout_cases:
  assumes "run (perform E) (logout E cfg body) w = (out, w')"
  shows "(\<exists>c. out = Returned (Inr (ApiOk ())) \<and> presents E cfg (out_refresh_token body) w c \<and>
       auth w' = without_user (cl_sub c) (auth w)) \<or>
     failed out \<and> auth w' = auth w"
  using assms unfolding logout_def
proof (cases rule: run_bind_ok_cases)
  case (fail out1)
  with verify_token_cases [OF fail(1)] show ?thesis by auto
next
  case (cont c w1)
  have w1: "w1 = advance w"
    and c: "jwt_decode E (tick w) (cfg_secret cfg) (out_refresh_token body) = Inr c"
    using verify_token_cases [OF cont(1)] by auto
  with cont(2) show ?thesis
    by (cases "fault E (Suc (tick w))")
      (auto simp: run_bind_ok run_delete_refresh_tokens_for_user after_auth_def presents_def
        without_user_def api_ok_def split: if_splits)
qed

end
