(* ===== verification/Auth_Properties.thy ===== *)
theory Auth_Properties
  imports Auth_Results
begin

text \<open>
  The properties of the authentication handlers: what a response says about the database, when
  the operations succeed, and which token opens which door.
\<close>

section \<open>What a response says\<close>

text \<open>C7: A login answers with tokens only for a stored user whose password verifies against
  the stored hash; then the only change is one new refresh token row of that user. On every
  other outcome, failures of the database and panics included, the auth database is unchanged.\<close>

theorem login_sound:
  "case run (perform E) (login E cfg body) w of
     (Returned (Inr (ApiOk t)), w') \<Rightarrow>
       (\<exists>r \<in> set (users (auth w)). ur_username r = log_username body \<and>
          argon2_verify E (log_password body) (ur_password_hash r) \<and>
          issued E cfg (user_of_row r) w t w')
   | (Returned (Inr (ApiError b)), w') \<Rightarrow> False
   | (_, w') \<Rightarrow> auth w' = auth w"
proof (cases "run (perform E) (login E cfg body) w")
  case (Pair out w')
  then show ?thesis
    using login_cases [OF Pair]
    by (auto split: outcome.splits sum.splits api_response.splits)
qed

text \<open>C8: Registration answers with tokens only when the username is new and not empty and the
  password has at least eight bytes; then a row for the user, with the hash of the password, and
  one refresh token row of that user have been added. Otherwise nothing has changed, or only
  the row of the new user has been added.\<close>

theorem register_sound:
  "case run (perform E) (register E cfg body) w of
     (Returned (Inr (ApiOk t)), w') \<Rightarrow>
       (\<exists>i h now w1. i = uuid E (Suc (tick w)) \<and> reg_username body \<noteq> [] \<and> 8 \<le> length (reg_password body) \<and>
          reg_username body \<notin> ur_username ` set (users (auth w)) \<and>
          argon2_hash E (salt E (tick w)) (reg_password body) = Inr h \<and>
          auth w1 = with_user (new_user_row i (reg_username body) h now) (auth w) \<and>
          issued E cfg (user_of_row (new_user_row i (reg_username body) h now)) w1 t w')
   | (Returned (Inr (ApiError b)), w') \<Rightarrow> False
   | (_, w') \<Rightarrow> auth w' = auth w \<or>
       (\<exists>i h now. auth w' = with_user (new_user_row i (reg_username body) h now) (auth w) \<and>
          reg_username body \<notin> ur_username ` set (users (auth w)))"
proof (cases "run (perform E) (register E cfg body) w")
  case (Pair out w')
  show ?thesis
    using register_cases [OF Pair] Pair
    by (elim disjE conjE exE) (auto split: outcome.splits sum.splits api_response.splits)
qed

text \<open>C6: A refresh answers with tokens only for an accepted token of kind refresh whose
  identifier had an unexpired row, and whose subject is a stored user; that row has been
  deleted, and the row of the new token added. On a failure the tables are unchanged, or
  exactly the row of the presented token has been deleted.\<close>

theorem refresh_sound:
  "case run (perform E) (refresh E cfg body) w of
     (Returned (Inr (ApiOk t)), w') \<Rightarrow>
       (\<exists>c now row r w1. presents E cfg (ref_refresh_token body) w c \<and>
          row \<in> set (refresh_tokens (auth w)) \<and> tr_jti row = cl_jti c \<and> live_at now row \<and>
          clock E (Suc (tick w)) = Some now \<and>
          r \<in> set (users (auth w)) \<and> ur_id r = cl_sub c \<and>
          auth w1 = without_live (cl_jti c) now (auth w) \<and>
          issued E cfg (user_of_row r) w1 t w')
   | (Returned (Inr (ApiError b)), w') \<Rightarrow> False
   | (_, w') \<Rightarrow> auth w' = auth w \<or>
       (\<exists>c now row. presents E cfg (ref_refresh_token body) w c \<and>
          row \<in> set (refresh_tokens (auth w)) \<and> tr_jti row = cl_jti c \<and> live_at now row \<and>
          auth w' = without_live (cl_jti c) now (auth w))"
proof (cases "run (perform E) (refresh E cfg body) w")
  case (Pair out w')
  show ?thesis
    using refresh_cases [OF Pair] Pair
    by (elim disjE conjE exE) (auto split: outcome.splits sum.splits api_response.splits)
qed

text \<open>C9: A logout answers with success only for an accepted token of kind refresh; then every
  refresh token row of its subject has been deleted and no other. Otherwise nothing has
  changed.\<close>

theorem logout_sound:
  "case run (perform E) (logout E cfg body) w of
     (Returned (Inr (ApiOk u)), w') \<Rightarrow>
       (\<exists>c. presents E cfg (out_refresh_token body) w c \<and>
          auth w' = without_user (cl_sub c) (auth w))
   | (Returned (Inr (ApiError b)), w') \<Rightarrow> False
   | (_, w') \<Rightarrow> auth w' = auth w"
proof (cases "run (perform E) (logout E cfg body) w")
  case (Pair out w')
  then show ?thesis
    using logout_cases [OF Pair]
    by (auto split: outcome.splits sum.splits api_response.splits)
qed

section \<open>When the operations succeed\<close>

text \<open>
  \<open>healthy E cfg\<close>: nothing fails, and the configured lifetimes added to any reading of the clock
  stay below \<open>2^63\<close>. \<open>uuids_unused E w\<close>: the identifiers still to be drawn are in no table.
\<close>

definition healthy :: "env \<Rightarrow> auth_config \<Rightarrow> bool" where
  "healthy E cfg \<longleftrightarrow> db_healthy E \<and> clock_runs E \<and> crypto_healthy E \<and>
     (\<forall>n t. clock E n = Some t \<longrightarrow>
        uint t + uint (cfg_access_token_ttl_secs cfg) < 2 ^ 63 \<and>
        uint t + uint (cfg_refresh_token_ttl_secs cfg) < 2 ^ 63)"

definition uuids_unused :: "env \<Rightarrow> world \<Rightarrow> bool" where
  "uuids_unused E w \<longleftrightarrow>
     (\<forall>n. tick w \<le> n \<longrightarrow> uuid E n \<notin> ur_id ` set (users (auth w)) \<and>
        uuid E n \<notin> tr_jti ` set (refresh_tokens (auth w)))"

lemma uuids_unused_mono:
  assumes "uuids_unused E w" and "tick w \<le> tick v"
    and "ur_id ` set (users (auth v)) \<subseteq> ur_id ` set (users (auth w))"
    and "tr_jti ` set (refresh_tokens (auth v)) \<subseteq> tr_jti ` set (refresh_tokens (auth w))"
  shows "uuids_unused E v"
  using assms unfolding uuids_unused_def by (meson order_trans subsetD)

lemma healthy_clock:
  assumes "healthy E cfg"
  shows "\<exists>ck. \<forall>n. clock E n = Some (ck n) \<and>
    add_usize (overflow_checks E) (ck n) (cfg_access_token_ttl_secs cfg) =
      Some (ck n + cfg_access_token_ttl_secs cfg) \<and>
    add_usize (overflow_checks E) (ck n) (cfg_refresh_token_ttl_secs cfg) =
      Some (ck n + cfg_refresh_token_ttl_secs cfg) \<and>
    add_i64 (overflow_checks E) (ck n) (cfg_refresh_token_ttl_secs cfg) =
      Some (ck n + cfg_refresh_token_ttl_secs cfg)"
proof -
  define ck where "ck n = the (clock E n)" for n
  have ck: "clock E n = Some (ck n)" for n
    using assms by (auto simp: healthy_def clock_runs_def ck_def)
  have fit: "uint (ck n) + uint (cfg_access_token_ttl_secs cfg) < 2 ^ 63"
    "uint (ck n) + uint (cfg_refresh_token_ttl_secs cfg) < 2 ^ 63" for n
    using assms ck [of n] by (auto simp: healthy_def)
  have wide: "uint (ck n) + uint (cfg_access_token_ttl_secs cfg) < 2 ^ 64"
    "uint (ck n) + uint (cfg_refresh_token_ttl_secs cfg) < 2 ^ 64" for n
    using fit [of n] by simp_all
  show ?thesis
    by (intro exI [of _ ck] allI conjI) (rule ck add_usize_exact(1) add_i64_exact(1) fit wide)+
qed

lemma healthy_encode:
  assumes "healthy E cfg"
  shows "\<exists>enc. \<forall>s c. jwt_encode E s c = Inr (enc s c)"
  using assms unfolding healthy_def crypto_healthy_def by metis

lemma healthy_hash:
  assumes "healthy E cfg"
  shows "\<exists>h. \<forall>s p. argon2_hash E s p = Inr (h s p)"
  using assms unfolding healthy_def crypto_healthy_def by metis

lemma healthy_fault [simp]: "healthy E cfg \<Longrightarrow> fault E n = None"
  by (simp add: healthy_def db_healthy_def)

lemma issue_tokens_succeeds:
  assumes "healthy E cfg" and "migrated w" and "usr_id u \<in> ur_id ` set (users (auth w))"
    and "uuids_unused E w"
  obtains t w' where "run (perform E) (issue_tokens E cfg u) w = (Returned (Inr (ApiOk t)), w')"
    and "issued E cfg u w t w'"
proof -
  obtain ck where ck: "\<And>n. clock E n = Some (ck n)"
    "\<And>n. add_usize (overflow_checks E) (ck n) (cfg_access_token_ttl_secs cfg) =
           Some (ck n + cfg_access_token_ttl_secs cfg)"
    "\<And>n. add_usize (overflow_checks E) (ck n) (cfg_refresh_token_ttl_secs cfg) =
           Some (ck n + cfg_refresh_token_ttl_secs cfg)"
    "\<And>n. add_i64 (overflow_checks E) (ck n) (cfg_refresh_token_ttl_secs cfg) =
           Some (ck n + cfg_refresh_token_ttl_secs cfg)"
    using healthy_clock [OF assms(1)] by blast
  obtain enc where enc: "\<And>s c. jwt_encode E s c = Inr (enc s c)"
    using healthy_encode [OF assms(1)] by blast
  obtain out w' where run: "run (perform E) (issue_tokens E cfg u) w = (out, w')"
    by fastforce
  have "uuid E n \<notin> tr_jti ` set (refresh_tokens (auth w))" if "tick w \<le> n" for n
    using assms(4) that by (simp add: uuids_unused_def)
  then have "\<not> failed out"
    using run assms(1-3) unfolding issue_tokens_def
    by (auto simp: run_bind_ok ck enc run_core run_store_refresh_token migrated_def api_ok_def)
  with issue_tokens_cases [OF run] run that show thesis by auto
qed

lemma login_succeeds:
  assumes "healthy E cfg" and "migrated w" and "uuids_unused E w" and "auth_db_ok (auth w)"
    and "r \<in> set (users (auth w))" and "ur_username r = log_username body"
    and "phc_error E (ur_password_hash r) = None"
    and "argon2_verify E (log_password body) (ur_password_hash r)"
  shows "\<exists>t w'. run (perform E) (login E cfg body) w = (Returned (Inr (ApiOk t)), w') \<and>
    issued E cfg (user_of_row r) w t w'"
proof -
  have "List.find (\<lambda>x. ur_username x = ur_username r) (users (auth w)) = Some r"
    using assms(4,5) by (intro find_key_unique) (auto simp: auth_db_ok_def)
  then have login: "run (perform E) (login E cfg body) w =
      run (perform E) (issue_tokens E cfg (user_of_row r)) (advance w)"
    using assms(1,2,6-8)
    by (auto simp: login_def run_bind_ok run_find_user_by_username migrated_def
        verify_password_def user_of_row_def)
  obtain t w' where "run (perform E) (issue_tokens E cfg (user_of_row r)) (advance w) =
      (Returned (Inr (ApiOk t)), w')" "issued E cfg (user_of_row r) (advance w) t w'"
    using assms(1-3,5)
    by (elim issue_tokens_succeeds [of E cfg "advance w" "user_of_row r"])
      (auto simp: migrated_def uuids_unused_def user_of_row_def)
  with login show ?thesis
    using issued_from [of E cfg _ "advance w" t w' w] by auto
qed

section \<open>Accounts\<close>

text \<open>
  \<open>good E w\<close>: the tables are there, satisfy their constraints, and hold none of the identifiers
  still to be drawn. \<open>account E w r p\<close>: the stored account \<open>r\<close> has the password \<open>p\<close>.
\<close>

definition good :: "env \<Rightarrow> world \<Rightarrow> bool" where
  "good E w \<longleftrightarrow> migrated w \<and> auth_db_ok (auth w) \<and> uuids_unused E w"

definition account :: "env \<Rightarrow> world \<Rightarrow> user_row \<Rightarrow> string \<Rightarrow> bool" where
  "account E w r p \<longleftrightarrow> r \<in> set (users (auth w)) \<and> phc_error E (ur_password_hash r) = None \<and>
     (\<forall>q. argon2_verify E q (ur_password_hash r) \<longleftrightarrow> q = p)"

lemma good_migrated: "good E w \<Longrightarrow> 3 \<le> applied (auth w)"
  by (simp add: good_def migrated_def)

lemma issued_row:
  assumes "issued E cfg u w t w'"
  shows "\<exists>n now ttl c. auth w' = (auth w)\<lparr>refresh_tokens := refresh_tokens (auth w) @
      [new_token_row (uuid E n) (usr_id u) now ttl c]\<rparr> \<and> tick w \<le> n \<and> n < tick w' \<and>
    uuid E n \<notin> tr_jti ` set (refresh_tokens (auth w)) \<and> usr_id u \<in> ur_id ` set (users (auth w))"
  using assms unfolding issued_def by (blast intro: order_trans less_imp_le)

lemma issued_good:
  assumes "good E w" and "uuids_fresh E" and "issued E cfg u w t w'"
  shows "good E w'" and "users (auth w') = users (auth w)"
proof -
  obtain n now ttl c where w': "auth w' = (auth w)\<lparr>refresh_tokens := refresh_tokens (auth w) @
      [new_token_row (uuid E n) (usr_id u) now ttl c]\<rparr>"
    and n: "tick w \<le> n" "n < tick w'" "uuid E n \<notin> tr_jti ` set (refresh_tokens (auth w))"
    and owner: "usr_id u \<in> ur_id ` set (users (auth w))"
    using issued_row [OF assms(3)] by blast
  show "users (auth w') = users (auth w)"
    by (simp add: w')
  have "auth_db_ok (auth w')" "migrated w'"
    using assms(1) n owner by (auto simp: good_def w' auth_db_ok_def migrated_def new_token_row_def)
  moreover have "uuids_unused E w'"
    using assms(1,2) n
    by (auto simp: good_def uuids_unused_def w' new_token_row_def uuids_fresh_def dest: injD)
  ultimately show "good E w'"
    by (simp add: good_def)
qed

text \<open>A registration that goes through is the insertion of a row and the issue of its tokens.\<close>

lemma register_creates:
  assumes "clock_runs E" and "crypto_healthy E" and "fault E (tick w + 3) = None"
    and "1 \<le> applied (auth w)" and "uuid E (tick w + 1) \<notin> ur_id ` set (users (auth w))"
    and "u \<noteq> []" and "8 \<le> length p" and "u \<notin> ur_username ` set (users (auth w))"
  obtains row where "run (perform E) (register E cfg \<lparr>reg_username = u, reg_password = p\<rparr>) w =
      run (perform E) (issue_tokens E cfg (user_of_row row))
        (set_auth (with_user row (auth w)) (advance (advance (advance (advance w)))))"
    and "ur_id row = uuid E (tick w + 1)" and "ur_username row = u"
    and "argon2_hash E (salt E (tick w)) p = Inr (ur_password_hash row)"
proof -
  obtain now where now: "clock E (Suc (Suc (tick w))) = Some now"
    using assms(1) by (auto simp: clock_runs_def)
  obtain h where h: "argon2_hash E (salt E (tick w)) p = Inr h"
    using assms(2) unfolding crypto_healthy_def by blast
  show thesis
    by (rule that [of "new_user_row (uuid E (tick w + 1)) u h now"])
      (use assms(3-8) now h in \<open>simp_all add: register_def run_bind_ok run_hash_password
        run_create_user with_user_def new_user_row_def user_of_row_def after_auth_def
        eval_nat_numeral\<close>)
qed

lemma register_created:
  assumes "healthy E cfg" and "uuids_fresh E" and "good E w" and "u \<noteq> []" and "8 \<le> length p"
    and "u \<notin> ur_username ` set (users (auth w))"
  obtains v row where "run (perform E) (register E cfg \<lparr>reg_username = u, reg_password = p\<rparr>) w =
      run (perform E) (issue_tokens E cfg (user_of_row row)) v"
    and "good E v" and "users (auth v) = users (auth w) @ [row]" and "ur_username row = u"
    and "argon2_hash E (salt E (tick w)) p = Inr (ur_password_hash row)"
    and "auth v = with_user row (auth w)" and "ur_id row \<notin> ur_id ` set (users (auth w))"
proof -
  have w: "migrated w" "auth_db_ok (auth w)" "uuids_unused E w"
    using assms(3) by (simp_all add: good_def)
  then have new: "uuid E (tick w + 1) \<notin> ur_id ` set (users (auth w))"
    by (auto simp: uuids_unused_def)
  have conds: "clock_runs E" "crypto_healthy E" "fault E (tick w + 3) = None" "1 \<le> applied (auth w)"
    using assms(1) w(1) by (simp_all add: healthy_def db_healthy_def migrated_def)
  obtain row where row: "run (perform E) (register E cfg \<lparr>reg_username = u, reg_password = p\<rparr>) w =
      run (perform E) (issue_tokens E cfg (user_of_row row))
        (set_auth (with_user row (auth w)) (advance (advance (advance (advance w)))))"
    "ur_id row = uuid E (tick w + 1)" "ur_username row = u"
    "argon2_hash E (salt E (tick w)) p = Inr (ur_password_hash row)"
    using register_creates [OF conds new assms(4-6)] by metis
  let ?v = "set_auth (with_user row (auth w)) (advance (advance (advance (advance w))))"
  have "good E ?v"
    using w assms(2,6) new row(2,3)
    by (auto simp: good_def with_user_def auth_db_ok_def migrated_def uuids_unused_def
        uuids_fresh_def dest: injD)
  then show thesis
    using row new by (intro that [of row ?v]) (simp_all add: with_user_def)
qed

lemma register_succeeds:
  assumes "healthy E cfg" and "hash_roundtrip E" and "uuids_fresh E" and "good E w"
    and "u \<noteq> []" and "8 \<le> length p" and "u \<notin> ur_username ` set (users (auth w))"
  obtains t w' r v where
    "run (perform E) (register E cfg \<lparr>reg_username = u, reg_password = p\<rparr>) w =
      (Returned (Inr (ApiOk t)), w')"
    and "good E w'" and "ur_username r = u" and "account E w' r p"
    and "users (auth w') = users (auth w) @ [r]" and "issued E cfg (user_of_row r) v t w'"
proof -
  obtain v row where created: "run (perform E) (register E cfg
      \<lparr>reg_username = u, reg_password = p\<rparr>) w = run (perform E) (issue_tokens E cfg (user_of_row row)) v"
    and v: "good E v" "users (auth v) = users (auth w) @ [row]" and name: "ur_username row = u"
    and hash: "argon2_hash E (salt E (tick w)) p = Inr (ur_password_hash row)"
    using register_created [OF assms(1,3-7)] by metis
  have "usr_id (user_of_row row) \<in> ur_id ` set (users (auth v))"
    by (simp add: v(2) user_of_row_def)
  then obtain t w' where t: "run (perform E) (issue_tokens E cfg (user_of_row row)) v =
      (Returned (Inr (ApiOk t)), w')" and iss: "issued E cfg (user_of_row row) v t w'"
    using issue_tokens_succeeds [OF assms(1), of v] v(1) unfolding good_def by blast
  have users: "users (auth w') = users (auth w) @ [row]"
    using issued_good(2) [OF v(1) assms(3) iss] v(2) by simp
  have "account E w' row p"
    using assms(2) hash users by (auto simp: account_def hash_roundtrip_def)
  then show thesis
    using that created t users name iss issued_good(1) [OF v(1) assms(3) iss] by simp
qed

lemma login_wrong:
  assumes "healthy E cfg" and "good E w" and "account E w r p" and "q \<noteq> p"
  shows "run (perform E) (login E cfg \<lparr>log_username = ur_username r, log_password = q\<rparr>) w =
    (Returned (Inl (user_invalid_credentials (ur_username r))), advance w)"
proof -
  have "List.find (\<lambda>x. ur_username x = ur_username r) (users (auth w)) = Some r"
    using assms(2,3) by (intro find_key_unique) (auto simp: good_def auth_db_ok_def account_def)
  moreover have "phc_error E (ur_password_hash r) = None"
    "\<not> argon2_verify E q (ur_password_hash r)"
    using assms(3,4) by (simp_all add: account_def)
  ultimately show ?thesis
    using good_migrated [OF assms(2)] healthy_fault [OF assms(1)]
    by (simp add: login_def run_bind_ok run_find_user_by_username verify_password_def
        user_of_row_def)
qed

text \<open>A username that is taken, where the statement that inserts the user does not fault.\<close>

lemma register_refused:
  assumes "clock_runs E" and "crypto_healthy E" and "fault E (tick w + 3) = None"
    and "1 \<le> applied (auth w)" and "uuid E (tick w + 1) \<notin> ur_id ` set (users (auth w))"
    and "u \<noteq> []" and "8 \<le> length p" and "u \<in> ur_username ` set (users (auth w))"
  shows "\<exists>w' m. run (perform E) (register E cfg \<lparr>reg_username = u, reg_password = p\<rparr>) w =
    (Returned (Inl (user_already_exists u m)), w')"
proof -
  obtain now where "clock E (Suc (Suc (tick w))) = Some now"
    using assms(1) by (auto simp: clock_runs_def)
  moreover obtain h where "argon2_hash E (salt E (tick w)) p = Inr h"
    using assms(2) unfolding crypto_healthy_def by blast
  ultimately show ?thesis
    using assms(3-8)
    by (auto simp: register_def run_bind_ok run_hash_password run_create_user
        create_user_error_def eval_nat_numeral)
qed

lemma register_taken:
  assumes "healthy E cfg" and "good E w" and "u \<noteq> []" and "8 \<le> length p"
    and "u \<in> ur_username ` set (users (auth w))"
  shows "\<exists>w' m. run (perform E) (register E cfg \<lparr>reg_username = u, reg_password = p\<rparr>) w =
    (Returned (Inl (user_already_exists u m)), w')"
  using assms good_migrated [OF assms(2)]
  by (intro register_refused) (auto simp: healthy_def good_def uuids_unused_def)

section \<open>Registering and logging in\<close>

lemma demo_healthy: "healthy demo_env demo_config"
  using demo_conditions by (simp add: healthy_def)

lemma demo_unused: "uuids_unused demo_env alice_world" "uuids_unused demo_env fresh_world"
  by (auto simp: uuids_unused_def alice_world_def alice_row_def alice_token_row_def
      demo_uuid_not_alice fresh_world_def empty_auth_db_def)

lemma alice_facts:
  "alice_row \<in> set (users (auth alice_world))" "ur_username alice_row = ''alice''"
  "ur_password_hash alice_row = ''$hunter22''" "ur_id alice_row = ''A1''"
  "alice_token_row \<in> set (refresh_tokens (auth alice_world))" "tr_jti alice_token_row = ''J1''"
  "tr_user_id alice_token_row = ''A1''" "tr_expires_at alice_token_row = 605300"
  "auth_db_ok (auth alice_world)" "auth_db_ok (auth fresh_world)"
  using demo_worlds_ok
  by (simp_all add: alice_world_def alice_row_def alice_token_row_def world_ok_def)

text \<open>C16: In a healthy environment a registration with a new username and a password of at least
  eight bytes succeeds; a login with the same credentials then succeeds, and one with any other
  password is refused as invalid credentials.\<close>

theorem register_then_login:
  assumes "healthy E cfg" and "hash_roundtrip E" and "uuids_fresh E" and "migrated w"
    and "uuids_unused E w" and "auth_db_ok (auth w)"
    and "u \<noteq> []" and "8 \<le> length p" and "u \<notin> ur_username ` set (users (auth w))"
    and "q \<noteq> p"
  shows "\<exists>t w1 t' w2 w3.
    run (perform E) (register E cfg \<lparr>reg_username = u, reg_password = p\<rparr>) w =
      (Returned (Inr (ApiOk t)), w1) \<and>
    run (perform E) (login E cfg \<lparr>log_username = u, log_password = p\<rparr>) w1 =
      (Returned (Inr (ApiOk t')), w2) \<and>
    run (perform E) (login E cfg \<lparr>log_username = u, log_password = q\<rparr>) w1 =
      (Returned (Inl (user_invalid_credentials u)), w3)"
proof -
  have "good E w"
    using assms(4-6) by (simp add: good_def)
  then obtain t w1 r where t: "run (perform E)
      (register E cfg \<lparr>reg_username = u, reg_password = p\<rparr>) w = (Returned (Inr (ApiOk t)), w1)"
    and w1: "good E w1" and r: "ur_username r = u" "account E w1 r p"
    using register_succeeds [OF assms(1-3) _ assms(7-9)] by metis
  obtain t' w2 where "run (perform E) (login E cfg \<lparr>log_username = u, log_password = p\<rparr>) w1 =
      (Returned (Inr (ApiOk t')), w2)"
    using login_succeeds [of E cfg w1 r "\<lparr>log_username = u, log_password = p\<rparr>"] assms(1) w1 r
    by (auto simp: good_def account_def)
  with t login_wrong [OF assms(1) w1 r(2) assms(10)] r(1) show ?thesis
    by blast
qed

theorem register_then_login_witness:
  "\<exists>t w1 t' w2 w3.
    run (perform demo_env) (register demo_env demo_config
        \<lparr>reg_username = ''bob'', reg_password = ''hunter22''\<rparr>) alice_world =
      (Returned (Inr (ApiOk t)), w1) \<and>
    run (perform demo_env) (login demo_env demo_config
        \<lparr>log_username = ''bob'', log_password = ''hunter22''\<rparr>) w1 =
      (Returned (Inr (ApiOk t')), w2) \<and>
    run (perform demo_env) (login demo_env demo_config
        \<lparr>log_username = ''bob'', log_password = ''guess''\<rparr>) w1 =
      (Returned (Inl (user_invalid_credentials ''bob'')), w3)"
  by (rule register_then_login [OF demo_healthy demo_conditions(4,1) demo_worlds_ok(4)
        demo_unused(1) alice_facts(9)])
    (simp_all add: alice_world_def alice_row_def)

lemma refresh_rotates:
  assumes "healthy E cfg" and "migrated w" and "uuids_unused E w" and "auth_db_ok (auth w)"
    and "presents E cfg (ref_refresh_token body) w c"
    and "row \<in> set (refresh_tokens (auth w))" and "tr_jti row = cl_jti c"
    and "clock E (Suc (tick w)) = Some now" and "live_at now row"
    and "r \<in> set (users (auth w))" and "ur_id r = cl_sub c"
  shows "\<exists>t w1 w'. run (perform E) (refresh E cfg body) w = (Returned (Inr (ApiOk t)), w') \<and>
    auth w1 = without_live (cl_jti c) now (auth w) \<and> tick w \<le> tick w1 \<and> issued E cfg (user_of_row r) w1 t w'"
proof -
  define w1 where "w1 = set_auth (without_live (cl_jti c) now (auth w))
    (advance (advance (advance (advance w))))"
  have hit: "filter (\<lambda>r. tr_jti r = cl_jti c \<and> live_at now r) (refresh_tokens (auth w)) \<noteq> []"
    using assms(6,7,9) by (auto simp: filter_empty_conv)
  have "List.find (\<lambda>x. ur_id x = ur_id r) (users (auth w)) = Some r"
    using assms(4,10) by (intro find_key_unique) (auto simp: auth_db_ok_def)
  then have "run (perform E) (refresh E cfg body) w =
      run (perform E) (issue_tokens E cfg (user_of_row r)) w1"
    using assms(1,2,5,8,11) hit
    by (auto simp: refresh_def run_bind_ok run_verify_token presents_def migrated_def
        run_consume_refresh_token run_find_user_by_id after_auth_def Let_def live_at_def
        without_live_def w1_def filter_empty_conv)
  moreover obtain t w' where "run (perform E) (issue_tokens E cfg (user_of_row r)) w1 =
      (Returned (Inr (ApiOk t)), w')" "issued E cfg (user_of_row r) w1 t w'"
  proof (rule issue_tokens_succeeds [OF assms(1)])
    show "migrated w1" "usr_id (user_of_row r) \<in> ur_id ` set (users (auth w1))"
      using assms(2,10) by (auto simp: migrated_def w1_def without_live_def user_of_row_def)
    show "uuids_unused E w1"
      by (rule uuids_unused_mono [OF assms(3)]) (auto simp: w1_def without_live_def)
  qed
  moreover have "auth w1 = without_live (cl_jti c) now (auth w)" "tick w \<le> tick w1"
    by (simp_all add: w1_def)
  ultimately show ?thesis by metis
qed

lemma alice_presents:
  "presents demo_env demo_config (alice_token k) alice_world c \<longleftrightarrow>
     c = alice_claims k \<and> k = Refresh"
  by (auto simp: presents_def alice_claims_def)

section \<open>Refusals\<close>

text \<open>C27: Unless the database or the stored hash is broken, the response to a login does not
  tell an unknown username from a wrong password: the two responses are equal.\<close>

theorem login_refusals_equal:
  assumes "json_login W req = Inr body"
    and "migrated w1" and "fault E (tick w1) = None"
    and "log_username body \<notin> ur_username ` set (users (auth w1))"
    and "migrated w2" and "fault E (tick w2) = None"
    and "List.find (\<lambda>r. ur_username r = log_username body) (users (auth w2)) = Some r"
    and "phc_error E (ur_password_hash r) = None"
    and "\<not> argon2_verify E (log_password body) (ur_password_hash r)"
  shows "fst (run (perform E) (login_endpoint E W cfg req) w1) =
      fst (run (perform E) (login_endpoint E W cfg req) w2) \<and>
    fst (run (perform E) (login_endpoint E W cfg req) w2) =
      Returned (result_into_response token_json
        (Inl (user_invalid_credentials (log_username body))))"
proof -
  have none: "List.find (\<lambda>r. ur_username r = log_username body) (users (auth w1)) = None"
    using assms(4) by (simp add: find_None_iff_notin)
  have "fst (run (perform E) (login_endpoint E W cfg req) w1) =
      Returned (result_into_response token_json
        (Inl (user_invalid_credentials (log_username body))))"
    using assms(1-3) none
    by (auto simp: login_endpoint_def respond_def app_json_def login_def run_bind
        run_find_user_by_username migrated_def)
  moreover have "fst (run (perform E) (login_endpoint E W cfg req) w2) =
      Returned (result_into_response token_json
        (Inl (user_invalid_credentials (log_username body))))"
    using assms(1,5-9)
    by (auto simp: login_endpoint_def respond_def app_json_def login_def run_bind
        run_find_user_by_username migrated_def verify_password_def user_of_row_def)
  ultimately show ?thesis by simp
qed

theorem login_refusals_equal_witness:
  "fst (run (perform demo_env) (login_endpoint demo_env (demo_web\<lparr>json_login :=
        (\<lambda>r. Inr \<lparr>log_username = ''alice'', log_password = ''guess''\<rparr>)\<rparr>) demo_config
        (demo_request [])) fresh_world) =
   fst (run (perform demo_env) (login_endpoint demo_env (demo_web\<lparr>json_login :=
        (\<lambda>r. Inr \<lparr>log_username = ''alice'', log_password = ''guess''\<rparr>)\<rparr>) demo_config
        (demo_request [])) alice_world) \<and>
   rs_status (result_into_response token_json
     (Inl (user_invalid_credentials ''alice''))) = 401"
proof
  show "fst (run (perform demo_env) (login_endpoint demo_env (demo_web\<lparr>json_login :=
        (\<lambda>r. Inr \<lparr>log_username = ''alice'', log_password = ''guess''\<rparr>)\<rparr>) demo_config
        (demo_request [])) fresh_world) =
   fst (run (perform demo_env) (login_endpoint demo_env (demo_web\<lparr>json_login :=
        (\<lambda>r. Inr \<lparr>log_username = ''alice'', log_password = ''guess''\<rparr>)\<rparr>) demo_config
        (demo_request [])) alice_world)"
    by (rule conjunct1 [OF login_refusals_equal
          [of _ _ "\<lparr>log_username = ''alice'', log_password = ''guess''\<rparr>" _ _ _ alice_row]])
      (use demo_worlds_ok in \<open>simp_all add: fresh_world_def empty_auth_db_def alice_world_def
         alice_row_def\<close>)
  show "rs_status (result_into_response token_json
     (Inl (user_invalid_credentials ''alice''))) = 401"
    by (simp add: result_into_response_def user_invalid_credentials_def)
qed

section \<open>Which token opens which door\<close>

lemma auth_user_statuses:
  assumes "run (perform E) (auth_user W req) w = (out, w')" and "rq_extension req = Some cfg"
  shows "\<exists>r. out = Returned r \<and> (\<forall>e. r = Inl e \<longrightarrow> servir_status_code e = 401)"
proof -
  have "servir_status_code (token_error_of e) = 401" for e
    by (cases e) (simp_all add: error_simps)
  with assms show ?thesis
    by (cases "bearer_token W req"; cases "jwt_decode E (tick w) (cfg_secret cfg)
        (the (bearer_token W req))")
      (auto simp: auth_user_def run_bind_ok run_verify_token error_simps split: if_splits)
qed

text \<open>A request whose \<open>Authorization\<close> header is readable text of the form \<open>Bearer t\<close>.\<close>

definition bears :: "web \<Rightarrow> request \<Rightarrow> string \<Rightarrow> bool" where
  "bears W req t \<longleftrightarrow>
     (\<exists>v. rq_authorization req = Some v \<and> header_to_str W v = Some (''Bearer '' @ t))"

lemma bears_iff: "bears W req t \<longleftrightarrow> bearer_token W req = Some t"
  by (auto simp: bears_def bearer_token_def strip_prefix_Some_iff split: option.splits)

text \<open>C11: The extractor accepts a request exactly when it comes through the auth layer with a
  header of the form \<open>Bearer t\<close> whose token is accepted under the layer's secret and is of kind
  access, and then gives the claims of that token. Otherwise it refuses, with the one reason that
  applies: no layer (500), no such header, an expired token, one that does not verify, one of the
  wrong kind (401 each). It never panics, and never touches the databases.\<close>

theorem auth_user_exact:
  "\<exists>r w'. run (perform E) (auth_user W req) w = (Returned r, w') \<and>
     auth w' = auth w \<and> data w' = data w \<and>
     (\<forall>c. r = Inr c \<longleftrightarrow> (\<exists>cfg t. rq_extension req = Some cfg \<and> bears W req t \<and>
        jwt_decode E (tick w) (cfg_secret cfg) t = Inr c \<and> cl_kind c = Access)) \<and>
     (\<forall>e. r = Inl e \<longleftrightarrow>
        rq_extension req = None \<and> e = AuthTokenErr MissingLayer \<or>
        rq_extension req \<noteq> None \<and> (\<forall>t. \<not> bears W req t) \<and> e = AuthTokenErr MissingHeader \<or>
        (\<exists>cfg t. rq_extension req = Some cfg \<and> bears W req t \<and>
           (case jwt_decode E (tick w) (cfg_secret cfg) t of
              Inl ExpiredSignature \<Rightarrow> e = AuthTokenErr Expired
            | Inl (OtherJwtError m) \<Rightarrow> e = AuthTokenErr (Invalid m)
            | Inr c \<Rightarrow> cl_kind c \<noteq> Access \<and> e = AuthTokenErr WrongKind))) \<and>
     (case r of Inl e \<Rightarrow> servir_status_code e = (if rq_extension req = None then 500 else 401)
      | Inr c \<Rightarrow> True)"
proof (cases "rq_extension req")
  case None
  then show ?thesis
    by (auto simp: auth_user_def error_simps)
next
  case ext: (Some cfg)
  show ?thesis
  proof (cases "bearer_token W req")
    case None
    with ext show ?thesis
      by (auto simp: auth_user_def bears_iff error_simps)
  next
    case (Some t)
    let ?dec = "jwt_decode E (tick w) (cfg_secret cfg) t"
    have run: "run (perform E) (auth_user W req) w = (Returned (case ?dec of
        Inl ExpiredSignature \<Rightarrow> Inl (AuthTokenErr Expired)
      | Inl (OtherJwtError m) \<Rightarrow> Inl (AuthTokenErr (Invalid m))
      | Inr c \<Rightarrow> if cl_kind c = Access then Inr c else Inl (AuthTokenErr WrongKind)), advance w)"
      using ext Some
      by (simp add: auth_user_def run_bind_ok run_verify_token error_simps
          split: sum.splits jwt_error.splits)
    show ?thesis
      unfolding run using ext Some
      by (auto simp: bears_iff error_simps split: sum.splits jwt_error.splits)
  qed
qed

text \<open>An access token issued by a login opens \<open>/auth/me\<close> behind the layer with the same
  configuration, and shows the user's own identity, until its lifetime and the verifier's
  leeway of sixty seconds are over.\<close>

lemma access_token_opens_me:
  assumes "issued E cfg u w t w'" and "jwt_roundtrip E"
    and "\<And>n x. clock E n = Some x \<Longrightarrow>
      uint (start :: u64) \<le> uint x \<and> uint x + uint (cfg_access_token_ttl_secs cfg) < 2 ^ 64"
    and "clock E (tick v) = Some now"
    and "uint now \<le> uint start + uint (cfg_access_token_ttl_secs cfg) + 60"
    and "rq_authorization req = Some h"
    and "header_to_str W h = Some (''Bearer '' @ tk_access_token t)"
  shows "run (perform E) (auth_service_call cfg (me_endpoint W) req) v =
    (Returned (api_into_response me_json
      (ApiOk \<lparr>me_user_id = usr_id u, me_username = usr_username u\<rparr>)), advance v)"
proof -
  let ?ttl = "cfg_access_token_ttl_secs cfg"
  obtain now1 m where enc: "jwt_encode E (cfg_secret cfg)
      (claims_at (usr_id u) (usr_username u) now1 ?ttl (uuid E m) Access) =
        Inr (tk_access_token t)"
    and now1: "clock E (m - 1) = Some now1"
    using assms(1) unfolding issued_def by blast
  have bounds: "uint start \<le> uint now1" "uint now1 + uint ?ttl < 2 ^ 64"
    using assms(3) [OF now1] by auto
  then have "uint (now1 + ?ttl) = uint now1 + uint ?ttl"
    by (intro add_usize_exact(2))
  with bounds assms(5) have "\<not> uint (now1 + ?ttl) + 60 < uint now" by linarith
  then have "jwt_decode E (tick v) (cfg_secret cfg) (tk_access_token t) =
      Inr (claims_at (usr_id u) (usr_username u) now1 ?ttl (uuid E m) Access)"
    using assms(2,4) enc unfolding jwt_roundtrip_def by (simp add: claims_at_def)
  moreover have "bearer_token W (req\<lparr>rq_extension := Some cfg\<rparr>) = Some (tk_access_token t)"
    using assms(6,7) by (simp add: bearer_token_def strip_prefix_Some_iff)
  ultimately show ?thesis
    by (simp add: auth_service_call_def me_endpoint_def respond_def run_bind auth_user_def
        run_verify_token claims_at_def me_def api_ok_def result_into_response_def)
qed

text \<open>C10: The two kinds of token are not interchangeable: the refresh token of a pair never
  passes the extractor, and the access token neither refreshes nor logs out; the attempt is
  refused as of the wrong kind or expired, and no table changes.\<close>

theorem token_kinds_apart:
  assumes "issued E cfg u w t w'" and "jwt_roundtrip E" and "clock_runs E"
  shows "(bearer_token W req = Some (tk_refresh_token t) \<longrightarrow> rq_extension req = Some cfg \<longrightarrow>
      fst (run (perform E) (auth_user W req) v) \<in>
        {Returned (Inl token_wrong_kind), Returned (Inl token_expired)}) \<and>
    fst (run (perform E) (refresh E cfg \<lparr>ref_refresh_token = tk_access_token t\<rparr>) v) \<in>
      {Returned (Inl token_wrong_kind), Returned (Inl token_expired)} \<and>
    fst (run (perform E) (logout E cfg \<lparr>out_refresh_token = tk_access_token t\<rparr>) v) \<in>
      {Returned (Inl token_wrong_kind), Returned (Inl token_expired)} \<and>
    auth (snd (run (perform E) (refresh E cfg \<lparr>ref_refresh_token = tk_access_token t\<rparr>) v)) =
      auth v \<and>
    auth (snd (run (perform E) (logout E cfg \<lparr>out_refresh_token = tk_access_token t\<rparr>) v)) =
      auth v"
proof -
  obtain now where now: "clock E (tick v) = Some now"
    using assms(3) by (auto simp: clock_runs_def)
  obtain c d where "jwt_encode E (cfg_secret cfg) c = Inr (tk_access_token t)"
    "jwt_encode E (cfg_secret cfg) d = Inr (tk_refresh_token t)"
    and kinds: "cl_kind c = Access" "cl_kind d = Refresh"
    using assms(1) unfolding issued_def claims_at_def by fastforce
  then have dec: "jwt_decode E (tick v) (cfg_secret cfg) (tk_access_token t) \<in>
      {Inl ExpiredSignature, Inr c}"
    "jwt_decode E (tick v) (cfg_secret cfg) (tk_refresh_token t) \<in> {Inl ExpiredSignature, Inr d}"
    using assms(2) now unfolding jwt_roundtrip_def by auto
  show ?thesis
    using dec kinds
    by (intro conjI impI)
      (auto simp: auth_user_def refresh_def logout_def run_bind_ok run_verify_token)
qed

lemma alice_issued:
  "\<exists>t w'. issued demo_env demo_config (user_of_row alice_row) alice_world t w'"
proof -
  have "usr_id (user_of_row alice_row) \<in> ur_id ` set (users (auth alice_world))"
    using alice_facts(1) by (auto simp: user_of_row_def)
  then show ?thesis
    using issue_tokens_succeeds [OF demo_healthy demo_worlds_ok(4) _ demo_unused(1)] by blast
qed

theorem token_kinds_apart_witness:
  "\<exists>t w'. issued demo_env demo_config (user_of_row alice_row) alice_world t w' \<and>
     fst (run (perform demo_env) (auth_user demo_web ((demo_request [])\<lparr>rq_authorization :=
         Some (''Bearer '' @ tk_refresh_token t), rq_extension := Some demo_config\<rparr>))
         alice_world) \<in> {Returned (Inl token_wrong_kind), Returned (Inl token_expired)}"
proof -
  obtain t w' where iss: "issued demo_env demo_config (user_of_row alice_row) alice_world t w'"
    using alice_issued by blast
  let ?req = "(demo_request [])\<lparr>rq_authorization := Some (''Bearer '' @ tk_refresh_token t),
    rq_extension := Some demo_config\<rparr>"
  have "bearer_token demo_web ?req = Some (tk_refresh_token t)"
    by (simp add: bearer_token_def demo_web_def strip_prefix_Some_iff)
  moreover have "rq_extension ?req = Some demo_config"
    by simp
  ultimately have "fst (run (perform demo_env) (auth_user demo_web ?req) alice_world) \<in>
      {Returned (Inl token_wrong_kind), Returned (Inl token_expired)}"
    by (rule token_kinds_apart [OF iss demo_conditions(3,6), THEN conjunct1, THEN mp, THEN mp])
  with iss show ?thesis by blast
qed

end
