(* ===== verification/Auth_Limits.thy ===== *)
theory Auth_Limits
  imports Auth_Properties
begin

text \<open>
  The edges of the authentication operations: refused registrations, operations that stop half
  way, panics, and the range of the configured lifetimes.
\<close>

section \<open>Refused and partial registrations\<close>

text \<open>An empty username is refused with 400 before anything is done, then a password of fewer
  than eight bytes; a username that is taken is refused with 409, and the tables do not
  change.\<close>

lemma register_refusals:
  assumes "fault E (tick w + 3) = None" and "migrated w"
    and "argon2_hash E (salt E (tick w)) (reg_password body) = Inr h"
    and "clock E (tick w + 2) = Some now"
    and "uuid E (tick w + 1) \<notin> ur_id ` set (users (auth w))"
  shows "case run (perform E) (register E cfg body) w of (out, w') \<Rightarrow>
    (if reg_username body = [] then out = Returned (Inl user_empty_username) \<and> w' = w
     else if length (reg_password body) < 8 then out = Returned (Inl user_weak_password) \<and> w' = w
     else if reg_username body \<in> ur_username ` set (users (auth w)) then
       (\<exists>m. out = Returned (Inl (user_already_exists (reg_username body) m))) \<and>
       auth w' = auth w \<and> data w' = data w
     else \<exists>created. auth w' = with_user created (auth w) \<or>
       (\<exists>rt. auth w' = (with_user created (auth w))\<lparr>refresh_tokens := rt\<rparr>))"
proof (cases "reg_username body = [] \<or> length (reg_password body) < 8")
  case True
  then show ?thesis by (auto simp: register_def)
next
  case ok: False
  have ticks: "tick w + 2 = Suc (Suc (tick w))" "tick w + 3 = Suc (Suc (Suc (tick w)))"
    "tick w + 1 = Suc (tick w)" by simp_all
  show ?thesis
  proof (cases "reg_username body \<in> ur_username ` set (users (auth w))")
    case True
    have "run (perform E) (create_user E (reg_username body) h) (advance w) =
        (Returned (Inl (user_already_exists (reg_username body)
           (sql_text E (UniqueFailed ''users.username'')))), advance (advance (advance (advance w))))"
      using True assms [unfolded ticks]
      by (simp add: run_create_user after_auth_def create_user_error_def migrated_def)
    with ok True assms(3) show ?thesis
      by (auto simp: register_def run_bind_ok run_hash_password)
  next
    case False
    obtain out w' where run: "run (perform E) (register E cfg body) w = (out, w')"
      by fastforce
    let ?r = "new_user_row (uuid E (Suc (tick w))) (reg_username body) h now"
    have "run (perform E) (create_user E (reg_username body) h) (advance w) =
        (Returned (Inr (user_of_row ?r)), set_auth (with_user ?r (auth w))
           (advance (advance (advance (advance w)))))"
      using False assms [unfolded ticks]
      by (simp add: run_create_user after_auth_def migrated_def new_user_row_def user_of_row_def
          with_user_def)
    with run ok assms(3) have "run (perform E) (issue_tokens E cfg (user_of_row ?r))
        (set_auth (with_user ?r (auth w)) (advance (advance (advance (advance w))))) = (out, w')"
      by (simp add: register_def run_bind_ok run_hash_password)
    then have "auth w' = with_user ?r (auth w) \<or>
        (\<exists>rt. auth w' = (with_user ?r (auth w))\<lparr>refresh_tokens := rt\<rparr>)"
      by (auto dest!: issue_tokens_cases simp: issued_def)
    with run ok False show ?thesis by auto
  qed
qed

text \<open>Where the database fails at the last statement, no token is stored.\<close>

lemma issue_tokens_unstored:
  assumes "migrated v" and "clock_runs E" and "crypto_healthy E" and "\<not> overflow_checks E"
    and "fault E (tick v + 6) = Some m"
  shows "\<exists>w. run (perform E) (issue_tokens E cfg u) v =
      (Returned (Inl (db_store_refresh_token (usr_username u) (sql_text E (Fault m)))), w) \<and>
    auth w = auth v \<and> tick w = tick v + 7"
proof -
  define ck where "ck n = the (clock E n)" for n
  have ck: "clock E n = Some (ck n)" for n
    using assms(2) by (auto simp: clock_runs_def ck_def)
  obtain enc where enc: "\<And>s c. jwt_encode E s c = Inr (enc s c)"
    using assms(3) unfolding crypto_healthy_def by metis
  show ?thesis
    using assms(4,5)
    by (simp add: issue_tokens_def run_bind_ok run_core run_store_refresh_token ck enc
        add_usize_def add_i64_def after_auth_def eval_nat_numeral)
qed

text \<open>C29: Registration is not atomic: if the database fails when the refresh token is stored, the
  response is a server error although the user's row has been added, and repeating the request
  once the database works again is refused because the username exists.\<close>

theorem register_half_done:
  assumes "migrated w" and "clock_runs E" and "crypto_healthy E" and "\<not> overflow_checks E"
    and "\<And>n. n \<noteq> tick w + 10 \<Longrightarrow> fault E n = None" and "fault E (tick w + 10) = Some m"
    and "reg_username body \<noteq> []" and "8 \<le> length (reg_password body)"
    and "reg_username body \<notin> ur_username ` set (users (auth w))"
    and "uuids_fresh E" and "uuids_unused E w"
  shows "\<exists>w1 row e w2.
    run (perform E) (register E cfg body) w =
      (Returned (Inl (db_store_refresh_token (reg_username body) (sql_text E (Fault m)))), w1) \<and>
    auth w1 = with_user row (auth w) \<and> ur_username row = reg_username body \<and>
    run (perform E) (register E cfg body) w1 =
      (Returned (Inl (user_already_exists (reg_username body) e)), w2)"
proof -
  let ?u = "reg_username body" and ?p = "reg_password body"
  have body: "\<lparr>reg_username = ?u, reg_password = ?p\<rparr> = body"
    by simp
  have faults: "fault E (tick w + 3) = None" "fault E (tick w + 11 + 3) = None"
    using assms(5) by simp_all
  have new: "uuid E (tick w + 1) \<notin> ur_id ` set (users (auth w))"
    "uuid E (tick w + 11 + 1) \<notin> ur_id ` set (users (auth w))"
    using assms(11) by (simp_all add: uuids_unused_def)
  have tables: "1 \<le> applied (auth w)"
    using assms(1) by (simp add: migrated_def)
  obtain row where row: "run (perform E) (register E cfg body) w =
      run (perform E) (issue_tokens E cfg (user_of_row row))
        (set_auth (with_user row (auth w)) (advance (advance (advance (advance w)))))"
    "ur_id row = uuid E (tick w + 1)" "ur_username row = ?u"
    using register_creates [OF assms(2,3) faults(1) tables new(1) assms(7-9)] unfolding body by metis
  let ?v = "set_auth (with_user row (auth w)) (advance (advance (advance (advance w))))"
  have "migrated ?v" "fault E (tick ?v + 6) = Some m" "usr_username (user_of_row row) = ?u"
    using assms(1,6) row(3) by (simp_all add: migrated_def with_user_def user_of_row_def eval_nat_numeral)
  from issue_tokens_unstored [OF this(1) assms(2,3,4) this(2), of cfg "user_of_row row"] this(3)
  obtain w1 where
    w1: "run (perform E) (issue_tokens E cfg (user_of_row row)) ?v =
      (Returned (Inl (db_store_refresh_token ?u (sql_text E (Fault m)))), w1)"
    "auth w1 = with_user row (auth w)" "tick w1 = tick w + 11" by auto
  have "uuid E (tick w1 + 1) \<notin> ur_id ` set (users (auth w1))"
    using new(2) assms(10) row(2) by (auto simp: w1 with_user_def uuids_fresh_def dest: injD)
  then have "\<exists>w2 e. run (perform E) (register E cfg body) w1 =
      (Returned (Inl (user_already_exists ?u e)), w2)"
    using register_refused [OF assms(2,3), of w1 ?u ?p] assms(7,8) tables faults(2) row(3)
    by (auto simp: w1 with_user_def body)
  with row w1 show ?thesis by metis
qed

text \<open>The demonstration environment in the release profile, with one failure of the database.\<close>

definition faulty_env :: "nat \<Rightarrow> env" where
  "faulty_env k = demo_env\<lparr>overflow_checks := False,
     fault := (\<lambda>n. if n = k then Some ''disk I/O error'' else None)\<rparr>"

theorem register_half_done_witness:
  "\<exists>w1 row e w2.
    run (perform (faulty_env 10)) (register (faulty_env 10) demo_config
        \<lparr>reg_username = ''bob'', reg_password = ''hunter22''\<rparr>) alice_world =
      (Returned (Inl (db_store_refresh_token ''bob'' ''sql'')), w1) \<and>
    auth w1 = with_user row (auth alice_world) \<and> ur_username row = ''bob'' \<and>
    run (perform (faulty_env 10)) (register (faulty_env 10) demo_config
        \<lparr>reg_username = ''bob'', reg_password = ''hunter22''\<rparr>) w1 =
      (Returned (Inl (user_already_exists ''bob'' e)), w2)"
proof -
  have "migrated alice_world" "clock_runs (faulty_env 10)" "crypto_healthy (faulty_env 10)"
    "\<not> overflow_checks (faulty_env 10)" "uuids_fresh (faulty_env 10)"
    "uuids_unused (faulty_env 10) alice_world" "tick alice_world = 0"
    using demo_worlds_ok(4) demo_conditions demo_unused(1)
    by (simp_all add: faulty_env_def clock_runs_def crypto_healthy_def uuids_fresh_def
        uuids_unused_def alice_world_def)
  then show ?thesis
    using register_half_done [of alice_world "faulty_env 10" "''disk I/O error''"
        "\<lparr>reg_username = ''bob'', reg_password = ''hunter22''\<rparr>" demo_config]
    by (simp add: faulty_env_def alice_world_def alice_row_def)
qed

section \<open>Panics\<close>

definition calm :: "env \<Rightarrow> 'a task \<Rightarrow> bool" where
  "calm E p \<longleftrightarrow> (\<forall>w m. fst (run (perform E) p w) \<noteq> Panicked m)"

lemma calm_Ret: "calm E (Ret a)"
  by (simp add: calm_def)

lemma calm_bind_prog: "calm E p \<Longrightarrow> (\<And>a. calm E (f a)) \<Longrightarrow> calm E (bind_prog p f)"
  unfolding calm_def
  by (auto simp: run_bind_prog split: prod.splits outcome.splits) (metis fst_conv)+

lemma calm_bind_ok: "calm E p \<Longrightarrow> (\<And>a. calm E (f a)) \<Longrightarrow> calm E (bind_ok p f)"
  unfolding bind_ok_def by (rule calm_bind_prog) (auto simp: calm_Ret split: sum.splits)

text \<open>No addition of a lifetime to a reading of the clock overflows, or the build wraps.\<close>

definition addable :: "env \<Rightarrow> auth_config \<Rightarrow> bool" where
  "addable E cfg \<longleftrightarrow> (\<forall>n t. clock E n = Some t \<longrightarrow>
     add_usize (overflow_checks E) t (cfg_access_token_ttl_secs cfg) \<noteq> None \<and>
     add_usize (overflow_checks E) t (cfg_refresh_token_ttl_secs cfg) \<noteq> None \<and>
     add_i64 (overflow_checks E) t (cfg_refresh_token_ttl_secs cfg) \<noteq> None)"

lemma calm_reads:
  "calm E (find_user_by_username E u)" "calm E (find_user_by_id E i)"
  "calm E (delete_refresh_tokens_for_user E i)" "calm E (hash_password E p)"
  "calm E (verify_token t cfg)"
  by (simp_all add: calm_def run_repository run_core)

lemma calm_clocked:
  assumes "clock_runs E"
  shows "calm E (create_user E u h)" "calm E (consume_refresh_token E j)"
    "calm E (find_or_create_profile E i u)"
  using assms
  by (auto simp: calm_def clock_runs_def run_create_user run_consume_refresh_token
      run_find_or_create_profile simp del: exec_auth.simps exec_data.simps
      split: option.splits sum.splits)

lemma calm_issue:
  assumes "clock_runs E" and "addable E cfg"
  shows "calm E (issue_access_token E i u cfg)" "calm E (issue_refresh_token E i u cfg)"
    "calm E (store_refresh_token E j i u (cfg_refresh_token_ttl_secs cfg))"
  using assms
  by (auto simp: calm_def clock_runs_def addable_def run_core run_store_refresh_token
      split: option.splits) (metis option.distinct(1))+

lemma calm_issue_tokens: "clock_runs E \<Longrightarrow> addable E cfg \<Longrightarrow> calm E (issue_tokens E cfg u)"
  unfolding issue_tokens_def config_simps
  by (intro calm_bind_ok) (auto intro: calm_issue calm_bind_ok calm_Ret)

fun handler_configs :: "'c handler \<Rightarrow> auth_config set" where
  "handler_configs (HRegister cfg) = {cfg}"
| "handler_configs (HLogin cfg) = {cfg}"
| "handler_configs (HRefresh cfg) = {cfg}"
| "handler_configs _ = {}"

lemma calm_respond: "calm E p \<Longrightarrow> calm E (respond ser p)"
  unfolding respond_def by (auto intro: calm_bind_prog calm_Ret)

lemma calm_auth_user: "calm E (auth_user W req)"
  by (auto simp: auth_user_def split: option.splits intro!: calm_bind_ok calm_reads calm_Ret)

lemma calm_handlers:
  assumes "clock_runs E"
  shows "calm E (user_handler E c)" "calm E (logout E cfg lo)"
    "addable E cfg \<Longrightarrow> calm E (register E cfg re)"
    "addable E cfg \<Longrightarrow> calm E (login E cfg li)"
    "addable E cfg \<Longrightarrow> calm E (refresh E cfg rf)"
proof -
  show "calm E (user_handler E c)" "calm E (logout E cfg lo)"
    by (auto simp: user_handler_def logout_def
        intro!: calm_bind_ok calm_reads calm_clocked [OF assms] calm_Ret)
  assume "addable E cfg"
  then show "calm E (register E cfg re)" "calm E (login E cfg li)" "calm E (refresh E cfg rf)"
    by (auto simp: register_def login_def refresh_def split: option.splits
        intro!: calm_bind_ok calm_reads calm_clocked [OF assms] calm_Ret
          calm_issue_tokens [OF assms])
qed

lemma calm_run_handler:
  assumes "clock_runs E" and "\<And>cfg. cfg \<in> handler_configs h \<Longrightarrow> addable E cfg"
  shows "calm E (run_handler E W (run_app E W) h req)"
proof (cases h)
  case (HApp a)
  then show ?thesis
    by (cases a) (auto simp: user_endpoint_def
        intro!: calm_respond calm_bind_ok calm_auth_user calm_handlers [OF assms(1)])
qed (use assms in \<open>auto simp: register_endpoint_def login_endpoint_def refresh_endpoint_def
    logout_endpoint_def me_endpoint_def
    intro!: calm_respond calm_bind_ok calm_auth_user calm_handlers calm_Ret\<close>)

lemma demo_addable: "addable demo_env demo_config"
  by (simp add: addable_def add_usize_def add_i64_def)

lemma calm_returns: "calm E p \<Longrightarrow> \<exists>a w'. run (perform E) p w = (Returned a, w')"
  unfolding calm_def by (metis outcome.exhaust prod.collapse)

text \<open>No handler panics as long as the clock is past the epoch and the additions of the
  configured lifetimes do not overflow: every request gets a response, whatever its body and
  headers, and whatever the database and the libraries answer.\<close>

lemma handlers_do_not_panic:
  assumes "clock_runs E" and "\<And>cfg. cfg \<in> handler_configs h \<Longrightarrow> addable E cfg"
  shows "\<exists>resp w'. run (perform E) (run_handler E W (run_app E W) h req) w = (Returned resp, w')"
  using calm_run_handler [OF assms] by (rule calm_returns)

section \<open>The range of the lifetimes\<close>

lemma stored_row:
  assumes "run (perform E) (store_refresh_token E j i u ttl) w = (Returned (Inr ()), w')"
    and "clock E (tick w) = Some now"
  obtains t where "refresh_tokens (auth w') =
    refresh_tokens (auth w) @ [new_token_row j i now ttl t]"
  using store_refresh_token_cases [OF assms(1)] assms(2) by auto

text \<open>C30: A stored refresh token is live exactly during its configured lifetime, counted from
  the clock reading of the store, as long as their sum stays below \<open>2^63\<close>.\<close>

theorem lifetime_exact:
  assumes "run (perform E) (store_refresh_token E j i u ttl) w = (Returned (Inr ()), w')"
    and "clock E (tick w) = Some now" and "uint now + uint ttl < 2 ^ 63"
  shows "\<exists>row. refresh_tokens (auth w') = refresh_tokens (auth w) @ [row] \<and> tr_jti row = j \<and>
    (\<forall>later. uint later < 2 ^ 63 \<longrightarrow> live_at later row = (uint later < uint now + uint ttl))"
proof -
  obtain t where "refresh_tokens (auth w') =
      refresh_tokens (auth w) @ [new_token_row j i now ttl t]"
    using assms(1,2) by (rule stored_row)
  moreover have "live_at later (new_token_row j i now ttl t) =
      (uint later < uint now + uint ttl)" if "uint later < 2 ^ 63" for later
    using that add_i64_exact(2) [OF assms(3)] sint_of_small [of later]
    by (simp add: live_at_def new_token_row_def)
  ultimately show ?thesis
    by (intro exI [of _ "new_token_row j i now ttl t"]) (simp add: new_token_row_def)
qed

lemma demo_store:
  assumes "add_i64 True 1000 ttl = Some x" and "j \<noteq> ''J1''"
  shows "\<exists>w'. run (perform demo_env)
     (store_refresh_token demo_env j ''A1'' ''alice'' ttl) alice_world = (Returned (Inr ()), w')"
  using assms
  by (simp add: run_store_refresh_token alice_world_def alice_row_def alice_token_row_def)

theorem lifetime_exact_witness:
  "\<exists>w' row. run (perform demo_env)
       (store_refresh_token demo_env ''J2'' ''A1'' ''alice'' 604800) alice_world =
         (Returned (Inr ()), w') \<and>
     clock demo_env (tick alice_world) = Some 1000 \<and>
     refresh_tokens (auth w') = refresh_tokens (auth alice_world) @ [row] \<and>
     tr_jti row = ''J2'' \<and> live_at 605799 row \<and> \<not> live_at 605800 row"
proof -
  have "add_i64 True 1000 604800 = Some 605800"
    by (simp add: add_i64_def)
  then obtain w' where w': "run (perform demo_env)
      (store_refresh_token demo_env ''J2'' ''A1'' ''alice'' 604800) alice_world =
        (Returned (Inr ()), w')"
    using demo_store [of 604800 605800 "''J2''"] by auto
  obtain row where row: "refresh_tokens (auth w') = refresh_tokens (auth alice_world) @ [row]"
    "tr_jti row = ''J2''"
    and "\<forall>later. uint later < 2 ^ 63 \<longrightarrow>
      live_at later row = (uint later < uint (1000 :: u64) + uint (604800 :: u64))"
    using lifetime_exact [OF w', of 1000] by auto
  then have "live_at 605799 row" "\<not> live_at 605800 row" by simp_all
  with w' row show ?thesis
    by (intro exI [of _ w'] exI [of _ row]) simp
qed

text \<open>C31: A configured lifetime of \<open>2^63\<close> seconds or more is read as negative by the cast to
  \<open>i64\<close>: the token is stored already expired, and no redemption from then on finds it.\<close>

theorem oversized_lifetime_expired:
  assumes "run (perform E) (store_refresh_token E j i u ttl) w = (Returned (Inr ()), w')"
    and "clock E (tick w) = Some now" and "uint now < 2 ^ 62" and "2 ^ 63 \<le> uint ttl"
  shows "\<exists>row. refresh_tokens (auth w') = refresh_tokens (auth w) @ [row] \<and> tr_jti row = j \<and>
    (\<forall>later. uint now \<le> uint later \<longrightarrow> uint later < 2 ^ 63 \<longrightarrow> \<not> live_at later row)"
proof -
  obtain t where "refresh_tokens (auth w') =
      refresh_tokens (auth w) @ [new_token_row j i now ttl t]"
    using assms(1,2) by (rule stored_row)
  moreover have "\<not> live_at later (new_token_row j i now ttl t)"
    if "uint now \<le> uint later" "uint later < 2 ^ 63" for later
  proof -
    have s: "sint now = uint now" "sint ttl = uint ttl - 2 ^ 64" "sint later = uint later"
      using assms(3,4) that by (simp_all add: sint_of_small sint_of_large)
    have lt: "uint ttl < 2 ^ 64"
      using uint_lt2p [of ttl] by simp
    have "sint (now + ttl) = sint now + sint ttl"
      using s assms(3,4) lt
      by (simp add: sint_word_ariths(1) signed_take_bit_int_eq_self_iff)
        (use uint_ge_0 [of now] in linarith)
    with s that lt show ?thesis by (simp add: live_at_def new_token_row_def)
  qed
  ultimately show ?thesis
    by (intro exI [of _ "new_token_row j i now ttl t"]) (simp add: new_token_row_def)
qed

theorem oversized_lifetime_expired_witness:
  "\<exists>w' row. run (perform demo_env)
       (store_refresh_token demo_env ''J2'' ''A1'' ''alice'' (2 ^ 63)) alice_world =
         (Returned (Inr ()), w') \<and>
     clock demo_env (tick alice_world) = Some 1000 \<and> uint (2 ^ 63 :: u64) = 2 ^ 63 \<and>
     refresh_tokens (auth w') = refresh_tokens (auth alice_world) @ [row] \<and>
     tr_jti row = ''J2'' \<and> \<not> live_at 1000 row \<and> \<not> live_at 605800 row"
proof -
  have big: "uint (2 ^ 63 :: u64) = 2 ^ 63"
    by simp
  have "sint (2 ^ 63 :: u64) = - (2 ^ 63)"
    using sint_of_large [of "2 ^ 63"] by simp
  then have "add_i64 True 1000 (2 ^ 63) = Some (1000 + 2 ^ 63)"
    by (simp add: add_i64_def)
  then obtain w' where w': "run (perform demo_env)
      (store_refresh_token demo_env ''J2'' ''A1'' ''alice'' (2 ^ 63)) alice_world =
        (Returned (Inr ()), w')"
    using demo_store [of "2 ^ 63" _ "''J2''"] by blast
  obtain row where row: "refresh_tokens (auth w') = refresh_tokens (auth alice_world) @ [row]"
    "tr_jti row = ''J2''"
    and "\<forall>later. uint (1000 :: u64) \<le> uint later \<longrightarrow> uint later < 2 ^ 63 \<longrightarrow> \<not> live_at later row"
    using oversized_lifetime_expired [OF w', of 1000] by auto
  then have "\<not> live_at 1000 row" "\<not> live_at 605800 row" by simp_all
  with w' big row show ?thesis
    by (intro exI [of _ w'] exI [of _ row]) simp
qed

end
