(* ===== verification/Concurrency.thy ===== *)
theory Concurrency
  imports Auth_Limits
begin

text \<open>
  The running server: any number of requests in flight at once, their effects interleaved in any
  order, and futures dropped at any point. What is proved here holds in every reachable state.
\<close>

section \<open>The server as a system of tasks\<close>

type_synonym call = "app_handler handler \<times> request"

fun serve_call :: "env \<Rightarrow> web \<Rightarrow> call \<Rightarrow> response task" where
  "serve_call E W (h, req) = run_handler E W (run_app E W) h req"

section \<open>Path properties by composition\<close>

text \<open>
  \<open>path_spec I P p R\<close>: started after events that satisfy \<open>P\<close>, the program keeps \<open>I\<close> true of the
  events at every point, and when it returns \<open>x\<close> they satisfy \<open>R x\<close>.
\<close>

type_synonym event = "effect \<times> reply"

definition path_post ::
  "(event list \<Rightarrow> bool) \<Rightarrow> ('a \<Rightarrow> event list \<Rightarrow> bool) \<Rightarrow> event list \<Rightarrow> 'a option \<Rightarrow> bool" where
  "path_post I R es a = (case a of None \<Rightarrow> I es | Some x \<Rightarrow> R x es)"

definition path_spec ::
  "(event list \<Rightarrow> bool) \<Rightarrow> (event list \<Rightarrow> bool) \<Rightarrow> 'a task \<Rightarrow> ('a \<Rightarrow> event list \<Rightarrow> bool) \<Rightarrow> bool" where
  "path_spec I P p R \<longleftrightarrow> (\<forall>es. P es \<longrightarrow> every_path (path_post I R) p es)"

lemma path_post_simps [simp]:
  "path_post I R es None = I es" "path_post I R es (Some x) = R x es"
  by (simp_all add: path_post_def)

lemma spec_Ret: "(\<And>es. P es \<Longrightarrow> I es \<and> R a es) \<Longrightarrow> path_spec I P (Ret a) R"
  by (simp add: path_spec_def)

lemma spec_Panic: "(\<And>es. P es \<Longrightarrow> I es) \<Longrightarrow> path_spec I P (Panic m) R"
  by (simp add: path_spec_def)

lemma spec_Do:
  assumes "\<And>es. P es \<Longrightarrow> I es"
    and "\<And>r. path_spec I (\<lambda>es. \<exists>es0. es = es0 @ [(e, r)] \<and> P es0) (k r) R"
  shows "path_spec I P (Do e k) R"
  using assms by (auto simp: path_spec_def)

lemma spec_bind:
  assumes "path_spec I P p Q" and "\<And>a. path_spec I (Q a) (f a) R"
  shows "path_spec I P (bind_prog p f) R"
  unfolding path_spec_def
proof (intro allI impI)
  fix es
  assume "P es"
  with assms(1) have "every_path (path_post I Q) p es"
    by (simp add: path_spec_def)
  then have "every_path (\<lambda>es a. case a of None \<Rightarrow> path_post I R es None
      | Some x \<Rightarrow> every_path (path_post I R) (f x) es) p es"
    by (rule every_path_mono)
      (use assms(2) in \<open>auto simp: path_spec_def split: option.splits\<close>)
  then show "every_path (path_post I R) (bind_prog p f) es"
    by (rule every_path_bind)
qed

lemma spec_bind_ok:
  assumes "path_spec I P p Q" and "\<And>a. path_spec I (Q (Inr a)) (f a) R"
    and "\<And>e es. Q (Inl e) es \<Longrightarrow> I es \<and> R (Inl e) es"
  shows "path_spec I P (bind_ok p f) R"
  unfolding bind_ok_def
proof (rule spec_bind [OF assms(1)])
  fix a
  show "path_spec I (Q a) (case a of Inl e \<Rightarrow> err e | Inr x \<Rightarrow> f x) R"
    using assms(2,3) by (cases a) (auto intro: spec_Ret)
qed

lemma spec_weaken:
  assumes "path_spec I P p Q" and "\<And>es. P' es \<Longrightarrow> P es" and "\<And>a es. Q a es \<Longrightarrow> Q' a es"
  shows "path_spec I P' p Q'"
  unfolding path_spec_def
proof (intro allI impI)
  fix es
  assume "P' es"
  then have "every_path (path_post I Q) p es"
    using assms(1,2) by (simp add: path_spec_def)
  then show "every_path (path_post I Q') p es"
    by (rule every_path_mono) (use assms(3) in \<open>auto simp: path_post_def split: option.splits\<close>)
qed

text \<open>Events are never forgotten.\<close>

lemma events_kept:
  fixes p :: "('a, 'e, 'r) prog"
  shows "every_path (\<lambda>es' a. set es \<subseteq> set es') p es"
proof -
  have "every_path (\<lambda>es' a. A \<subseteq> set es') p es" if "A \<subseteq> set es" for A :: "('e \<times> 'r) set" and es
    using that
  proof (induction p arbitrary: es)
    case (Do e k)
    then have "every_path (\<lambda>es' a. A \<subseteq> set es') (k r) (es @ [(e, r)])" for r
      by (intro Do.IH) auto
    with Do.prems show ?case by simp
  qed simp_all
  then show ?thesis by blast
qed

lemma spec_keeps: "path_spec (\<lambda>_. True) (\<lambda>es. x \<in> set es) p (\<lambda>_ es. x \<in> set es)"
  unfolding path_spec_def
proof (intro allI impI)
  fix es
  assume "x \<in> set es"
  then show "every_path (path_post (\<lambda>_. True) (\<lambda>_ es. x \<in> set es)) p es"
    by (intro every_path_mono [OF events_kept]) (auto simp: path_post_def split: option.splits)
qed

section \<open>The refresh tokens a task stores\<close>

fun inserts_of :: "event \<Rightarrow> string list" where
  "inserts_of (AuthSql (InsertRefreshToken j i x t), r) = [j]"
| "inserts_of _ = []"

definition inserted :: "event list \<Rightarrow> string list" where
  "inserted es = concat (map inserts_of es)"

definition drawn :: "event list \<Rightarrow> string set" where
  "drawn es = {j. (GenUuid, RText j) \<in> set es}"

text \<open>At most one token is stored, under an identifier that the task itself has drawn.\<close>

definition one_insert :: "event list \<Rightarrow> bool" where
  "one_insert es \<longleftrightarrow> length (inserted es) \<le> 1 \<and> set (inserted es) \<subseteq> drawn es"

abbreviation none_yet :: "event list \<Rightarrow> bool" where
  "none_yet es \<equiv> inserted es = []"

lemma inserted_simps [simp]:
  "inserted [] = []" "inserted (es @ es') = inserted es @ inserted es'"
  "inserted (ev # es) = inserts_of ev @ inserted es"
  by (simp_all add: inserted_def)

lemma drawn_append [simp]: "drawn (es @ es') = drawn es \<union> drawn es'"
  by (auto simp: drawn_def)

lemma none_yet_one_insert: "none_yet es \<Longrightarrow> one_insert es"
  by (simp add: one_insert_def)

text \<open>A program all of whose effects are no insertions of refresh tokens.\<close>

primrec quiet :: "'a task \<Rightarrow> bool" where
  "quiet (Ret a) = True"
| "quiet (Panic m) = True"
| "quiet (Do e k) = ((\<forall>r. inserts_of (e, r) = []) \<and> (\<forall>r. quiet (k r)))"

lemma quiet_bind: "quiet p \<Longrightarrow> (\<And>a. quiet (f a)) \<Longrightarrow> quiet (bind_prog p f)"
  by (induction p) auto

lemma quiet_bind_ok: "quiet p \<Longrightarrow> (\<And>a. quiet (f a)) \<Longrightarrow> quiet (bind_ok p f)"
  unfolding bind_ok_def by (rule quiet_bind) (auto split: sum.splits)

lemma quiet_map_err: "quiet p \<Longrightarrow> quiet (map_err g p)"
  unfolding map_err_def by (rule quiet_bind) auto

lemma quiet_spec:
  assumes "quiet p"
  shows "path_spec one_insert none_yet p (\<lambda>_. none_yet)"
proof -
  have "every_path (path_post one_insert (\<lambda>_. none_yet)) p es" if "none_yet es" for es
    using assms that
    by (induction p arbitrary: es) (auto simp: none_yet_one_insert)
  then show ?thesis by (simp add: path_spec_def)
qed

lemma quiet_repository:
  "quiet (create_user E u h)" "quiet (find_user_by_username E u)" "quiet (find_user_by_id E i)"
  "quiet (consume_refresh_token E j)" "quiet (delete_refresh_tokens_for_user E i)"
  "quiet (hash_password E p)" "quiet (verify_token t cfg)" "quiet (issue_access_token E i u cfg)"
  "quiet (issue_refresh_token E i u cfg)" "quiet (find_or_create_profile E i u)"
  by (auto simp: create_user_def find_user_by_username_def find_user_by_id_def
      consume_refresh_token_def delete_refresh_tokens_for_user_def hash_password_def
      verify_token_def issue_access_token_def issue_refresh_token_def find_or_create_profile_def
      now_secs_def request_defs Let_def split: reply.splits option.splits sum.splits
      sql_result.splits intro!: quiet_bind_ok quiet_map_err)

text \<open>The one insertion: the identifier has been drawn by \<open>issue_refresh_token\<close>.\<close>

lemma map_sum_InrD: "map_sum f g s = Inr y \<Longrightarrow> \<exists>x. s = Inr x \<and> y = g x"
  by (cases s) auto

lemma issue_refresh_draws:
  "path_spec one_insert none_yet (issue_refresh_token E i u cfg)
     (\<lambda>r es. none_yet es \<and> (\<forall>t j. r = Inr (t, j) \<longrightarrow> j \<in> drawn es))"
  unfolding issue_refresh_token_def now_secs_def request_defs path_spec_def
  by (auto simp: none_yet_one_insert drawn_def Let_def split: reply.splits option.splits
      dest!: map_sum_InrD)

lemma store_inserts_once:
  "path_spec one_insert (\<lambda>es. none_yet es \<and> j \<in> drawn es)
     (store_refresh_token E j i u ttl) (\<lambda>_. one_insert)"
  unfolding store_refresh_token_def now_secs_def request_defs path_spec_def
  by (auto simp: one_insert_def map_err_def bind_ok_def
      split: reply.splits option.splits sum.splits sql_result.splits)

lemma spec_bind_quiet:
  assumes "quiet p" and "\<And>a. path_spec one_insert none_yet (f a) (\<lambda>_. one_insert)"
  shows "path_spec one_insert none_yet (bind_ok p f) (\<lambda>_. one_insert)"
  by (rule spec_bind_ok [OF quiet_spec [OF assms(1)] assms(2)])
    (simp add: none_yet_one_insert)

lemma spec_err: "path_spec one_insert none_yet (Ret a) (\<lambda>_. one_insert)"
  by (rule spec_Ret) (simp add: none_yet_one_insert)

lemma issue_tokens_inserts_once:
  "path_spec one_insert none_yet (issue_tokens E cfg u) (\<lambda>_. one_insert)"
  unfolding issue_tokens_def
proof (rule spec_bind_quiet [OF quiet_repository(8)])
  fix access
  show "path_spec one_insert none_yet
     (bind_ok (issue_refresh_token E (usr_id u) (usr_username u) cfg) (\<lambda>(refresh_token, jti).
        bind_ok (store_refresh_token E jti (usr_id u) (usr_username u)
                   (config_refresh_token_ttl_secs cfg)) (\<lambda>_.
        ok (api_ok \<lparr>tk_access_token = access, tk_refresh_token = refresh_token,
                    tk_token_type = ''Bearer''\<rparr>)))) (\<lambda>_. one_insert)"
  proof (rule spec_bind_ok [OF issue_refresh_draws])
    fix rj :: "string \<times> string"
    obtain r j where rj: "rj = (r, j)" by (cases rj)
    have "path_spec one_insert (\<lambda>es. none_yet es \<and> j \<in> drawn es)
      (bind_ok (store_refresh_token E j (usr_id u) (usr_username u)
          (config_refresh_token_ttl_secs cfg)) (\<lambda>_.
        ok (api_ok \<lparr>tk_access_token = access, tk_refresh_token = r,
                    tk_token_type = ''Bearer''\<rparr>))) (\<lambda>_. one_insert)"
      by (rule spec_bind_ok [OF store_inserts_once]) (auto intro: spec_Ret)
    then show "path_spec one_insert
        (\<lambda>es. none_yet es \<and> (\<forall>t j. (Inr rj :: servir_error + _) = Inr (t, j) \<longrightarrow> j \<in> drawn es))
        (case rj of (refresh_token, jti) \<Rightarrow>
          bind_ok (store_refresh_token E jti (usr_id u) (usr_username u)
            (config_refresh_token_ttl_secs cfg)) (\<lambda>_.
          ok (api_ok \<lparr>tk_access_token = access, tk_refresh_token = refresh_token,
                    tk_token_type = ''Bearer''\<rparr>))) (\<lambda>_. one_insert)"
      unfolding rj by (auto elim: spec_weaken)
  qed (simp add: none_yet_one_insert)
qed

lemma handlers_insert_once:
  "path_spec one_insert none_yet (register E cfg re) (\<lambda>_. one_insert)"
  "path_spec one_insert none_yet (login E cfg li) (\<lambda>_. one_insert)"
  "path_spec one_insert none_yet (refresh E cfg rf) (\<lambda>_. one_insert)"
  unfolding register_def login_def refresh_def
  by (auto split: option.splits
      intro!: spec_bind_quiet quiet_repository spec_err issue_tokens_inserts_once)

lemma quiet_handlers: "quiet (logout E cfg lo)" "quiet (auth_user W req)" "quiet (user_handler E c)"
  by (auto simp: logout_def auth_user_def user_handler_def split: option.splits
      intro!: quiet_bind_ok quiet_repository)

lemma spec_respond:
  "path_spec one_insert none_yet p (\<lambda>_. one_insert) \<Longrightarrow>
   path_spec one_insert none_yet (respond ser p) (\<lambda>_. one_insert)"
  unfolding respond_def by (erule spec_bind) (rule spec_Ret, simp)

lemma quiet_respond: "quiet p \<Longrightarrow> quiet (respond ser p)"
  unfolding respond_def by (rule quiet_bind) simp_all

lemma quiet_once:
  "quiet p \<Longrightarrow> path_spec one_insert none_yet p (\<lambda>_. one_insert)"
  by (rule spec_weaken [OF quiet_spec]) (auto simp: none_yet_one_insert)

lemma endpoints_insert_once:
  "path_spec one_insert none_yet (register_endpoint E W cfg req) (\<lambda>_. one_insert)"
  "path_spec one_insert none_yet (login_endpoint E W cfg req) (\<lambda>_. one_insert)"
  "path_spec one_insert none_yet (refresh_endpoint E W cfg req) (\<lambda>_. one_insert)"
  by (auto simp: register_endpoint_def login_endpoint_def refresh_endpoint_def
      intro!: spec_respond spec_bind_quiet handlers_insert_once)

lemma quiet_endpoints:
  "quiet (logout_endpoint E W cfg req)" "quiet (me_endpoint W req)" "quiet (user_endpoint E W req)"
  by (auto simp: logout_endpoint_def me_endpoint_def user_endpoint_def
      intro!: quiet_respond quiet_bind_ok quiet_handlers)

lemma calls_insert_once:
  "path_spec one_insert none_yet (serve_call E W c) (\<lambda>_. one_insert)"
proof (cases c)
  case (Pair h req)
  show ?thesis
  proof (cases h)
    case (HApp a)
    with Pair show ?thesis by (cases a) (simp add: quiet_once quiet_endpoints)
  qed (use Pair in \<open>simp_all add: endpoints_insert_once quiet_once quiet_endpoints\<close>)
qed

interpretation inserts_once:
  handler_property "serve_call E W" "\<lambda>_. path_post one_insert (\<lambda>_. one_insert)" for E W
  by unfold_locales (use calls_insert_once in \<open>simp add: path_spec_def\<close>)

section \<open>The token a refresh redeems\<close>

text \<open>
  A refresh that answers with 200 has decoded the presented token, and has deleted the row with
  the identifier in its claims.
\<close>

definition redeemed_by :: "auth_config \<Rightarrow> string \<Rightarrow> event list \<Rightarrow> bool" where
  "redeemed_by cfg t es \<longleftrightarrow> (\<exists>c now n.
     (JwtDecode t (cfg_secret cfg), RDecoded (Inr c)) \<in> set es \<and>
     (AuthSql (DeleteLiveRefreshToken (cl_jti c) now), RSql (Inr (Affected n))) \<in> set es \<and> 0 < n)"

lemma redeemed_mono: "redeemed_by cfg t es \<Longrightarrow> set es \<subseteq> set es' \<Longrightarrow> redeemed_by cfg t es'"
  unfolding redeemed_by_def by blast

lemma redeemed_kept:
  "path_spec (\<lambda>_. True) (redeemed_by cfg t) p (\<lambda>_. redeemed_by cfg t)"
  unfolding path_spec_def
proof (intro allI impI)
  fix es
  assume "redeemed_by cfg t es"
  then show "every_path (path_post (\<lambda>_. True) (\<lambda>_. redeemed_by cfg t)) p es"
    by (intro every_path_mono [OF events_kept])
      (auto simp: path_post_def split: option.splits intro: redeemed_mono)
qed

lemma verify_decodes:
  "path_spec (\<lambda>_. True) (\<lambda>_. True) (verify_token t cfg)
     (\<lambda>r es. \<forall>c. r = Inr c \<longrightarrow> (JwtDecode t (cfg_secret cfg), RDecoded (Inr c)) \<in> set es)"
  unfolding verify_token_def request_defs path_spec_def
  by (auto split: reply.splits dest!: map_sum_InrD)

lemma consume_deletes:
  "path_spec (\<lambda>_. True) (\<lambda>es. (JwtDecode t (cfg_secret cfg), RDecoded (Inr c)) \<in> set es)
     (consume_refresh_token E (cl_jti c))
     (\<lambda>r es. (r = Inr True \<longrightarrow> redeemed_by cfg t es))"
  unfolding consume_refresh_token_def now_secs_def request_defs path_spec_def redeemed_by_def
  by (auto simp: map_err_def bind_ok_def
      split: reply.splits option.splits sum.splits sql_result.splits)

lemma refresh_redeems:
  "path_spec (\<lambda>_. True) (\<lambda>_. True) (refresh E cfg body)
     (\<lambda>r es. \<forall>x. r = Inr x \<longrightarrow> redeemed_by cfg (ref_refresh_token body) es)"
  unfolding refresh_def
proof (rule spec_bind_ok [OF verify_decodes], goal_cases)
  case (1 c)
  show ?case
  proof (cases "claims_kind c = Refresh")
    case False
    then show ?thesis by (auto intro: spec_Ret)
  next
    case True
    have "path_spec (\<lambda>_. True)
       (\<lambda>es. (JwtDecode (ref_refresh_token body) (cfg_secret cfg), RDecoded (Inr c)) \<in> set es)
       (bind_ok (consume_refresh_token E (cl_jti c)) (\<lambda>valid.
          if \<not> valid then err token_invalid_refresh_token
          else bind_ok (find_user_by_id E (claims_sub c)) (\<lambda>found.
            case found of None \<Rightarrow> err (token_user_not_found (claims_sub c))
            | Some user \<Rightarrow> issue_tokens E cfg user)))
       (\<lambda>r es. \<forall>x. r = Inr x \<longrightarrow> redeemed_by cfg (ref_refresh_token body) es)"
    proof (rule spec_bind_ok [OF consume_deletes], goal_cases)
      case (1 valid)
      show ?case
      proof (cases valid)
        case True
        then show ?thesis
          by (auto intro: spec_weaken [OF redeemed_kept])
      qed (auto intro: spec_Ret)
    qed simp
    with True show ?thesis by (auto elim: spec_weaken)
  qed
qed simp

definition redeem_post :: "web \<Rightarrow> call \<Rightarrow> event list \<Rightarrow> response option \<Rightarrow> bool" where
  "redeem_post W q es a \<longleftrightarrow> (\<forall>resp cfg req body. a = Some resp \<longrightarrow> q = (HRefresh cfg, req) \<longrightarrow>
     json_refresh W req = Inr body \<longrightarrow> rs_status resp = 200 \<longrightarrow>
     redeemed_by cfg (ref_refresh_token body) es)"

lemma every_path_True: "every_path (\<lambda>es a. True) p es"
  by (induction p arbitrary: es) auto

lemma refresh_endpoint_redeems:
  assumes "json_refresh W req = Inr body"
  shows "path_spec (\<lambda>_. True) (\<lambda>_. True) (refresh_endpoint E W cfg req)
    (\<lambda>resp es. rs_status resp = 200 \<longrightarrow> redeemed_by cfg (ref_refresh_token body) es)"
  unfolding refresh_endpoint_def respond_def
proof (rule spec_bind)
  show "path_spec (\<lambda>_. True) (\<lambda>_. True)
      (bind_ok (Ret (app_json (json_refresh W) req)) (refresh E cfg))
      (\<lambda>r es. \<forall>x. r = Inr x \<longrightarrow> redeemed_by cfg (ref_refresh_token body) es)"
    using assms refresh_redeems by (simp add: app_json_def)
  fix r :: "servir_error + token_response api_response"
  show "path_spec (\<lambda>_. True)
      (\<lambda>es. \<forall>x. r = Inr x \<longrightarrow> redeemed_by cfg (ref_refresh_token body) es)
      (Ret (result_into_response token_json r))
      (\<lambda>resp es. rs_status resp = 200 \<longrightarrow> redeemed_by cfg (ref_refresh_token body) es)"
    by (rule spec_Ret)
      (cases r; simp add: result_into_response_def servir_info.status_not_ok)
qed

interpretation redeems: handler_property "serve_call E W" "redeem_post W" for E W
proof unfold_locales
  fix q :: call
  show "every_path (redeem_post W q) (serve_call E W q) []"
  proof (cases "\<exists>cfg req body. q = (HRefresh cfg, req) \<and> json_refresh W req = Inr body")
    case True
    then obtain cfg req body where q: "q = (HRefresh cfg, req)"
      and body: "json_refresh W req = Inr body" by blast
    have "every_path (path_post (\<lambda>_. True)
        (\<lambda>resp es. rs_status resp = 200 \<longrightarrow> redeemed_by cfg (ref_refresh_token body) es))
        (refresh_endpoint E W cfg req) []"
      using refresh_endpoint_redeems [OF body] by (simp add: path_spec_def)
    then show ?thesis
      unfolding q by simp (erule every_path_mono,
        auto simp: redeem_post_def path_post_def body split: option.splits)
  next
    case False
    show ?thesis
      by (rule every_path_mono [OF every_path_True]) (use False in \<open>auto simp: redeem_post_def\<close>)
  qed
qed

section \<open>Accounting for a token\<close>

text \<open>
  Over any stretch of the history: how often the row of \<open>j\<close> was inserted, and how often a
  redemption deleted it.
\<close>

fun insert_of :: "string \<Rightarrow> event \<Rightarrow> bool" where
  "insert_of j (AuthSql (InsertRefreshToken j' i x t), RSql (Inr r)) = (j' = j)"
| "insert_of j _ = False"

fun redeem_of :: "string \<Rightarrow> event \<Rightarrow> bool" where
  "redeem_of j (AuthSql (DeleteLiveRefreshToken j' now), RSql (Inr (Affected n))) =
     (j' = j \<and> 0 < n)"
| "redeem_of j _ = False"

definition occurrences :: "(event \<Rightarrow> bool) \<Rightarrow> (nat \<times> event) list \<Rightarrow> nat" where
  "occurrences P h = length (filter (\<lambda>(i, ev). P ev) h)"

definition stored :: "string \<Rightarrow> auth_db \<Rightarrow> nat" where
  "stored j d = (if j \<in> tr_jti ` set (refresh_tokens d) then 1 else 0)"

lemma occurrences_simps [simp]:
  "occurrences P [] = 0"
  "occurrences P (h @ h') = occurrences P h + occurrences P h'"
  "occurrences P ((i, ev) # h) = (if P ev then 1 else 0) + occurrences P h"
  by (simp_all add: occurrences_def)

lemma exec_balance:
  assumes "exec_auth st d = (r, d')" and "auth_db_ok d"
  shows "(if redeem_of j (AuthSql st, RSql r) then 1 else 0) + stored j d' \<le>
    (if insert_of j (AuthSql st, RSql r) then 1 else 0) + stored j d"
proof (cases st)
  case (DeleteLiveRefreshToken j' now)
  have "x = y" if "x \<in> set (refresh_tokens d)" "y \<in> set (refresh_tokens d)"
    "tr_jti x = tr_jti y" for x y
    using assms(2) that by (auto simp: auth_db_ok_def distinct_map dest: inj_onD)
  with DeleteLiveRefreshToken assms(1) show ?thesis
    by (auto simp: stored_def Let_def filter_empty_conv image_iff split: if_splits) blast+
qed (use assms in \<open>auto simp: stored_def Let_def split: if_splits\<close>)

lemma perform_balance:
  assumes "perform E e w = (r, w')" and "auth_db_ok (auth w)"
  shows "(if redeem_of j (e, r) then 1 else 0) + stored j (auth w') \<le>
    (if insert_of j (e, r) then 1 else 0) + stored j (auth w)"
proof (cases e)
  case (AuthSql st)
  show ?thesis
  proof (cases "fault E (tick w)")
    case None
    with AuthSql assms(1) have "exec_auth st (auth w) = (projsql, auth w')" "r = RSql projsql"
      if "projsql = fst (exec_auth st (auth w))" for projsql
      using that by (auto simp: perform_auth_def split: prod.splits)
    with exec_balance [OF _ assms(2)] AuthSql show ?thesis by metis
  next
    case (Some m)
    with AuthSql assms(1) show ?thesis
      by (cases st) (auto simp: perform_auth_def)
  qed
qed (use assms in \<open>auto simp: stored_def perform_data_def migrate_auth_db_def
      split: option.splits prod.splits\<close>)

lemma perform_auth_ok: "perform E e w = (r, w') \<Longrightarrow> auth_db_ok (auth w) \<Longrightarrow> auth_db_ok (auth w')"
  using perform_auth_db [of E e w r w'] exec_auth_ok [of "auth w" _ _ "auth w'"] by auto

lemma sys_move_cases:
  assumes "sys_move (perform E) handler m s = Some t"
  shows "(history t = history s \<and> shared t = shared s \<and> length (tasks s) \<le> length (tasks t)) \<or>
    (\<exists>i e r. i < length (tasks s) \<and> history t = history s @ [(i, e, r)] \<and>
       perform E e (shared s) = (r, shared t) \<and> length (tasks t) = length (tasks s))"
  using assms
  by (auto simp: sys_move_def split: move.splits if_splits prod.splits prog.splits)

lemma moves_balance:
  assumes "sys_moves (perform E) handler ms s = Some t" and "auth_db_ok (auth (shared s))"
  shows "\<exists>h. history t = history s @ h \<and> auth_db_ok (auth (shared t)) \<and>
    occurrences (redeem_of j) h + stored j (auth (shared t)) \<le>
    occurrences (insert_of j) h + stored j (auth (shared s))"
  using assms
proof (induction ms arbitrary: s)
  case Nil
  then show ?case by simp
next
  case (Cons m ms)
  then obtain s1 where step: "sys_move (perform E) handler m s = Some s1"
    and rest: "sys_moves (perform E) handler ms s1 = Some t"
    by (auto split: option.splits)
  from sys_move_cases [OF step] show ?case
  proof (elim disjE conjE exE)
    assume "history s1 = history s" "shared s1 = shared s"
    with Cons.IH [OF rest] Cons.prems(2) show ?thesis by simp
  next
    fix i e r
    assume h: "history s1 = history s @ [(i, e, r)]"
      and p: "perform E e (shared s) = (r, shared s1)"
    have ok: "auth_db_ok (auth (shared s1))"
      using perform_auth_ok [OF p] Cons.prems(2) by simp
    from Cons.IH [OF rest ok] obtain h' where h': "history t = history s1 @ h'"
      "auth_db_ok (auth (shared t))"
      and le: "occurrences (redeem_of j) h' + stored j (auth (shared t)) \<le>
        occurrences (insert_of j) h' + stored j (auth (shared s1))" by auto
    show ?thesis
      by (intro exI [of _ "(i, e, r) # h'"])
        (use h h' le perform_balance [OF p Cons.prems(2), of j] in auto)
  qed
qed

lemma integrity_reachable:
  "sys_reachable (perform E) handler w0 s \<Longrightarrow> auth_db_ok (auth w0) \<Longrightarrow> auth_db_ok (auth (shared s))"
  by (induction rule: sys_reachable.induct) (auto simp: sys_init_def dest: perform_auth_ok)

lemma token_rows_unique:
  "auth_db_ok d \<Longrightarrow> r \<in> set (refresh_tokens d) \<Longrightarrow> r' \<in> set (refresh_tokens d) \<Longrightarrow>
   tr_jti r = tr_jti r' \<Longrightarrow> r = r'"
  by (auto simp: auth_db_ok_def distinct_map dest: inj_onD)

text \<open>The events of the history are replies of the environment, one moment after the other.\<close>

lemma history_replies:
  assumes "sys_reachable (perform E) handler w0 s"
  shows "tick (shared s) = tick w0 + length (history s) \<and>
    (\<forall>p < length (history s). \<exists>w. tick w = tick w0 + p \<and>
       fst (perform E (fst (snd (history s ! p))) w) = snd (snd (history s ! p)))"
  using assms
proof (induction rule: sys_reachable.induct)
  case start
  then show ?case by (simp add: sys_init_def)
next
  case (progress s i q e k r w')
  then show ?case
    using perform_tick [of E e "shared s" r w']
    by (auto simp: nth_append less_Suc_eq intro!: exI [of _ "shared s"])
qed simp_all

lemma history_uuid:
  assumes "sys_reachable (perform E) handler w0 s" and "(i, GenUuid, RText j) \<in> set (history s)"
  shows "\<exists>p < length (history s). history s ! p = (i, GenUuid, RText j) \<and>
    j = uuid E (tick w0 + p)"
proof -
  obtain p where p: "p < length (history s)" "history s ! p = (i, GenUuid, RText j)"
    using assms(2) by (auto simp: in_set_conv_nth)
  with history_replies [OF assms(1)] obtain w where "tick w = tick w0 + p"
    "fst (perform E GenUuid w) = RText j" by fastforce
  with p show ?thesis by auto
qed

text \<open>An identifier is drawn by one task only.\<close>

lemma uuid_task_unique:
  assumes "sys_reachable (perform E) handler w0 s" and "uuids_fresh E"
    and "(i, GenUuid, RText j) \<in> set (history s)" and "(k, GenUuid, RText j) \<in> set (history s)"
  shows "i = k"
proof -
  obtain p where p: "history s ! p = (i, GenUuid, RText j)" "j = uuid E (tick w0 + p)"
    using history_uuid [OF assms(1,3)] by blast
  obtain p' where p': "history s ! p' = (k, GenUuid, RText j)" "j = uuid E (tick w0 + p')"
    using history_uuid [OF assms(1,4)] by blast
  have "uuid E (tick w0 + p) = uuid E (tick w0 + p')"
    using p(2) p'(2) by simp
  then have "p = p'"
    using assms(2) by (auto simp: uuids_fresh_def dest: injD)
  with p(1) p'(1) show ?thesis by simp
qed

lemma history_reply:
  assumes "sys_reachable (perform E) handler w0 s" and "(i, e, r) \<in> set (history s)"
  shows "\<exists>w. fst (perform E e w) = r"
proof -
  obtain p where "p < length (history s)" "history s ! p = (i, e, r)"
    using assms(2) by (auto simp: in_set_conv_nth)
  with history_replies [OF assms(1)] show ?thesis by (metis fst_conv snd_conv)
qed

lemma task_events_set: "(ev \<in> set (task_events i h)) = ((i, ev) \<in> set h)"
  by (force simp: task_events_def)

lemma task_index:
  assumes "sys_reachable (perform E) (serve_call E W) w0 s" and "(i, ev) \<in> set (history s)"
  shows "i < length (tasks s)"
  using inserts_once.task_path [OF assms(1)] assms(2) by fastforce

lemma insert_drawn:
  assumes "sys_reachable (perform E) (serve_call E W) w0 s"
    and "(i, ev) \<in> set (history s)" and "insert_of j ev"
  shows "(i, GenUuid, RText j) \<in> set (history s)"
proof -
  have "one_insert (task_events i (history s))"
    using inserts_once.task_so_far [OF assms(1) task_index [OF assms(1,2)]] by simp
  moreover have "j \<in> set (inserted (task_events i (history s)))"
    using assms(2,3) unfolding inserted_def
    by (cases ev; cases "fst ev") (force simp: task_events_set [symmetric]
        elim: insert_of.elims(2))+
  ultimately show ?thesis
    by (auto simp: one_insert_def drawn_def task_events_set)
qed

lemma insert_of_inserts: "insert_of j ev \<Longrightarrow> inserts_of ev = [j]"
  by (cases "(j, ev)" rule: insert_of.cases) auto

lemma filter_inserts: "length (filter (insert_of j) es) \<le> length (inserted es)"
  by (induction es) (auto dest: insert_of_inserts)

lemma inserts_at_most_once:
  assumes "sys_reachable (perform E) (serve_call E W) w0 s" and "uuids_fresh E"
    and "uuids_unused E w0"
  shows "occurrences (insert_of j) (history s) + stored j (auth w0) \<le> 1"
proof (cases "\<exists>i ev. (i, ev) \<in> set (history s) \<and> insert_of j ev")
  case False
  then have "occurrences (insert_of j) (history s) = 0"
    by (auto simp: occurrences_def filter_empty_conv)
  then show ?thesis by (simp add: stored_def)
next
  case True
  then obtain i ev where ev: "(i, ev) \<in> set (history s)" "insert_of j ev" by blast
  have drawn: "(i, GenUuid, RText j) \<in> set (history s)"
    using insert_drawn [OF assms(1) ev] .
  obtain p where "j = uuid E (tick w0 + p)"
    using history_uuid [OF assms(1) drawn] by blast
  then have fresh: "stored j (auth w0) = 0"
    using assms(3) by (simp add: stored_def uuids_unused_def)
  have "fst x = i" if "x \<in> set (history s)" "insert_of j (snd x)" for x
    using uuid_task_unique [OF assms(1,2) _ drawn] insert_drawn [OF assms(1), of "fst x" "snd x" j]
      that by simp
  then have "filter (\<lambda>(k, ev). insert_of j ev) (history s) =
      filter (\<lambda>(k, ev). insert_of j ev) (filter (\<lambda>x. fst x = i) (history s))"
    by (auto simp: filter_filter intro!: filter_cong)
  also have "length \<dots> = length (filter (insert_of j) (task_events i (history s)))"
    by (simp add: task_events_def filter_map comp_def case_prod_unfold)
  finally have "occurrences (insert_of j) (history s) \<le> length (inserted (task_events i (history s)))"
    using filter_inserts [of j "task_events i (history s)"] by (simp add: occurrences_def)
  also have "\<dots> \<le> 1"
    using inserts_once.task_so_far [OF assms(1) task_index [OF assms(1) ev(1)]]
    by (simp add: one_insert_def)
  finally show ?thesis using fresh by simp
qed

lemma redeems_at_most_once:
  assumes "sys_reachable (perform E) (serve_call E W) w0 s" and "uuids_fresh E"
    and "uuids_unused E w0" and "auth_db_ok (auth w0)"
  shows "occurrences (redeem_of j) (history s) + stored j (auth (shared s)) \<le> 1"
proof -
  obtain ms where "sys_moves (perform E) (serve_call E W) ms (sys_init w0) = Some s"
    using reachable_moves [OF assms(1)] by blast
  from moves_balance [OF this, of j] assms(4)
  have "occurrences (redeem_of j) (history s) + stored j (auth (shared s)) \<le>
      occurrences (insert_of j) (history s) + stored j (auth w0)"
    by (auto simp: sys_init_def)
  with inserts_at_most_once [OF assms(1-3), of j] show ?thesis by linarith
qed

text \<open>A refresh task that has answered with 200 leaves its redemption in the history.\<close>

lemma refresh_redeemed:
  assumes "sys_reachable (perform E) (serve_call E W) w0 s" and "i < length (tasks s)"
    and "tasks s ! i = ((HRefresh cfg, req), Ret resp)" and "json_refresh W req = Inr body"
    and "rs_status resp = 200"
  obtains c n ev where "jwt_decode E n (cfg_secret cfg) (ref_refresh_token body) = Inr c"
    and "(i, ev) \<in> set (history s)" and "redeem_of (cl_jti c) ev"
proof -
  have "redeemed_by cfg (ref_refresh_token body) (task_events i (history s))"
    using redeems.task_done [OF assms(1-3)] assms(4,5) by (simp add: redeem_post_def)
  then obtain c now k where
    dec: "(i, JwtDecode (ref_refresh_token body) (cfg_secret cfg), RDecoded (Inr c))
      \<in> set (history s)"
    and del: "(i, AuthSql (DeleteLiveRefreshToken (cl_jti c) now), RSql (Inr (Affected k)))
      \<in> set (history s)" "0 < k"
    by (auto simp: redeemed_by_def task_events_set)
  obtain w where
    "fst (perform E (JwtDecode (ref_refresh_token body) (cfg_secret cfg)) w) = RDecoded (Inr c)"
    using history_reply [OF assms(1) dec] by blast
  then have "jwt_decode E (tick w) (cfg_secret cfg) (ref_refresh_token body) = Inr c" by simp
  with del show thesis
    by (intro that [of "tick w" c
        "(AuthSql (DeleteLiveRefreshToken (cl_jti c) now), RSql (Inr (Affected k)))"]) auto
qed

text \<open>C1: A refresh token can be used once. However many requests are in flight, in whatever
  order their effects happen and whichever of them are dropped, no two refresh requests that
  present the same token are both answered with 200.\<close>

theorem refresh_token_single_use:
  assumes "sys_reachable (perform E) (serve_call E W) w0 s"
    and "uuids_fresh E" and "jwt_stable E" and "uuids_unused E w0" and "auth_db_ok (auth w0)"
    and "i < length (tasks s)" and "k < length (tasks s)" and "i \<noteq> k"
    and "tasks s ! i = ((HRefresh cfg, req), Ret resp)"
    and "tasks s ! k = ((HRefresh cfg, req'), Ret resp')"
    and "json_refresh W req = Inr body" and "json_refresh W req' = Inr body'"
    and "ref_refresh_token body = ref_refresh_token body'"
  shows "\<not> (rs_status resp = 200 \<and> rs_status resp' = 200)"
proof
  assume both: "rs_status resp = 200 \<and> rs_status resp' = 200"
  obtain c n ev where c: "jwt_decode E n (cfg_secret cfg) (ref_refresh_token body) = Inr c"
    and ev: "(i, ev) \<in> set (history s)" "redeem_of (cl_jti c) ev"
    using refresh_redeemed [OF assms(1,6,9,11)] both by blast
  obtain c' n' ev' where c': "jwt_decode E n' (cfg_secret cfg) (ref_refresh_token body') = Inr c'"
    and ev': "(k, ev') \<in> set (history s)" "redeem_of (cl_jti c') ev'"
    using refresh_redeemed [OF assms(1,7,10,12)] both by blast
  have "c = c'"
    using c c' assms(3,13) unfolding jwt_stable_def by metis
  then have "{(i, ev), (k, ev')} \<subseteq> set (filter (\<lambda>(i, ev). redeem_of (cl_jti c) ev) (history s))"
    using ev ev' by auto
  then have "card {(i, ev), (k, ev')} \<le> occurrences (redeem_of (cl_jti c)) (history s)"
    unfolding occurrences_def by (meson List.finite_set card_length card_mono le_trans)
  with assms(8) have "2 \<le> occurrences (redeem_of (cl_jti c)) (history s)" by simp
  with redeems_at_most_once [OF assms(1,2,4,5), of "cl_jti c"] show False by simp
qed

text \<open>Two refreshes of alice's token, one after the other.\<close>

definition refresh_call :: call where
  "refresh_call = (HRefresh demo_config, demo_request (alice_token Refresh))"

definition logout_call :: call where
  "logout_call = (HLogout demo_config, demo_request (alice_token Refresh))"

lemma demo_web_bodies [simp]:
  "json_refresh demo_web req = Inr \<lparr>ref_refresh_token = rq_body req\<rparr>"
  "json_logout demo_web req = Inr \<lparr>out_refresh_token = rq_body req\<rparr>"
  "rq_body (demo_request b) = b"
  by (simp_all add: demo_web_def demo_request_def)

lemma alice_refreshes:
  "\<exists>resp w'. run (perform demo_env) (serve_call demo_env demo_web refresh_call) alice_world =
     (Returned resp, w') \<and> rs_status resp = 200"
proof -
  let ?body = "\<lparr>ref_refresh_token = alice_token Refresh\<rparr>"
  have "presents demo_env demo_config (ref_refresh_token ?body) alice_world (alice_claims Refresh)"
    by (simp add: alice_presents)
  moreover have "live_at 1000 alice_token_row" "tr_jti alice_token_row = cl_jti (alice_claims Refresh)"
    "ur_id alice_row = cl_sub (alice_claims Refresh)"
    by (simp_all add: live_at_def alice_facts alice_claims_def)
  moreover have "clock demo_env (Suc (tick alice_world)) = Some 1000"
    by simp
  ultimately obtain t w' where "run (perform demo_env) (refresh demo_env demo_config ?body)
      alice_world = (Returned (Inr (ApiOk t)), w')"
    using refresh_rotates [OF demo_healthy demo_worlds_ok(4) demo_unused(1) alice_facts(9)
        _ alice_facts(5) _ _ _ alice_facts(1)] by blast
  then show ?thesis
    by (simp add: refresh_call_def refresh_endpoint_def respond_def run_bind app_json_def
        result_into_response_def api_into_response_def)
qed

theorem refresh_token_single_use_witness:
  "\<exists>s resp resp'. sys_reachable (perform demo_env) (serve_call demo_env demo_web) alice_world s \<and>
     tasks s = [(refresh_call, Ret resp), (refresh_call, Ret resp')] \<and>
     rs_status resp = 200 \<and> rs_status resp' \<noteq> 200"
proof -
  obtain resp w1 where first: "run (perform demo_env) (serve_call demo_env demo_web refresh_call)
      alice_world = (Returned resp, w1)" and ok: "rs_status resp = 200"
    using alice_refreshes by blast
  obtain ms s where s: "sys_moves (perform demo_env) (serve_call demo_env demo_web) ms
      (sys_init alice_world) = Some s" "tasks s = [(refresh_call, Ret resp)]" "shared s = w1"
    using sys_moves_run [where s = "sys_init alice_world" and q = refresh_call, of "perform demo_env"
        "serve_call demo_env demo_web" resp w1] first by (auto simp: sys_init_def)
  have "calm demo_env (serve_call demo_env demo_web refresh_call)"
    using calm_run_handler [OF demo_conditions(6), of "HRefresh demo_config"]
    by (simp add: refresh_call_def demo_addable)
  then obtain resp' w2 where second: "run (perform demo_env)
      (serve_call demo_env demo_web refresh_call) w1 = (Returned resp', w2)"
    using calm_returns by blast
  obtain ms' t where t: "sys_moves (perform demo_env) (serve_call demo_env demo_web) ms' s = Some t"
      "tasks t = [(refresh_call, Ret resp), (refresh_call, Ret resp')]"
    using sys_moves_run [where s = s and q = refresh_call, of "perform demo_env"
        "serve_call demo_env demo_web" resp' w2] second s by auto
  have reach: "sys_reachable (perform demo_env) (serve_call demo_env demo_web) alice_world t"
    using sys_moves_reachable [OF sys_moves_reachable [OF sys_reachable.start s(1)] t(1)] .
  have "\<not> (rs_status resp = 200 \<and> rs_status resp' = 200)"
    by (rule refresh_token_single_use [OF reach demo_conditions(1,2) demo_unused(1) alice_facts(9),
          of 0 1 demo_config "demo_request (alice_token Refresh)" _
          "demo_request (alice_token Refresh)"])
      (auto simp: t refresh_call_def)
  with ok reach t show ?thesis by blast
qed

section \<open>Logging out\<close>

text \<open>C2: Once a logout has deleted the refresh tokens of a user, none of the tokens stored until
  then is good for anything: every later request to refresh with one of them is refused,
  however it interleaves with others.\<close>

theorem logout_revokes:
  assumes "sys_reachable (perform E) (serve_call E W) w0 s"
    and "uuids_fresh E" and "jwt_stable E" and "uuids_unused E w0" and "auth_db_ok (auth w0)"
    and "sys_move (perform E) (serve_call E W) (Progress k) s = Some s'"
    and "history s' = history s @ [(k, AuthSql (DeleteRefreshTokensOf u), RSql (Inr x))]"
    and "row \<in> set (refresh_tokens (auth (shared s)))" and "tr_user_id row = u"
    and "sys_moves (perform E) (serve_call E W) ms s' = Some t"
    and "length (tasks s) \<le> m" and "m < length (tasks t)"
    and "tasks t ! m = ((HRefresh cfg, req), Ret resp)" and "json_refresh W req = Inr body"
    and "jwt_decode E n (cfg_secret cfg) (ref_refresh_token body) = Inr c"
    and "cl_jti c = tr_jti row"
  shows "rs_status resp \<noteq> 200"
proof
  assume "rs_status resp = 200"
  let ?j = "tr_jti row"
  have reach': "sys_reachable (perform E) (serve_call E W) w0 s'"
    using assms(1,6) by (rule sys_move_reachable)
  have reach: "sys_reachable (perform E) (serve_call E W) w0 t"
    using reach' assms(10) by (rule sys_moves_reachable)
  have step: "perform E (AuthSql (DeleteRefreshTokensOf u)) (shared s) = (RSql (Inr x), shared s')"
    and len: "length (tasks s') = length (tasks s)"
    using sys_move_cases [OF assms(6)] assms(7) by auto
  then have "refresh_tokens (auth (shared s')) =
      filter (\<lambda>r. tr_user_id r \<noteq> u) (refresh_tokens (auth (shared s)))"
    by (auto simp: perform_auth_def split: option.splits if_splits dest!: sym [of _ "shared s'"])
  then have gone: "stored ?j (auth (shared s')) = 0"
    using assms(8,9) token_rows_unique [OF integrity_reachable [OF assms(1,5)], of row]
    by (auto simp: stored_def)
  obtain ms0 where "sys_moves (perform E) (serve_call E W) ms0 (sys_init w0) = Some s"
    using reachable_moves [OF assms(1)] by blast
  from moves_balance [OF this, of ?j] assms(5)
  have "stored ?j (auth (shared s)) \<le>
      occurrences (insert_of ?j) (history s) + stored ?j (auth w0)"
    by (auto simp: sys_init_def)
  moreover have "stored ?j (auth (shared s)) = 1"
    using assms(8) by (simp add: stored_def)
  moreover obtain h where h: "history t = history s' @ h"
    and le: "occurrences (redeem_of ?j) h + stored ?j (auth (shared t)) \<le>
      occurrences (insert_of ?j) h + stored ?j (auth (shared s'))"
    using moves_balance [OF assms(10) integrity_reachable [OF reach' assms(5)]] by blast
  moreover have "occurrences (insert_of ?j) (history t) + stored ?j (auth w0) \<le> 1"
    using inserts_at_most_once [OF reach assms(2,4)] .
  ultimately have none: "occurrences (redeem_of ?j) h = 0"
    using gone assms(7) by simp
  obtain c' n' ev where c': "jwt_decode E n' (cfg_secret cfg) (ref_refresh_token body) = Inr c'"
    and ev: "(m, ev) \<in> set (history t)" "redeem_of (cl_jti c') ev"
    using refresh_redeemed [OF reach assms(12,13,14)] \<open>rs_status resp = 200\<close> by blast
  have "c' = c"
    using c' assms(3,15) unfolding jwt_stable_def by metis
  moreover have "(m, ev) \<notin> set (history s')"
    using task_index [OF reach'] assms(11) len by fastforce
  ultimately have "(m, ev) \<in> set (filter (\<lambda>(i, ev). redeem_of ?j ev) h)"
    using ev h assms(16) by auto
  with none show False
    by (auto simp: occurrences_def filter_empty_conv)
qed

lemma demo_call_programs:
  "serve_call demo_env demo_web refresh_call =
     respond token_json (refresh demo_env demo_config \<lparr>ref_refresh_token = alice_token Refresh\<rparr>)"
  "serve_call demo_env demo_web logout_call =
     respond unit_json (logout demo_env demo_config \<lparr>out_refresh_token = alice_token Refresh\<rparr>)"
  by (simp_all add: refresh_call_def refresh_endpoint_def logout_call_def logout_endpoint_def
      app_json_def)

lemmas stepwise = sys_init_def sys_move_def demo_call_programs respond_def logout_def refresh_def
  verify_token_def consume_refresh_token_def now_secs_def delete_refresh_tokens_for_user_def
  request_defs alice_world_def alice_claims_def perform_auth_def alice_token_row_def
  alice_row_def find_user_by_id_def issue_tokens_def issue_access_token_def
  issue_refresh_token_def store_refresh_token_def user_of_row_def Let_def demo_encode_def
  add_usize_def add_i64_def

lemma logout_then_refresh:
  "\<exists>s s' t resp x. sys_moves (perform demo_env) (serve_call demo_env demo_web)
       [Arrive logout_call, Progress 0] (sys_init alice_world) = Some s \<and>
     sys_move (perform demo_env) (serve_call demo_env demo_web) (Progress 0) s = Some s' \<and>
     history s' = history s @ [(0, AuthSql (DeleteRefreshTokensOf ''A1''), RSql (Inr x))] \<and>
     alice_token_row \<in> set (refresh_tokens (auth (shared s))) \<and> length (tasks s) = 1 \<and>
     sys_moves (perform demo_env) (serve_call demo_env demo_web)
       [Arrive refresh_call, Progress 1, Progress 1, Progress 1] s' = Some t \<and>
     length (tasks t) = 2 \<and> tasks t ! 1 = (refresh_call, Ret resp)"
  by (simp add: stepwise)

theorem logout_revokes_witness:
  "\<exists>s' t resp. sys_moves (perform demo_env) (serve_call demo_env demo_web)
       [Arrive logout_call, Progress 0, Progress 0] (sys_init alice_world) = Some s' \<and>
     sys_moves (perform demo_env) (serve_call demo_env demo_web)
       [Arrive refresh_call, Progress 1, Progress 1, Progress 1] s' = Some t \<and>
     tasks t ! 1 = (refresh_call, Ret resp) \<and> rs_status resp \<noteq> 200"
proof -
  obtain s s' t resp x where
    s: "sys_moves (perform demo_env) (serve_call demo_env demo_web)
       [Arrive logout_call, Progress 0] (sys_init alice_world) = Some s" and
    s': "sys_move (perform demo_env) (serve_call demo_env demo_web) (Progress 0) s = Some s'" and
    h: "history s' = history s @ [(0, AuthSql (DeleteRefreshTokensOf ''A1''), RSql (Inr x))]" and
    row: "alice_token_row \<in> set (refresh_tokens (auth (shared s)))" "length (tasks s) = 1" and
    t: "sys_moves (perform demo_env) (serve_call demo_env demo_web)
       [Arrive refresh_call, Progress 1, Progress 1, Progress 1] s' = Some t"
      "length (tasks t) = 2" "tasks t ! 1 = (refresh_call, Ret resp)"
    using logout_then_refresh by blast
  have reach: "sys_reachable (perform demo_env) (serve_call demo_env demo_web) alice_world s"
    using sys_moves_reachable [OF sys_reachable.start s] .
  have "rs_status resp \<noteq> 200"
    by (rule logout_revokes [OF reach demo_conditions(1,2) demo_unused(1) alice_facts(9) s' h row(1)
          _ t(1), of 1 demo_config "demo_request (alice_token Refresh)" resp
          "\<lparr>ref_refresh_token = alice_token Refresh\<rparr>" 0 "alice_claims Refresh"])
      (use t row in \<open>simp_all add: refresh_call_def alice_facts, simp add: alice_claims_def\<close>)
  moreover have "sys_moves (perform demo_env) (serve_call demo_env demo_web)
      [Arrive logout_call, Progress 0, Progress 0] (sys_init alice_world) = Some s'"
    using sys_moves_append [of "perform demo_env" "serve_call demo_env demo_web"
        "[Arrive logout_call, Progress 0]" "[Progress 0]" "sys_init alice_world"] s s' by simp
  ultimately show ?thesis using t by blast
qed

end
