(* ===== verification/Server_Properties.thy ===== *)
theory Server_Properties
  imports Concurrency
begin

text \<open>
  The properties of the assembled server and of the example application: the signing secret,
  the builder, the table of routes, and the profile store.
\<close>

section \<open>The signing secret\<close>

definition secret_is :: "string \<Rightarrow> world \<Rightarrow> bool" where
  "secret_is s w \<longleftrightarrow> 3 \<le> applied (auth w) \<and>
     map_option cr_value (List.find (\<lambda>r. cr_key r = ''signing_secret'') (config_rows (auth w))) =
       Some s"

lemma secret_unique: "secret_is s w \<Longrightarrow> secret_is s' w \<Longrightarrow> s = s'"
  by (auto simp: secret_is_def)

lemma secret_step:
  assumes "secret_is s w" and "perform E e w = (r, w')"
  shows "secret_is s w'"
  using perform_auth_db [OF assms(2)]
proof (elim disjE exE conjE)
  assume "auth w' = auth w"
  with assms(1) show ?thesis by (simp add: secret_is_def)
next
  assume "auth w' = migrate_auth_db (auth w)"
  with assms(1) show ?thesis by (simp add: secret_is_def migrate_auth_db_def)
next
  fix st v
  assume ex: "exec_auth st (auth w) = (v, auth w')"
  obtain new where "config_rows (auth w') = config_rows (auth w) @ new"
    using exec_auth_config [OF ex] by blast
  with assms(1) exec_auth_applied [OF ex] show ?thesis
    by (auto simp: secret_is_def find_append split: option.splits)
qed

interpretation secret: shared_invariant "perform E" "secret_is s" for E s
  by unfold_locales (rule secret_step)

lemma load_secret_run:
  assumes "secret_is s w" and "fault E (tick w) = None"
  shows "run (perform E) (load_or_generate_secret E) w = (Returned (Inr s), advance w)"
  using assms
  by (auto simp: load_or_generate_secret_def run_bind run_select_secret secret_is_def
      after_auth_def)

lemma load_secret_stored:
  assumes "run (perform E) (load_or_generate_secret E) w = (Returned (Inr s), w')"
  shows "secret_is s w'"
proof -
  let ?find = "List.find (\<lambda>r. cr_key r = ''signing_secret'') (config_rows (auth w))"
  have ap: "3 \<le> applied (auth w)" and ok: "fault E (tick w) = None"
    using assms by (auto simp: load_or_generate_secret_def run_bind run_select_secret
        sql_outcome_def split: option.splits if_splits)
  show ?thesis
  proof (cases ?find)
    case (Some r)
    with assms ap ok show ?thesis
      by (auto simp: load_or_generate_secret_def run_bind run_select_secret after_auth_def
          secret_is_def)
  next
    case None
    then have "''signing_secret'' \<notin> cr_key ` set (config_rows (auth w))"
      by (simp add: find_None_iff_notin)
    with assms ap ok None show ?thesis
      by (cases "fault E (Suc (Suc (tick w)))")
        (auto simp: load_or_generate_secret_def run_bind run_select_secret after_auth_def
          run_random_requests run_affects Let_def secret_is_def find_append split: option.splits)
  qed
qed

text \<open>The signing secret, once loaded or generated, is the one that every later start finds,
  whatever the server and its clients have done in between.\<close>

lemma signing_secret_persists:
  assumes "run (perform E) (load_or_generate_secret E) w = (Returned (Inr s), w1)"
    and "run (perform E) p w1 = (out, w2)" and "fault E (tick w2) = None"
  shows "run (perform E) (load_or_generate_secret E) w2 = (Returned (Inr s), advance w2)"
  using load_secret_run [OF secret.inv_run [OF load_secret_stored [OF assms(1)] assms(2)] assms(3)] .

section \<open>The builder\<close>

lemma run_fetch_int_Returned:
  "\<exists>v. run (perform E) (fetch_int (AuthSql SelectAuthVersion)) w =
     (Returned v, after_auth E SelectAuthVersion w)"
  by (auto simp: fetch_int_def perform_auth_def after_auth_def advance_def set_auth_def
      split: option.splits)

lemma run_fetch_data_int_Returned:
  "\<exists>v. run (perform E) (fetch_int (DataSql SelectDataVersion)) w =
     (Returned v, after_data E SelectDataVersion w)"
  by (auto simp: fetch_int_def perform_data_def after_data_def advance_def set_data_def
      split: option.splits)

lemma run_migrate_auth:
  "run (perform E) (migrate_auth E) w =
     (case fault E (tick w) of
        Some m \<Rightarrow> (Returned (Inl (db_migration (sql_text E (Fault m)))), advance w)
      | None \<Rightarrow> (Returned (Inr ()), set_auth (migrate_auth_db (auth w)) (advance (advance w))))"
proof -
  let ?w1 = "set_auth (migrate_auth_db (auth w)) (advance w)"
  obtain v where "run (perform E) (fetch_int (AuthSql SelectAuthVersion)) ?w1 =
      (Returned v, after_auth E SelectAuthVersion ?w1)"
    using run_fetch_int_Returned by blast
  moreover have "after_auth E SelectAuthVersion ?w1 =
      set_auth (migrate_auth_db (auth w)) (advance (advance w))"
    by (simp add: after_auth_def)
  ultimately show ?thesis
    by (auto simp: migrate_auth_def run_bind run_perform_done split: option.splits)
qed

lemma run_db_connect:
  "run (perform E) (db_connect E url) w =
     (case url_error E url of
        Some m \<Rightarrow> (Returned (Inl (db_connection url m)), w)
      | None \<Rightarrow> (Returned (case fault E (tick w) of
            Some m \<Rightarrow> Inl (db_connection url (sql_text E (Fault m))) | None \<Rightarrow> Inr ()), advance w))"
  by (auto simp: db_connect_def run_bind run_perform_done split: option.splits)

lemma map_sum_InlD: "map_sum f g s = Inl y \<Longrightarrow> \<exists>x. s = Inl x \<and> y = f x"
  by (cases s) auto

lemma run_load_secret_cases:
  assumes "run (perform E) (load_or_generate_secret E) w = (out, w')"
  shows "(\<exists>s. out = Returned (Inr s) \<and> secret_is s w') \<or>
    (\<exists>op m. out = Returned (Inl (db_unknown op m))) \<or> out = Panicked ''getrandom fill''"
proof (cases out)
  case (Returned r)
  show ?thesis
  proof (cases r)
    case (Inl e)
    with Returned assms show ?thesis
      by (cases "sql_outcome (fault E (tick w)) text_of (fst (exec_auth SelectSigningSecret (auth w)))")
        (auto simp: load_or_generate_secret_def run_bind run_select_secret run_random_requests
          run_affects Let_def simp del: exec_auth.simps dest!: map_sum_InlD
          split: option.splits sum.splits prod.splits outcome.splits)
  next
    case (Inr s)
    with Returned assms load_secret_stored [of E w s w'] show ?thesis by auto
  qed
next
  case (Panicked m)
  with assms show ?thesis
    by (auto simp: load_or_generate_secret_def run_bind run_select_secret run_random_requests
        run_affects Let_def simp del: exec_auth.simps
        split: option.splits sum.splits prod.splits outcome.splits)
qed

text \<open>
  The configuration that a builder's settings and a secret amount to: the secret itself, and the
  lifetimes set or else fifteen minutes and seven days.
\<close>

definition configured :: "'c server_builder \<Rightarrow> string \<Rightarrow> auth_config" where
  "configured b secret =
     \<lparr>cfg_secret = secret,
      cfg_access_token_ttl_secs =
        (case sb_access_token_ttl_secs b of None \<Rightarrow> 15 * 60 | Some t \<Rightarrow> t),
      cfg_refresh_token_ttl_secs =
        (case sb_refresh_token_ttl_secs b of None \<Rightarrow> 7 * 24 * 60 * 60 | Some t \<Rightarrow> t)\<rparr>"

lemma build_config_configured: "build_config b secret = configured b secret"
  by (simp add: build_config_def configured_def config_with_defaults_def Let_def
      split: option.splits)

lemma build_outcomes_lemma:
  "case run (perform E) (build E b) w of
     (Returned (Inr sv), w') \<Rightarrow> (\<exists>api url a secret.
        sb_routes b = Some api \<and> sb_auth_database_url b = Some url \<and> sb_addr b = Some a \<and>
        secret_is secret w' \<and> sv = servir_new (build_router api (build_config b secret)) a)
   | (Returned (Inl e), w') \<Rightarrow> (\<exists>d. e = Db d) \<and> sb_routes b \<noteq> None \<and> sb_auth_database_url b \<noteq> None
   | (Panicked m, w') \<Rightarrow>
       sb_routes b = None \<and> m = routes_message \<and> auth w' = auth w \<and> data w' = data w \<or>
       sb_routes b \<noteq> None \<and> sb_auth_database_url b = None \<and> m = database_message \<and>
         auth w' = auth w \<and> data w' = data w \<or>
       m = ''getrandom fill'' \<or>
       sb_routes b \<noteq> None \<and> sb_auth_database_url b \<noteq> None \<and> sb_addr b = None \<and>
         m = addr_message \<and> (\<exists>secret. secret_is secret w')"
proof (cases "sb_routes b")
  case None
  then show ?thesis
    by (simp add: build_def run_bind_prog run_init_tracing)
next
  case api: (Some api)
  show ?thesis
  proof (cases "sb_auth_database_url b")
    case None
    with api show ?thesis
      by (simp add: build_def run_bind_prog run_init_tracing)
  next
    case url: (Some url)
    define rest where "rest = bind_ok (load_or_generate_secret E) (\<lambda>secret.
         let router = build_router api (build_config b secret) in
         case sb_addr b of None \<Rightarrow> Panic addr_message | Some a \<Rightarrow> ok (servir_new router a))"
    define w1 where "w1 = snd (run (perform E) (init_tracing E (build_service_name b)) w)"
    have build: "run (perform E) (build E b) w =
        run (perform E) (bind_ok (db_connect E url) (\<lambda>_. bind_ok (migrate_auth E) (\<lambda>_. rest))) w1"
      by (simp add: build_def api url rest_def w1_def run_bind_prog run_init_tracing)
    have rest: "case run (perform E) rest v of
       (Returned (Inr sv), w') \<Rightarrow> (\<exists>a secret. sb_addr b = Some a \<and> secret_is secret w' \<and>
          sv = servir_new (build_router api (build_config b secret)) a)
     | (Returned (Inl e), w') \<Rightarrow> (\<exists>d. e = Db d)
     | (Panicked m, w') \<Rightarrow> m = ''getrandom fill'' \<or>
         sb_addr b = None \<and> m = addr_message \<and> (\<exists>secret. secret_is secret w')" for v
    proof (cases "run (perform E) (load_or_generate_secret E) v")
      case (Pair out v')
      from run_load_secret_cases [OF Pair] Pair show ?thesis
        by (elim disjE exE conjE)
          (auto simp: rest_def run_bind_ok Let_def db_unknown_def split: option.splits)
    qed
    define v where "v = set_auth (migrate_auth_db (auth w1)) (advance (advance (advance w1)))"
    consider (early) w' d where "run (perform E) (build E b) w = (Returned (Inl (Db d)), w')"
      | (late) "run (perform E) (build E b) w = run (perform E) rest v"
      by (cases "url_error E url"; cases "fault E (tick w1)"; cases "fault E (Suc (tick w1))")
        (auto simp: build run_bind_ok run_db_connect run_migrate_auth db_connection_def
          db_migration_def v_def)
    then show ?thesis
    proof cases
      case early
      with api url show ?thesis by simp
    next
      case late
      with rest [of v] api url show ?thesis
        by (auto split: prod.splits outcome.splits sum.splits)
    qed
  qed
qed

text \<open>The effects of \<open>build\<close>.\<close>

lemma performs_only_build:
  assumes "\<And>s. P (TryInit s)" and "\<And>u. P (ConnectDb u)" and "P MigrateAuth"
    and "P (AuthSql SelectAuthVersion)" and "P (AuthSql SelectSigningSecret)"
    and "P (FillRandom 32)" and "\<And>v. P (AuthSql (InsertSigningSecret v))"
  shows "performs_only P (build E b)"
  unfolding build_def db_connect_def migrate_auth_def load_or_generate_secret_def Let_def
  using assms
  by (auto simp: performs_only_requests performs_only_init_tracing
      intro!: performs_only_combinators performs_only_fill_random split: option.splits)

text \<open>C23: \<open>build\<close> returns a server only when routes, database URL and address are set; the server
  then has that address, and its router is assembled from the given routes under the
  configuration that holds the stored secret and the lifetimes of the settings. It panics when a setting is missing: for routes and
  database URL before anything is done, for the address only at the end. Any error it returns
  is a database error.\<close>

theorem build_outcomes:
  "case run (perform E) (build E b) w of
     (Returned (Inr sv), w') \<Rightarrow> (\<exists>api url a secret.
        sb_routes b = Some api \<and> sb_auth_database_url b = Some url \<and> sb_addr b = Some a \<and>
        secret_is secret w' \<and> sv = servir_new (build_router api (configured b secret)) a)
   | (Returned (Inl e), w') \<Rightarrow> (\<exists>d. e = Db d) \<and> sb_routes b \<noteq> None \<and> sb_auth_database_url b \<noteq> None
   | (Panicked m, w') \<Rightarrow>
       sb_routes b = None \<and> m = routes_message \<and> auth w' = auth w \<and> data w' = data w \<or>
       sb_routes b \<noteq> None \<and> sb_auth_database_url b = None \<and> m = database_message \<and>
         auth w' = auth w \<and> data w' = data w \<or>
       m = ''getrandom fill'' \<or>
       sb_routes b \<noteq> None \<and> sb_auth_database_url b \<noteq> None \<and> sb_addr b = None \<and>
         m = addr_message \<and> (\<exists>secret. secret_is secret w')"
  by (rule build_outcomes_lemma [unfolded build_config_configured])

lemma build_secret:
  assumes "run (perform E) (build E b) w = (Returned (Inr sv), w')"
  shows "\<exists>api a secret. secret_is secret w' \<and>
    sv = servir_new (build_router api (build_config b secret)) a \<and> sb_routes b = Some api"
  using build_outcomes_lemma [where E = E and b = b and w = w] assms by auto

text \<open>What makes \<open>build\<close> fail when its settings are made.\<close>

lemma load_secret_fails:
  assumes "run (perform E) (load_or_generate_secret E) w = (out, w')" and "3 \<le> applied (auth w)"
  shows "case out of
      Returned (Inr s) \<Rightarrow> True
    | Returned (Inl e) \<Rightarrow> \<exists>n m. fault E n = Some m
    | Panicked m \<Rightarrow> \<exists>n. random_bytes E n 32 = None"
proof (cases "\<exists>n m. fault E n = Some m")
  case True
  with assms show ?thesis
    by (auto simp: load_or_generate_secret_def run_bind run_select_secret run_random_requests
        run_affects Let_def simp del: exec_auth.simps
        split: option.splits sum.splits prod.splits outcome.splits)
next
  case False
  then have fault: "fault E n = None" for n
    by (metis not_None_eq)
  show ?thesis
  proof (cases "List.find (\<lambda>r. cr_key r = ''signing_secret'') (config_rows (auth w))")
    case None
    then have "''signing_secret'' \<notin> cr_key ` set (config_rows (auth w))"
      by (simp add: find_None_iff_notin)
    with None assms show ?thesis
      by (auto simp: load_or_generate_secret_def run_bind run_select_secret run_random_requests
          run_affects Let_def after_auth_def fault split: option.splits)
  next
    case (Some r)
    with assms show ?thesis
      by (auto simp: load_or_generate_secret_def run_bind run_select_secret after_auth_def fault)
  qed
qed

lemma build_fails:
  assumes "run (perform E) (build E b) w = (out, w')" and "sb_routes b = Some api"
    and "sb_auth_database_url b = Some url" and "sb_addr b = Some a"
  shows "case out of
      Returned (Inr sv) \<Rightarrow> 3 \<le> applied (auth w')
    | Returned (Inl e) \<Rightarrow> (\<exists>m. url_error E url = Some m) \<or> (\<exists>n m. fault E n = Some m)
    | Panicked m \<Rightarrow> m = ''getrandom fill'' \<and> (\<exists>n. random_bytes E n 32 = None)"
proof -
  define w1 where "w1 = snd (run (perform E) (init_tracing E (build_service_name b)) w)"
  define v where "v = set_auth (migrate_auth_db (auth w1)) (advance (advance (advance w1)))"
  define rest where "rest = bind_ok (load_or_generate_secret E) (\<lambda>secret.
    (ok (servir_new (build_router api (build_config b secret)) a) :: (servir_error + 'a servir) task))"
  have build: "run (perform E) (build E b) w =
      run (perform E) (bind_ok (db_connect E url) (\<lambda>_. bind_ok (migrate_auth E) (\<lambda>_. rest))) w1"
    using assms(2-4) by (simp add: build_def rest_def w1_def run_bind_prog run_init_tracing)
  consider (url) m where "url_error E url = Some m" "\<exists>e. out = Returned (Inl e)"
    | (early) n m where "fault E n = Some m" "\<exists>e. out = Returned (Inl e)"
    | (late) "run (perform E) rest v = (out, w')"
    using assms(1)
    by (cases "url_error E url"; cases "fault E (tick w1)"; cases "fault E (Suc (tick w1))")
      (auto simp: build run_bind_ok run_db_connect run_migrate_auth v_def)
  then show ?thesis
  proof cases
    case late
    obtain out2 v' where load: "run (perform E) (load_or_generate_secret E) v = (out2, v')"
      by fastforce
    have "3 \<le> applied (auth v)"
      by (simp add: v_def migrate_auth_db_def)
    from load_secret_fails [OF load this] run_load_secret_cases [OF load] late load show ?thesis
      by (auto simp: rest_def run_bind_ok secret_is_def split: outcome.splits sum.splits)
  qed (auto)
qed

text \<open>A server that is built again on the same database, after any activity and with any
  settings, signs and verifies with the same secret.\<close>

lemma restart_keeps_secret:
  assumes "run (perform E) (build E b) w = (Returned (Inr sv), w1)"
    and "run (perform E) p w1 = (out, w2)"
    and "run (perform E) (build E b') w2 = (Returned (Inr sv'), w3)"
  shows "\<exists>secret api api' a a'.
    sv = servir_new (build_router api (build_config b secret)) a \<and>
    sv' = servir_new (build_router api' (build_config b' secret)) a'"
proof -
  obtain api a secret where s: "secret_is secret w1"
    "sv = servir_new (build_router api (build_config b secret)) a"
    using build_secret [OF assms(1)] by blast
  obtain api' a' secret' where s': "secret_is secret' w3"
    "sv' = servir_new (build_router api' (build_config b' secret')) a'"
    using build_secret [OF assms(3)] by blast
  have "secret_is secret w3"
    using secret.inv_run [OF secret.inv_run [OF s(1) assms(2)] assms(3)] .
  with s' have "secret = secret'"
    by (blast intro: secret_unique)
  with s(2) s'(2) show ?thesis by blast
qed

definition demo_builder :: "app_handler server_builder" where
  "demo_builder = set_routes app_routes (set_auth_database_url ''sqlite://auth.db''
     (set_addr ([0, 0, 0, 0], 3000) servir_builder))"

text \<open>With every setting made and nothing failing, \<open>build\<close> returns a server.\<close>

lemma build_succeeds:
  assumes fault: "\<And>n. fault E n = None" and random: "\<And>n. random_bytes E n 32 \<noteq> None"
    and "sb_routes b = Some api" and "sb_auth_database_url b = Some url" and "sb_addr b = Some a"
    and "url_error E url = None"
  shows "\<exists>sv w'. run (perform E) (build E b) w = (Returned (Inr sv), w')"
proof -
  define w0 where "w0 = snd (run (perform E) (init_tracing E (build_service_name b)) w)"
  define v where "v = set_auth (migrate_auth_db (auth w0)) (advance (advance (advance w0)))"
  have ap: "3 \<le> applied (auth v)"
    by (simp add: v_def migrate_auth_db_def)
  have "\<exists>s v'. run (perform E) (load_or_generate_secret E) v = (Returned (Inr s), v')"
  proof (cases "List.find (\<lambda>r. cr_key r = ''signing_secret'') (config_rows (auth v))")
    case None
    then have "''signing_secret'' \<notin> cr_key ` set (config_rows (auth v))"
      by (simp add: find_None_iff_notin)
    with None ap random [of "Suc (tick v)"] show ?thesis
      by (auto simp: load_or_generate_secret_def run_bind run_select_secret run_random_requests
          run_affects Let_def after_auth_def fault)
  next
    case (Some r)
    with ap show ?thesis
      by (simp add: load_or_generate_secret_def run_bind run_select_secret after_auth_def fault)
  qed
  then obtain s v' where "run (perform E) (load_or_generate_secret E) v =
      (Returned (Inr s), v')" by blast
  then show ?thesis
    unfolding build_def run_bind_prog
    by (simp add: run_init_tracing v_def w0_def)
      (simp add: assms run_bind_ok run_db_connect run_migrate_auth Let_def)
qed

lemma demo_builder_simps:
  "sb_routes demo_builder = Some app_routes" "sb_auth_database_url demo_builder = Some ''sqlite://auth.db''"
  "sb_addr demo_builder = Some ([0, 0, 0, 0], 3000)" "sb_access_token_ttl_secs demo_builder = None"
  "sb_refresh_token_ttl_secs demo_builder = None"
  by (simp_all add: demo_builder_def servir_builder_def set_routes_def set_addr_def
      set_auth_database_url_def)

lemma demo_build:
  "\<exists>sv w'. run (perform demo_env) (build demo_env demo_builder) w = (Returned (Inr sv), w')"
  by (rule build_succeeds [OF _ _ demo_builder_simps(1-3)]) simp_all

section \<open>Routes\<close>

lemma through_layers_extension:
  "AuthLayer cfg \<in> set ls \<Longrightarrow>
   \<exists>cfg'. through_layers ls inner req = inner (req\<lparr>rq_extension := Some cfg'\<rparr>)"
proof (induction ls arbitrary: req)
  case Nil
  then show ?case by simp
next
  case (Cons l ls)
  show ?case
  proof (cases "AuthLayer cfg \<in> set ls")
    case True
    show ?thesis
    proof (cases l)
      case (AuthLayer c)
      with Cons.IH [OF True, of "req\<lparr>rq_extension := Some c\<rparr>"] show ?thesis
        by (simp add: auth_service_call_def)
    qed (use Cons.IH [OF True, of req] in simp_all)
  next
    case False
    have plain: "\<exists>cfg'. through_layers ls inner (req\<lparr>rq_extension := Some c\<rparr>) =
        inner (req\<lparr>rq_extension := Some cfg'\<rparr>)" for c
    proof (induction ls arbitrary: c)
      case (Cons l ls)
      then show ?case by (cases l) (simp_all add: auth_service_call_def)
    qed auto
    from False Cons.prems have "l = AuthLayer cfg" by auto
    with plain show ?thesis by (simp add: auth_service_call_def)
  qed
qed

text \<open>On an assembled server the identity route never reports a missing layer: whatever the
  request carries, the response is 200 or 401.\<close>

lemma me_never_misses_layer:
  assumes "(p, m, ls, HMe) \<in> set (routes_of (build_router api cfg))"
  shows "\<exists>resp w'. run (perform E) (through_layers ls (run_handler E W app HMe) req) w =
      (Returned resp, w') \<and> rs_status resp \<in> {200, 401}"
proof -
  have "AuthLayer cfg \<in> set ls"
    using assms by (auto simp: build_router_def standard_middleware_def mount_auth_routes_def
        Let_def)
  then obtain cfg' where layers: "through_layers ls (run_handler E W app HMe) req =
      me_endpoint W (req\<lparr>rq_extension := Some cfg'\<rparr>)"
    using through_layers_extension [of cfg ls "run_handler E W app HMe" req] by auto
  let ?req = "req\<lparr>rq_extension := Some cfg'\<rparr>"
  have ext: "rq_extension ?req = Some cfg'" by simp
  obtain out w' where out: "run (perform E) (auth_user W ?req) w = (out, w')"
    by fastforce
  from auth_user_statuses [OF out] ext show ?thesis
    unfolding layers
    by (auto simp: me_endpoint_def respond_def run_bind out me_def api_ok_def
        result_into_response_def api_into_response_def split: sum.splits)
qed

section \<open>Serving\<close>

lemma serve_reports_first_failure:
  "servir_serve N s =
     (case net_bind N (sv_addr s) of
        Inl e \<Rightarrow> Inl (Io e)
      | Inr l \<Rightarrow> (case net_local_addr N l of
          Inl e \<Rightarrow> Inl (Io e)
        | Inr a \<Rightarrow> (case net_serve N l (sv_router s) of Inl e \<Rightarrow> Inl (Io e) | Inr u \<Rightarrow> Inr u)))"
  by (simp add: servir_serve_def serve_router_def servir_from_io_def split: sum.splits)

end
