(* ===== verification/Consumer_Properties.thy ===== *)
theory Consumer_Properties
  imports Server_Properties
begin

text \<open>
  The properties of the example application of \<open>consumer/\<close>: its profiles, its route, and its
  start.
\<close>

section \<open>Profiles\<close>

definition profile_is :: "user_profile \<Rightarrow> world \<Rightarrow> bool" where
  "profile_is p w \<longleftrightarrow> 1 \<le> data_applied (data w) \<and>
     map_option (\<lambda>r. (pr_id r, pr_username r, pr_created_at r))
       (List.find (\<lambda>r. pr_id r = prof_id p) (profiles (data w))) =
     Some (prof_id p, prof_username p, prof_created_at p)"

lemma exec_data_keeps:
  "exec_data st d = (r, d') \<Longrightarrow>
   data_applied d' = data_applied d \<and> (\<exists>new. profiles d' = profiles d @ new)"
  by (cases st) (auto split: if_splits)

lemma perform_data_db:
  assumes "perform E e w = (r, w')"
  shows "(data_applied (data w) \<le> data_applied (data w')) \<and>
    (\<exists>new. profiles (data w') = profiles (data w) @ new)"
proof (cases e)
  case (DataSql st)
  obtain v d where ex: "exec_data st (data w) = (v, d)"
    by fastforce
  with DataSql assms exec_data_keeps [OF ex] show ?thesis
    by (auto simp: perform_data_def split: option.splits)
qed (use assms in \<open>auto simp: perform_auth_def migrate_data_db_def
      split: option.splits prod.splits\<close>)

lemma profile_step: "profile_is p w \<Longrightarrow> perform E e w = (r, w') \<Longrightarrow> profile_is p w'"
  using perform_data_db [of E e w r w']
  by (auto simp: profile_is_def find_append split: option.splits)

interpretation profile: shared_invariant "perform E" "profile_is p" for E p
  by unfold_locales (rule profile_step)

lemma profile_found:
  assumes "profile_is p w" and "fault E (tick w) = None"
  shows "run (perform E) (find_or_create_profile E (prof_id p) u) w =
    (Returned (Inr p), advance w)"
  using assms by (auto simp: run_find_or_create_profile profile_is_def)

lemma profile_stored:
  assumes "run (perform E) (find_or_create_profile E i u) w = (Returned (Inr p), w')"
  shows "profile_is p w' \<and> prof_id p = i \<and> auth w' = auth w"
proof -
  let ?find = "List.find (\<lambda>r. pr_id r = i) (profiles (data w))"
  have ok: "fault E (tick w) = None" "0 < data_applied (data w)"
    using assms by (auto simp: run_find_or_create_profile sql_outcome_def
        split: option.splits if_splits)
  show ?thesis
  proof (cases ?find)
    case (Some r)
    with find_key [OF Some] assms ok show ?thesis
      by (auto simp: run_find_or_create_profile profile_is_def)
  next
    case None
    then have "i \<notin> pr_id ` set (profiles (data w))"
      by (simp add: find_None_iff_notin)
    with assms ok None show ?thesis
      by (cases "fault E (Suc (Suc (tick w)))")
        (auto simp: run_find_or_create_profile after_data_def profile_is_def find_append
          split: option.splits)
  qed
qed

text \<open>A profile is created once: whatever happens afterwards, the same identifier gives the
  same profile, with the username of the first access, also when the username has changed.\<close>

lemma profile_created_once:
  assumes "run (perform E) (find_or_create_profile E i u) w = (Returned (Inr p), w1)"
    and "run (perform E) q w1 = (out, w2)" and "fault E (tick w2) = None"
  shows "run (perform E) (find_or_create_profile E i u') w2 = (Returned (Inr p), advance w2)"
  using profile_found [OF profile.inv_run [OF conjunct1 [OF profile_stored [OF assms(1)]]
        assms(2)] assms(3)] profile_stored [OF assms(1)] by simp

text \<open>The user route on every run: the subject of the token, the stored username.\<close>

lemma user_route_sound:
  "case run (perform E) (user_handler E c) w of
     (Returned (Inr (ApiOk r)), w') \<Rightarrow>
       ures_id r = cl_sub c \<and> auth w' = auth w \<and>
       (\<exists>p. profile_is p w' \<and> prof_id p = cl_sub c \<and> prof_username p = ures_username r)
   | (Returned (Inr (ApiError b)), w') \<Rightarrow> False
   | (Returned (Inl e), w') \<Rightarrow> auth w' = auth w \<and> servir_error_id e = ''DB_UNKNOWN''
   | (Panicked m, w') \<Rightarrow> auth w' = auth w"
proof (cases "run (perform E) (find_or_create_profile E (cl_sub c) (cl_username c)) w")
  case (Pair out w')
  have err: "auth w' = auth w \<and> (\<forall>e. out = Returned (Inl e) \<longrightarrow> servir_error_id e = ''DB_UNKNOWN'')"
    using Pair
    by (auto simp: run_find_or_create_profile after_data_def db_unknown_def
        simp del: exec_data.simps dest!: map_sum_InlD split: option.splits sum.splits if_splits)
  show ?thesis
  proof (cases out)
    case (Returned r)
    then show ?thesis
    proof (cases r)
      case (Inl e)
      with Returned Pair err show ?thesis
        by (simp add: user_handler_def run_bind_ok)
    next
      case (Inr p)
      with Returned Pair err profile_stored [of E "cl_sub c" "cl_username c" w p w'] show ?thesis
        by (auto simp: user_handler_def run_bind_ok api_ok_def)
    qed
  next
    case (Panicked m)
    with Pair err show ?thesis by (simp add: user_handler_def run_bind_ok)
  qed
qed

section \<open>Simultaneous first accesses\<close>

definition user_call :: call where
  "user_call = (HApp HUser, (demo_request [])\<lparr>
     rq_authorization := Some (''Bearer '' @ alice_token Access),
     rq_extension := Some demo_config\<rparr>)"

lemma user_call_program:
  "serve_call demo_env demo_web user_call =
     respond user_json (bind_ok (bind_ok (verify_token (alice_token Access) demo_config) (\<lambda>claims.
       if claims_kind claims \<noteq> Access then err token_wrong_kind else ok claims))
       (user_handler demo_env))"
proof -
  have "bearer_token demo_web ((demo_request [])\<lparr>
     rq_authorization := Some (''Bearer '' @ alice_token Access),
     rq_extension := Some demo_config\<rparr>) = Some (alice_token Access)"
    by (simp add: bearer_token_def demo_web_def strip_prefix_Some_iff)
  then show ?thesis
    by (simp add: user_call_def user_endpoint_def auth_user_def)
qed

lemma user_call_runs:
  assumes "rq_extension req = Some cfg" and "bears W req t"
  shows "user_endpoint E W req =
     respond user_json (bind_ok (bind_ok (verify_token t cfg) (\<lambda>claims.
       if claims_kind claims \<noteq> Access then err token_wrong_kind else ok claims)) (user_handler E))"
  using assms by (simp add: user_endpoint_def auth_user_def bears_iff)

text \<open>C34: The first access is not safe against itself. In whatever state the server is, with
  whatever requests in flight, when two requests with accepted access tokens of one account that
  has no profile yet arrive and both look for the profile before either inserts it, the one that
  inserts first is answered with 200 and the other with a 500, although the database does not
  fail and the profile is there.\<close>

theorem first_access_race:
  assumes "db_healthy E" and "clock_runs E" and "1 \<le> data_applied (data (shared s))"
    and "cl_sub c \<notin> pr_id ` set (profiles (data (shared s)))" and "cl_sub c' = cl_sub c"
    and "rq_extension req = Some cfg" and "bears W req t" and "cl_kind c = Access"
    and "jwt_decode E (tick (shared s)) (cfg_secret cfg) t = Inr c"
    and "rq_extension req' = Some cfg'" and "bears W req' t'" and "cl_kind c' = Access"
    and "jwt_decode E (tick (shared s) + 2) (cfg_secret cfg') t' = Inr c'"
    and "n = length (tasks s)"
  shows "\<exists>s' resp. sys_moves (perform E) (serve_call E W)
       [Arrive (HApp HUser, req), Arrive (HApp HUser, req'),
        Progress n, Progress n, Progress (n + 1), Progress (n + 1),
        Progress n, Progress n, Progress (n + 1), Progress (n + 1)] s = Some s' \<and>
     tasks s' = tasks s @
       [((HApp HUser, req), Ret (api_into_response user_json
           (ApiOk \<lparr>ures_id = cl_sub c, ures_username = cl_username c\<rparr>))),
        ((HApp HUser, req'), Ret resp)] \<and>
     resp = snd (servir_into_response (db_unknown ''insert_user_profile''
       (sql_text E (UniqueFailed ''user_profiles.id'')))) \<and>
     rs_status resp = 500 \<and> cl_sub c \<in> pr_id ` set (profiles (data (shared s')))"
proof -
  define ck where "ck k = the (clock E k)" for k
  have ck: "clock E k = Some (ck k)" for k
    using assms(2) by (auto simp: clock_runs_def ck_def)
  have fault: "fault E k = None" for k
    using assms(1) by (simp add: db_healthy_def)
  have absent: "List.find (\<lambda>r. pr_id r = cl_sub c) (profiles (data (shared s))) = None"
    using assms(4) by (simp add: find_None_iff_notin)
  note calls = user_call_runs [OF assms(6,7)] user_call_runs [OF assms(10,11)]
  show ?thesis
    using assms(3-5,8,9,12-14) absent
    by (simp add: sys_move_def calls nth_append list_update_append fault ck respond_def verify_token_def
        user_handler_def find_or_create_profile_def request_defs perform_data_def
        result_into_response_def api_ok_def db_unknown_def)
qed

theorem first_access_race_witness:
  "\<exists>s' resp. sys_moves (perform demo_env) (serve_call demo_env demo_web)
       [Arrive user_call, Arrive user_call, Progress 0, Progress 0, Progress 1, Progress 1,
        Progress 0, Progress 0, Progress 1, Progress 1] (sys_init alice_world) = Some s' \<and>
     tasks s' =
       [(user_call, Ret (api_into_response user_json
           (ApiOk \<lparr>ures_id = ''A1'', ures_username = ''alice''\<rparr>))),
        (user_call, Ret resp)] \<and>
     rs_status resp = 500 \<and> ''A1'' \<in> pr_id ` set (profiles (data (shared s')))"
proof -
  have bears: "bears demo_web (snd user_call) (alice_token Access)"
    by (simp add: bears_iff bearer_token_def user_call_def demo_web_def strip_prefix_Some_iff)
  have decoded: "jwt_decode demo_env k (cfg_secret demo_config) (alice_token Access) =
      Inr (alice_claims Access)" for k
    by (simp add: demo_env_def)
  have pair: "user_call = (HApp HUser, snd user_call)" and ext: "rq_extension (snd user_call) = Some demo_config"
    by (simp_all add: user_call_def)
  have "db_healthy demo_env" "clock_runs demo_env"
    using demo_conditions by simp_all
  moreover have "1 \<le> data_applied (data (shared (sys_init alice_world)))"
      "cl_sub (alice_claims Access) \<notin> pr_id ` set (profiles (data (shared (sys_init alice_world))))"
      "cl_kind (alice_claims Access) = Access" "0 = length (tasks (sys_init alice_world))"
    by (simp_all add: sys_init_def alice_world_def alice_claims_def)
  ultimately show ?thesis
    using first_access_race [where s = "sys_init alice_world" and n = 0, OF _ _ _ _ refl ext bears _ decoded
        ext bears _ decoded]
    by (auto simp: pair [symmetric] sys_init_def alice_claims_def)
qed

section \<open>The start of the application\<close>

lemma run_data_connect:
  "run (perform E) (data_connect E url) w =
     (case url_error E url of
        Some m \<Rightarrow> (Returned (Inl (db_connection url m)), w)
      | None \<Rightarrow> (Returned (case fault E (tick w) of
            Some m \<Rightarrow> Inl (db_connection url (sql_text E (Fault m))) | None \<Rightarrow> Inr ()), advance w))"
  by (auto simp: data_connect_def run_bind run_perform_done split: option.splits)

lemma run_data_migrate:
  "run (perform E) (data_migrate E) w =
     (case fault E (tick w) of
        Some m \<Rightarrow> (Returned (Inl (db_migration (sql_text E (Fault m)))), advance w)
      | None \<Rightarrow> (Returned (Inr ()), set_data (migrate_data_db (data w)) (advance (advance w))))"
proof -
  let ?w1 = "set_data (migrate_data_db (data w)) (advance w)"
  obtain v where "run (perform E) (fetch_int (DataSql SelectDataVersion)) ?w1 =
      (Returned v, after_data E SelectDataVersion ?w1)"
    using run_fetch_data_int_Returned by blast
  moreover have "after_data E SelectDataVersion ?w1 =
      set_data (migrate_data_db (data w)) (advance (advance w))"
    by (simp add: after_data_def)
  ultimately show ?thesis
    by (auto simp: data_migrate_def run_bind run_perform_done split: option.splits)
qed

text \<open>The environment's three ways to fail \<open>init_logging\<close>, and the program after it.\<close>

definition logging_messages :: "string set" where
  "logging_messages = {create_dir_message, appender_message, init_message}"

definition consumer_builder :: "args \<Rightarrow> app_handler server_builder" where
  "consumer_builder a = set_routes app_routes
     (set_auth_database_url (''sqlite://'' @ arg_auth_db a)
       (set_addr ([0, 0, 0, 0], 3000) (set_service_name ''echo-server'' servir_builder)))"

definition consumer_rest :: "env \<Rightarrow> app_handler network \<Rightarrow> args \<Rightarrow> unit task" where
  "consumer_rest E N a =
     bind_prog (expect_ok ''app db connect'' (data_connect E (''sqlite://'' @ arg_data_db a))) (\<lambda>_.
     bind_prog (expect_ok ''app db migrate'' (data_migrate E)) (\<lambda>_.
     expect_ok ''server failed'' (builder_serve E N (consumer_builder a))))"

lemma consumer_main_rest:
  "consumer_main E N a =
     bind_prog (init_logging E (arg_log_dir a) ''echo-server'') (\<lambda>_. consumer_rest E N a)"
  by (simp add: consumer_main_def consumer_rest_def consumer_builder_def Let_def)

lemma consumer_builder_simps:
  "sb_routes (consumer_builder a) = Some app_routes"
  "sb_addr (consumer_builder a) = Some ([0, 0, 0, 0], 3000)"
  "sb_auth_database_url (consumer_builder a) = Some (''sqlite://'' @ arg_auth_db a)"
  by (simp_all add: consumer_builder_def set_routes_def set_auth_database_url_def set_addr_def
      set_service_name_def servir_builder_def)

lemma consumer_configured: "configured (consumer_builder a) secret = config_new secret"
  by (simp add: configured_def config_new_def consumer_builder_def set_routes_def
      set_auth_database_url_def set_addr_def set_service_name_def servir_builder_def)

text \<open>The server that the application serves.\<close>

definition consumer_server :: "string \<Rightarrow> app_handler servir" where
  "consumer_server secret =
     servir_new (build_router app_routes (config_new secret)) ([0, 0, 0, 0], 3000)"

lemma build_keeps_profiles:
  assumes "run (perform E) (build E b) w = (out, w')"
  shows "data w' = data w"
proof (rule performs_only_run [where P = "\<lambda>e. \<forall>st. e \<noteq> DataSql st \<and> e \<noteq> MigrateData"
      and keep = "\<lambda>v. data v = data w", OF _ performs_only_build _ assms])
  fix e v r v'
  assume "\<forall>st. e \<noteq> DataSql st \<and> e \<noteq> MigrateData" "data v = data w" "perform E e v = (r, v')"
  then show "data v' = data w"
    by (cases e) (auto simp: perform_auth_def split: option.splits prod.splits)
qed simp_all

lemma serving_outcomes:
  "case run (perform E) (expect_ok ''server failed'' (builder_serve E N (consumer_builder a))) w of
     (Returned u, w') \<Rightarrow> data w' = data w \<and> 3 \<le> applied (auth w') \<and>
       (\<exists>secret. secret_is secret w' \<and> servir_serve N (consumer_server secret) = Inr ())
   | (Panicked m, w') \<Rightarrow>
       m = ''getrandom fill'' \<and> (\<exists>n. random_bytes E n 32 = None) \<or>
       m = ''server failed'' \<and> ((\<exists>m. url_error E (''sqlite://'' @ arg_auth_db a) = Some m) \<or>
         (\<exists>n m. fault E n = Some m) \<or>
         (\<exists>secret e. servir_serve N (consumer_server secret) = Inl e))"
proof -
  obtain out w' where build: "run (perform E) (build E (consumer_builder a)) w = (out, w')"
    by fastforce
  have "case out of Returned (Inr sv) \<Rightarrow> \<exists>secret. secret_is secret w' \<and> sv = consumer_server secret
      | _ \<Rightarrow> True"
    using build_outcomes_lemma [where E = E and b = "consumer_builder a" and w = w] build
    by (auto simp: consumer_builder_simps build_config_configured consumer_configured
        consumer_server_def split: outcome.splits sum.splits)
  with build_fails [OF build consumer_builder_simps(1,3,2)] build_keeps_profiles [OF build] build
  show ?thesis
    by (auto simp: expect_ok_def builder_serve_def run_bind split: outcome.splits sum.splits)
qed

lemma consumer_rest_outcomes:
  "case run (perform E) (consumer_rest E N a) w of
     (Returned u, w') \<Rightarrow> data w' = migrate_data_db (data w) \<and> 3 \<le> applied (auth w') \<and>
       (\<exists>secret. secret_is secret w' \<and> servir_serve N (consumer_server secret) = Inr ())
   | (Panicked m, w') \<Rightarrow>
       m = ''app db connect'' \<and> ((\<exists>m. url_error E (''sqlite://'' @ arg_data_db a) = Some m) \<or>
         (\<exists>n m. fault E n = Some m)) \<or>
       m = ''app db migrate'' \<and> (\<exists>n m. fault E n = Some m) \<or>
       m = ''getrandom fill'' \<and> (\<exists>n. random_bytes E n 32 = None) \<or>
       m = ''server failed'' \<and> ((\<exists>m. url_error E (''sqlite://'' @ arg_auth_db a) = Some m) \<or>
         (\<exists>n m. fault E n = Some m) \<or>
         (\<exists>secret e. servir_serve N (consumer_server secret) = Inl e))"
  using serving_outcomes [where E = E and N = N and a = a and w =
      "set_data (migrate_data_db (data w)) (advance (advance (advance w)))"]
  by (auto simp: consumer_rest_def run_bind_prog expect_ok_def [of "''app db connect''"]
      expect_ok_def [of "''app db migrate''"] run_data_connect run_data_migrate
      split: option.splits prod.splits outcome.splits)

text \<open>C37: The application sets everything that the builder requires. Its program either serves, on
  the fixed address and with its routes, under the default configuration with the signing secret
  that is stored by then and with both databases migrated; or it stops for a reason outside of
  it, which the panic names: one of its \<open>expect\<close>s (the log directory, the two for its
  database, the server: a database that fails or a port that cannot be served), a panic inside
  the two libraries that set up the log (a log file that cannot be opened, a subscriber that is
  there already), or the lack of random bytes. It never stops over a missing setting of the
  builder.\<close>

theorem consumer_start:
  "case run (perform E) (consumer_main E N a) w of
     (Returned u, w') \<Rightarrow> data w' = migrate_data_db (data w) \<and> 3 \<le> applied (auth w') \<and>
       (\<exists>secret. secret_is secret w' \<and> servir_serve N (servir_new
          (build_router app_routes (config_new secret)) ([0, 0, 0, 0], 3000)) = Inr ())
   | (Panicked m, w') \<Rightarrow>
       m = ''failed to create log directory'' \<and>
         (\<exists>e. create_dir_error E (tick w) (arg_log_dir a) = Some e) \<or>
       m = ''initializing rolling file appender failed'' \<and>
         (\<exists>e. open_file_error E (Suc (tick w)) (arg_log_dir a) ''echo-server.log'' = Some e) \<or>
       m = ''failed to set global default subscriber'' \<and>
         (\<exists>s. global_subscriber (proc w) = Some s) \<or>
       m = ''app db connect'' \<and> ((\<exists>m. url_error E (''sqlite://'' @ arg_data_db a) = Some m) \<or>
         (\<exists>n m. fault E n = Some m)) \<or>
       m = ''app db migrate'' \<and> (\<exists>n m. fault E n = Some m) \<or>
       m = ''getrandom fill'' \<and> (\<exists>n. random_bytes E n 32 = None) \<or>
       m = ''server failed'' \<and> ((\<exists>m. url_error E (''sqlite://'' @ arg_auth_db a) = Some m) \<or>
         (\<exists>n m. fault E n = Some m) \<or>
         (\<exists>secret e. servir_serve N (servir_new (build_router app_routes (config_new secret))
            ([0, 0, 0, 0], 3000)) = Inl e))"
proof (cases "run (perform E) (init_logging E (arg_log_dir a) ''echo-server'') w")
  case (Pair out v)
  show ?thesis
  proof (cases out)
    case (Returned g)
    with Pair have "data v = data w"
      by (auto simp: run_init_logging split: if_splits)
    with Pair Returned consumer_rest_outcomes [where E = E and N = N and a = a and w = v] show ?thesis
      by (auto simp: consumer_main_rest run_bind_prog consumer_server_def
          split: prod.splits outcome.splits)
  next
    case (Panicked m)
    with Pair show ?thesis
      by (auto simp: consumer_main_rest run_bind_prog run_init_logging create_dir_message_def
          appender_message_def init_message_def split: if_splits)
  qed
qed

end
