(* ===== verification/Logging_Properties.thy ===== *)
theory Logging_Properties
  imports Consumer_Properties
begin

text \<open>
  The properties of the telemetry: who installs the subscriber, and what becomes of a panic.
\<close>

section \<open>One subscriber per process\<close>

lemma init_logging_Returned:
  assumes "run (perform E) (init_logging E dir name) w = (Returned g, w')"
  shows "subscribed (logging_subscriber (rust_log E) (stdout_is_terminal E) dir name) w'"
    and "current_hook (proc w') = ForwardingHook (current_hook (proc w))"
    and "global_subscriber (proc w) = None"
  using assms by (auto simp: run_init_logging subscribed_def split: if_splits)

text \<open>C38: The subscriber of \<open>init_logging\<close>, with its two outputs and its filter, is the one of the
  process from then on, whatever program runs: the \<open>init_tracing\<close> inside \<open>build\<close> changes nothing,
  and a second \<open>init_logging\<close> panics.\<close>

theorem tracing_set_up_once:
  assumes "run (perform E) (init_logging E dir name) w = (Returned g, w1)"
    and "run (perform E) p w1 = (out, w2)"
  shows "global_subscriber (proc w2) = Some
      \<lparr>sub_filter = (case rust_log E of Some f \<Rightarrow> f
         | None \<Rightarrow> name @ ''=debug,servir=debug,tower_http=debug''),
       sub_layers = [stdout_layer (stdout_is_terminal E), file_layer dir (name @ ''.log'')]\<rparr> \<and>
    run (perform E) (init_tracing E name') w2 = (Returned (), advance w2) \<and>
    (\<exists>m w3. run (perform E) (init_logging E dir' name') w2 = (Panicked m, w3) \<and>
      m \<in> logging_messages \<and> proc w3 = proc w2)"
proof -
  have sub: "subscribed (logging_subscriber (rust_log E) (stdout_is_terminal E) dir name) w2"
    using subscription.inv_run [OF init_logging_Returned(1) [OF assms(1)] assms(2)] .
  then have "run (perform E) (init_tracing E name') w2 = (Returned (), advance w2)"
    by (rule init_tracing_noop)
  with sub show ?thesis
    by (simp add: run_init_logging subscribed_def logging_messages_def logging_subscriber_def
        env_filter_def)
qed

lemma demo_logging:
  "\<exists>w1. run (perform demo_env) (init_logging demo_env ''./data/logs'' ''echo-server'') fresh_world =
     (Returned (WorkerGuard ''./data/logs'' ''echo-server.log''), w1)"
  by (simp add: run_init_logging fresh_world_def new_process_def)

theorem tracing_set_up_once_witness:
  "\<exists>w1 sv w2. run (perform demo_env) (init_logging demo_env ''./data/logs'' ''echo-server'') fresh_world =
       (Returned (WorkerGuard ''./data/logs'' ''echo-server.log''), w1) \<and>
     run (perform demo_env) (build demo_env demo_builder) w1 = (Returned (Inr sv), w2) \<and>
     run (perform demo_env) (init_tracing demo_env ''servir'') w2 = (Returned (), advance w2)"
proof -
  obtain w1 where 1: "run (perform demo_env)
      (init_logging demo_env ''./data/logs'' ''echo-server'') fresh_world =
      (Returned (WorkerGuard ''./data/logs'' ''echo-server.log''), w1)"
    using demo_logging by blast
  obtain sv w2 where 2: "run (perform demo_env) (build demo_env demo_builder) w1 =
      (Returned (Inr sv), w2)"
    using demo_build by blast
  from 1 2 tracing_set_up_once [OF 1 2, of "''servir''"] show ?thesis by blast
qed

section \<open>Panics reach the log\<close>

lemma keeps_hook_start:
  "keeps_hook (data_connect E url)" "keeps_hook (data_migrate E)"
  by (auto simp: data_connect_def data_migrate_def performs_only_requests
      intro!: performs_only_combinators split: option.splits)

lemma keeps_hook_build: "keeps_hook (build E b)"
  by (rule performs_only_build) simp_all

lemma keeps_hook_expect_ok: "keeps_hook p \<Longrightarrow> keeps_hook (expect_ok m p)"
  by (auto simp: expect_ok_def intro!: performs_only_combinators split: sum.splits)

lemma keeps_hook_consumer_rest: "keeps_hook (consumer_rest E N a)"
  by (auto simp: consumer_rest_def builder_serve_def intro!: performs_only_combinators
      keeps_hook_expect_ok keeps_hook_build keeps_hook_start)

text \<open>C39: Once the application has set up its logging, each panic is logged once, with its message
  and its location, and then reported by the hook that was there before. The logged location
  determines the file, the line and the column. A panic of the application's program that is
  not logged is one of the three of \<open>init_logging\<close> itself.\<close>

theorem panics_logged:
  "(case run (perform E) (consumer_main E N a) w of
     (out, w') \<Rightarrow>
       (\<forall>info. call_hook (current_hook (proc w')) info =
          ErrorEvent (panic_message (pi_payload info)) (panic_location (pi_location info)) #
          call_hook (current_hook (proc w)) info) \<or>
       (\<exists>m \<in> logging_messages. out = Panicked m)) \<and>
   (panic_location (Some l) = panic_location (Some l') \<longleftrightarrow> l = l')"
proof -
  obtain out w1 where log: "run (perform E) (init_logging E (arg_log_dir a) ''echo-server'') w =
      (out, w1)"
    by fastforce
  have "case run (perform E) (consumer_main E N a) w of
     (out, w') \<Rightarrow>
       (\<forall>info. call_hook (current_hook (proc w')) info =
          ErrorEvent (panic_message (pi_payload info)) (panic_location (pi_location info)) #
          call_hook (current_hook (proc w)) info) \<or>
       (\<exists>m \<in> logging_messages. out = Panicked m)"
  proof (cases out)
    case (Returned g)
    obtain out' w2 where rest: "run (perform E) (consumer_rest E N a) w1 = (out', w2)"
      by fastforce
    have "current_hook (proc w2) = ForwardingHook (current_hook (proc w))"
      using keeps_hook_run [OF keeps_hook_consumer_rest rest]
        init_logging_Returned(2) [OF log [unfolded Returned]] by simp
    with rest log Returned show ?thesis
      by (simp add: consumer_main_rest run_bind_prog)
  next
    case (Panicked m)
    with log have "m \<in> logging_messages"
      by (auto simp: run_init_logging logging_messages_def split: if_splits)
    with log Panicked show ?thesis
      by (simp add: consumer_main_rest run_bind_prog)
  qed
  moreover have "panic_location (Some l) = panic_location (Some l') \<longleftrightarrow> l = l'"
    by (simp add: panic_location_def location_text_inject)
  ultimately show ?thesis by blast
qed

end
