(* ===== verification/Journeys.thy ===== *)
theory Journeys
  imports Auth_Properties
begin

text \<open>
  Sequences of operations by one client, step by step: what a client that has registered can do
  next. The environment is \<open>conforming\<close>: nothing fails, the libraries do what they document, and
  the readings of the clock lie within the lifetimes of the tokens, as they do in a test.
\<close>

section \<open>Conforming environments\<close>

definition steady :: "env \<Rightarrow> auth_config \<Rightarrow> bool" where
  "steady E cfg \<longleftrightarrow> (\<forall>m n a b. clock E m = Some a \<longrightarrow> clock E n = Some b \<longrightarrow>
     uint b \<le> uint a + uint (cfg_access_token_ttl_secs cfg) \<and>
     uint b < uint a + uint (cfg_refresh_token_ttl_secs cfg))"

definition conforming :: "env \<Rightarrow> auth_config \<Rightarrow> bool" where
  "conforming E cfg \<longleftrightarrow> healthy E cfg \<and> jwt_roundtrip E \<and> hash_roundtrip E \<and> uuids_fresh E \<and>
     steady E cfg"

section \<open>Accounts and sessions\<close>

definition accepted :: "env \<Rightarrow> auth_config \<Rightarrow> string \<Rightarrow> claims \<Rightarrow> bool" where
  "accepted E cfg t c \<longleftrightarrow> jwt_encode E (cfg_secret cfg) c = Inr t \<and>
     (\<forall>n. jwt_decode E n (cfg_secret cfg) t = Inr c)"

definition redeemable :: "env \<Rightarrow> auth_config \<Rightarrow> world \<Rightarrow> user_row \<Rightarrow> string \<Rightarrow> bool" where
  "redeemable E cfg w r t \<longleftrightarrow> (\<exists>c row. accepted E cfg t c \<and> cl_kind c = Refresh \<and>
     cl_sub c = ur_id r \<and> row \<in> set (refresh_tokens (auth w)) \<and> tr_jti row = cl_jti c \<and>
     tr_user_id row = ur_id r \<and> (\<forall>n now. clock E n = Some now \<longrightarrow> live_at now row))"

definition spent :: "env \<Rightarrow> auth_config \<Rightarrow> world \<Rightarrow> string \<Rightarrow> bool" where
  "spent E cfg w t \<longleftrightarrow> (\<exists>c. accepted E cfg t c \<and> cl_kind c = Refresh \<and>
     cl_jti c \<notin> tr_jti ` set (refresh_tokens (auth w)))"

definition opens :: "env \<Rightarrow> auth_config \<Rightarrow> user_row \<Rightarrow> string \<Rightarrow> bool" where
  "opens E cfg r t \<longleftrightarrow> (\<exists>c. accepted E cfg t c \<and> cl_kind c = Access \<and> cl_sub c = ur_id r \<and>
     cl_username c = ur_username r)"

definition session :: "env \<Rightarrow> auth_config \<Rightarrow> world \<Rightarrow> user_row \<Rightarrow> token_response \<Rightarrow> bool" where
  "session E cfg w r t \<longleftrightarrow> tk_token_type t = ''Bearer'' \<and>
     opens E cfg r (tk_access_token t) \<and> redeemable E cfg w r (tk_refresh_token t)"

lemma conforming_accepted:
  assumes "conforming E cfg" and "clock E n = Some now"
    and "jwt_encode E (cfg_secret cfg) c = Inr t"
    and "uint now + uint (cfg_access_token_ttl_secs cfg) \<le> uint (cl_exp c) \<or>
      uint now + uint (cfg_refresh_token_ttl_secs cfg) \<le> uint (cl_exp c)"
  shows "accepted E cfg t c"
  unfolding accepted_def
proof (intro conjI allI)
  show "jwt_encode E (cfg_secret cfg) c = Inr t"
    by (rule assms(3))
  fix m
  obtain b where b: "clock E m = Some b"
    using assms(1) unfolding conforming_def healthy_def clock_runs_def by blast
  have "\<not> uint (cl_exp c) + 60 < uint b"
    using assms(1,2,4) b unfolding conforming_def steady_def by fastforce
  moreover have "jwt_roundtrip E"
    using assms(1) by (simp add: conforming_def)
  ultimately show "jwt_decode E m (cfg_secret cfg) t = Inr c"
    using assms(3) b by (auto simp: jwt_roundtrip_def)
qed

lemma conforming_lifetimes:
  assumes "conforming E cfg" and "clock E n = Some now"
  shows "uint (now + cfg_access_token_ttl_secs cfg) = uint now + uint (cfg_access_token_ttl_secs cfg)"
    and "uint (now + cfg_refresh_token_ttl_secs cfg) = uint now + uint (cfg_refresh_token_ttl_secs cfg)"
    and "uint now + uint (cfg_refresh_token_ttl_secs cfg) < 2 ^ 63" and "uint now < 2 ^ 63"
proof -
  have fit: "uint now + uint (cfg_access_token_ttl_secs cfg) < 2 ^ 63"
    "uint now + uint (cfg_refresh_token_ttl_secs cfg) < 2 ^ 63"
    using assms by (auto simp: conforming_def healthy_def)
  have "uint now + uint (cfg_access_token_ttl_secs cfg) < 2 ^ 64"
    "uint now + uint (cfg_refresh_token_ttl_secs cfg) < 2 ^ 64"
    using fit by simp_all
  then show "uint (now + cfg_access_token_ttl_secs cfg) =
      uint now + uint (cfg_access_token_ttl_secs cfg)"
    and "uint (now + cfg_refresh_token_ttl_secs cfg) =
      uint now + uint (cfg_refresh_token_ttl_secs cfg)"
    by (simp_all add: add_usize_exact(2))
  show "uint now + uint (cfg_refresh_token_ttl_secs cfg) < 2 ^ 63"
    using fit by simp
  then show "uint now < 2 ^ 63"
    using uint_ge_0 [of "cfg_refresh_token_ttl_secs cfg"] by linarith
qed

section \<open>Issuing\<close>

lemma issued_session:
  assumes "conforming E cfg" and "issued E cfg (user_of_row r) w t w'"
  shows "session E cfg w' r t"
proof -
  obtain now1 now2 now3 now4 m n where enc:
    "jwt_encode E (cfg_secret cfg) (claims_at (ur_id r) (ur_username r) now1
       (cfg_access_token_ttl_secs cfg) (uuid E m) Access) = Inr (tk_access_token t)"
    "jwt_encode E (cfg_secret cfg) (claims_at (ur_id r) (ur_username r) now2
       (cfg_refresh_token_ttl_secs cfg) (uuid E n) Refresh) = Inr (tk_refresh_token t)"
    and "tk_token_type t = ''Bearer''"
    and clocks: "clock E (m - 1) = Some now1" "clock E (n - 1) = Some now2"
      "clock E (n + 1) = Some now3"
    and w': "auth w' = (auth w)\<lparr>refresh_tokens := refresh_tokens (auth w) @
      [new_token_row (uuid E n) (ur_id r) now3 (cfg_refresh_token_ttl_secs cfg) now4]\<rparr>"
    using assms(2) unfolding issued_def by (auto simp: user_of_row_def)
  let ?ca = "claims_at (ur_id r) (ur_username r) now1 (cfg_access_token_ttl_secs cfg)
    (uuid E m) Access"
  let ?cr = "claims_at (ur_id r) (ur_username r) now2 (cfg_refresh_token_ttl_secs cfg)
    (uuid E n) Refresh"
  let ?row = "new_token_row (uuid E n) (ur_id r) now3 (cfg_refresh_token_ttl_secs cfg) now4"
  have "accepted E cfg (tk_access_token t) ?ca"
    using conforming_lifetimes(1) [OF assms(1) clocks(1)]
    by (intro conforming_accepted [OF assms(1) clocks(1) enc(1)]) (simp add: claims_at_def)
  moreover have "accepted E cfg (tk_refresh_token t) ?cr"
    using conforming_lifetimes(2) [OF assms(1) clocks(2)]
    by (intro conforming_accepted [OF assms(1) clocks(2) enc(2)]) (simp add: claims_at_def)
  moreover have "live_at now ?row" if "clock E k = Some now" for k now
  proof -
    have "uint now < uint now3 + uint (cfg_refresh_token_ttl_secs cfg)"
      using assms(1) clocks(3) that unfolding conforming_def steady_def by blast
    with conforming_lifetimes(3) [OF assms(1) clocks(3)] conforming_lifetimes(4) [OF assms(1) that]
    show ?thesis
      by (simp add: live_at_def new_token_row_def add_i64_exact(2) sint_of_small)
  qed
  moreover have "?row \<in> set (refresh_tokens (auth w'))"
    by (simp add: w')
  ultimately show ?thesis
    using \<open>tk_token_type t = ''Bearer''\<close>
    unfolding session_def opens_def redeemable_def
    by (force simp: claims_at_def new_token_row_def)
qed

section \<open>Register and log in\<close>

lemma conforming_fault: "conforming E cfg \<Longrightarrow> fault E n = None"
  by (auto simp: conforming_def)

lemma journey_register:
  assumes "conforming E cfg" and "good E w" and "u \<noteq> []" and "8 \<le> length p"
    and "u \<notin> ur_username ` set (users (auth w))"
  shows "\<exists>t w' r. run (perform E) (register E cfg \<lparr>reg_username = u, reg_password = p\<rparr>) w =
      (Returned (Inr (ApiOk t)), w') \<and> good E w' \<and> ur_username r = u \<and> account E w' r p \<and>
      session E cfg w' r t \<and> users (auth w') = users (auth w) @ [r]"
proof -
  have conds: "healthy E cfg" "hash_roundtrip E" "uuids_fresh E"
    using assms(1) by (simp_all add: conforming_def)
  show ?thesis
    by (rule register_succeeds [OF conds assms(2-5)]) (use issued_session [OF assms(1)] in auto)
qed

lemma journey_register_taken:
  assumes "conforming E cfg" and "good E w" and "u \<noteq> []" and "8 \<le> length p"
    and "u \<in> ur_username ` set (users (auth w))"
  shows "\<exists>w' m. run (perform E) (register E cfg \<lparr>reg_username = u, reg_password = p\<rparr>) w =
    (Returned (Inl (user_already_exists u m)), w')"
  using assms register_taken [of E cfg w u p] by (simp add: conforming_def)

lemma journey_login:
  assumes "conforming E cfg" and "good E w" and "account E w r p"
  shows "\<exists>t w'. run (perform E) (login E cfg \<lparr>log_username = ur_username r, log_password = p\<rparr>) w =
      (Returned (Inr (ApiOk t)), w') \<and> good E w' \<and> session E cfg w' r t \<and>
      users (auth w') = users (auth w)"
proof -
  obtain t w' where t: "run (perform E)
      (login E cfg \<lparr>log_username = ur_username r, log_password = p\<rparr>) w =
      (Returned (Inr (ApiOk t)), w')" and iss: "issued E cfg (user_of_row r) w t w'"
    using login_succeeds [of E cfg w r "\<lparr>log_username = ur_username r, log_password = p\<rparr>"] assms
    by (auto simp: conforming_def good_def account_def)
  have "uuids_fresh E"
    using assms(1) by (simp add: conforming_def)
  with t issued_good [OF assms(2) _ iss] issued_session [OF assms(1) iss] show ?thesis
    by auto
qed

lemma journey_login_wrong:
  assumes "conforming E cfg" and "good E w" and "account E w r p" and "q \<noteq> p"
  shows "run (perform E) (login E cfg \<lparr>log_username = ur_username r, log_password = q\<rparr>) w =
    (Returned (Inl (user_invalid_credentials (ur_username r))), advance w)"
  using assms login_wrong [of E cfg w r p q] by (simp add: conforming_def)

lemma journey_login_unknown:
  assumes "conforming E cfg" and "good E w" and "u \<notin> ur_username ` set (users (auth w))"
  shows "run (perform E) (login E cfg \<lparr>log_username = u, log_password = q\<rparr>) w =
    (Returned (Inl (user_invalid_credentials u)), advance w)"
proof -
  have "List.find (\<lambda>x. ur_username x = u) (users (auth w)) = None"
    using assms(3) by (simp add: find_None_iff_notin)
  then show ?thesis
    using good_migrated [OF assms(2)] conforming_fault [OF assms(1)]
    by (simp add: login_def run_bind_ok run_find_user_by_username)
qed

section \<open>Refresh and log out\<close>

lemma good_filtered:
  assumes "good E w" and "tick w \<le> tick w'"
    and "auth w' = (auth w)\<lparr>refresh_tokens := filter Q (refresh_tokens (auth w))\<rparr>"
  shows "good E w'"
proof -
  have "uuids_unused E w'"
    by (rule uuids_unused_mono [OF _ assms(2)]) (use assms in \<open>auto simp: good_def\<close>)
  with assms(1) show ?thesis
    by (auto simp: good_def assms(3) migrated_def auth_db_ok_def distinct_map_filter)
qed

lemma accepted_unique: "accepted E cfg t c \<Longrightarrow> accepted E cfg t c' \<Longrightarrow> c = c'"
  by (auto simp: accepted_def)

lemma spent_not_redeemable: "spent E cfg w t \<Longrightarrow> \<not> redeemable E cfg w r t"
  unfolding spent_def redeemable_def by (metis accepted_unique image_eqI)

lemma journey_refresh:
  assumes "conforming E cfg" and "good E w" and "r \<in> set (users (auth w))"
    and "redeemable E cfg w r tok"
  shows "\<exists>t w'. run (perform E) (refresh E cfg \<lparr>ref_refresh_token = tok\<rparr>) w =
      (Returned (Inr (ApiOk t)), w') \<and> good E w' \<and> session E cfg w' r t \<and>
      users (auth w') = users (auth w) \<and> spent E cfg w' tok \<and> tk_refresh_token t \<noteq> tok"
proof -
  have conds: "healthy E cfg" "uuids_fresh E"
    and w: "migrated w" "auth_db_ok (auth w)" "uuids_unused E w"
    using assms(1,2) by (simp_all add: conforming_def good_def)
  obtain c row where acc: "accepted E cfg tok c" "cl_kind c = Refresh" "cl_sub c = ur_id r"
    and row: "row \<in> set (refresh_tokens (auth w))" "tr_jti row = cl_jti c"
      "\<And>n now. clock E n = Some now \<Longrightarrow> live_at now row"
    using assms(4) unfolding redeemable_def by blast
  obtain now where now: "clock E (Suc (tick w)) = Some now"
    using conds(1) unfolding healthy_def clock_runs_def by blast
  have "presents E cfg (ref_refresh_token \<lparr>ref_refresh_token = tok\<rparr>) w c"
    using acc by (simp add: presents_def accepted_def)
  from refresh_rotates [OF conds(1) w(1,3,2) this row(1,2) now row(3) [OF now] assms(3)] acc(3)
  obtain t w1 w' where t: "run (perform E) (refresh E cfg \<lparr>ref_refresh_token = tok\<rparr>) w =
      (Returned (Inr (ApiOk t)), w')"
    and w1: "auth w1 = without_live (cl_jti c) now (auth w)" "tick w \<le> tick w1"
    and iss: "issued E cfg (user_of_row r) w1 t w'"
    by auto
  have w1_good: "good E w1"
    by (rule good_filtered [OF assms(2) w1(2) w1(1) [unfolded without_live_def]])
  have "x = row" if "x \<in> set (refresh_tokens (auth w))" "tr_jti x = cl_jti c" for x
    using w(2) that row(1,2) by (auto simp: auth_db_ok_def distinct_map inj_on_def)
  then have "cl_jti c \<notin> tr_jti ` set (refresh_tokens (auth w1))"
    using row(3) [OF now] by (auto simp: w1(1) without_live_def)
  moreover obtain n now3 ttl created where w': "auth w' = (auth w1)\<lparr>refresh_tokens :=
      refresh_tokens (auth w1) @ [new_token_row (uuid E n) (ur_id r) now3 ttl created]\<rparr>"
    and "tick w1 \<le> n"
    using issued_row [OF iss] by (auto simp: user_of_row_def)
  moreover from this(2) have "uuid E n \<noteq> cl_jti c"
    using w(3) w1(2) row(1) unfolding uuids_unused_def row(2) [symmetric]
    by (metis image_eqI order_trans)
  ultimately have "cl_jti c \<notin> tr_jti ` set (refresh_tokens (auth w'))"
    by (simp add: new_token_row_def)
  then have spent: "spent E cfg w' tok"
    using acc by (auto simp: spent_def)
  have ses: "session E cfg w' r t"
    by (rule issued_session [OF assms(1) iss])
  then have "tk_refresh_token t \<noteq> tok"
    using spent_not_redeemable [OF spent] by (auto simp: session_def)
  with t spent ses issued_good [OF w1_good conds(2) iss] w1(1) show ?thesis
    by (auto simp: without_live_def)
qed

lemma journey_refresh_spent:
  assumes "conforming E cfg" and "good E w" and "spent E cfg w tok"
  shows "\<exists>w'. run (perform E) (refresh E cfg \<lparr>ref_refresh_token = tok\<rparr>) w =
    (Returned (Inl token_invalid_refresh_token), w') \<and> auth w' = auth w \<and> tick w \<le> tick w'"
proof -
  obtain c where acc: "accepted E cfg tok c" "cl_kind c = Refresh"
    and gone: "cl_jti c \<notin> tr_jti ` set (refresh_tokens (auth w))"
    using assms(3) by (auto simp: spent_def)
  obtain now where now: "clock E (Suc (tick w)) = Some now"
    using assms(1) unfolding conforming_def healthy_def clock_runs_def by blast
  have "filter (\<lambda>r. tr_jti r = cl_jti c \<and> sint now < sint (tr_expires_at r))
      (refresh_tokens (auth w)) = []"
    using gone by (auto simp: filter_empty_conv image_iff)
  moreover have "filter (\<lambda>r. tr_jti r = cl_jti c \<longrightarrow> \<not> sint now < sint (tr_expires_at r))
      (refresh_tokens (auth w)) = refresh_tokens (auth w)"
    using gone by (auto simp: filter_id_conv image_iff)
  ultimately show ?thesis
    using acc now good_migrated [OF assms(2)] conforming_fault [OF assms(1)]
    by (simp add: refresh_def run_bind_ok run_verify_token accepted_def run_consume_refresh_token
        after_auth_def Let_def)
qed

lemma logout_runs:
  assumes "conforming E cfg" and "good E w" and "accepted E cfg tok c" and "cl_kind c = Refresh"
  obtains w' where "run (perform E) (logout E cfg \<lparr>out_refresh_token = tok\<rparr>) w =
      (Returned (Inr (ApiOk ())), w')"
    and "good E w'" and "tick w \<le> tick w'" and "auth w' = without_user (cl_sub c) (auth w)"
proof
  let ?w = "set_auth (without_user (cl_sub c) (auth w)) (advance (advance w))"
  show "run (perform E) (logout E cfg \<lparr>out_refresh_token = tok\<rparr>) w =
      (Returned (Inr (ApiOk ())), ?w)"
    using assms(3,4) good_migrated [OF assms(2)] conforming_fault [OF assms(1)]
    by (simp add: logout_def run_bind_ok run_verify_token accepted_def
        run_delete_refresh_tokens_for_user after_auth_def without_user_def api_ok_def)
  show "good E ?w"
    by (rule good_filtered [OF assms(2)]) (simp_all add: without_user_def)
qed simp_all

lemma journey_logout:
  assumes "conforming E cfg" and "good E w" and "redeemable E cfg w r tok"
  shows "\<exists>w'. run (perform E) (logout E cfg \<lparr>out_refresh_token = tok\<rparr>) w =
      (Returned (Inr (ApiOk ())), w') \<and> good E w' \<and> users (auth w') = users (auth w) \<and>
      spent E cfg w' tok"
proof -
  obtain c row where acc: "accepted E cfg tok c" "cl_kind c = Refresh" "cl_sub c = ur_id r"
    and row: "row \<in> set (refresh_tokens (auth w))" "tr_jti row = cl_jti c"
      "tr_user_id row = ur_id r"
    using assms(3) unfolding redeemable_def by blast
  obtain w' where w': "run (perform E) (logout E cfg \<lparr>out_refresh_token = tok\<rparr>) w =
      (Returned (Inr (ApiOk ())), w')" "good E w'" "auth w' = without_user (cl_sub c) (auth w)"
    by (rule logout_runs [OF assms(1,2) acc(1,2)])
  have "x = row" if "x \<in> set (refresh_tokens (auth w))" "tr_jti x = cl_jti c" for x
    using assms(2) that row(1,2) by (auto simp: good_def auth_db_ok_def distinct_map inj_on_def)
  then have "cl_jti c \<notin> tr_jti ` set (refresh_tokens (auth w'))"
    using row(3) acc(3) by (auto simp: w'(3) without_user_def)
  then have "spent E cfg w' tok"
    using acc by (auto simp: spent_def)
  with w' show ?thesis
    by (simp add: without_user_def)
qed

section \<open>Tokens of the wrong kind, and access\<close>

lemma journey_refresh_with_access:
  assumes "accepted E cfg tok c" and "cl_kind c = Access"
  shows "run (perform E) (refresh E cfg \<lparr>ref_refresh_token = tok\<rparr>) w =
    (Returned (Inl token_wrong_kind), advance w)"
  using assms by (simp add: refresh_def run_bind_ok run_verify_token accepted_def)

lemma journey_auth_user:
  assumes "rq_extension req = Some cfg" and "bearer_token W req = Some tok"
    and "accepted E cfg tok c"
  shows "run (perform E) (auth_user W req) w =
    (Returned (if cl_kind c = Access then Inr c else Inl token_wrong_kind), advance w)"
  using assms by (simp add: auth_user_def run_bind_ok run_verify_token accepted_def)

lemma good_advance: "good E w \<Longrightarrow> good E (advance w)"
  by (auto simp: good_def migrated_def uuids_unused_def)

lemma session_advance [simp]:
  "session E cfg (advance w) r t = session E cfg w r t"
  "redeemable E cfg (advance w) r tok = redeemable E cfg w r tok"
  by (simp_all add: session_def redeemable_def)

end
