(* ===== verification/Client.thy ===== *)
theory Client
  imports Journeys
begin

text \<open>
  The side of the client: the requests that the test suites build, their reading of a JSON
  response, and the interface \<open>auth_service\<close> of an application that mounts the auth routes. The
  interface is implemented by the assembled server and by the router of the unit tests.
\<close>

section \<open>Requests and responses\<close>

text \<open>\<open>post\<close>, \<open>get_authed\<close> and \<open>call\<close> of the test modules.\<close>

definition http_request :: "string \<Rightarrow> string \<Rightarrow> request" where
  "http_request verb uri =
     \<lparr>rq_method = verb, rq_path = uri, rq_authorization = None, rq_content_type = None,
      rq_body = [], rq_extension = None\<rparr>"

definition post :: "web \<Rightarrow> string \<Rightarrow> json \<Rightarrow> request" where
  "post W uri body = (http_request ''POST'' uri)
     \<lparr>rq_content_type := Some ''application/json'', rq_body := json_to_string W body\<rparr>"

definition get_authed :: "string \<Rightarrow> string \<Rightarrow> request" where
  "get_authed uri token =
     (http_request ''GET'' uri)\<lparr>rq_authorization := Some (''Bearer '' @ token)\<rparr>"

definition call_app :: "(request \<Rightarrow> response task) \<Rightarrow> request \<Rightarrow> (status_code \<times> json) task" where
  "call_app app req = bind_prog (app req) (\<lambda>resp. Ret (rs_status resp, rs_body resp))"

text \<open>\<open>json["key"]\<close> (null when there is no such key), \<open>as_str\<close> and \<open>is_string\<close> of \<open>serde_json\<close>.\<close>

fun json_index :: "json \<Rightarrow> string \<Rightarrow> json" where
  "json_index (JObj kvs) k = (case map_of kvs k of None \<Rightarrow> JNull | Some v \<Rightarrow> v)"
| "json_index _ k = JNull"

fun json_as_str :: "json \<Rightarrow> string option" where
  "json_as_str (JStr s) = Some s"
| "json_as_str _ = None"

definition json_is_string :: "json \<Rightarrow> bool" where
  "json_is_string v \<longleftrightarrow> json_as_str v \<noteq> None"

definition credentials_json :: "string \<Rightarrow> string \<Rightarrow> json" where
  "credentials_json u p = JObj [(''username'', JStr u), (''password'', JStr p)]"

definition refresh_json :: "string \<Rightarrow> json" where
  "refresh_json t = JObj [(''refresh_token'', JStr t)]"

text \<open>
  What the client relies on: \<open>axum::Json\<close> reads the text of an object with the fields of the
  payload under the content type of JSON, rejects a request without one and a text that is not
  JSON; and a token is a legal header value.
\<close>

definition web_conforming :: "env \<Rightarrow> web \<Rightarrow> bool" where
  "web_conforming E W \<longleftrightarrow>
     (\<forall>req u p. rq_content_type req = Some ''application/json'' \<longrightarrow>
        rq_body req = json_to_string W (credentials_json u p) \<longrightarrow>
        json_register W req = Inr \<lparr>reg_username = u, reg_password = p\<rparr> \<and>
        json_login W req = Inr \<lparr>log_username = u, log_password = p\<rparr>) \<and>
     (\<forall>req t. rq_content_type req = Some ''application/json'' \<longrightarrow>
        rq_body req = json_to_string W (refresh_json t) \<longrightarrow>
        json_refresh W req = Inr \<lparr>ref_refresh_token = t\<rparr> \<and>
        json_logout W req = Inr \<lparr>out_refresh_token = t\<rparr>) \<and>
     (\<forall>req. rq_content_type req = None \<or> rq_body req = ''{broken'' \<longrightarrow>
        (\<exists>m. json_register W req = Inl m)) \<and>
     (\<forall>s c t. jwt_encode E s c = Inr t \<longrightarrow>
        header_to_str W (''Bearer '' @ t) = Some (''Bearer '' @ t))"

lemma request_simps [simp]:
  "rq_path (post W uri v) = uri" "rq_method (post W uri v) = ''POST''"
  "rq_content_type (post W uri v) = Some ''application/json''"
  "rq_body (post W uri v) = json_to_string W v"
  "rq_path (get_authed uri t) = uri" "rq_method (get_authed uri t) = ''GET''"
  "rq_authorization (get_authed uri t) = Some (''Bearer '' @ t)"
  "rq_path (http_request verb uri) = uri" "rq_method (http_request verb uri) = verb"
  "rq_content_type (http_request verb uri) = None"
  "rq_authorization (http_request verb uri) = None"
  by (simp_all add: post_def get_authed_def http_request_def)

lemma web_conforming_posts:
  assumes "web_conforming E W"
  shows "json_register W (post W uri (credentials_json u p)\<lparr>rq_extension := x\<rparr>) =
      Inr \<lparr>reg_username = u, reg_password = p\<rparr>"
    and "json_login W (post W uri (credentials_json u p)\<lparr>rq_extension := x\<rparr>) =
      Inr \<lparr>log_username = u, log_password = p\<rparr>"
    and "json_refresh W (post W uri (refresh_json t)\<lparr>rq_extension := x\<rparr>) =
      Inr \<lparr>ref_refresh_token = t\<rparr>"
    and "json_logout W (post W uri (refresh_json t)\<lparr>rq_extension := x\<rparr>) =
      Inr \<lparr>out_refresh_token = t\<rparr>"
  using assms by (simp_all add: web_conforming_def)

lemma bearer_get_authed:
  assumes "web_conforming E W" and "accepted E cfg t c"
  shows "bearer_token W (get_authed uri t\<lparr>rq_extension := x\<rparr>) = Some t"
proof -
  have "header_to_str W (''Bearer '' @ t) = Some (''Bearer '' @ t)"
    using assms unfolding web_conforming_def accepted_def by blast
  then show ?thesis
    by (simp add: bearer_token_def strip_prefix_Some_iff)
qed

section \<open>An application with the auth routes\<close>

locale auth_service =
  fixes E :: env and W :: web and cfg :: auth_config
    and app :: "request \<Rightarrow> response task" and pre :: string
  assumes register_route: "rq_path req = pre @ ''/auth/register'' \<Longrightarrow> rq_method req = ''POST'' \<Longrightarrow>
      app req = register_endpoint E W cfg (req\<lparr>rq_extension := Some cfg\<rparr>)"
    and login_route: "rq_path req = pre @ ''/auth/login'' \<Longrightarrow> rq_method req = ''POST'' \<Longrightarrow>
      app req = login_endpoint E W cfg (req\<lparr>rq_extension := Some cfg\<rparr>)"
    and refresh_route: "rq_path req = pre @ ''/auth/refresh'' \<Longrightarrow> rq_method req = ''POST'' \<Longrightarrow>
      app req = refresh_endpoint E W cfg (req\<lparr>rq_extension := Some cfg\<rparr>)"
    and logout_route: "rq_path req = pre @ ''/auth/logout'' \<Longrightarrow> rq_method req = ''POST'' \<Longrightarrow>
      app req = logout_endpoint E W cfg (req\<lparr>rq_extension := Some cfg\<rparr>)"
    and me_route: "rq_path req = pre @ ''/auth/me'' \<Longrightarrow> rq_method req = ''GET'' \<Longrightarrow>
      app req = me_endpoint W (req\<lparr>rq_extension := Some cfg\<rparr>)"
begin

lemma run_register_call:
  assumes "web_conforming E W"
    and "run (perform E) (register E cfg \<lparr>reg_username = u, reg_password = p\<rparr>) w = (Returned r, w')"
  shows "run (perform E) (call_app app (post W (pre @ ''/auth/register'') (credentials_json u p))) w =
    (Returned (rs_status (result_into_response token_json r),
       rs_body (result_into_response token_json r)), w')"
  using assms(2) web_conforming_posts [OF assms(1)]
  by (simp add: call_app_def register_route register_endpoint_def respond_def run_bind_prog
      app_json_def)

lemma run_login_call:
  assumes "web_conforming E W"
    and "run (perform E) (login E cfg \<lparr>log_username = u, log_password = p\<rparr>) w = (Returned r, w')"
  shows "run (perform E) (call_app app (post W (pre @ ''/auth/login'') (credentials_json u p))) w =
    (Returned (rs_status (result_into_response token_json r),
       rs_body (result_into_response token_json r)), w')"
  using assms(2) web_conforming_posts [OF assms(1)]
  by (simp add: call_app_def login_route login_endpoint_def respond_def run_bind_prog
      app_json_def)

lemma run_refresh_call:
  assumes "web_conforming E W"
    and "run (perform E) (refresh E cfg \<lparr>ref_refresh_token = t\<rparr>) w = (Returned r, w')"
  shows "run (perform E) (call_app app (post W (pre @ ''/auth/refresh'') (refresh_json t))) w =
    (Returned (rs_status (result_into_response token_json r),
       rs_body (result_into_response token_json r)), w')"
  using assms(2) web_conforming_posts [OF assms(1)]
  by (simp add: call_app_def refresh_route refresh_endpoint_def respond_def run_bind_prog
      app_json_def)

lemma run_logout_call:
  assumes "web_conforming E W"
    and "run (perform E) (logout E cfg \<lparr>out_refresh_token = t\<rparr>) w = (Returned r, w')"
  shows "run (perform E) (call_app app (post W (pre @ ''/auth/logout'') (refresh_json t))) w =
    (Returned (rs_status (result_into_response unit_json r),
       rs_body (result_into_response unit_json r)), w')"
  using assms(2) web_conforming_posts [OF assms(1)]
  by (simp add: call_app_def logout_route logout_endpoint_def respond_def run_bind_prog
      app_json_def)

lemma run_me_call:
  assumes "web_conforming E W" and "opens E cfg r t"
  shows "run (perform E) (call_app app (get_authed (pre @ ''/auth/me'') t)) w =
    (Returned (200, api_json me_json
       (ApiOk \<lparr>me_user_id = ur_id r, me_username = ur_username r\<rparr>)), advance w)"
proof -
  obtain c where c: "accepted E cfg t c" "cl_kind c = Access" "cl_sub c = ur_id r"
    "cl_username c = ur_username r"
    using assms(2) by (auto simp: opens_def)
  let ?req = "get_authed (pre @ ''/auth/me'') t\<lparr>rq_extension := Some cfg\<rparr>"
  have "run (perform E) (auth_user W ?req) w = (Returned (Inr c), advance w)"
    using journey_auth_user [OF _ bearer_get_authed [OF assms(1) c(1)] c(1), of "Some cfg"] c(2)
    by simp
  then show ?thesis
    using c by (simp add: call_app_def me_route me_endpoint_def respond_def run_bind_prog
        run_bind_ok me_def api_ok_def result_into_response_def api_into_response_def)
qed

end

section \<open>Bodies of responses\<close>

lemma token_body [simp]:
  "rs_status (result_into_response token_json (Inr (ApiOk t))) = 200"
  "rs_body (result_into_response token_json (Inr (ApiOk t))) =
     JObj [(''status'', JStr ''ok''), (''data'', token_json t)]"
  by (simp_all add: result_into_response_def api_into_response_def)

lemma unit_body [simp]:
  "rs_status (result_into_response unit_json (Inr (ApiOk u))) = 200"
  by (simp add: result_into_response_def api_into_response_def)

lemma error_status [simp]:
  "rs_status (result_into_response ser (Inl e)) = servir_status_code e"
  by (simp add: result_into_response_def)

lemma error_body_id [simp]:
  "json_index (json_index (rs_body (result_into_response ser (Inl e))) ''error'') ''error_id'' =
     JStr (servir_error_id e)"
  by (simp add: result_into_response_def servir_into_response_def api_into_response_def Let_def
      error_body_new_def error_body_json_def)

lemma error_body_context [simp]:
  "json_index (json_index (rs_body (result_into_response ser (Inl e))) ''error'') ''context'' =
     ctx_serialize (servir_context e)"
  by (simp add: result_into_response_def servir_into_response_def api_into_response_def Let_def
      error_body_new_def error_body_json_def)

lemma token_fields [simp]:
  "json_index (token_json t) ''access_token'' = JStr (tk_access_token t)"
  "json_index (token_json t) ''refresh_token'' = JStr (tk_refresh_token t)"
  "json_index (token_json t) ''token_type'' = JStr (tk_token_type t)"
  by (simp_all add: token_json_def)

end
