(* ===== verification/Testing.thy ===== *)
theory Testing
  imports Client
begin

text \<open>
  What the test suites of the repository share: assertions, \<open>unwrap\<close>, when a test passes, and a
  concrete environment and web layer on which the suites run.
\<close>

section \<open>Assertions\<close>

text \<open>A test is a program that panics at the first assertion that does not hold.\<close>

fun asserts :: "bool list \<Rightarrow> unit task" where
  "asserts [] = Ret ()"
| "asserts (b # bs) = (if b then asserts bs else Panic ''assertion failed'')"

definition unwrap_ok :: "'x + 'a \<Rightarrow> ('a \<Rightarrow> 'b task) \<Rightarrow> 'b task" where
  "unwrap_ok r k = (case r of Inr a \<Rightarrow> k a | Inl e \<Rightarrow> Panic ''unwrap on Err'')"

definition unwrap_some :: "'a option \<Rightarrow> ('a \<Rightarrow> 'b task) \<Rightarrow> 'b task" where
  "unwrap_some r k = (case r of Some a \<Rightarrow> k a | None \<Rightarrow> Panic ''unwrap on None'')"

definition unwrap_str :: "json \<Rightarrow> (string \<Rightarrow> 'a task) \<Rightarrow> 'a task" where
  "unwrap_str v k = unwrap_some (json_as_str v) k"

text \<open>\<open>p.await.unwrap()\<close>.\<close>

definition awaited :: "('x + 'a) task \<Rightarrow> ('a \<Rightarrow> 'b task) \<Rightarrow> 'b task" where
  "awaited p k = bind_prog p (\<lambda>r. unwrap_ok r k)"

lemma unwrap_ok_simps [simp]:
  "unwrap_ok (Inr a) k = k a" "unwrap_ok (Inl e) k = Panic ''unwrap on Err''"
  by (simp_all add: unwrap_ok_def)

lemma unwrap_some_simps [simp]:
  "unwrap_some (Some a) k' = k' a" "unwrap_some None k' = Panic ''unwrap on None''"
  by (simp_all add: unwrap_some_def)

lemma unwrap_str_simps [simp]: "unwrap_str (JStr s) k = k s"
  by (simp add: unwrap_str_def)

section \<open>Passing\<close>

definition passes :: "env \<Rightarrow> unit task \<Rightarrow> world \<Rightarrow> bool" where
  "passes E p w \<longleftrightarrow> fst (run (perform E) p w) = Returned ()"

declare asserts.simps [simp del]

lemma passes_asserts [simp]: "passes E (asserts bs) w \<longleftrightarrow> list_all id bs"
  by (induction bs) (auto simp: passes_def asserts.simps)

lemma passes_asserts_bind [simp]:
  "passes E (bind_prog (asserts bs) f) w \<longleftrightarrow> list_all id bs \<and> passes E (f ()) w"
  by (induction bs) (auto simp: passes_def asserts.simps)

lemma passes_bind:
  assumes "run (perform E) p w = (Returned a, w')"
  shows "passes E (bind_prog p f) w \<longleftrightarrow> passes E (f a) w'"
  using assms by (simp add: passes_def run_bind_prog)

lemma passes_awaited:
  assumes "run (perform E) p w = (Returned (Inr a), w')"
  shows "passes E (awaited p k) w \<longleftrightarrow> passes E (k a) w'"
  using assms by (simp add: awaited_def passes_bind)

section \<open>Calls\<close>

text \<open>A call whose handler is known to end in \<open>r\<close> continues with its response.\<close>

definition answers ::
  "env \<Rightarrow> (request \<Rightarrow> response task) \<Rightarrow> request \<Rightarrow> world \<Rightarrow> response \<Rightarrow> world \<Rightarrow> bool" where
  "answers E app req w resp w' \<longleftrightarrow>
     run (perform E) (call_app app req) w = (Returned (rs_status resp, rs_body resp), w')"

lemma passes_call:
  assumes "answers E app req w resp w'"
  shows "passes E (bind_prog (call_app app req) f) w \<longleftrightarrow>
    passes E (f (rs_status resp, rs_body resp)) w'"
  using assms by (simp add: answers_def passes_bind)

context auth_service
begin

lemma answers_calls:
  assumes "web_conforming E W"
  shows "run (perform E) (register E cfg \<lparr>reg_username = u, reg_password = p\<rparr>) w =
      (Returned r, w') \<Longrightarrow>
    answers E app (post W (pre @ ''/auth/register'') (credentials_json u p)) w
      (result_into_response token_json r) w'"
  and "run (perform E) (login E cfg \<lparr>log_username = u, log_password = p\<rparr>) w =
      (Returned r, w') \<Longrightarrow>
    answers E app (post W (pre @ ''/auth/login'') (credentials_json u p)) w
      (result_into_response token_json r) w'"
  and "run (perform E) (refresh E cfg \<lparr>ref_refresh_token = t\<rparr>) w = (Returned r, w') \<Longrightarrow>
    answers E app (post W (pre @ ''/auth/refresh'') (refresh_json t)) w
      (result_into_response token_json r) w'"
  and "run (perform E) (logout E cfg \<lparr>out_refresh_token = t\<rparr>) w = (Returned q, w') \<Longrightarrow>
    answers E app (post W (pre @ ''/auth/logout'') (refresh_json t)) w
      (result_into_response unit_json q) w'"
  using run_register_call [OF assms] run_login_call [OF assms] run_refresh_call [OF assms]
    run_logout_call [OF assms]
  by (simp_all add: answers_def)

lemma answers_rejected:
  assumes "web_conforming E W" and "rq_path req = pre @ ''/auth/register''"
    and "rq_method req = ''POST''" and "rq_content_type req = None \<or> rq_body req = ''{broken''"
  shows "\<exists>m. answers E app req w (result_into_response token_json (Inl (servir_bad_request m))) w"
proof -
  have "rq_content_type (req\<lparr>rq_extension := Some cfg\<rparr>) = None \<or>
      rq_body (req\<lparr>rq_extension := Some cfg\<rparr>) = ''{broken''"
    using assms(4) by simp
  then obtain m where "json_register W (req\<lparr>rq_extension := Some cfg\<rparr>) = Inl m"
    using assms(1) unfolding web_conforming_def by blast
  then show ?thesis
    using register_route [of req] assms(2,3)
    by (auto simp: answers_def call_app_def register_endpoint_def respond_def run_bind_prog
        app_json_def)
qed

end

section \<open>A conforming environment\<close>

definition late_decode :: "nat \<Rightarrow> string \<Rightarrow> string \<Rightarrow> jwt_error + claims" where
  "late_decode n s t =
     (case demo_parse t of
        None \<Rightarrow> Inl (OtherJwtError ''InvalidToken'')
      | Some (s', c) \<Rightarrow>
          if s' \<noteq> s then Inl (OtherJwtError ''InvalidSignature'')
          else if uint (cl_exp c) + 60 < 2000000 then Inl ExpiredSignature
          else Inr c)"

definition late_env :: env where
  "late_env = demo_env\<lparr>clock := (\<lambda>n. Some 2000000), uuid := (\<lambda>n. demo_uuid (Suc n)),
     jwt_decode := late_decode\<rparr>"

fun entry_text :: "string \<times> json \<Rightarrow> string" where
  "entry_text (k, JStr s) = enc_str s"
| "entry_text (k, _) = []"

fun body_text :: "json \<Rightarrow> string" where
  "body_text (JObj kvs) = concat (map entry_text kvs)"
| "body_text _ = []"

definition body_string :: "request \<Rightarrow> string + (string \<times> string)" where
  "body_string req =
     (case rq_content_type req of
        None \<Rightarrow> Inl ''Expected request with content type application/json''
      | Some _ \<Rightarrow> (case dec_str (rq_body req) of
          None \<Rightarrow> Inl ''Failed to parse the request body as JSON''
        | Some sr \<Rightarrow> Inr sr))"

definition body_pair :: "request \<Rightarrow> string + (string \<times> string)" where
  "body_pair req =
     (case body_string req of
        Inl m \<Rightarrow> Inl m
      | Inr (u, r) \<Rightarrow> (case dec_str r of
          None \<Rightarrow> Inl ''missing field password''
        | Some (p, _) \<Rightarrow> Inr (u, p)))"

definition text_web :: web where
  "text_web =
     \<lparr>header_to_str = (\<lambda>v. Some v),
      json_register = (\<lambda>r. map_sum id (\<lambda>(u, p). \<lparr>reg_username = u, reg_password = p\<rparr>) (body_pair r)),
      json_login = (\<lambda>r. map_sum id (\<lambda>(u, p). \<lparr>log_username = u, log_password = p\<rparr>) (body_pair r)),
      json_refresh = (\<lambda>r. map_sum id (\<lambda>(t, _). \<lparr>ref_refresh_token = t\<rparr>) (body_string r)),
      json_logout = (\<lambda>r. map_sum id (\<lambda>(t, _). \<lparr>out_refresh_token = t\<rparr>) (body_string r)),
      json_to_string = body_text\<rparr>"

lemma late_env_simps [simp]:
  "clock late_env n = Some 2000000" "uuid late_env n = demo_uuid (Suc n)" "fault late_env n = None"
  "jwt_encode late_env = demo_encode" "jwt_decode late_env = late_decode"
  "argon2_hash late_env s p = argon2_hash demo_env s p"
  "argon2_verify late_env q h = argon2_verify demo_env q h"
  "phc_error late_env h = phc_error demo_env h"
  by (simp_all add: late_env_def demo_env_def)

lemma late_conforming:
  assumes "cfg_access_token_ttl_secs cfg = 900" and "cfg_refresh_token_ttl_secs cfg = 604800"
  shows "conforming late_env cfg"
proof -
  have "healthy late_env cfg"
    using assms demo_conditions
    by (simp add: healthy_def db_healthy_def clock_runs_def crypto_healthy_def)
  moreover have "jwt_roundtrip late_env"
    by (auto simp: jwt_roundtrip_def late_decode_def demo_parse_encode)
  moreover have "hash_roundtrip late_env"
    using demo_conditions(4) by (simp add: hash_roundtrip_def)
  moreover have "uuids_fresh late_env"
    by (simp add: uuids_fresh_def inj_def demo_uuid_inj)
  moreover have "steady late_env cfg"
    using assms by (simp add: steady_def)
  ultimately show ?thesis by (simp add: conforming_def)
qed

lemma text_web_conforming: "web_conforming E text_web"
proof -
  have broken: "dec_str ''{broken'' = None"
    by simp
  have "dec_str (enc_str s) = Some (s, [])" for s
    using dec_enc_str [of s "[]"] by simp
  then show ?thesis
    unfolding web_conforming_def
    by (auto simp: text_web_def body_pair_def body_string_def credentials_json_def refresh_json_def
        dec_enc_str broken split: option.splits)
qed

end
