(* ===== verification/Unit_Tests.thy ===== *)
theory Unit_Tests
  imports Testing
begin

text \<open>
  The other unit tests of the repository: those of \<open>src/auth/core.rs\<close>, \<open>src/db/auth.rs\<close> and
  \<open>consumer/src/db/mod.rs\<close> as programs, and those of \<open>src/error.rs\<close> and \<open>src/response.rs\<close>, which
  perform no effect, as their assertions; \<open>from_impls\<close> makes none.
\<close>

section \<open>Passwords and tokens\<close>

definition hash_and_verify_roundtrip :: "env \<Rightarrow> unit task" where
  "hash_and_verify_roundtrip E =
     awaited (hash_password E ''secure-password-123'') (\<lambda>hash.
     unwrap_ok (verify_password E ''secure-password-123'' hash) (\<lambda>b. asserts [b]))"

definition verify_wrong_password :: "env \<Rightarrow> unit task" where
  "verify_wrong_password E =
     awaited (hash_password E ''correct-password'') (\<lambda>hash.
     unwrap_ok (verify_password E ''wrong-password'' hash) (\<lambda>b. asserts [\<not> b]))"

definition verify_corrupted_hash :: "env \<Rightarrow> unit task" where
  "verify_corrupted_hash E =
     (let result = verify_password E ''anything'' ''not-a-valid-hash'' in asserts [isl result])"

definition core_test_config :: auth_config where
  "core_test_config = config_new ''test-secret-key-must-be-at-least-32-characters!!''"

definition issue_and_verify_access_token :: "env \<Rightarrow> unit task" where
  "issue_and_verify_access_token E =
     (let config = core_test_config in
      awaited (issue_access_token E ''user-123'' ''alice'' config) (\<lambda>token.
      awaited (verify_token token config) (\<lambda>claims.
      asserts [claims_sub claims = ''user-123'', claims_username claims = ''alice'',
        cl_kind claims = Access])))"

definition issue_and_verify_refresh_token :: "env \<Rightarrow> unit task" where
  "issue_and_verify_refresh_token E =
     (let config = core_test_config in
      awaited (issue_refresh_token E ''user-123'' ''alice'' config) (\<lambda>(token, jti).
      awaited (verify_token token config) (\<lambda>claims.
      asserts [claims_sub claims = ''user-123'', cl_kind claims = Refresh, cl_jti claims = jti])))"

definition verify_with_wrong_secret :: "env \<Rightarrow> unit task" where
  "verify_with_wrong_secret E =
     (let config = core_test_config in
      awaited (issue_access_token E ''user-123'' ''alice'' config) (\<lambda>token.
      let other = config_new ''completely-different-secret-that-is-long-enough'' in
      bind_prog (verify_token token other) (\<lambda>result. asserts [isl result])))"

definition expired_token_rejected :: "env \<Rightarrow> unit task" where
  "expired_token_rejected E =
     (let config = core_test_config;
          claims = \<lparr>cl_sub = ''user-123'', cl_username = ''alice'', cl_exp = 1000000,
            cl_iat = 1000000, cl_jti = ''test-jti'', cl_kind = Access\<rparr> in
      unwrap_ok (jwt_encode E (cfg_secret config) claims) (\<lambda>token.
      bind_prog (verify_token token config) (\<lambda>result. asserts [isl result])))"

definition core_tests :: "env \<Rightarrow> unit task list" where
  "core_tests E =
     [hash_and_verify_roundtrip E, verify_wrong_password E, verify_corrupted_hash E,
      issue_and_verify_access_token E, issue_and_verify_refresh_token E,
      verify_with_wrong_secret E, expired_token_rejected E]"

section \<open>The auth repository\<close>

definition auth_test_db :: "env \<Rightarrow> (unit \<Rightarrow> 'a task) \<Rightarrow> 'a task" where
  "auth_test_db E k =
     awaited (perform_done (ConnectDb '':memory:'')) (\<lambda>_.
     awaited (migrate_auth E) k)"

definition create_and_find_user :: "env \<Rightarrow> unit task" where
  "create_and_find_user E =
     auth_test_db E (\<lambda>_.
     awaited (create_user E ''alice'' ''hash123'') (\<lambda>user.
     bind_prog (asserts [usr_username user = ''alice'', usr_id user \<noteq> []]) (\<lambda>_.
     awaited (find_user_by_username E ''alice'') (\<lambda>found.
     unwrap_some found (\<lambda>u. asserts [usr_id u = usr_id user])))))"

definition duplicate_user_returns_already_exists :: "env \<Rightarrow> unit task" where
  "duplicate_user_returns_already_exists E =
     auth_test_db E (\<lambda>_.
     awaited (create_user E ''bob'' ''hash1'') (\<lambda>_.
     bind_prog (create_user E ''bob'' ''hash2'') (\<lambda>result. asserts [isl result])))"

definition find_user_by_id_works :: "env \<Rightarrow> unit task" where
  "find_user_by_id_works E =
     auth_test_db E (\<lambda>_.
     awaited (create_user E ''carol'' ''hash'') (\<lambda>user.
     awaited (find_user_by_id E (usr_id user)) (\<lambda>found.
     unwrap_some found (\<lambda>u. bind_prog (asserts [usr_username u = ''carol'']) (\<lambda>_.
     awaited (find_user_by_id E ''nonexistent'') (\<lambda>missing.
     asserts [missing = None]))))))"

definition load_or_generate_secret_persists :: "env \<Rightarrow> unit task" where
  "load_or_generate_secret_persists E =
     auth_test_db E (\<lambda>_.
     awaited (load_or_generate_secret E) (\<lambda>first.
     bind_prog (asserts [first \<noteq> []]) (\<lambda>_.
     awaited (load_or_generate_secret E) (\<lambda>second.
     asserts [first = second]))))"

definition refresh_token_lifecycle :: "env \<Rightarrow> unit task" where
  "refresh_token_lifecycle E =
     auth_test_db E (\<lambda>_.
     awaited (create_user E ''dave'' ''hash'') (\<lambda>user.
     awaited (store_refresh_token E ''jti-1'' (usr_id user) (usr_username user) 3600) (\<lambda>_.
     awaited (consume_refresh_token E ''jti-1'') (\<lambda>b.
     bind_prog (asserts [b]) (\<lambda>_.
     awaited (consume_refresh_token E ''jti-1'') (\<lambda>b.
     asserts [\<not> b]))))))"

definition delete_refresh_tokens_for_user_works :: "env \<Rightarrow> unit task" where
  "delete_refresh_tokens_for_user_works E =
     auth_test_db E (\<lambda>_.
     awaited (create_user E ''eve'' ''hash'') (\<lambda>user.
     awaited (store_refresh_token E ''jti-a'' (usr_id user) (usr_username user) 3600) (\<lambda>_.
     awaited (store_refresh_token E ''jti-b'' (usr_id user) (usr_username user) 3600) (\<lambda>_.
     awaited (delete_refresh_tokens_for_user E (usr_id user)) (\<lambda>_.
     awaited (consume_refresh_token E ''jti-a'') (\<lambda>b.
     bind_prog (asserts [\<not> b]) (\<lambda>_.
     awaited (consume_refresh_token E ''jti-b'') (\<lambda>b.
     asserts [\<not> b]))))))))"

definition auth_db_tests :: "env \<Rightarrow> unit task list" where
  "auth_db_tests E =
     [create_and_find_user E, duplicate_user_returns_already_exists E, find_user_by_id_works E,
      load_or_generate_secret_persists E, refresh_token_lifecycle E,
      delete_refresh_tokens_for_user_works E]"

section \<open>The consumer's profiles\<close>

definition data_test_db :: "env \<Rightarrow> (unit \<Rightarrow> 'a task) \<Rightarrow> 'a task" where
  "data_test_db E k =
     awaited (perform_done (ConnectDb '':memory:'')) (\<lambda>_.
     awaited (data_migrate E) k)"

definition connect_and_migrate :: "env \<Rightarrow> unit task" where
  "connect_and_migrate E =
     data_test_db E (\<lambda>_.
     awaited (fetch_int (DataSql CountProfiles)) (\<lambda>count. asserts [count = 0]))"

definition create_profile_on_first_access :: "env \<Rightarrow> unit task" where
  "create_profile_on_first_access E =
     data_test_db E (\<lambda>_.
     awaited (find_or_create_profile E ''user-1'' ''alice'') (\<lambda>profile.
     asserts [prof_id profile = ''user-1'', prof_username profile = ''alice'',
       0 < sint (prof_created_at profile)]))"

definition find_existing_profile :: "env \<Rightarrow> unit task" where
  "find_existing_profile E =
     data_test_db E (\<lambda>_.
     awaited (find_or_create_profile E ''user-2'' ''bob'') (\<lambda>created.
     awaited (find_or_create_profile E ''user-2'' ''bob'') (\<lambda>found.
     asserts [prof_id created = prof_id found, prof_username created = prof_username found,
       prof_created_at created = prof_created_at found])))"

definition different_users_get_separate_profiles :: "env \<Rightarrow> unit task" where
  "different_users_get_separate_profiles E =
     data_test_db E (\<lambda>_.
     awaited (find_or_create_profile E ''u1'' ''alice'') (\<lambda>alice.
     awaited (find_or_create_profile E ''u2'' ''bob'') (\<lambda>bob.
     asserts [prof_id alice \<noteq> prof_id bob, prof_username alice = ''alice'',
       prof_username bob = ''bob''])))"

definition consumer_db_tests :: "env \<Rightarrow> unit task list" where
  "consumer_db_tests E =
     [connect_and_migrate E, create_profile_on_first_access E, find_existing_profile E,
      different_users_get_separate_profiles E]"

section \<open>Errors\<close>

definition display_with_identifier_and_error :: "bool list" where
  "display_with_identifier_and_error =
     (let err = Connection ''sqlite://test.db'' ''not found'' in
      [display_info (db_error_id err) (db_context err) =
         ''DB_CONNECTION_FAILED. url: sqlite://test.db (not found)''])"

definition display_with_identifier_no_error :: "bool list" where
  "display_with_identifier_no_error =
     (let err = InvalidCredentials ''alice'' in
      [display_info (auth_user_error_id err) (auth_user_context err) =
         ''INVALID_CREDENTIALS. username: alice''])"

definition display_without_identifier :: "bool list" where
  "display_without_identifier =
     (let err = Expired in
      [display_info (auth_token_error_id err) (auth_token_context err) = ''TOKEN_EXPIRED''])"

definition display_error_only :: "bool list" where
  "display_error_only =
     (let err = Invalid ''bad signature'' in
      [display_info (auth_token_error_id err) (auth_token_context err) =
         ''TOKEN_INVALID (bad signature)''])"

definition db_error_constructors :: "bool list" where
  "db_error_constructors =
     [servir_error_id (db_connection ''sqlite://x.db'' ''refused'') = ''DB_CONNECTION_FAILED'',
      servir_status_code (db_connection ''sqlite://x.db'' ''refused'') = 500,
      servir_error_id (db_migration ''checksum mismatch'') = ''DB_MIGRATION_FAILED'',
      servir_error_id (db_user_create ''alice'' ''unique violation'') = ''DB_USER_CREATE_FAILED'',
      servir_error_id (db_user_find_by_username ''bob'' ''timeout'') =
        ''DB_USER_FIND_BY_USERNAME_FAILED'',
      servir_error_id (db_user_find_by_id ''user-1'' ''timeout'') = ''DB_USER_FIND_BY_ID_FAILED'',
      servir_error_id (db_store_refresh_token ''alice'' ''disk full'') =
        ''DB_STORE_REFRESH_TOKEN_FAILED'',
      servir_error_id (db_delete_refresh_tokens_for_user ''alice'' ''locked'') =
        ''DB_DELETE_REFRESH_TOKENS_FOR_USER_FAILED'',
      servir_error_id (db_consume_refresh_token ''row not found'') =
        ''DB_CONSUME_REFRESH_TOKEN_FAILED'',
      servir_error_id (db_unknown ''some_op'' ''unexpected'') = ''DB_UNKNOWN'']"

definition servir_error_variants :: "bool list" where
  "servir_error_variants =
     [servir_error_id (servir_bad_request ''invalid json'') = ''BAD_REQUEST'',
      servir_status_code (servir_bad_request ''invalid json'') = 400,
      servir_error_id NotFound = ''NOT_FOUND'', servir_status_code NotFound = 404,
      servir_error_id (servir_from_io ''boom'') = ''IO_ERROR'',
      servir_status_code (servir_from_io ''boom'') = 500]"

definition from_impls :: "bool list" where
  "from_impls =
     (let a = servir_from_db (Connection ''x'' ''e'');
          b = servir_from_auth_user EmptyUsername;
          c = servir_from_auth_token Expired
      in [])"

definition error_tests :: "bool list list" where
  "error_tests =
     [display_with_identifier_and_error, display_with_identifier_no_error,
      display_without_identifier, display_error_only, db_error_constructors,
      servir_error_variants, from_impls]"

section \<open>Responses\<close>

fun is_api_error :: "'a api_response \<Rightarrow> bool" where
  "is_api_error (ApiError _) = True"
| "is_api_error (ApiOk _) = False"

definition ok_wraps_data :: "bool list" where
  "ok_wraps_data = (let r = api_ok (42 :: int) in [r = ApiOk 42])"

definition error_from_servir_error :: "bool list" where
  "error_from_servir_error =
     (case (api_error (AuthTokenErr Expired) :: unit api_response) of
        ApiOk _ \<Rightarrow> [False]
      | ApiError e \<Rightarrow> [body_error_id e = ''TOKEN_EXPIRED'', body_status_code e = 401])"

definition from_servir_error :: "bool list" where
  "from_servir_error =
     (let r = (api_from_error (AuthUserErr EmptyUsername) :: unit api_response) in [is_api_error r])"

definition from_result_ok :: "bool list" where
  "from_result_ok = (let r = api_from_result (Inr (7 :: int)) in [r = ApiOk 7])"

definition from_result_err :: "bool list" where
  "from_result_err =
     (let r = (api_from_result (Inl (db_migration [])) :: int api_response) in [is_api_error r])"

definition response_tests :: "bool list list" where
  "response_tests =
     [ok_wraps_data, error_from_servir_error, from_servir_error, from_result_ok, from_result_err]"

definition unit_tests :: "env \<Rightarrow> unit task list" where
  "unit_tests E = core_tests E @ auth_db_tests E @ consumer_db_tests E @
     map asserts (error_tests @ response_tests)"

end
