(* ===== verification/Unit_Suites.thy ===== *)
theory Unit_Suites
  imports Unit_Tests Consumer_Properties
begin

text \<open>
  The remaining unit tests pass: those of errors and responses outright, those with effects in
  every environment in which nothing fails and the libraries keep their documentation.
\<close>

section \<open>Errors and responses\<close>

lemmas error_test_defs = error_tests_def display_with_identifier_and_error_def
  display_with_identifier_no_error_def display_without_identifier_def display_error_only_def
  db_error_constructors_def servir_error_variants_def from_impls_def

lemmas response_test_defs = response_tests_def ok_wraps_data_def error_from_servir_error_def
  from_servir_error_def from_result_ok_def from_result_err_def

lemma error_tests_pass: "list_all (list_all id) error_tests"
  by (simp add: error_test_defs display_info_def error_simps)

lemma response_tests_pass: "list_all (list_all id) response_tests"
  by (simp add: response_test_defs api_ok_def api_error_def api_from_error_def
      error_body_new_def)

section \<open>What the other suites rely on\<close>

text \<open>
  Of the secrets it is assumed only that a token of the test's own secret does not verify under
  the other secret of the test. Two secrets in general may verify alike: HMAC pads short keys
  with zeros.
\<close>

definition unit_conditions :: "env \<Rightarrow> bool" where
  "unit_conditions E \<longleftrightarrow> conforming E core_test_config \<and>
     phc_error E ''not-a-valid-hash'' \<noteq> None \<and>
     (\<forall>n c t. jwt_encode E (cfg_secret core_test_config) c = Inr t \<longrightarrow>
        (\<exists>e. jwt_decode E n ''completely-different-secret-that-is-long-enough'' t = Inl e)) \<and>
     (\<forall>n. uuid E n \<noteq> [] \<and> uuid E n \<noteq> ''nonexistent'') \<and>
     (\<forall>n. \<exists>bs. random_bytes E n 32 = Some bs \<and> hex_encode E bs \<noteq> []) \<and>
     (\<forall>n now. clock E n = Some now \<longrightarrow> 1000060 < uint now \<and>
        (\<forall>m now'. clock E m = Some now' \<longrightarrow> uint now' < uint now + 3600))"

lemma core_test_secrets:
  "cfg_secret core_test_config \<noteq> ''completely-different-secret-that-is-long-enough''"
  by (simp add: core_test_config_def config_new_def)

lemma unit_conforming: "unit_conditions E \<Longrightarrow> conforming E core_test_config"
  by (simp add: unit_conditions_def)

lemma unit_clock:
  assumes "unit_conditions E"
  shows "\<exists>ck. \<forall>n. clock E n = Some (ck n) \<and> 1000060 < uint (ck n) \<and>
    uint (ck n) + 604800 < 2 ^ 63 \<and> (\<forall>m. uint (ck m) < uint (ck n) + 3600)"
proof -
  define ck where "ck n = the (clock E n)" for n
  have h: "healthy E core_test_config"
    using unit_conforming [OF assms] by (simp add: conforming_def)
  then have ck: "clock E n = Some (ck n)" for n
    by (auto simp: healthy_def clock_runs_def ck_def)
  moreover have "uint (ck n) + 604800 < 2 ^ 63" for n
    using h ck unfolding healthy_def by (fastforce simp: core_test_config_def config_new_def)
  moreover have "1000060 < uint (ck n)" "uint (ck m) < uint (ck n) + 3600" for n m
    using assms ck unfolding unit_conditions_def by blast+
  ultimately show ?thesis by blast
qed

lemma unit_fault: "unit_conditions E \<Longrightarrow> fault E n = None"
  by (rule conforming_fault [OF unit_conforming])

section \<open>Passwords and tokens\<close>

lemma pass_hash_and_verify:
  assumes "unit_conditions E"
  shows "passes E (hash_and_verify_roundtrip E) w" and "passes E (verify_wrong_password E) w"
    and "passes E (verify_corrupted_hash E) w"
proof -
  have conf: "healthy E core_test_config" "hash_roundtrip E"
    using unit_conforming [OF assms] by (simp_all add: conforming_def)
  obtain h where h: "\<And>s p. argon2_hash E s p = Inr (h s p)"
    using healthy_hash [OF conf(1)] by blast
  then have "phc_error E (h s p) = None" "argon2_verify E q (h s p) \<longleftrightarrow> q = p" for s p q
    using conf(2) by (auto simp: hash_roundtrip_def)
  then show "passes E (hash_and_verify_roundtrip E) w" and "passes E (verify_wrong_password E) w"
    by (simp_all add: hash_and_verify_roundtrip_def verify_wrong_password_def awaited_def
        passes_def run_bind_prog run_hash_password h verify_password_def asserts.simps)
  show "passes E (verify_corrupted_hash E) w"
    using assms by (auto simp: verify_corrupted_hash_def verify_password_def unit_conditions_def)
qed

lemma issue_access_conforming:
  assumes "conforming E cfg"
  shows "\<exists>t c w'. run (perform E) (issue_access_token E i u cfg) w = (Returned (Inr t), w') \<and>
    accepted E cfg t c \<and> cl_sub c = i \<and> cl_username c = u \<and> cl_kind c = Access"
proof -
  have h: "healthy E cfg"
    using assms by (simp add: conforming_def)
  obtain ck where ck: "\<And>n. clock E n = Some (ck n)"
    "\<And>n. add_usize (overflow_checks E) (ck n) (cfg_access_token_ttl_secs cfg) =
           Some (ck n + cfg_access_token_ttl_secs cfg)"
    using healthy_clock [OF h] by blast
  obtain enc where enc: "\<And>s c. jwt_encode E s c = Inr (enc s c)"
    using healthy_encode [OF h] by blast
  let ?c = "claims_at i u (ck (tick w)) (cfg_access_token_ttl_secs cfg) (uuid E (Suc (tick w))) Access"
  have "accepted E cfg (enc (cfg_secret cfg) ?c) ?c"
    by (rule conforming_accepted [OF assms ck(1) [of "tick w"] enc])
      (simp add: claims_at_def conforming_lifetimes(1) [OF assms ck(1)])
  then show ?thesis
    by (force simp: run_issue_access_token ck enc claims_at_def)
qed

lemma issue_refresh_conforming:
  assumes "conforming E cfg"
  shows "\<exists>t j c w'. run (perform E) (issue_refresh_token E i u cfg) w =
      (Returned (Inr (t, j)), w') \<and> accepted E cfg t c \<and> cl_sub c = i \<and> cl_username c = u \<and>
    cl_kind c = Refresh \<and> cl_jti c = j"
proof -
  have h: "healthy E cfg"
    using assms by (simp add: conforming_def)
  obtain ck where ck: "\<And>n. clock E n = Some (ck n)"
    "\<And>n. add_usize (overflow_checks E) (ck n) (cfg_refresh_token_ttl_secs cfg) =
           Some (ck n + cfg_refresh_token_ttl_secs cfg)"
    using healthy_clock [OF h] by blast
  obtain enc where enc: "\<And>s c. jwt_encode E s c = Inr (enc s c)"
    using healthy_encode [OF h] by blast
  let ?c = "claims_at i u (ck (tick w)) (cfg_refresh_token_ttl_secs cfg) (uuid E (Suc (tick w))) Refresh"
  have "accepted E cfg (enc (cfg_secret cfg) ?c) ?c"
    by (rule conforming_accepted [OF assms ck(1) [of "tick w"] enc])
      (simp add: claims_at_def conforming_lifetimes(2) [OF assms ck(1)])
  then show ?thesis
    by (force simp: run_issue_refresh_token ck enc claims_at_def)
qed

lemma run_verify_accepted:
  "accepted E cfg t c \<Longrightarrow> run (perform E) (verify_token t cfg) w = (Returned (Inr c), advance w)"
  by (simp add: run_verify_token accepted_def)

lemma pass_issue_and_verify:
  assumes "unit_conditions E"
  shows "passes E (issue_and_verify_access_token E) w"
    and "passes E (issue_and_verify_refresh_token E) w"
    and "passes E (verify_with_wrong_secret E) w"
proof -
  note conf = unit_conforming [OF assms]
  obtain t c w' where acc: "run (perform E) (issue_access_token E ''user-123'' ''alice''
      core_test_config) w = (Returned (Inr t), w')" "accepted E core_test_config t c"
    "cl_sub c = ''user-123''" "cl_username c = ''alice''" "cl_kind c = Access"
    using issue_access_conforming [OF conf] by blast
  then show "passes E (issue_and_verify_access_token E) w"
    by (simp add: issue_and_verify_access_token_def passes_awaited [OF acc(1)]
        passes_awaited [OF run_verify_accepted])
  obtain e where "jwt_decode E (tick w') ''completely-different-secret-that-is-long-enough'' t = Inl e"
    using assms acc(2) unfolding unit_conditions_def accepted_def by blast
  then have "run (perform E) (verify_token t
      (config_new ''completely-different-secret-that-is-long-enough'')) w' =
      (Returned (Inl (token_error_of e)), advance w')"
    by (simp add: run_verify_token config_new_def)
  then show "passes E (verify_with_wrong_secret E) w"
    by (simp add: verify_with_wrong_secret_def passes_awaited [OF acc(1)] passes_bind Let_def)
  obtain t j c w' where ref: "run (perform E) (issue_refresh_token E ''user-123'' ''alice''
      core_test_config) w = (Returned (Inr (t, j)), w')" "accepted E core_test_config t c"
    "cl_sub c = ''user-123''" "cl_kind c = Refresh" "cl_jti c = j"
    using issue_refresh_conforming [OF conf] by blast
  then show "passes E (issue_and_verify_refresh_token E) w"
    by (simp add: issue_and_verify_refresh_token_def passes_awaited [OF ref(1)]
        passes_awaited [OF run_verify_accepted])
qed

lemma pass_expired_token_rejected:
  assumes "unit_conditions E"
  shows "passes E (expired_token_rejected E) w"
proof -
  let ?c = "\<lparr>cl_sub = ''user-123'', cl_username = ''alice'', cl_exp = 1000000, cl_iat = 1000000,
    cl_jti = ''test-jti'', cl_kind = Access\<rparr>"
  have conf: "healthy E core_test_config" "jwt_roundtrip E"
    using unit_conforming [OF assms] by (simp_all add: conforming_def)
  obtain t where t: "jwt_encode E (cfg_secret core_test_config) ?c = Inr t"
    using healthy_encode [OF conf(1)] by blast
  obtain ck where "clock E (tick w) = Some (ck (tick w))" "1000060 < uint (ck (tick w))"
    using unit_clock [OF assms] by blast
  then have "jwt_decode E (tick w) (cfg_secret core_test_config) t = Inl ExpiredSignature"
    using t conf(2) by (simp add: jwt_roundtrip_def)
  then have "run (perform E) (verify_token t core_test_config) w =
      (Returned (Inl token_expired), advance w)"
    by (simp add: run_verify_token)
  then show ?thesis
    by (simp add: expired_token_rejected_def t passes_bind Let_def)
qed

section \<open>The databases\<close>

lemma passes_auth_test_db:
  assumes "unit_conditions E" and "auth w = empty_auth_db"
    and "\<And>v. auth v = empty_auth_db\<lparr>applied := 3\<rparr> \<Longrightarrow> passes E (k ()) v"
  shows "passes E (auth_test_db E k) w"
proof -
  let ?v = "set_auth (migrate_auth_db (auth w)) (advance (advance (advance w)))"
  have "auth ?v = empty_auth_db\<lparr>applied := 3\<rparr>"
    by (simp add: assms(2) migrate_auth_db_def empty_auth_db_def)
  from assms(3) [OF this] show ?thesis
    by (simp add: auth_test_db_def passes_def awaited_def run_bind_prog run_perform_done
        run_migrate_auth unit_fault [OF assms(1)])
qed

lemma passes_data_test_db:
  assumes "unit_conditions E" and "data w = empty_data_db"
    and "\<And>v. data v = empty_data_db\<lparr>data_applied := 1\<rparr> \<Longrightarrow> passes E (k ()) v"
  shows "passes E (data_test_db E k) w"
proof -
  let ?v = "set_data (migrate_data_db (data w)) (advance (advance (advance w)))"
  have "data ?v = empty_data_db\<lparr>data_applied := 1\<rparr>"
    by (simp add: assms(2) migrate_data_db_def empty_data_db_def)
  from assms(3) [OF this] show ?thesis
    by (simp add: data_test_db_def passes_def awaited_def run_bind_prog run_perform_done
        run_data_migrate unit_fault [OF assms(1)])
qed

lemma unit_lifetime:
  assumes "uint (a :: u64) + 604800 < 2 ^ 63" and "uint (b :: u64) < uint a + 3600"
  shows "add_i64 checks a 3600 = Some (a + 3600)" and "sint b < sint (a + 3600)"
proof -
  have fits: "uint a + uint (3600 :: u64) < 2 ^ 63"
    using assms(1) by simp
  show "add_i64 checks a 3600 = Some (a + 3600)"
    by (rule add_i64_exact(1) [OF fits])
  have "sint b = uint b"
    by (rule sint_of_small) (use assms in linarith)
  with assms(2) add_i64_exact(2) [OF fits] show "sint b < sint (a + 3600)"
    by simp
qed

lemma pass_auth_db_tests:
  assumes "unit_conditions E" and "auth w = empty_auth_db"
  shows "list_all (\<lambda>test. passes E test w) (auth_db_tests E)"
proof -
  obtain ck where ck: "\<And>n. clock E n = Some (ck n)" "\<And>n. uint (ck n) + 604800 < 2 ^ 63"
    "\<And>n m. uint (ck m) < uint (ck n) + 3600"
    using unit_clock [OF assms(1)] by blast
  have uuid: "uuid E n \<noteq> []" "uuid E n \<noteq> ''nonexistent''" for n
    using assms(1) by (simp_all add: unit_conditions_def)
  obtain rb where rb: "\<And>n. random_bytes E n 32 = Some (rb n)" "\<And>n. hex_encode E (rb n) \<noteq> []"
    using assms(1) unfolding unit_conditions_def by metis
  note env = ck(1) unit_fault [OF assms(1)] unit_lifetime [OF ck(2,3)] uuid rb
  note symbolic = passes_def awaited_def run_bind_prog run_bind_ok run_repository after_auth_def
    empty_auth_db_def asserts.simps user_of_row_def
  have 1: "passes E (create_and_find_user E) w"
    unfolding create_and_find_user_def
    by (rule passes_auth_test_db [OF assms]) (simp add: symbolic env)
  have 2: "passes E (duplicate_user_returns_already_exists E) w"
    unfolding duplicate_user_returns_already_exists_def
    by (rule passes_auth_test_db [OF assms]) (simp add: symbolic env)
  have 3: "passes E (find_user_by_id_works E) w"
    unfolding find_user_by_id_works_def
    by (rule passes_auth_test_db [OF assms]) (simp add: symbolic env)
  have 4: "passes E (load_or_generate_secret_persists E) w"
    unfolding load_or_generate_secret_persists_def
    by (rule passes_auth_test_db [OF assms])
      (simp add: symbolic env load_or_generate_secret_def run_map_err run_select_secret
        run_random_requests run_affects Let_def)
  have 5: "passes E (refresh_token_lifecycle E) w"
    unfolding refresh_token_lifecycle_def
    by (rule passes_auth_test_db [OF assms]) (simp add: symbolic env Let_def)
  have 6: "passes E (delete_refresh_tokens_for_user_works E) w"
    unfolding delete_refresh_tokens_for_user_works_def
    by (rule passes_auth_test_db [OF assms]) (simp add: symbolic env Let_def)
  from 1 2 3 4 5 6 show ?thesis
    by (simp add: auth_db_tests_def)
qed

lemma pass_consumer_db_tests:
  assumes "unit_conditions E" and "data w = empty_data_db"
  shows "list_all (\<lambda>test. passes E test w) (consumer_db_tests E)"
proof -
  obtain ck where ck: "\<And>n. clock E n = Some (ck n)" "\<And>n. 1000060 < uint (ck n)"
    "\<And>n. uint (ck n) + 604800 < 2 ^ 63"
    using unit_clock [OF assms(1)] by blast
  have pos: "0 < sint (ck n)" for n
  proof -
    have "sint (ck n) = uint (ck n)"
      by (rule sint_of_small) (use ck(3) [of n] in linarith)
    with ck(2) [of n] show ?thesis by linarith
  qed
  note symbolic = ck(1) pos unit_fault [OF assms(1)] passes_def awaited_def run_bind_prog
    run_find_or_create_profile after_data_def empty_data_db_def asserts.simps
  have 0: "passes E (connect_and_migrate E) w"
    unfolding connect_and_migrate_def
    by (rule passes_data_test_db [OF assms]) (simp add: symbolic fetch_int_def perform_data_def)
  have 1: "passes E (create_profile_on_first_access E) w"
    unfolding create_profile_on_first_access_def
    by (rule passes_data_test_db [OF assms]) (simp add: symbolic)
  have 2: "passes E (find_existing_profile E) w"
    unfolding find_existing_profile_def
    by (rule passes_data_test_db [OF assms]) (simp add: symbolic)
  have 3: "passes E (different_users_get_separate_profiles E) w"
    unfolding different_users_get_separate_profiles_def
    by (rule passes_data_test_db [OF assms]) (simp add: symbolic)
  from 0 1 2 3 show ?thesis
    by (simp add: consumer_db_tests_def)
qed

section \<open>The suites\<close>

lemma pass_core_tests:
  assumes "unit_conditions E"
  shows "list_all (\<lambda>test. passes E test w) (core_tests E)"
  unfolding core_tests_def list.pred_inject
  by (intro conjI list.pred_inject(1) pass_hash_and_verify pass_issue_and_verify
      pass_expired_token_rejected assms)

text \<open>C25: The unit tests of the password and token functions, of the auth repository, of the
  consumer's profile store, and of the errors and responses pass, in every environment in which
  nothing fails, the libraries keep their documentation, and the clock moves by less than the
  lifetimes the tests use.\<close>

theorem unit_suites_pass:
  assumes "unit_conditions E" and "auth w = empty_auth_db" and "data w = empty_data_db"
    and "test \<in> set (unit_tests E)"
  shows "fst (run (perform E) test w) = Returned ()"
proof -
  have "list_all (\<lambda>test. passes E test w) (map asserts (error_tests @ response_tests))"
    using error_tests_pass response_tests_pass by (auto simp: list.pred_map comp_def)
  then show ?thesis
    using assms(4) pass_core_tests [OF assms(1), of w] pass_auth_db_tests [OF assms(1,2)]
      pass_consumer_db_tests [OF assms(1,3)]
    unfolding list_all_iff unit_tests_def passes_def by auto
qed

lemma late_unit_conditions: "unit_conditions late_env"
proof -
  have "conforming late_env core_test_config"
    by (rule late_conforming) (simp_all add: core_test_config_def config_new_def)
  moreover have "\<exists>e. late_decode n ''completely-different-secret-that-is-long-enough'' t = Inl e"
    if "demo_encode (cfg_secret core_test_config) c = Inr t" for n c t
    using demo_parse_encode [OF that] core_test_secrets by (simp add: late_decode_def)
  moreover have "demo_uuid (Suc n) \<noteq> ''nonexistent''" for n
    by (simp add: demo_uuid_def)
  moreover have "\<exists>bs. random_bytes late_env n 32 = Some bs \<and> hex_encode late_env bs \<noteq> []" for n
    by (simp add: late_env_def demo_env_def)
  ultimately show ?thesis
    by (auto simp: unit_conditions_def demo_uuid_def)
qed

theorem unit_suites_pass_witness:
  "list_all (\<lambda>test. fst (run (perform late_env) test empty_world) = Returned ())
     (unit_tests late_env) \<and>
   length (unit_tests late_env) = 29"
proof
  show "list_all (\<lambda>test. fst (run (perform late_env) test empty_world) = Returned ())
     (unit_tests late_env)"
    unfolding list_all_iff
    by (intro ballI unit_suites_pass [OF late_unit_conditions])
      (simp_all add: empty_world_def)
qed (simp add: unit_tests_def core_tests_def auth_db_tests_def consumer_db_tests_def
    error_tests_def response_tests_def)

end
