(* ===== verification/Http_Tests.thy ===== *)
theory Http_Tests
  imports Testing
begin

text \<open>
  The unit tests of \<open>src/auth/http.rs\<close> as programs: each builds its own application on an
  in-memory database, sends requests, and panics at an assertion that does not hold.
\<close>

definition quoted :: "string \<Rightarrow> string" where
  "quoted s = CHR 0x22 # s @ [CHR 0x22]"

section \<open>The application under test\<close>

datatype test_handler = HProtected

definition test_secret :: string where
  "test_secret = ''test-secret-key-must-be-at-least-32-chars!!''"

definition protected_endpoint :: "web \<Rightarrow> request \<Rightarrow> response task" where
  "protected_endpoint W req =
     respond JStr (bind_ok (auth_user W req) (\<lambda>claims. ok (api_ok (claims_username claims))))"

fun run_test_handler :: "env \<Rightarrow> web \<Rightarrow> test_handler \<Rightarrow> request \<Rightarrow> response task" where
  "run_test_handler E W HProtected req = protected_endpoint W req"

definition test_router :: "auth_config \<Rightarrow> test_handler handler router" where
  "test_router config =
     Layered (Merge (Route RouterNew ''/protected'' Get (HApp HProtected))
       (mount_auth_routes config)) (AuthLayer config)"

definition build_test_app ::
  "test_handler dispatcher \<Rightarrow> env \<Rightarrow> web \<Rightarrow> (request \<Rightarrow> response task) task" where
  "build_test_app D E W =
     (let config = config_new test_secret in
      bind_prog (expect_ok ''in-memory pool'' (perform_done (ConnectDb '':memory:''))) (\<lambda>_.
      bind_prog (expect_ok ''auth migrations'' (migrate_auth E)) (\<lambda>_.
      Ret (app_call D E W (run_test_handler E W) (test_router config)))))"

definition test_register :: "web \<Rightarrow> (request \<Rightarrow> response task) \<Rightarrow> (string \<times> string) task" where
  "test_register W app =
     bind_prog (call_app app (post W ''/auth/register'' (credentials_json ''alice'' ''hunter22'')))
       (\<lambda>(status, json).
     unwrap_str (json_index (json_index json ''data'') ''access_token'') (\<lambda>access.
     unwrap_str (json_index (json_index json ''data'') ''refresh_token'') (\<lambda>refresh.
     Ret (access, refresh))))"

section \<open>Registration\<close>

definition register_returns_tokens ::
  "test_handler dispatcher \<Rightarrow> env \<Rightarrow> web \<Rightarrow> unit task" where
  "register_returns_tokens D E W =
     bind_prog (build_test_app D E W) (\<lambda>app.
     bind_prog (call_app app (post W ''/auth/register'' (credentials_json ''bob'' ''password1'')))
       (\<lambda>(status, json).
     asserts [status = 200,
       json_index json ''status'' = JStr ''ok'',
       json_is_string (json_index (json_index json ''data'') ''access_token''),
       json_is_string (json_index (json_index json ''data'') ''refresh_token''),
       json_index (json_index json ''data'') ''token_type'' = JStr ''Bearer'']))"

definition register_empty_username_returns_400 ::
  "test_handler dispatcher \<Rightarrow> env \<Rightarrow> web \<Rightarrow> unit task" where
  "register_empty_username_returns_400 D E W =
     bind_prog (build_test_app D E W) (\<lambda>app.
     bind_prog (call_app app (post W ''/auth/register'' (credentials_json [] ''12345678'')))
       (\<lambda>(status, json).
     asserts [status = 400,
       json_index (json_index json ''error'') ''error_id'' = JStr ''EMPTY_USERNAME'']))"

definition register_weak_password_returns_400 ::
  "test_handler dispatcher \<Rightarrow> env \<Rightarrow> web \<Rightarrow> unit task" where
  "register_weak_password_returns_400 D E W =
     bind_prog (build_test_app D E W) (\<lambda>app.
     bind_prog (call_app app (post W ''/auth/register'' (credentials_json ''bob'' ''short'')))
       (\<lambda>(status, json).
     asserts [status = 400,
       json_index (json_index json ''error'') ''error_id'' = JStr ''WEAK_PASSWORD'']))"

definition register_duplicate_returns_409 ::
  "test_handler dispatcher \<Rightarrow> env \<Rightarrow> web \<Rightarrow> unit task" where
  "register_duplicate_returns_409 D E W =
     bind_prog (build_test_app D E W) (\<lambda>app.
     bind_prog (test_register W app) (\<lambda>tokens.
     bind_prog (call_app app (post W ''/auth/register'' (credentials_json ''alice'' ''hunter22'')))
       (\<lambda>(status, json).
     asserts [status = 409,
       json_index (json_index json ''error'') ''error_id'' = JStr ''ALREADY_EXISTS'',
       json_index (json_index (json_index json ''error'') ''context'') ''username'' = JStr ''alice''])))"

section \<open>Login\<close>

definition login_correct_credentials_returns_tokens ::
  "test_handler dispatcher \<Rightarrow> env \<Rightarrow> web \<Rightarrow> unit task" where
  "login_correct_credentials_returns_tokens D E W =
     bind_prog (build_test_app D E W) (\<lambda>app.
     bind_prog (test_register W app) (\<lambda>tokens.
     bind_prog (call_app app (post W ''/auth/login'' (credentials_json ''alice'' ''hunter22'')))
       (\<lambda>(status, json).
     asserts [status = 200,
       json_is_string (json_index (json_index json ''data'') ''access_token''),
       json_is_string (json_index (json_index json ''data'') ''refresh_token'')])))"

definition login_wrong_password_returns_401 ::
  "test_handler dispatcher \<Rightarrow> env \<Rightarrow> web \<Rightarrow> unit task" where
  "login_wrong_password_returns_401 D E W =
     bind_prog (build_test_app D E W) (\<lambda>app.
     bind_prog (test_register W app) (\<lambda>tokens.
     bind_prog (call_app app (post W ''/auth/login'' (credentials_json ''alice'' ''wrongpass'')))
       (\<lambda>(status, json).
     asserts [status = 401,
       json_index (json_index json ''error'') ''error_id'' = JStr ''INVALID_CREDENTIALS'',
       json_index (json_index (json_index json ''error'') ''context'') ''username'' = JStr ''alice''])))"

definition login_nonexistent_user_returns_401 ::
  "test_handler dispatcher \<Rightarrow> env \<Rightarrow> web \<Rightarrow> unit task" where
  "login_nonexistent_user_returns_401 D E W =
     bind_prog (build_test_app D E W) (\<lambda>app.
     bind_prog (call_app app (post W ''/auth/login'' (credentials_json ''nobody'' ''hunter22'')))
       (\<lambda>(status, json).
     asserts [status = 401,
       json_index (json_index json ''error'') ''error_id'' = JStr ''INVALID_CREDENTIALS'',
       json_index (json_index (json_index json ''error'') ''context'') ''username'' = JStr ''nobody'']))"

section \<open>A protected route\<close>

definition protected_with_valid_token ::
  "test_handler dispatcher \<Rightarrow> env \<Rightarrow> web \<Rightarrow> unit task" where
  "protected_with_valid_token D E W =
     bind_prog (build_test_app D E W) (\<lambda>app.
     bind_prog (test_register W app) (\<lambda>(access, refresh).
     bind_prog (call_app app (get_authed ''/protected'' access))
       (\<lambda>(status, json).
     asserts [status = 200,
       json_index json ''data'' = JStr ''alice''])))"

definition protected_without_token_returns_401 ::
  "test_handler dispatcher \<Rightarrow> env \<Rightarrow> web \<Rightarrow> unit task" where
  "protected_without_token_returns_401 D E W =
     bind_prog (build_test_app D E W) (\<lambda>app.
     bind_prog (call_app app (http_request ''GET'' ''/protected''))
       (\<lambda>(status, json).
     asserts [status = 401,
       json_index (json_index json ''error'') ''error_id'' = JStr ''MISSING_AUTHORIZATION_HEADER'']))"

definition protected_with_invalid_token_returns_401 ::
  "test_handler dispatcher \<Rightarrow> env \<Rightarrow> web \<Rightarrow> unit task" where
  "protected_with_invalid_token_returns_401 D E W =
     bind_prog (build_test_app D E W) (\<lambda>app.
     bind_prog (call_app app (get_authed ''/protected'' ''not.a.valid.jwt''))
       (\<lambda>(status, json).
     asserts [status = 401,
       json_index (json_index json ''error'') ''error_id'' = JStr ''TOKEN_INVALID'']))"

definition protected_with_expired_token_returns_401 ::
  "test_handler dispatcher \<Rightarrow> env \<Rightarrow> web \<Rightarrow> unit task" where
  "protected_with_expired_token_returns_401 D E W =
     unwrap_ok (jwt_encode E test_secret
       \<lparr>cl_sub = ''user-123'', cl_username = ''alice'', cl_exp = 1000000, cl_iat = 999000,
        cl_jti = ''jti-expired'', cl_kind = Access\<rparr>) (\<lambda>token.
     bind_prog (build_test_app D E W) (\<lambda>app.
     bind_prog (call_app app (get_authed ''/protected'' token))
       (\<lambda>(status, json).
     asserts [status = 401,
       json_index (json_index json ''error'') ''error_id'' = JStr ''TOKEN_EXPIRED''])))"

definition protected_with_refresh_token_returns_401 ::
  "test_handler dispatcher \<Rightarrow> env \<Rightarrow> web \<Rightarrow> unit task" where
  "protected_with_refresh_token_returns_401 D E W =
     bind_prog (build_test_app D E W) (\<lambda>app.
     bind_prog (test_register W app) (\<lambda>(access, refresh).
     bind_prog (call_app app (get_authed ''/protected'' refresh))
       (\<lambda>(status, json).
     asserts [status = 401,
       json_index (json_index json ''error'') ''error_id'' = JStr ''WRONG_TOKEN_KIND''])))"

definition me_returns_user_info ::
  "test_handler dispatcher \<Rightarrow> env \<Rightarrow> web \<Rightarrow> unit task" where
  "me_returns_user_info D E W =
     bind_prog (build_test_app D E W) (\<lambda>app.
     bind_prog (test_register W app) (\<lambda>(access, refresh).
     bind_prog (call_app app (get_authed ''/auth/me'' access))
       (\<lambda>(status, json).
     asserts [status = 200,
       json_index (json_index json ''data'') ''username'' = JStr ''alice'',
       json_is_string (json_index (json_index json ''data'') ''user_id'')])))"

section \<open>Refresh and logout\<close>

definition refresh_returns_new_tokens ::
  "test_handler dispatcher \<Rightarrow> env \<Rightarrow> web \<Rightarrow> unit task" where
  "refresh_returns_new_tokens D E W =
     bind_prog (build_test_app D E W) (\<lambda>app.
     bind_prog (test_register W app) (\<lambda>(access, refresh).
     bind_prog (call_app app (post W ''/auth/refresh'' (refresh_json refresh)))
       (\<lambda>(status, json).
     asserts [status = 200,
       json_is_string (json_index (json_index json ''data'') ''access_token''),
       json_index (json_index json ''data'') ''refresh_token'' \<noteq> JStr refresh])))"

definition refresh_consumed_token_returns_401 ::
  "test_handler dispatcher \<Rightarrow> env \<Rightarrow> web \<Rightarrow> unit task" where
  "refresh_consumed_token_returns_401 D E W =
     bind_prog (build_test_app D E W) (\<lambda>app.
     bind_prog (test_register W app) (\<lambda>(access, refresh).
     bind_prog (call_app app (post W ''/auth/refresh'' (refresh_json refresh)))
       (\<lambda>_.
     bind_prog (call_app app (post W ''/auth/refresh'' (refresh_json refresh)))
       (\<lambda>(status, json).
     asserts [status = 401,
       json_index (json_index json ''error'') ''error_id'' = JStr ''INVALID_REFRESH_TOKEN'']))))"

definition refresh_with_access_token_returns_401 ::
  "test_handler dispatcher \<Rightarrow> env \<Rightarrow> web \<Rightarrow> unit task" where
  "refresh_with_access_token_returns_401 D E W =
     read_clock (\<lambda>reading.
     case reading of None \<Rightarrow> Panic ''unwrap on Err'' | Some now \<Rightarrow>
     case add_usize (overflow_checks E) now 3600 of None \<Rightarrow> Panic overflow_message | Some exp' \<Rightarrow>
     unwrap_ok (jwt_encode E test_secret
       \<lparr>cl_sub = ''user-123'', cl_username = ''someone'', cl_exp = exp', cl_iat = now,
        cl_jti = ''jti-access'', cl_kind = Access\<rparr>) (\<lambda>token.
     bind_prog (build_test_app D E W) (\<lambda>app.
     bind_prog (call_app app (post W ''/auth/refresh'' (refresh_json token)))
       (\<lambda>(status, json).
     asserts [status = 401,
       json_index (json_index json ''error'') ''error_id'' = JStr ''WRONG_TOKEN_KIND'']))))"

definition logout_then_refresh_returns_401 ::
  "test_handler dispatcher \<Rightarrow> env \<Rightarrow> web \<Rightarrow> unit task" where
  "logout_then_refresh_returns_401 D E W =
     bind_prog (build_test_app D E W) (\<lambda>app.
     bind_prog (test_register W app) (\<lambda>(access, refresh).
     bind_prog (call_app app (post W ''/auth/logout'' (refresh_json refresh)))
       (\<lambda>(status, _).
     bind_prog (asserts [status = 200]) (\<lambda>_.
     bind_prog (call_app app (post W ''/auth/refresh'' (refresh_json refresh)))
       (\<lambda>(status, json).
     asserts [status = 401,
       json_index (json_index json ''error'') ''error_id'' = JStr ''INVALID_REFRESH_TOKEN''])))))"

section \<open>Malformed bodies\<close>

definition malformed_json_returns_400 ::
  "test_handler dispatcher \<Rightarrow> env \<Rightarrow> web \<Rightarrow> unit task" where
  "malformed_json_returns_400 D E W =
     bind_prog (build_test_app D E W) (\<lambda>app.
     bind_prog (call_app app ((http_request ''POST'' ''/auth/register'')
       \<lparr>rq_content_type := Some ''application/json'', rq_body := ''{broken''\<rparr>))
       (\<lambda>(status, json).
     asserts [status = 400,
       json_index (json_index json ''error'') ''error_id'' = JStr ''BAD_REQUEST'']))"

definition missing_content_type_returns_400 ::
  "test_handler dispatcher \<Rightarrow> env \<Rightarrow> web \<Rightarrow> unit task" where
  "missing_content_type_returns_400 D E W =
     bind_prog (build_test_app D E W) (\<lambda>app.
     bind_prog (call_app app ((http_request ''POST'' ''/auth/register'')
       \<lparr>rq_body := ''{'' @ quoted ''username'' @ '':'' @ quoted ''a'' @ '','' @
         quoted ''password'' @ '':'' @ quoted ''b'' @ ''}''\<rparr>))
       (\<lambda>(status, json).
     asserts [status = 400,
       json_index (json_index json ''error'') ''error_id'' = JStr ''BAD_REQUEST'']))"

text \<open>The suite.\<close>

definition auth_http_tests :: "test_handler dispatcher \<Rightarrow> env \<Rightarrow> web \<Rightarrow> unit task list" where
  "auth_http_tests D E W =
     [register_returns_tokens D E W,
      register_empty_username_returns_400 D E W,
      register_weak_password_returns_400 D E W,
      register_duplicate_returns_409 D E W,
      login_correct_credentials_returns_tokens D E W,
      login_wrong_password_returns_401 D E W,
      login_nonexistent_user_returns_401 D E W,
      protected_with_valid_token D E W,
      protected_without_token_returns_401 D E W,
      protected_with_invalid_token_returns_401 D E W,
      protected_with_expired_token_returns_401 D E W,
      protected_with_refresh_token_returns_401 D E W,
      me_returns_user_info D E W,
      refresh_returns_new_tokens D E W,
      refresh_consumed_token_returns_401 D E W,
      refresh_with_access_token_returns_401 D E W,
      logout_then_refresh_returns_401 D E W,
      malformed_json_returns_400 D E W,
      missing_content_type_returns_400 D E W]"

end
