(* ===== verification/Served_Properties.thy ===== *)
theory Served_Properties
  imports Consumer_Properties Testing
begin

text \<open>
  From \<open>build\<close> to the responses of the server: the composition of builder, router, layers,
  handlers and repository, seen by a client.
\<close>

section \<open>The assembled server as an application with auth routes\<close>

lemma built_route:
  assumes "axum_routes D" and "plain_api api"
    and "rq_path req = ''/api/v1'' @ p" and "rq_method req = method_name m"
    and "(p, Some m, ls, h) \<in> set (routes_of api @
        [(''/auth/register'', Some Post, [], HRegister cfg),
         (''/auth/login'', Some Post, [], HLogin cfg),
         (''/auth/refresh'', Some Post, [], HRefresh cfg),
         (''/auth/logout'', Some Post, [], HLogout cfg),
         (''/auth/me'', Some Get, [], HMe),
         (''/health'', Some Get, [], HHealth)])"
  shows "app_call D E W app (build_router api cfg) req =
    through_layers ls (run_handler E W app h) (req\<lparr>rq_extension := Some cfg\<rparr>)"
proof -
  let ?f = "\<lambda>(p, m, ls, h). (''/api/v1'' @ p, m,
    [SetRequestIdUuid, PropagateRequestId, TraceLayer, AuthLayer cfg] @ ls, h)"
  have "(rq_path req, Some m, [SetRequestIdUuid, PropagateRequestId, TraceLayer, AuthLayer cfg] @ ls,
      h) \<in> set (routes_of (build_router api cfg))"
    unfolding routes_of_build_router set_append [of "map ?f _"] set_map [of ?f] assms(3)
    using imageI [OF assms(5), of ?f] by (simp only: prod.case) (rule UnI1)
  from app_call_route [OF assms(1) plain_build_router [OF assms(2)] this assms(4)]
  show ?thesis unfolding through_build_layers .
qed

lemma built_auth_service:
  assumes "axum_routes D" and "plain_api api"
  shows "auth_service E W cfg (app_call D E W app (build_router api cfg)) ''/api/v1''"
proof (unfold_locales, goal_cases)
  case (1 req)
  then show ?case
    using built_route [OF assms 1(1), of Post "[]" "HRegister cfg" cfg E W app] by simp
next
  case (2 req)
  then show ?case
    using built_route [OF assms 2(1), of Post "[]" "HLogin cfg" cfg E W app] by simp
next
  case (3 req)
  then show ?case
    using built_route [OF assms 3(1), of Post "[]" "HRefresh cfg" cfg E W app] by simp
next
  case (4 req)
  then show ?case
    using built_route [OF assms 4(1), of Post "[]" "HLogout cfg" cfg E W app] by simp
next
  case (5 req)
  then show ?case
    using built_route [OF assms 5(1), of Get "[]" HMe cfg E W app] by simp
qed

interpretation consumer_server: auth_service E W cfg
  "app_call table_dispatch E W (run_app E W) (build_router app_routes cfg)" "''/api/v1''"
  for E W cfg
  by (rule built_auth_service [OF table_dispatch_axum app_routes_plain])

section \<open>What the server answers\<close>

lemma not_found_body:
  "api_into_response unit_json not_found = \<lparr>rs_status = 404, rs_body = JObj
     [(''status'', JStr ''error''), (''error'', JObj [(''error_id'', JStr ''NOT_FOUND''),
       (''context'', JObj [(''error'', JNull)])])]\<rparr>"
  by (simp add: api_into_response_def not_found_def api_error_def error_body_new_def
      error_body_json_def ctx_serialize_def ctx_empty_def json_opt_str_def)

lemma health_body:
  "api_into_response health_json health = \<lparr>rs_status = 200, rs_body = JObj
     [(''status'', JStr ''ok''), (''data'', JObj [(''status'', JStr ''healthy'')])]\<rparr>"
  by (simp add: api_into_response_def health_def health_json_def api_ok_def)

lemma built_unmatched:
  assumes "axum_routes D" and "plain_api api"
    and "rq_path req \<notin> fst ` set (endpoints (routes_of (build_router api cfg)))"
  shows "app_call D E W app (build_router api cfg) req = Ret (api_into_response unit_json not_found)"
proof -
  have "app_call D E W app (build_router api cfg) req =
      through_layers [SetRequestIdUuid, PropagateRequestId, TraceLayer]
        (run_handler E W app HNotFound) req"
    by (rule app_call_fallback [OF assms(1) plain_build_router [OF assms(2)] _ assms(3)])
      (simp add: routes_of_build_router)
  then show ?thesis by simp
qed

lemma built_health:
  assumes "axum_routes D" and "plain_api api"
    and "rq_path req = ''/api/v1/health''" and "rq_method req = ''GET''"
  shows "app_call D E W app (build_router api cfg) req = Ret (api_into_response health_json health)"
  using built_route [OF assms(1,2), of req "''/health''" Get "[]" HHealth cfg E W app] assms(3,4)
  by simp

text \<open>C14: With any dispatcher that routes as axum documents, the assembled server answers the
  health check with 200, a path without a route with the 404 envelope, each route of the
  application through its own layers, and the five auth routes with their endpoints, all of
  these behind the auth layer; whatever extension the request brought is replaced.\<close>

theorem server_answers:
  assumes "axum_routes D" and "plain_api api"
  shows "let server = app_call D E W app (build_router api cfg);
      inside = (\<lambda>req. req\<lparr>rq_extension := Some cfg\<rparr>) in
    (\<forall>req. (rq_path req, rq_method req) = (''/api/v1/health'', ''GET'') \<longrightarrow>
       server req = Ret \<lparr>rs_status = 200, rs_body = JObj [(''status'', JStr ''ok''),
         (''data'', JObj [(''status'', JStr ''healthy'')])]\<rparr>) \<and>
    (\<forall>req. rq_path req \<notin> fst ` set (endpoints (routes_of (build_router api cfg))) \<longrightarrow>
       server req = Ret \<lparr>rs_status = 404, rs_body = JObj [(''status'', JStr ''error''),
         (''error'', JObj [(''error_id'', JStr ''NOT_FOUND''),
           (''context'', JObj [(''error'', JNull)])])]\<rparr>) \<and>
    (\<forall>req p m ls h. (p, Some m, ls, h) \<in> set (routes_of api) \<longrightarrow>
       (rq_path req, rq_method req) = (''/api/v1'' @ p, method_name m) \<longrightarrow>
       server req = through_layers ls (run_handler E W app h) (inside req)) \<and>
    (\<forall>req. (rq_path req, rq_method req) = (''/api/v1/auth/register'', ''POST'') \<longrightarrow>
       server req = register_endpoint E W cfg (inside req)) \<and>
    (\<forall>req. (rq_path req, rq_method req) = (''/api/v1/auth/login'', ''POST'') \<longrightarrow>
       server req = login_endpoint E W cfg (inside req)) \<and>
    (\<forall>req. (rq_path req, rq_method req) = (''/api/v1/auth/refresh'', ''POST'') \<longrightarrow>
       server req = refresh_endpoint E W cfg (inside req)) \<and>
    (\<forall>req. (rq_path req, rq_method req) = (''/api/v1/auth/logout'', ''POST'') \<longrightarrow>
       server req = logout_endpoint E W cfg (inside req)) \<and>
    (\<forall>req. (rq_path req, rq_method req) = (''/api/v1/auth/me'', ''GET'') \<longrightarrow>
       server req = me_endpoint W (inside req))"
proof -
  let ?server = "app_call D E W app (build_router api cfg)"
  note unmatched = built_unmatched [OF assms, where cfg = cfg and E = E and W = W and app = app]
  note health = built_health [OF assms, where cfg = cfg and E = E and W = W and app = app]
  have app: "?server req = through_layers ls (run_handler E W app h) (req\<lparr>rq_extension := Some cfg\<rparr>)"
    if "(p, Some m, ls, h) \<in> set (routes_of api)" "rq_path req = ''/api/v1'' @ p"
      "rq_method req = method_name m" for req p m ls h
    using that by (intro built_route [OF assms, of req p m ls h cfg E W app]) simp_all
  note auth = built_auth_service [OF assms, of E W cfg app]
  note routes = auth_service.register_route [OF auth] auth_service.login_route [OF auth]
    auth_service.refresh_route [OF auth] auth_service.logout_route [OF auth]
    auth_service.me_route [OF auth]
  show ?thesis
    unfolding Let_def
    by (intro conjI allI impI)
      (simp_all add: unmatched health routes app health_body not_found_body)
qed

theorem server_answers_witness:
  "app_call table_dispatch demo_env demo_web (run_app demo_env demo_web)
     (build_router app_routes demo_config) (http_request ''GET'' ''/api/v1/health'') =
     Ret \<lparr>rs_status = 200, rs_body = JObj [(''status'', JStr ''ok''),
       (''data'', JObj [(''status'', JStr ''healthy'')])]\<rparr>"
  using server_answers [OF table_dispatch_axum app_routes_plain, of demo_env demo_web
      "run_app demo_env demo_web" demo_config]
  by (simp add: Let_def)

section \<open>What \<open>build\<close> leaves alone\<close>

fun account_effect :: "effect \<Rightarrow> bool" where
  "account_effect (AuthSql (InsertUser i u h t)) = True"
| "account_effect (AuthSql (InsertRefreshToken j i x t)) = True"
| "account_effect (AuthSql (DeleteLiveRefreshToken j t)) = True"
| "account_effect (AuthSql (DeleteRefreshTokensOf i)) = True"
| "account_effect _ = False"

lemma perform_keeps_accounts:
  assumes "\<not> account_effect e" and "perform E e w = (r, w')"
  shows "users (auth w') = users (auth w) \<and> refresh_tokens (auth w') = refresh_tokens (auth w)"
proof (cases e)
  case (AuthSql st)
  with assms show ?thesis
    by (cases st) (auto simp: perform_auth_def split: option.splits if_splits)
qed (use assms in \<open>auto simp: perform_data_def migrate_auth_db_def
      split: option.splits prod.splits\<close>)

lemma build_keeps_accounts:
  assumes "run (perform E) (build E b) w = (out, w')"
  shows "users (auth w') = users (auth w) \<and> refresh_tokens (auth w') = refresh_tokens (auth w) \<and>
    tick w \<le> tick w'"
proof -
  let ?keep = "\<lambda>v. users (auth v) = users (auth w) \<and>
    refresh_tokens (auth v) = refresh_tokens (auth w) \<and> tick w \<le> tick v"
  have "performs_only (\<lambda>e. \<not> account_effect e) (build E b)"
    by (rule performs_only_build) simp_all
  then show ?thesis
    by (rule performs_only_run [where keep = ?keep, OF _ _ _ assms, rotated])
      (auto dest: perform_keeps_accounts perform_tick)
qed

lemma build_good:
  assumes "run (perform E) (build E b) w0 = (Returned (Inr sv), w)" and "world_ok w0"
    and "uuids_unused E w0"
  shows "good E w"
proof -
  obtain secret where "secret_is secret w"
    using build_secret [OF assms(1)] by blast
  moreover have "world_ok w"
    by (rule integrity.inv_run [OF assms(2,1)])
  moreover have "uuids_unused E w"
    using build_keeps_accounts [OF assms(1)]
    by (intro uuids_unused_mono [OF assms(3)]) simp_all
  ultimately show ?thesis
    by (simp add: good_def migrated_def secret_is_def world_ok_def)
qed

section \<open>The life of a session\<close>

text \<open>
  A client registers, looks itself up, refreshes, replays the old refresh token, logs out,
  tries the new refresh token, and logs in again. The program returns the seven status codes
  and the username that the lookup showed.
\<close>

definition session_client ::
  "web \<Rightarrow> (request \<Rightarrow> response task) \<Rightarrow> string \<Rightarrow> string \<Rightarrow> (status_code list \<times> json) task" where
  "session_client W app u p =
     bind_prog (call_app app (post W ''/api/v1/auth/register'' (credentials_json u p)))
       (\<lambda>(registered, json).
     unwrap_str (json_index (json_index json ''data'') ''access_token'') (\<lambda>access.
     unwrap_str (json_index (json_index json ''data'') ''refresh_token'') (\<lambda>old.
     bind_prog (call_app app (get_authed ''/api/v1/auth/me'' access)) (\<lambda>(seen, identity).
     bind_prog (call_app app (post W ''/api/v1/auth/refresh'' (refresh_json old)))
       (\<lambda>(refreshed, json).
     unwrap_str (json_index (json_index json ''data'') ''refresh_token'') (\<lambda>new.
     bind_prog (call_app app (post W ''/api/v1/auth/refresh'' (refresh_json old)))
       (\<lambda>(replayed, _).
     bind_prog (call_app app (post W ''/api/v1/auth/logout'' (refresh_json new)))
       (\<lambda>(left, _).
     bind_prog (call_app app (post W ''/api/v1/auth/refresh'' (refresh_json new)))
       (\<lambda>(late, _).
     bind_prog (call_app app (post W ''/api/v1/auth/login'' (credentials_json u p)))
       (\<lambda>(relogged, _).
     Ret ([registered, seen, refreshed, replayed, left, late, relogged],
       json_index (json_index identity ''data'') ''username'')))))))))))"

lemma good_tick: "good E w \<Longrightarrow> auth w' = auth w \<Longrightarrow> tick w \<le> tick w' \<Longrightarrow> good E w'"
  by (auto simp: good_def migrated_def uuids_unused_def)

lemma session_client_runs:
  assumes "auth_service E W cfg app ''/api/v1''" and "web_conforming E W" and "conforming E cfg"
    and "good E w" and "u \<noteq> []" and "8 \<le> length p" and "u \<notin> ur_username ` set (users (auth w))"
  shows "\<exists>w'. run (perform E) (session_client W app u p) w =
    (Returned ([200, 200, 200, 401, 200, 401, 200], JStr u), w')"
proof -
  note call = auth_service.run_register_call [OF assms(1,2)]
    auth_service.run_me_call [OF assms(1,2)] auth_service.run_refresh_call [OF assms(1,2)]
    auth_service.run_logout_call [OF assms(1,2)] auth_service.run_login_call [OF assms(1,2)]
  obtain t w1 r where reg: "run (perform E) (register E cfg
      \<lparr>reg_username = u, reg_password = p\<rparr>) w = (Returned (Inr (ApiOk t)), w1)"
    and w1: "good E w1" "ur_username r = u" "account E w1 r p" "session E cfg w1 r t"
    using journey_register [OF assms(3-7)] by blast
  have opens: "opens E cfg r (tk_access_token t)"
    using w1(4) by (simp add: session_def)
  let ?w2 = "advance w1"
  have w2: "good E ?w2" "r \<in> set (users (auth ?w2))" "redeemable E cfg ?w2 r (tk_refresh_token t)"
    using w1 by (simp_all add: good_advance account_def session_def)
  obtain t' w3 where ref: "run (perform E) (refresh E cfg
      \<lparr>ref_refresh_token = tk_refresh_token t\<rparr>) ?w2 = (Returned (Inr (ApiOk t')), w3)"
    and w3: "good E w3" "session E cfg w3 r t'" "users (auth w3) = users (auth ?w2)"
      "spent E cfg w3 (tk_refresh_token t)"
    using journey_refresh [OF assms(3) w2] by blast
  obtain w4 where replay: "run (perform E) (refresh E cfg
      \<lparr>ref_refresh_token = tk_refresh_token t\<rparr>) w3 =
      (Returned (Inl token_invalid_refresh_token), w4)" and w4: "auth w4 = auth w3" "tick w3 \<le> tick w4"
    using journey_refresh_spent [OF assms(3) w3(1,4)] by blast
  have "redeemable E cfg w4 r (tk_refresh_token t')"
    using w3(2) w4(1) by (simp add: session_def redeemable_def)
  then obtain w5 where out: "run (perform E) (logout E cfg
      \<lparr>out_refresh_token = tk_refresh_token t'\<rparr>) w4 = (Returned (Inr (ApiOk ())), w5)"
    and w5: "good E w5" "users (auth w5) = users (auth w4)" "spent E cfg w5 (tk_refresh_token t')"
    using journey_logout [OF assms(3) good_tick [OF w3(1) w4]] by blast
  obtain w6 where late: "run (perform E) (refresh E cfg
      \<lparr>ref_refresh_token = tk_refresh_token t'\<rparr>) w5 =
      (Returned (Inl token_invalid_refresh_token), w6)" and w6: "auth w6 = auth w5" "tick w5 \<le> tick w6"
    using journey_refresh_spent [OF assms(3) w5(1,3)] by blast
  have "account E w6 r p"
    using w1(3) w3(3) w4(1) w5(2) w6(1) by (simp add: account_def)
  then obtain t'' w7 where again: "run (perform E) (login E cfg
      \<lparr>log_username = u, log_password = p\<rparr>) w6 = (Returned (Inr (ApiOk t'')), w7)"
    using journey_login [OF assms(3) good_tick [OF w5(1) w6]] w1(2) by blast
  show ?thesis
    using w1(2) call(1) [OF reg] call(2) [OF opens, of w1] call(3) [OF ref] call(3) [OF replay]
      call(4) [OF out] call(3) [OF late] call(5) [OF again]
    by (simp add: session_client_def run_bind_prog token_invalid_refresh_token_def error_simps
        me_json_def)
qed

lemma conforming_secret:
  assumes "cfg_access_token_ttl_secs cfg = cfg_access_token_ttl_secs cfg'"
    and "cfg_refresh_token_ttl_secs cfg = cfg_refresh_token_ttl_secs cfg'"
  shows "conforming E cfg = conforming E cfg'"
  by (simp add: conforming_def healthy_def steady_def assms)

text \<open>C4: End to end, on the server that \<open>build\<close> returns: in a conforming environment a new user
  registers, is recognised by the identity route, refreshes once, is refused when the old
  refresh token is replayed, logs out, is refused with the token that the logout revoked, and
  logs in again.\<close>

theorem session_end_to_end:
  assumes "run (perform E) (build E b) w0 = (Returned (Inr sv), w)"
    and "world_ok w0" and "uuids_unused E w0"
    and "axum_routes D" and "web_conforming E W" and "conforming E (build_config b [])"
    and "\<And>api. sb_routes b = Some api \<Longrightarrow> plain_api api"
    and "u \<noteq> []" and "8 \<le> length p" and "u \<notin> ur_username ` set (users (auth w0))"
  shows "\<exists>w'. run (perform E) (session_client W (app_call D E W app (sv_router sv)) u p) w =
    (Returned ([200, 200, 200, 401, 200, 401, 200], JStr u), w')"
proof -
  obtain api a secret where sv: "sv = servir_new (build_router api (build_config b secret)) a"
    and "sb_routes b = Some api"
    using build_secret [OF assms(1)] by blast
  then have "auth_service E W (build_config b secret) (app_call D E W app (sv_router sv)) ''/api/v1''"
    using built_auth_service [OF assms(4) assms(7)] by (simp add: servir_new_def)
  moreover have "conforming E (build_config b secret)"
    using conforming_secret [of "build_config b secret" "build_config b []" E] assms(6)
    by (simp add: build_config_def set_secret_def Let_def)
  moreover have "u \<notin> ur_username ` set (users (auth w))"
    using build_keeps_accounts [OF assms(1)] assms(10) by simp
  ultimately show ?thesis
    using session_client_runs [OF _ assms(5) _ build_good [OF assms(1-3)] assms(8,9)] by blast
qed

theorem session_end_to_end_witness:
  "\<exists>sv w w'. run (perform late_env) (build late_env demo_builder) empty_world =
      (Returned (Inr sv), w) \<and>
    run (perform late_env) (session_client text_web (app_call table_dispatch late_env text_web
      (run_app late_env text_web) (sv_router sv)) ''bob'' ''hunter22'') w =
    (Returned ([200, 200, 200, 401, 200, 401, 200], JStr ''bob''), w')"
proof -
  have late: "random_bytes late_env n 32 \<noteq> None" "url_error late_env u = None" for n u
    by (simp_all add: late_env_def)
  obtain sv w where build: "run (perform late_env) (build late_env demo_builder) empty_world =
      (Returned (Inr sv), w)"
    using build_succeeds [OF _ late(1) demo_builder_simps(1-3) late(2)] by fastforce
  have "world_ok empty_world" "uuids_unused late_env empty_world"
    by (simp_all add: world_ok_def empty_world_def uuids_unused_def empty_auth_db_def)
      (simp_all add: auth_db_ok_def)
  moreover have "conforming late_env (build_config demo_builder [])"
    by (rule late_conforming) (simp_all add: build_config_def demo_builder_simps
        config_with_defaults_def config_new_def set_secret_def Let_def)
  ultimately have "\<exists>w'. run (perform late_env) (session_client text_web (app_call table_dispatch
      late_env text_web (run_app late_env text_web) (sv_router sv)) ''bob'' ''hunter22'') w =
    (Returned ([200, 200, 200, 401, 200, 401, 200], JStr ''bob''), w')"
    using app_routes_plain
    by (intro session_end_to_end [OF build _ _ table_dispatch_axum text_web_conforming])
      (simp_all add: demo_builder_simps empty_world_def empty_auth_db_def)
  with build show ?thesis by blast
qed

end
