(* ===== verification/Middleware.thy ===== *)
theory Middleware
  imports Served_Properties
begin

text \<open>
  The middleware of \<open>standard_middleware\<close> around the server, with the header \<open>x-request-id\<close> of
  request and response. What the three layers of \<open>tower_http\<close> do is a parameter; its documented
  behaviour is the condition \<open>tower_documented\<close>. Elsewhere the model leaves the header out: here
  it is shown that nothing else depends on it.
\<close>

section \<open>Exchanges\<close>

text \<open>A service with the identifier in the request, if any, and that in the response.\<close>

type_synonym exchange = "request \<Rightarrow> string option \<Rightarrow> (response \<times> string option) task"

definition bare :: "(request \<Rightarrow> string option \<Rightarrow> response task) \<Rightarrow> exchange" where
  "bare f req i = bind_prog (f req i) (\<lambda>resp. Ret (resp, None))"

record tower =
  set_request_id :: "exchange \<Rightarrow> exchange"
  propagate_request_id :: "exchange \<Rightarrow> exchange"
  trace_for_http :: "exchange \<Rightarrow> exchange"

text \<open>
  \<open>SetRequestIdLayer\<close> with \<open>MakeRequestUuid\<close> gives a request without an identifier a fresh UUID,
  \<open>PropagateRequestIdLayer\<close> copies the identifier that it sees in the request to a response
  without one, and \<open>TraceLayer\<close> changes neither.
\<close>

definition tower_documented :: "tower \<Rightarrow> bool" where
  "tower_documented T \<longleftrightarrow>
     (\<forall>s req i. set_request_id T s req (Some i) = s req (Some i)) \<and>
     (\<forall>s req. set_request_id T s req None = gen_uuid (\<lambda>u. s req (Some u))) \<and>
     (\<forall>f req i. propagate_request_id T (bare f) req i =
        bind_prog (f req i) (\<lambda>resp. Ret (resp, i))) \<and>
     (\<forall>s. trace_for_http T s = s)"

fun through_tower :: "tower \<Rightarrow> layer list \<Rightarrow> exchange \<Rightarrow> exchange" where
  "through_tower T [] s = s"
| "through_tower T (AuthLayer config # ls) s =
     (\<lambda>req i. auth_service_call config (\<lambda>req. through_tower T ls s req i) req)"
| "through_tower T (TraceLayer # ls) s = trace_for_http T (through_tower T ls s)"
| "through_tower T (PropagateRequestId # ls) s =
     propagate_request_id T (through_tower T ls s)"
| "through_tower T (SetRequestIdUuid # ls) s = set_request_id T (through_tower T ls s)"

text \<open>
  The service of a router. What axum answers of its own accord to a path under a method that has
  no handler, the \<open>Inl\<close> case of the dispatcher, passes the layers too: which ones is a second
  parameter, since the answer is no entry of the table.
\<close>

type_synonym 'c wrapping = "'c handler router \<Rightarrow> request \<Rightarrow> layer list"

definition app_exchange ::
  "tower \<Rightarrow> 'c dispatcher \<Rightarrow> 'c wrapping \<Rightarrow> env \<Rightarrow> web \<Rightarrow> ('c \<Rightarrow> request \<Rightarrow> response task) \<Rightarrow>
   'c handler router \<Rightarrow> exchange" where
  "app_exchange T D L E W app router req i =
     (case D router req of
        Inl resp \<Rightarrow> through_tower T (L router req) (bare (\<lambda>_ _. Ret resp)) req i
      | Inr (ls, h) \<Rightarrow> through_tower T ls (bare (\<lambda>req _. run_handler E W app h req)) req i)"

text \<open>
  \<open>Router::layer\<close> wraps everything that the router has by then: every route under every method,
  those without a handler included, and the fallback. So in a router with a fallback at its root
  whatever answers is wrapped as some entry of the table is, and a handler as its own entry.
\<close>

definition axum_wraps :: "'c dispatcher \<Rightarrow> 'c wrapping \<Rightarrow> bool" where
  "axum_wraps D L \<longleftrightarrow> (\<forall>r req. [] \<in> fst ` set (fallbacks (routes_of r)) \<longrightarrow>
     (case D r req of
        Inl resp \<Rightarrow> (\<exists>(p, m, ls, h) \<in> set (routes_of r). L r req = ls)
      | Inr (ls, h) \<Rightarrow> (\<exists>p m. (p, m, ls, h) \<in> set (routes_of r))))"

section \<open>The assembled server\<close>

fun is_auth_layer :: "layer \<Rightarrow> bool" where
  "is_auth_layer (AuthLayer config) = True"
| "is_auth_layer _ = False"

text \<open>An application whose own routes have no request identifiers.\<close>

definition headerless_api :: "'c handler router \<Rightarrow> bool" where
  "headerless_api api \<longleftrightarrow> list_all (\<lambda>(p, m, ls, h). list_all is_auth_layer ls) (routes_of api)"

lemma through_tower_auth:
  "list_all is_auth_layer ls \<Longrightarrow>
   through_tower T ls (bare (\<lambda>req _. h req)) = bare (\<lambda>req _. through_layers ls h req)"
proof (induction ls)
  case (Cons l ls)
  then show ?case
    by (cases l) (simp_all add: fun_eq_iff auth_service_call_def bare_def)
qed simp

lemma through_middleware:
  assumes "tower_documented T" and "list_all is_auth_layer ls"
  shows "through_tower T ([SetRequestIdUuid, PropagateRequestId, TraceLayer] @ ls)
      (bare (\<lambda>req _. h req)) req (Some i) =
      bind_prog (through_layers ls h req) (\<lambda>resp. Ret (resp, Some i))"
    and "through_tower T ([SetRequestIdUuid, PropagateRequestId, TraceLayer] @ ls)
      (bare (\<lambda>req _. h req)) req None =
      gen_uuid (\<lambda>u. bind_prog (through_layers ls h req) (\<lambda>resp. Ret (resp, Some u)))"
  using assms(1) by (simp_all add: through_tower_auth [OF assms(2)] tower_documented_def)

lemma build_router_layers:
  assumes "headerless_api api" and "(p, m, ls, h) \<in> set (routes_of (build_router api cfg))"
  obtains ls' where "ls = [SetRequestIdUuid, PropagateRequestId, TraceLayer] @ ls'"
    and "list_all is_auth_layer ls'"
  using assms unfolding headerless_api_def routes_of_build_router
  by (force simp: list_all_iff)

lemma through_layers_Ret:
  "list_all is_auth_layer ls \<Longrightarrow> through_layers ls (\<lambda>_. Ret resp) req = Ret resp"
proof (induction ls arbitrary: req)
  case (Cons l ls)
  then show ?case
    by (cases l) (simp_all add: auth_service_call_def)
qed simp

text \<open>What answers in the assembled server stands behind the three layers.\<close>

lemma assembled_answer:
  assumes "axum_wraps D L" and "headerless_api api"
  obtains (own) resp ls where "D (build_router api cfg) req = Inl resp"
      and "L (build_router api cfg) req = [SetRequestIdUuid, PropagateRequestId, TraceLayer] @ ls"
      and "list_all is_auth_layer ls"
  | (handler) ls h where "D (build_router api cfg) req =
        Inr ([SetRequestIdUuid, PropagateRequestId, TraceLayer] @ ls, h)"
      and "list_all is_auth_layer ls"
proof -
  have root: "[] \<in> fst ` set (fallbacks (routes_of (build_router api cfg)))"
    by (simp add: routes_of_build_router)
  note wraps = assms(1) [unfolded axum_wraps_def, rule_format, OF root, of req]
  show thesis
  proof (cases "D (build_router api cfg) req")
    case (Inl resp)
    with wraps obtain p m h where
      "(p, m, L (build_router api cfg) req, h) \<in> set (routes_of (build_router api cfg))"
      by auto
    from build_router_layers [OF assms(2) this] own [OF Inl] show thesis by blast
  next
    case (Inr x)
    obtain ls h where x: "x = (ls, h)"
      by (cases x)
    with wraps Inr obtain p m where "(p, m, ls, h) \<in> set (routes_of (build_router api cfg))"
      by auto
    from build_router_layers [OF assms(2) this] handler Inr x show thesis by metis
  qed
qed

text \<open>C15: Under the documented behaviour of the three layers their order in
  \<open>standard_middleware\<close> gives every response of the assembled server a request identifier: that
  of the request if it has one, and else a UUID drawn before anything else is done. Apart from
  it the response is the one without the middleware. This holds for every request: of the routes
  and the fallback, whose responses come from handlers, and of the paths under a method that has
  no handler, where axum answers itself. The application's own routes must not contain these
  layers.\<close>

theorem responses_carry_request_id:
  assumes "tower_documented T" and "axum_wraps D L" and "headerless_api api"
  shows "app_exchange T D L E W app (build_router api cfg) req (Some i) =
      bind_prog (app_call D E W app (build_router api cfg) req) (\<lambda>resp. Ret (resp, Some i)) \<and>
    app_exchange T D L E W app (build_router api cfg) req None =
      gen_uuid (\<lambda>u. bind_prog (app_call D E W app (build_router api cfg) req)
        (\<lambda>resp. Ret (resp, Some u)))"
  using assms(2,3)
proof (cases rule: assembled_answer [where cfg = cfg and req = req])
  case (own resp ls)
  then show ?thesis
    using through_middleware [OF assms(1) own(3), of "\<lambda>_. Ret resp" req]
    by (simp add: app_exchange_def app_call_def through_layers_Ret del: append_Cons)
next
  case (handler ls h)
  have "app_call D E W app (build_router api cfg) req =
      through_layers ls (run_handler E W app h) req"
    by (simp add: app_call_def handler)
  then show ?thesis
    using through_middleware [OF assms(1) handler(2), of "run_handler E W app h" req]
    by (simp add: app_exchange_def handler del: append_Cons)
qed

text \<open>The health check, which any dispatcher of axum finds.\<close>

lemma health_entry:
  assumes "axum_routes D" and "plain_api api" and "rq_path req = ''/api/v1/health''"
    and "rq_method req = ''GET''"
  shows "D (build_router api cfg) req =
    Inr ([SetRequestIdUuid, PropagateRequestId, TraceLayer] @ [AuthLayer cfg], HHealth)"
proof -
  have "(''/api/v1/health'', Some Get, [SetRequestIdUuid, PropagateRequestId, TraceLayer] @
      [AuthLayer cfg], HHealth) \<in> set (routes_of (build_router api cfg))"
    by (simp add: routes_of_build_router)
  then show ?thesis
    using assms plain_build_router [OF assms(2), of cfg] unfolding axum_routes_def
    by (metis method_name.simps(1))
qed

section \<open>A documented instance\<close>

definition plain_tower :: tower where
  "plain_tower =
     \<lparr>set_request_id = (\<lambda>s req i. case i of
        Some _ \<Rightarrow> s req i | None \<Rightarrow> gen_uuid (\<lambda>u. s req (Some u))),
      propagate_request_id = (\<lambda>s req i. bind_prog (s req i) (\<lambda>(resp, j). Ret (resp,
        case j of None \<Rightarrow> i | Some _ \<Rightarrow> j))),
      trace_for_http = (\<lambda>s. s)\<rparr>"

lemma plain_tower_documented: "tower_documented plain_tower"
  by (simp add: tower_documented_def plain_tower_def bare_def bind_prog_assoc)

text \<open>The layers of the first entry under the path, else those of the fallback.\<close>

definition table_layers :: "'c wrapping" where
  "table_layers r req =
     (case List.find (\<lambda>(p, m, ls, h). p = rq_path req \<and> m \<noteq> None) (routes_of r) of
        Some (p, m, ls, h) \<Rightarrow> ls
      | None \<Rightarrow> concat (map (\<lambda>(p, ls, h). ls) (take 1 (fallbacks (routes_of r)))))"

lemma fallback_entry: "(p, ls, h) \<in> set (fallbacks es) \<Longrightarrow> (p, None, ls, h) \<in> set es"
  by (induction es) (auto simp: fallbacks_def)

lemma endpoint_entry: "(p, m) \<in> set (endpoints es) \<Longrightarrow> \<exists>ls h. (p, Some m, ls, h) \<in> set es"
  by (auto simp: endpoints_def split: option.splits) blast

lemma table_dispatch_entry:
  assumes "table_dispatch r req = Inr (ls, h)"
  shows "\<exists>p m. (p, m, ls, h) \<in> set (routes_of r)"
  using assms unfolding table_dispatch_def Let_def
  by (auto dest: fallback_entry simp: find_Some_iff split: option.splits if_splits list.splits)
    (metis fallback_entry list.set_intros(1) nth_mem)+

lemma find_some_member: "List.find P xs = Some x \<Longrightarrow> x \<in> set xs"
  by (induction xs) (auto split: if_splits)

lemma table_wraps: "axum_wraps table_dispatch table_layers"
  unfolding axum_wraps_def
proof (intro allI impI)
  fix r :: "'a handler router" and req
  assume root: "[] \<in> fst ` set (fallbacks (routes_of r))"
  show "case table_dispatch r req of
      Inl resp \<Rightarrow> (\<exists>(p, m, ls, h) \<in> set (routes_of r). table_layers r req = ls)
    | Inr (ls, h) \<Rightarrow> (\<exists>p m. (p, m, ls, h) \<in> set (routes_of r))"
  proof (cases "table_dispatch r req")
    case (Inl resp)
    then have "rq_path req \<in> fst ` set (endpoints (routes_of r))"
      using root by (auto simp: table_dispatch_def Let_def split: option.splits if_splits list.splits)
    then obtain m ls h where "(rq_path req, Some m, ls, h) \<in> set (routes_of r)"
      by (auto dest: endpoint_entry)
    then have "List.find (\<lambda>(p, m, ls, h). p = rq_path req \<and> m \<noteq> None) (routes_of r) \<noteq> None"
      unfolding find_None_iff by fastforce
    then obtain e where "List.find (\<lambda>(p, m, ls, h). p = rq_path req \<and> m \<noteq> None) (routes_of r) = Some e"
      by blast
    note e = this find_some_member [OF this]
    show ?thesis
      using e Inl by (cases e) (auto simp: table_layers_def intro: bexI [where x = e])
  next
    case (Inr x)
    then show ?thesis
      by (cases x) (simp add: table_dispatch_entry)
  qed
qed

text \<open>A health check without an identifier, and one under a method that has no handler.\<close>

lemma wrong_method:
  "app_call table_dispatch demo_env demo_web (run_app demo_env demo_web)
     (build_router app_routes demo_config) (http_request ''POST'' ''/api/v1/health'') =
   Ret \<lparr>rs_status = 405, rs_body = JNull\<rparr>"
  by (simp add: app_call_def table_dispatch_def routes_of_build_router app_routes_def Let_def)

theorem responses_carry_request_id_witness:
  "app_exchange plain_tower table_dispatch table_layers demo_env demo_web (run_app demo_env demo_web)
     (build_router app_routes demo_config) (http_request ''GET'' ''/api/v1/health'') None =
     gen_uuid (\<lambda>u. Ret (\<lparr>rs_status = 200, rs_body = JObj [(''status'', JStr ''ok''),
       (''data'', JObj [(''status'', JStr ''healthy'')])]\<rparr>, Some u)) \<and>
   app_exchange plain_tower table_dispatch table_layers demo_env demo_web (run_app demo_env demo_web)
     (build_router app_routes demo_config) (http_request ''POST'' ''/api/v1/health'') (Some ''abc'') =
     Ret (\<lparr>rs_status = 405, rs_body = JNull\<rparr>, Some ''abc'')"
proof -
  have "headerless_api app_routes"
    by (simp add: headerless_api_def app_routes_def)
  note ids = responses_carry_request_id [OF plain_tower_documented table_wraps this,
      of demo_env demo_web "run_app demo_env demo_web" demo_config]
  have "app_call table_dispatch demo_env demo_web (run_app demo_env demo_web)
      (build_router app_routes demo_config) (http_request ''GET'' ''/api/v1/health'') =
      Ret (api_into_response health_json health)"
    by (rule built_health [OF table_dispatch_axum app_routes_plain]) simp_all
  then show ?thesis
    using ids by (simp add: health_body wrong_method)
qed

end
