(* ===== verification/Integration_Tests.thy ===== *)
theory Integration_Tests
  imports Http_Tests Middleware
begin

text \<open>
  The integration tests as programs: \<open>tests/test_errors.rs\<close>, which goes through all routes and
  errors on one server, \<open>tests/integration.rs\<close>, and \<open>consumer/tests/test_user.rs\<close>. Each builds its
  server with the builder and calls its router.
\<close>

section \<open>Steps of a test\<close>

text \<open>A request, the assertions on its response, and the rest of the test.\<close>

definition expect_call ::
  "(request \<Rightarrow> response task) \<Rightarrow> request \<Rightarrow> (status_code \<Rightarrow> json \<Rightarrow> bool list) \<Rightarrow>
   (json \<Rightarrow> unit task) \<Rightarrow> unit task" where
  "expect_call app req checks k =
     bind_prog (call_app app req) (\<lambda>(status, json).
     bind_prog (asserts (checks status json)) (\<lambda>_. k json))"

definition plain_error :: "string \<Rightarrow> json" where
  "plain_error i = JObj [(''status'', JStr ''error''), (''error'', JObj
     [(''error_id'', JStr i), (''context'', JObj [(''error'', JNull)])])]"

abbreviation error_of :: "json \<Rightarrow> json" where
  "error_of j \<equiv> json_index j ''error''"

abbreviation context_of_error :: "json \<Rightarrow> string \<Rightarrow> json" where
  "context_of_error j k \<equiv> json_index (json_index (error_of j) ''context'') k"

abbreviation data_of :: "json \<Rightarrow> string \<Rightarrow> json" where
  "data_of j k \<equiv> json_index (json_index j ''data'') k"

section \<open>All routes and errors\<close>

definition served_builder :: "'c handler router \<Rightarrow> 'c server_builder" where
  "served_builder router =
     set_routes router
       (set_auth_database_url ''sqlite::memory:''
         (set_addr ([127, 0, 0, 1], 0)
           (set_service_name ''test'' servir_builder)))"

definition protected_router :: "test_handler handler router" where
  "protected_router = Route RouterNew ''/protected'' Get (HApp HProtected)"

text \<open>Sections 1 to 4 of the test, 5 to 9, 10 to 13, and 14 to 18.\<close>

definition refused_registrations :: "web \<Rightarrow> (request \<Rightarrow> response task) \<Rightarrow> unit task \<Rightarrow> unit task" where
  "refused_registrations W app rest =
     expect_call app (http_request ''GET'' ''/api/v1/health'') (\<lambda>status json.
       [status = 200, json = JObj [(''status'', JStr ''ok''),
         (''data'', JObj [(''status'', JStr ''healthy'')])]]) (\<lambda>_.
     expect_call app (http_request ''GET'' ''/nonexistent'') (\<lambda>status json.
       [status = 404, json = plain_error ''NOT_FOUND'']) (\<lambda>_.
     expect_call app (post W ''/api/v1/auth/register'' (credentials_json [] ''12345678'')) (\<lambda>status json.
       [status = 400, json = plain_error ''EMPTY_USERNAME'']) (\<lambda>_.
     expect_call app (post W ''/api/v1/auth/register'' (credentials_json ''bob'' ''short'')) (\<lambda>status json.
       [status = 400, json = plain_error ''WEAK_PASSWORD'']) (\<lambda>_.
     rest))))"

definition registration_and_login ::
  "web \<Rightarrow> (request \<Rightarrow> response task) \<Rightarrow> (string \<Rightarrow> string \<Rightarrow> unit task) \<Rightarrow> unit task" where
  "registration_and_login W app rest =
     expect_call app (post W ''/api/v1/auth/register'' (credentials_json ''alice'' ''hunter22!''))
       (\<lambda>status json.
       [status = 200, json_index json ''status'' = JStr ''ok'',
        json_is_string (data_of json ''access_token''),
        json_is_string (data_of json ''refresh_token''),
        data_of json ''token_type'' = JStr ''Bearer'']) (\<lambda>json.
     unwrap_str (data_of json ''access_token'') (\<lambda>access_token.
     unwrap_str (data_of json ''refresh_token'') (\<lambda>refresh_token.
     expect_call app (post W ''/api/v1/auth/register'' (credentials_json ''alice'' ''hunter22!''))
       (\<lambda>status json.
       [status = 409, json_index json ''status'' = JStr ''error'',
        json_index (error_of json) ''error_id'' = JStr ''ALREADY_EXISTS'',
        context_of_error json ''username'' = JStr ''alice'',
        json_is_string (context_of_error json ''error'')]) (\<lambda>_.
     expect_call app (post W ''/api/v1/auth/login'' (credentials_json ''alice'' ''wrongpass''))
       (\<lambda>status json.
       [status = 401, json_index json ''status'' = JStr ''error'',
        json_index (error_of json) ''error_id'' = JStr ''INVALID_CREDENTIALS'',
        context_of_error json ''username'' = JStr ''alice'',
        context_of_error json ''error'' = JNull]) (\<lambda>_.
     expect_call app (post W ''/api/v1/auth/login'' (credentials_json ''nobody'' ''hunter22!''))
       (\<lambda>status json.
       [status = 401, json_index json ''status'' = JStr ''error'',
        json_index (error_of json) ''error_id'' = JStr ''INVALID_CREDENTIALS'',
        context_of_error json ''username'' = JStr ''nobody'']) (\<lambda>_.
     expect_call app (post W ''/api/v1/auth/login'' (credentials_json ''alice'' ''hunter22!''))
       (\<lambda>status json.
       [status = 200, json_index json ''status'' = JStr ''ok'',
        json_is_string (data_of json ''access_token''),
        json_is_string (data_of json ''refresh_token''),
        data_of json ''token_type'' = JStr ''Bearer'']) (\<lambda>_.
     rest access_token refresh_token)))))))"

definition protected_routes ::
  "(request \<Rightarrow> response task) \<Rightarrow> string \<Rightarrow> unit task \<Rightarrow> unit task" where
  "protected_routes app access_token rest =
     expect_call app (http_request ''GET'' ''/api/v1/protected'') (\<lambda>status json.
       [status = 401, json = plain_error ''MISSING_AUTHORIZATION_HEADER'']) (\<lambda>_.
     expect_call app (get_authed ''/api/v1/protected'' ''not.a.valid.jwt'') (\<lambda>status json.
       [status = 401, json_index json ''status'' = JStr ''error'',
        json_index (error_of json) ''error_id'' = JStr ''TOKEN_INVALID'',
        json_is_string (context_of_error json ''error'')]) (\<lambda>_.
     expect_call app (get_authed ''/api/v1/protected'' access_token) (\<lambda>status json.
       [status = 200, json = JObj [(''status'', JStr ''ok''), (''data'', JStr ''alice'')]]) (\<lambda>_.
     expect_call app (get_authed ''/api/v1/auth/me'' access_token) (\<lambda>status json.
       [status = 200, json_index json ''status'' = JStr ''ok'',
        data_of json ''username'' = JStr ''alice'',
        json_is_string (data_of json ''user_id'')]) (\<lambda>_.
     rest))))"

definition refresh_and_logout ::
  "web \<Rightarrow> (request \<Rightarrow> response task) \<Rightarrow> string \<Rightarrow> unit task" where
  "refresh_and_logout W app refresh_token =
     expect_call app (post W ''/api/v1/auth/refresh'' (refresh_json ''garbage.token.here''))
       (\<lambda>status json.
       [status = 401, json_index json ''status'' = JStr ''error'',
        json_index (error_of json) ''error_id'' = JStr ''TOKEN_INVALID'',
        json_is_string (context_of_error json ''error'')]) (\<lambda>_.
     expect_call app (post W ''/api/v1/auth/refresh'' (refresh_json refresh_token)) (\<lambda>status json.
       [status = 200, json_index json ''status'' = JStr ''ok'',
        json_is_string (data_of json ''access_token''),
        json_is_string (data_of json ''refresh_token''),
        data_of json ''token_type'' = JStr ''Bearer'',
        data_of json ''refresh_token'' \<noteq> JStr refresh_token]) (\<lambda>json.
     unwrap_str (data_of json ''refresh_token'') (\<lambda>new_refresh.
     expect_call app (post W ''/api/v1/auth/refresh'' (refresh_json refresh_token)) (\<lambda>status json.
       [status = 401, json = plain_error ''INVALID_REFRESH_TOKEN'']) (\<lambda>_.
     expect_call app (post W ''/api/v1/auth/logout'' (refresh_json new_refresh)) (\<lambda>status json.
       [status = 200, json = JObj [(''status'', JStr ''ok''), (''data'', JNull)]]) (\<lambda>_.
     expect_call app (post W ''/api/v1/auth/refresh'' (refresh_json new_refresh)) (\<lambda>status json.
       [status = 401, json = plain_error ''INVALID_REFRESH_TOKEN'']) (\<lambda>_.
     Ret ()))))))"

definition test_all_routes_and_errors ::
  "test_handler dispatcher \<Rightarrow> env \<Rightarrow> web \<Rightarrow> unit task" where
  "test_all_routes_and_errors D E W =
     awaited (build E (served_builder protected_router)) (\<lambda>sv.
     let app = app_call D E W (run_test_handler E W) (sv_router sv) in
     refused_registrations W app
       (registration_and_login W app (\<lambda>access_token refresh_token.
        protected_routes app access_token
          (refresh_and_logout W app refresh_token))))"

section \<open>Response shapes and request identifiers\<close>

text \<open>The handler \<open>echo\<close> with the label of its state, and \<open>trigger_db_error\<close>.\<close>

datatype shape_handler = HEcho string | HTriggerDbError

fun run_shape_handler :: "shape_handler \<Rightarrow> request \<Rightarrow> response task" where
  "run_shape_handler (HEcho label) req = Ret (api_into_response JStr (api_ok label))"
| "run_shape_handler HTriggerDbError req =
     respond unit_json (err (db_consume_refresh_token ''forced''))"

definition shape_router :: "shape_handler handler router" where
  "shape_router =
     Route (Route RouterNew ''/echo'' Get (HApp (HEcho ''test'')))
       ''/db-error'' Get (HApp HTriggerDbError)"

definition shape_app ::
  "shape_handler dispatcher \<Rightarrow> env \<Rightarrow> web \<Rightarrow> ((request \<Rightarrow> response task) \<Rightarrow> unit task) \<Rightarrow> unit task" where
  "shape_app D E W k =
     awaited (build E (served_builder shape_router)) (\<lambda>sv.
     k (app_call D E W run_shape_handler (sv_router sv)))"

definition success_response_shape ::
  "shape_handler dispatcher \<Rightarrow> env \<Rightarrow> web \<Rightarrow> unit task" where
  "success_response_shape D E W =
     shape_app D E W (\<lambda>app.
     expect_call app (http_request ''GET'' ''/api/v1/echo'') (\<lambda>status json.
       [status = 200, json_index json ''status'' = JStr ''ok'',
        json_index json ''data'' = JStr ''test'']) (\<lambda>_. Ret ()))"

definition health_endpoint :: "shape_handler dispatcher \<Rightarrow> env \<Rightarrow> web \<Rightarrow> unit task" where
  "health_endpoint D E W =
     shape_app D E W (\<lambda>app.
     expect_call app (http_request ''GET'' ''/api/v1/health'') (\<lambda>status json.
       [status = 200, json = JObj [(''status'', JStr ''ok''),
         (''data'', JObj [(''status'', JStr ''healthy'')])]]) (\<lambda>_. Ret ()))"

definition error_response_shape_internal_error ::
  "shape_handler dispatcher \<Rightarrow> env \<Rightarrow> web \<Rightarrow> unit task" where
  "error_response_shape_internal_error D E W =
     shape_app D E W (\<lambda>app.
     expect_call app (http_request ''GET'' ''/api/v1/db-error'') (\<lambda>status json.
       [status = 500, json_index json ''status'' = JStr ''error'',
        json_index (error_of json) ''error_id'' = JStr ''DB_CONSUME_REFRESH_TOKEN_FAILED'',
        context_of_error json ''error'' = JStr ''forced'']) (\<lambda>_. Ret ()))"

definition unknown_route_returns_404 :: "shape_handler dispatcher \<Rightarrow> env \<Rightarrow> web \<Rightarrow> unit task" where
  "unknown_route_returns_404 D E W =
     shape_app D E W (\<lambda>app.
     expect_call app (http_request ''GET'' ''/does-not-exist'') (\<lambda>status json.
       [status = 404, json_index (error_of json) ''error_id'' = JStr ''NOT_FOUND'']) (\<lambda>_. Ret ()))"

definition request_id_test ::
  "tower \<Rightarrow> shape_handler dispatcher \<Rightarrow> shape_handler wrapping \<Rightarrow> env \<Rightarrow> web \<Rightarrow> string option \<Rightarrow>
   (string option \<Rightarrow> bool) \<Rightarrow> unit task" where
  "request_id_test T D L E W supplied check =
     awaited (build E (served_builder shape_router)) (\<lambda>sv.
     bind_prog (app_exchange T D L E W run_shape_handler (sv_router sv)
       (http_request ''GET'' ''/api/v1/health'') supplied) (\<lambda>(response, returned_id).
     asserts [check returned_id]))"

definition middleware_generates_request_id_on_response ::
  "tower \<Rightarrow> shape_handler dispatcher \<Rightarrow> shape_handler wrapping \<Rightarrow> env \<Rightarrow> web \<Rightarrow> unit task" where
  "middleware_generates_request_id_on_response T D L E W =
     request_id_test T D L E W None (\<lambda>returned_id. returned_id \<noteq> None)"

definition middleware_propagates_caller_supplied_request_id ::
  "tower \<Rightarrow> shape_handler dispatcher \<Rightarrow> shape_handler wrapping \<Rightarrow> env \<Rightarrow> web \<Rightarrow> unit task" where
  "middleware_propagates_caller_supplied_request_id T D L E W =
     request_id_test T D L E W (Some ''caller-supplied-id-abc123'')
       (\<lambda>returned_id. returned_id = Some ''caller-supplied-id-abc123'')"

section \<open>The application's user route\<close>

definition consumer_test_builder :: "app_handler server_builder" where
  "consumer_test_builder =
     set_routes app_routes
       (set_auth_database_url ''sqlite::memory:''
         (set_addr ([127, 0, 0, 1], 0)
           (set_service_name ''test-consumer'' servir_builder)))"

definition consumer_test_app ::
  "app_handler dispatcher \<Rightarrow> env \<Rightarrow> web \<Rightarrow> ((request \<Rightarrow> response task) \<Rightarrow> unit task) \<Rightarrow> unit task" where
  "consumer_test_app D E W k =
     awaited (data_connect E ''sqlite::memory:'') (\<lambda>_.
     awaited (data_migrate E) (\<lambda>_.
     awaited (build E consumer_test_builder) (\<lambda>sv.
     k (app_call D E W (run_app E W) (sv_router sv)))))"

definition served_register ::
  "web \<Rightarrow> (request \<Rightarrow> response task) \<Rightarrow> (string \<Rightarrow> string \<Rightarrow> unit task) \<Rightarrow> unit task" where
  "served_register W app k =
     expect_call app (post W ''/api/v1/auth/register'' (credentials_json ''alice'' ''hunter22''))
       (\<lambda>_ _. []) (\<lambda>json.
     unwrap_str (data_of json ''access_token'') (\<lambda>access.
     unwrap_str (data_of json ''refresh_token'') (\<lambda>refresh.
     k access refresh)))"

definition user_endpoint_requires_auth :: "app_handler dispatcher \<Rightarrow> env \<Rightarrow> web \<Rightarrow> unit task" where
  "user_endpoint_requires_auth D E W =
     consumer_test_app D E W (\<lambda>app.
     expect_call app (http_request ''GET'' ''/api/v1/user'') (\<lambda>status json.
       [status = 401,
        json_index (error_of json) ''error_id'' = JStr ''MISSING_AUTHORIZATION_HEADER''])
       (\<lambda>_. Ret ()))"

definition user_endpoint_creates_profile :: "app_handler dispatcher \<Rightarrow> env \<Rightarrow> web \<Rightarrow> unit task" where
  "user_endpoint_creates_profile D E W =
     consumer_test_app D E W (\<lambda>app.
     served_register W app (\<lambda>access _.
     expect_call app (get_authed ''/api/v1/user'' access) (\<lambda>status json.
       [status = 200, data_of json ''username'' = JStr ''alice'',
        json_is_string (data_of json ''id'')]) (\<lambda>_. Ret ())))"

definition user_endpoint_returns_existing_profile ::
  "app_handler dispatcher \<Rightarrow> env \<Rightarrow> web \<Rightarrow> unit task" where
  "user_endpoint_returns_existing_profile D E W =
     consumer_test_app D E W (\<lambda>app.
     served_register W app (\<lambda>access _.
     expect_call app (get_authed ''/api/v1/user'' access) (\<lambda>_ _. []) (\<lambda>json1.
     expect_call app (get_authed ''/api/v1/user'' access) (\<lambda>_ json2.
       [data_of json1 ''id'' = data_of json2 ''id'',
        data_of json1 ''username'' = data_of json2 ''username'']) (\<lambda>_. Ret ()))))"

end
