(* ===== verification/Http_Suite.thy ===== *)
theory Http_Suite
  imports Http_Tests Server_Properties
begin

text \<open>
  The unit tests of \<open>src/auth/http.rs\<close> pass in every conforming environment: the suite of the
  repository, which runs on one environment, as a theorem about all of them.
\<close>

section \<open>What the suite relies on\<close>

abbreviation test_config :: auth_config where
  "test_config \<equiv> config_new test_secret"

definition suite_conditions :: "test_handler dispatcher \<Rightarrow> env \<Rightarrow> web \<Rightarrow> bool" where
  "suite_conditions D E W \<longleftrightarrow> axum_routes D \<and> conforming E test_config \<and> web_conforming E W \<and>
     (\<forall>n. \<exists>m. jwt_decode E n test_secret ''not.a.valid.jwt'' = Inl (OtherJwtError m)) \<and>
     header_to_str W ''Bearer not.a.valid.jwt'' = Some ''Bearer not.a.valid.jwt'' \<and>
     (\<forall>n now. clock E n = Some now \<longrightarrow> 1000060 < uint now)"

abbreviation test_app :: "test_handler dispatcher \<Rightarrow> env \<Rightarrow> web \<Rightarrow> request \<Rightarrow> response task" where
  "test_app D E W \<equiv> app_call D E W (run_test_handler E W) (test_router test_config)"

section \<open>The router of the tests\<close>

lemma routes_of_test_router:
  "routes_of (test_router cfg) =
     [(''/protected'', Some Get, [AuthLayer cfg], HApp HProtected),
      (''/auth/register'', Some Post, [AuthLayer cfg], HRegister cfg),
      (''/auth/login'', Some Post, [AuthLayer cfg], HLogin cfg),
      (''/auth/refresh'', Some Post, [AuthLayer cfg], HRefresh cfg),
      (''/auth/logout'', Some Post, [AuthLayer cfg], HLogout cfg),
      (''/auth/me'', Some Get, [AuthLayer cfg], HMe)]"
  by (simp add: test_router_def mount_auth_routes_def)

lemma plain_test_router: "plain_table (routes_of (test_router cfg))"
  by (simp add: routes_of_test_router plain_table_def plain_path_def)

lemma test_route:
  assumes "axum_routes D"
    and "(rq_path req, Some m, [AuthLayer cfg], h) \<in> set (routes_of (test_router cfg))"
    and "rq_method req = method_name m"
  shows "app_call D E W app (test_router cfg) req =
    run_handler E W app h (req\<lparr>rq_extension := Some cfg\<rparr>)"
  using app_call_route [OF assms(1) plain_test_router assms(2,3)]
  by (simp add: auth_service_call_def)

lemma test_auth_service:
  assumes "axum_routes D"
  shows "auth_service E W cfg (app_call D E W app (test_router cfg)) []"
proof (unfold_locales, goal_cases)
  case (1 req)
  then show ?case
    using test_route [OF assms, of req Post cfg "HRegister cfg"] by (simp add: routes_of_test_router)
next
  case (2 req)
  then show ?case
    using test_route [OF assms, of req Post cfg "HLogin cfg"] by (simp add: routes_of_test_router)
next
  case (3 req)
  then show ?case
    using test_route [OF assms, of req Post cfg "HRefresh cfg"] by (simp add: routes_of_test_router)
next
  case (4 req)
  then show ?case
    using test_route [OF assms, of req Post cfg "HLogout cfg"] by (simp add: routes_of_test_router)
next
  case (5 req)
  then show ?case
    using test_route [OF assms, of req Get cfg "HMe"] by (simp add: routes_of_test_router)
qed

interpretation test_service: auth_service E W cfg
  "app_call table_dispatch E W app (test_router cfg)" "[]" for E W cfg app
  by (rule test_auth_service) (rule table_dispatch_axum)

section \<open>Setting up a test\<close>

lemma passes_test_app:
  assumes "suite_conditions D E W" and "auth w = empty_auth_db"
    and "\<And>v. good E v \<Longrightarrow> users (auth v) = [] \<Longrightarrow> passes E (f (test_app D E W)) v"
  shows "passes E (bind_prog (build_test_app D E W) f) w"
proof -
  let ?v = "set_auth (migrate_auth_db (auth w)) (advance (advance (advance w)))"
  have fault: "fault E n = None" for n
    using assms(1) conforming_fault by (auto simp: suite_conditions_def)
  have "run (perform E) (build_test_app D E W) w = (Returned (test_app D E W), ?v)"
    using fault by (simp add: build_test_app_def run_bind_prog expect_ok_def run_perform_done
        run_migrate_auth)
  moreover have "good E ?v" "users (auth ?v) = []"
    using assms(2) by (simp_all add: good_def migrated_def migrate_auth_db_def auth_db_ok_def
        uuids_unused_def empty_auth_db_def)
  ultimately show ?thesis
    using assms(3) by (simp add: passes_bind)
qed

lemma suite_service:
  assumes "suite_conditions D E W"
  shows "auth_service E W test_config (test_app D E W) []"
  using assms test_auth_service by (auto simp: suite_conditions_def)

lemma passes_registered:
  assumes "suite_conditions D E W" and "good E w" and "users (auth w) = []"
    and "\<And>t r v. good E v \<Longrightarrow> users (auth v) = [r] \<Longrightarrow> ur_username r = ''alice'' \<Longrightarrow>
      account E v r ''hunter22'' \<Longrightarrow> session E test_config v r t \<Longrightarrow>
      passes E (f (tk_access_token t, tk_refresh_token t)) v"
  shows "passes E (bind_prog (test_register W (test_app D E W)) f) w"
proof -
  have conf: "conforming E test_config" "web_conforming E W"
    using assms(1) by (simp_all add: suite_conditions_def)
  obtain t v r where reg: "run (perform E) (register E test_config
      \<lparr>reg_username = ''alice'', reg_password = ''hunter22''\<rparr>) w = (Returned (Inr (ApiOk t)), v)"
    and v: "good E v" "ur_username r = ''alice''" "account E v r ''hunter22''"
      "session E test_config v r t" "users (auth v) = [r]"
    using journey_register [OF conf(1) assms(2), of "''alice''" "''hunter22''"] assms(3) by auto
  have "run (perform E) (test_register W (test_app D E W)) w =
      (Returned (tk_access_token t, tk_refresh_token t), v)"
    using auth_service.run_register_call [OF suite_service [OF assms(1)] conf(2) reg]
    by (simp add: test_register_def run_bind_prog unwrap_str_def)
  then show ?thesis
    using assms(4) v by (simp add: passes_bind)
qed

section \<open>The calls of the suite\<close>

lemma suite_answers:
  assumes "suite_conditions D E W"
  shows "run (perform E) (register E test_config \<lparr>reg_username = u, reg_password = p\<rparr>) w =
      (Returned r, w') \<Longrightarrow>
    answers E (test_app D E W) (post W ''/auth/register'' (credentials_json u p)) w
      (result_into_response token_json r) w'"
  and "run (perform E) (login E test_config \<lparr>log_username = u, log_password = p\<rparr>) w =
      (Returned r, w') \<Longrightarrow>
    answers E (test_app D E W) (post W ''/auth/login'' (credentials_json u p)) w
      (result_into_response token_json r) w'"
  and "run (perform E) (refresh E test_config \<lparr>ref_refresh_token = t\<rparr>) w = (Returned r, w') \<Longrightarrow>
    answers E (test_app D E W) (post W ''/auth/refresh'' (refresh_json t)) w
      (result_into_response token_json r) w'"
  and "run (perform E) (logout E test_config \<lparr>out_refresh_token = t\<rparr>) w = (Returned q, w') \<Longrightarrow>
    answers E (test_app D E W) (post W ''/auth/logout'' (refresh_json t)) w
      (result_into_response unit_json q) w'"
  using auth_service.answers_calls [OF suite_service [OF assms]] assms
  by (simp_all add: suite_conditions_def)

text \<open>Responses of the protected route.\<close>

definition protected_response :: "servir_error + claims \<Rightarrow> response" where
  "protected_response r =
     result_into_response JStr (map_sum id (\<lambda>c. api_ok (cl_username c)) r)"

lemma protected_answers:
  assumes "suite_conditions D E W" and "rq_path req = ''/protected''" and "rq_method req = ''GET''"
    and "run (perform E) (auth_user W (req\<lparr>rq_extension := Some test_config\<rparr>)) w =
      (Returned r, w')"
  shows "answers E (test_app D E W) req w (protected_response r) w'"
proof -
  have "test_app D E W req = protected_endpoint W (req\<lparr>rq_extension := Some test_config\<rparr>)"
    using test_route [of D req Get test_config "HApp HProtected" E W "run_test_handler E W"] assms
    by (simp add: routes_of_test_router suite_conditions_def)
  with assms(4) show ?thesis
    by (cases r) (simp_all add: answers_def call_app_def protected_endpoint_def respond_def
        run_bind_prog run_bind_ok protected_response_def)
qed

lemma protected_accepted:
  assumes "suite_conditions D E W" and "accepted E test_config t c"
  shows "answers E (test_app D E W) (get_authed ''/protected'' t) w
    (protected_response (if cl_kind c = Access then Inr c else Inl token_wrong_kind)) (advance w)"
proof (rule protected_answers [OF assms(1)])
  have "web_conforming E W"
    using assms(1) by (simp add: suite_conditions_def)
  then show "run (perform E) (auth_user W (get_authed ''/protected'' t
      \<lparr>rq_extension := Some test_config\<rparr>)) w =
    (Returned (if cl_kind c = Access then Inr c else Inl token_wrong_kind), advance w)"
    by (intro journey_auth_user [OF _ bearer_get_authed [OF _ assms(2)] assms(2)]) simp_all
qed simp_all
section \<open>Registration\<close>

lemma suite_conforming: "suite_conditions D E W \<Longrightarrow> conforming E test_config"
  by (simp add: suite_conditions_def)

lemma context_entry [simp]:
  "json_index (ctx_serialize \<lparr>ctx_error = e, ctx_identifier = Some \<lparr>id_kind = ''username'',
     id_value = v\<rparr>\<rparr>) ''username'' = JStr v"
  by (simp add: ctx_serialize_def)

lemma pass_register_returns_tokens:
  assumes "suite_conditions D E W" and "auth w = empty_auth_db"
  shows "passes E (register_returns_tokens D E W) w"
  unfolding register_returns_tokens_def
proof (rule passes_test_app [OF assms], goal_cases)
  case (1 v)
  note conf = suite_conforming [OF assms(1)] and S = suite_answers [OF assms(1)]
  obtain t v' r where reg: "run (perform E) (register E test_config
      \<lparr>reg_username = ''bob'', reg_password = ''password1''\<rparr>) v = (Returned (Inr (ApiOk t)), v')"
    and "session E test_config v' r t"
    using journey_register [OF conf 1(1), of "''bob''" "''password1''"] 1(2) by auto
  then show ?case
    by (simp add: passes_call [OF S(1) [OF reg]] json_is_string_def session_def)
qed

lemma pass_register_empty_username_returns_400:
  assumes "suite_conditions D E W" and "auth w = empty_auth_db"
  shows "passes E (register_empty_username_returns_400 D E W) w"
  unfolding register_empty_username_returns_400_def
proof (rule passes_test_app [OF assms], goal_cases)
  case (1 v)
  note conf = suite_conforming [OF assms(1)] and S = suite_answers [OF assms(1)]
  have "run (perform E) (register E test_config
      \<lparr>reg_username = [], reg_password = ''12345678''\<rparr>) v =
      (Returned (Inl user_empty_username), v)"
    by (simp add: register_def)
  from passes_call [OF S(1) [OF this]] show ?case
    by (simp add: user_empty_username_def error_simps)
qed

lemma pass_register_weak_password_returns_400:
  assumes "suite_conditions D E W" and "auth w = empty_auth_db"
  shows "passes E (register_weak_password_returns_400 D E W) w"
  unfolding register_weak_password_returns_400_def
proof (rule passes_test_app [OF assms], goal_cases)
  case (1 v)
  note conf = suite_conforming [OF assms(1)] and S = suite_answers [OF assms(1)]
  have "run (perform E) (register E test_config
      \<lparr>reg_username = ''bob'', reg_password = ''short''\<rparr>) v =
      (Returned (Inl user_weak_password), v)"
    by (simp add: register_def)
  from passes_call [OF S(1) [OF this]] show ?case
    by (simp add: user_weak_password_def error_simps)
qed

lemma pass_register_duplicate_returns_409:
  assumes "suite_conditions D E W" and "auth w = empty_auth_db"
  shows "passes E (register_duplicate_returns_409 D E W) w"
  unfolding register_duplicate_returns_409_def
proof (rule passes_test_app [OF assms], rule passes_registered [OF assms(1)], assumption,
    assumption, goal_cases)
  case (1 v0 t r v)
  note conf = suite_conforming [OF assms(1)] and S = suite_answers [OF assms(1)]
  obtain m v' where "run (perform E) (register E test_config
      \<lparr>reg_username = ''alice'', reg_password = ''hunter22''\<rparr>) v =
      (Returned (Inl (user_already_exists ''alice'' m)), v')"
    using journey_register_taken [OF conf 1(3), of "''alice''" "''hunter22''"] 1(4,5) by auto
  from passes_call [OF S(1) [OF this]] show ?case
    by (simp add: user_already_exists_def error_simps)
qed

section \<open>Login\<close>

lemma pass_login_correct_credentials_returns_tokens:
  assumes "suite_conditions D E W" and "auth w = empty_auth_db"
  shows "passes E (login_correct_credentials_returns_tokens D E W) w"
  unfolding login_correct_credentials_returns_tokens_def
proof (rule passes_test_app [OF assms], rule passes_registered [OF assms(1)], assumption,
    assumption, goal_cases)
  case (1 v0 t r v)
  note conf = suite_conforming [OF assms(1)] and S = suite_answers [OF assms(1)]
  obtain t' v' where "run (perform E) (login E test_config
      \<lparr>log_username = ''alice'', log_password = ''hunter22''\<rparr>) v = (Returned (Inr (ApiOk t')), v')"
    using journey_login [OF conf 1(3,6)] 1(5) by auto
  from passes_call [OF S(2) [OF this]] show ?case
    by (simp add: json_is_string_def)
qed

lemma pass_login_wrong_password_returns_401:
  assumes "suite_conditions D E W" and "auth w = empty_auth_db"
  shows "passes E (login_wrong_password_returns_401 D E W) w"
  unfolding login_wrong_password_returns_401_def
proof (rule passes_test_app [OF assms], rule passes_registered [OF assms(1)], assumption,
    assumption, goal_cases)
  case (1 v0 t r v)
  note conf = suite_conforming [OF assms(1)] and S = suite_answers [OF assms(1)]
  have "run (perform E) (login E test_config
      \<lparr>log_username = ''alice'', log_password = ''wrongpass''\<rparr>) v =
      (Returned (Inl (user_invalid_credentials ''alice'')), advance v)"
    using journey_login_wrong [OF conf 1(3,6), of "''wrongpass''"] 1(5) by simp
  from passes_call [OF S(2) [OF this]] show ?case
    by (simp add: user_invalid_credentials_def error_simps)
qed

lemma pass_login_nonexistent_user_returns_401:
  assumes "suite_conditions D E W" and "auth w = empty_auth_db"
  shows "passes E (login_nonexistent_user_returns_401 D E W) w"
  unfolding login_nonexistent_user_returns_401_def
proof (rule passes_test_app [OF assms], goal_cases)
  case (1 v)
  note conf = suite_conforming [OF assms(1)] and S = suite_answers [OF assms(1)]
  have "run (perform E) (login E test_config
      \<lparr>log_username = ''nobody'', log_password = ''hunter22''\<rparr>) v =
      (Returned (Inl (user_invalid_credentials ''nobody'')), advance v)"
    using journey_login_unknown [OF conf 1(1), of "''nobody''" "''hunter22''"] 1(2) by simp
  from passes_call [OF S(2) [OF this]] show ?case
    by (simp add: user_invalid_credentials_def error_simps)
qed

section \<open>A protected route\<close>

lemma pass_protected_with_valid_token:
  assumes "suite_conditions D E W" and "auth w = empty_auth_db"
  shows "passes E (protected_with_valid_token D E W) w"
  unfolding protected_with_valid_token_def
proof (rule passes_test_app [OF assms], rule passes_registered [OF assms(1)], assumption,
    assumption, goal_cases)
  case (1 v0 t r v)
  note conf = suite_conforming [OF assms(1)] and S = suite_answers [OF assms(1)]
  obtain c where c: "accepted E test_config (tk_access_token t) c" "cl_kind c = Access"
    "cl_username c = ''alice''"
    using 1(5,7) by (auto simp: session_def opens_def)
  show ?case
    using c by (simp add: passes_call [OF protected_accepted [OF assms(1) c(1)]]
        protected_response_def result_into_response_def api_into_response_def api_ok_def)
qed

lemma pass_protected_without_token_returns_401:
  assumes "suite_conditions D E W" and "auth w = empty_auth_db"
  shows "passes E (protected_without_token_returns_401 D E W) w"
  unfolding protected_without_token_returns_401_def
proof (rule passes_test_app [OF assms], goal_cases)
  case (1 v)
  note conf = suite_conforming [OF assms(1)] and S = suite_answers [OF assms(1)]
  have "run (perform E) (auth_user W ((http_request ''GET'' ''/protected'')
      \<lparr>rq_extension := Some test_config\<rparr>)) v = (Returned (Inl token_missing_header), v)"
    by (simp add: auth_user_def bearer_token_def)
  from passes_call [OF protected_answers [OF assms(1) _ _ this]] show ?case
    by (simp add: protected_response_def token_missing_header_def error_simps)
qed

lemma pass_protected_with_invalid_token_returns_401:
  assumes "suite_conditions D E W" and "auth w = empty_auth_db"
  shows "passes E (protected_with_invalid_token_returns_401 D E W) w"
  unfolding protected_with_invalid_token_returns_401_def
proof (rule passes_test_app [OF assms], goal_cases)
  case (1 v)
  note conf = suite_conforming [OF assms(1)] and S = suite_answers [OF assms(1)]
  obtain m where "jwt_decode E (tick v) test_secret ''not.a.valid.jwt'' = Inl (OtherJwtError m)"
    using assms(1) unfolding suite_conditions_def by blast
  moreover have "bearer_token W (get_authed ''/protected'' ''not.a.valid.jwt''
      \<lparr>rq_extension := Some test_config\<rparr>) = Some ''not.a.valid.jwt''"
    using assms(1) by (simp add: suite_conditions_def bearer_token_def strip_prefix_Some_iff)
  ultimately have "run (perform E) (auth_user W (get_authed ''/protected'' ''not.a.valid.jwt''
      \<lparr>rq_extension := Some test_config\<rparr>)) v = (Returned (Inl (token_invalid m)), advance v)"
    by (simp add: auth_user_def run_bind_ok run_verify_token config_new_def)
  from passes_call [OF protected_answers [OF assms(1) _ _ this]] show ?case
    by (simp add: protected_response_def token_invalid_def error_simps)
qed

lemma pass_protected_with_expired_token_returns_401:
  assumes "suite_conditions D E W" and "auth w = empty_auth_db"
  shows "passes E (protected_with_expired_token_returns_401 D E W) w"
proof -
  let ?c = "\<lparr>cl_sub = ''user-123'', cl_username = ''alice'', cl_exp = 1000000, cl_iat = 999000,
    cl_jti = ''jti-expired'', cl_kind = Access\<rparr>"
  have conf: "healthy E test_config" "jwt_roundtrip E" "web_conforming E W"
    using assms(1) by (simp_all add: suite_conditions_def conforming_def)
  obtain t where t: "jwt_encode E test_secret ?c = Inr t"
    using healthy_encode [OF conf(1)] by blast
  have expired: "jwt_decode E n test_secret t = Inl ExpiredSignature" for n
  proof -
    obtain now where now: "clock E n = Some now"
      using conf(1) unfolding healthy_def clock_runs_def by blast
    then have "1000060 < uint now"
      using assms(1) unfolding suite_conditions_def by blast
    with now t conf(2) show ?thesis by (simp add: jwt_roundtrip_def)
  qed
  have bearer: "bearer_token W (get_authed ''/protected'' t
      \<lparr>rq_extension := Some test_config\<rparr>) = Some t"
    using t conf(3) by (auto simp: web_conforming_def bearer_token_def strip_prefix_Some_iff)
  show ?thesis
    unfolding protected_with_expired_token_returns_401_def t unwrap_ok_simps
  proof (rule passes_test_app [OF assms], goal_cases)
    case (1 v)
    have "run (perform E) (auth_user W (get_authed ''/protected'' t
        \<lparr>rq_extension := Some test_config\<rparr>)) v = (Returned (Inl token_expired), advance v)"
      using expired bearer by (simp add: auth_user_def run_bind_ok run_verify_token config_new_def)
    from passes_call [OF protected_answers [OF assms(1) _ _ this]] show ?case
      by (simp add: protected_response_def token_expired_def error_simps)
  qed
qed

lemma pass_protected_with_refresh_token_returns_401:
  assumes "suite_conditions D E W" and "auth w = empty_auth_db"
  shows "passes E (protected_with_refresh_token_returns_401 D E W) w"
  unfolding protected_with_refresh_token_returns_401_def
proof (rule passes_test_app [OF assms], rule passes_registered [OF assms(1)], assumption,
    assumption, goal_cases)
  case (1 v0 t r v)
  note conf = suite_conforming [OF assms(1)] and S = suite_answers [OF assms(1)]
  obtain c where c: "accepted E test_config (tk_refresh_token t) c" "cl_kind c = Refresh"
    using 1(7) by (auto simp: session_def redeemable_def)
  show ?case
    using c by (simp add: passes_call [OF protected_accepted [OF assms(1) c(1)]]
        protected_response_def token_wrong_kind_def error_simps)
qed

lemma pass_me_returns_user_info:
  assumes "suite_conditions D E W" and "auth w = empty_auth_db"
  shows "passes E (me_returns_user_info D E W) w"
  unfolding me_returns_user_info_def
proof (rule passes_test_app [OF assms], rule passes_registered [OF assms(1)], assumption,
    assumption, goal_cases)
  case (1 v0 t r v)
  note conf = suite_conforming [OF assms(1)] and S = suite_answers [OF assms(1)]
  have "web_conforming E W" and "opens E test_config r (tk_access_token t)"
    using assms(1) 1(7) by (simp_all add: suite_conditions_def session_def)
  from auth_service.run_me_call [OF suite_service [OF assms(1)] this, of v] show ?case
    using 1(5) by (simp add: passes_bind me_json_def json_is_string_def)
qed

section \<open>Refresh and logout\<close>

lemma pass_refresh_returns_new_tokens:
  assumes "suite_conditions D E W" and "auth w = empty_auth_db"
  shows "passes E (refresh_returns_new_tokens D E W) w"
  unfolding refresh_returns_new_tokens_def
proof (rule passes_test_app [OF assms], rule passes_registered [OF assms(1)], assumption,
    assumption, goal_cases)
  case (1 v0 t r v)
  note conf = suite_conforming [OF assms(1)] and S = suite_answers [OF assms(1)]
  have "redeemable E test_config v r (tk_refresh_token t)" "r \<in> set (users (auth v))"
    using 1(4,7) by (simp_all add: session_def)
  then obtain t' v' where ref: "run (perform E) (refresh E test_config
      \<lparr>ref_refresh_token = tk_refresh_token t\<rparr>) v = (Returned (Inr (ApiOk t')), v')"
    and "tk_refresh_token t' \<noteq> tk_refresh_token t"
    using journey_refresh [OF conf 1(3)] by blast
  then show ?case
    by (simp add: passes_call [OF S(3) [OF ref]] json_is_string_def)
qed

lemma pass_refresh_consumed_token_returns_401:
  assumes "suite_conditions D E W" and "auth w = empty_auth_db"
  shows "passes E (refresh_consumed_token_returns_401 D E W) w"
  unfolding refresh_consumed_token_returns_401_def
proof (rule passes_test_app [OF assms], rule passes_registered [OF assms(1)], assumption,
    assumption, goal_cases)
  case (1 v0 t r v)
  note conf = suite_conforming [OF assms(1)] and S = suite_answers [OF assms(1)]
  have "redeemable E test_config v r (tk_refresh_token t)" "r \<in> set (users (auth v))"
    using 1(4,7) by (simp_all add: session_def)
  then obtain t' v' where first: "run (perform E) (refresh E test_config
      \<lparr>ref_refresh_token = tk_refresh_token t\<rparr>) v = (Returned (Inr (ApiOk t')), v')"
    and v': "good E v'" "spent E test_config v' (tk_refresh_token t)"
    using journey_refresh [OF conf 1(3)] by blast
  obtain v'' where second: "run (perform E) (refresh E test_config
      \<lparr>ref_refresh_token = tk_refresh_token t\<rparr>) v' =
      (Returned (Inl token_invalid_refresh_token), v'')"
    using journey_refresh_spent [OF conf v'] by blast
  show ?case
    by (simp add: passes_call [OF S(3) [OF first]] passes_call [OF S(3) [OF second]]
        token_invalid_refresh_token_def error_simps)
qed

lemma pass_refresh_with_access_token_returns_401:
  assumes "suite_conditions D E W" and "auth w = empty_auth_db"
  shows "passes E (refresh_with_access_token_returns_401 D E W) w"
proof -
  have conf: "healthy E test_config"
    using assms(1) by (simp add: suite_conditions_def conforming_def)
  obtain now where now: "clock E (tick w) = Some now"
    using conf unfolding healthy_def clock_runs_def by blast
  have fits: "uint now + uint (3600 :: u64) < 2 ^ 64"
    using conf now unfolding healthy_def by (fastforce simp: config_new_def)
  let ?c = "\<lparr>cl_sub = ''user-123'', cl_username = ''someone'', cl_exp = now + 3600, cl_iat = now,
    cl_jti = ''jti-access'', cl_kind = Access\<rparr>"
  obtain t where t: "jwt_encode E test_secret ?c = Inr t"
    using healthy_encode [OF conf] by blast
  have acc: "accepted E test_config t ?c"
    by (rule conforming_accepted [OF suite_conforming [OF assms(1)] now])
      (use t add_usize_exact(2) [OF fits] in \<open>simp_all add: config_new_def\<close>)
  have "passes E (bind_prog (build_test_app D E W) (\<lambda>app.
      bind_prog (call_app app (post W ''/auth/refresh'' (refresh_json t)))
        (\<lambda>(status, json). asserts [status = 401,
          json_index (json_index json ''error'') ''error_id'' = JStr ''WRONG_TOKEN_KIND''])))
      (advance w)"
  proof (rule passes_test_app [OF assms(1)], goal_cases)
    case (2 v)
    have "run (perform E) (refresh E test_config \<lparr>ref_refresh_token = t\<rparr>) v =
        (Returned (Inl token_wrong_kind), advance v)"
      by (rule journey_refresh_with_access [OF acc]) simp
    from passes_call [OF suite_answers(3) [OF assms(1) this]] show ?case
      by (simp add: token_wrong_kind_def error_simps)
  qed (simp add: assms(2))
  then show ?thesis
    using now t by (simp add: refresh_with_access_token_returns_401_def passes_def run_random_requests unwrap_ok_def
        add_usize_exact(1) [OF fits])
qed

lemma pass_logout_then_refresh_returns_401:
  assumes "suite_conditions D E W" and "auth w = empty_auth_db"
  shows "passes E (logout_then_refresh_returns_401 D E W) w"
  unfolding logout_then_refresh_returns_401_def
proof (rule passes_test_app [OF assms], rule passes_registered [OF assms(1)], assumption,
    assumption, goal_cases)
  case (1 v0 t r v)
  note conf = suite_conforming [OF assms(1)] and S = suite_answers [OF assms(1)]
  have "redeemable E test_config v r (tk_refresh_token t)"
    using 1(7) by (simp add: session_def)
  then obtain v' where out: "run (perform E) (logout E test_config
      \<lparr>out_refresh_token = tk_refresh_token t\<rparr>) v = (Returned (Inr (ApiOk ())), v')"
    and v': "good E v'" "spent E test_config v' (tk_refresh_token t)"
    using journey_logout [OF conf 1(3)] by blast
  obtain v'' where again: "run (perform E) (refresh E test_config
      \<lparr>ref_refresh_token = tk_refresh_token t\<rparr>) v' =
      (Returned (Inl token_invalid_refresh_token), v'')"
    using journey_refresh_spent [OF conf v'] by blast
  show ?case
    by (simp add: passes_call [OF S(4) [OF out]] passes_call [OF S(3) [OF again]]
        token_invalid_refresh_token_def error_simps)
qed

section \<open>Malformed bodies\<close>

lemma rejected_answers:
  assumes "suite_conditions D E W" and "rq_path req = ''/auth/register''"
    and "rq_method req = ''POST''" and "rq_content_type req = None \<or> rq_body req = ''{broken''"
  shows "\<exists>m. answers E (test_app D E W) req w
    (result_into_response token_json (Inl (servir_bad_request m))) w"
  using auth_service.answers_rejected [OF suite_service [OF assms(1)], of req] assms
  by (simp add: suite_conditions_def)

lemma bad_request_facts [simp]:
  "servir_status_code (servir_bad_request m) = 400"
  "servir_error_id (servir_bad_request m) = ''BAD_REQUEST''"
  by (simp_all add: servir_bad_request_def error_simps)

lemma pass_malformed_json_returns_400:
  assumes "suite_conditions D E W" and "auth w = empty_auth_db"
  shows "passes E (malformed_json_returns_400 D E W) w"
  unfolding malformed_json_returns_400_def
proof (rule passes_test_app [OF assms], goal_cases)
  case (1 v)
  let ?req = "(http_request ''POST'' ''/auth/register'')
       \<lparr>rq_content_type := Some ''application/json'', rq_body := ''{broken''\<rparr>"
  obtain m where "answers E (test_app D E W) ?req v
      (result_into_response token_json (Inl (servir_bad_request m))) v"
    using rejected_answers [OF assms(1), of ?req v] by auto
  from passes_call [OF this] show ?case by simp
qed

lemma pass_missing_content_type_returns_400:
  assumes "suite_conditions D E W" and "auth w = empty_auth_db"
  shows "passes E (missing_content_type_returns_400 D E W) w"
  unfolding missing_content_type_returns_400_def
proof (rule passes_test_app [OF assms], goal_cases)
  case (1 v)
  let ?req = "(http_request ''POST'' ''/auth/register'')
       \<lparr>rq_body := ''{'' @ quoted ''username'' @ '':'' @ quoted ''a'' @ '','' @
         quoted ''password'' @ '':'' @ quoted ''b'' @ ''}''\<rparr>"
  obtain m where "answers E (test_app D E W) ?req v
      (result_into_response token_json (Inl (servir_bad_request m))) v"
    using rejected_answers [OF assms(1), of ?req v] by auto
  from passes_call [OF this] show ?case by simp
qed

section \<open>The suite\<close>

lemmas suite_lemmas =
  pass_register_returns_tokens
  pass_register_empty_username_returns_400
  pass_register_weak_password_returns_400
  pass_register_duplicate_returns_409
  pass_login_correct_credentials_returns_tokens
  pass_login_wrong_password_returns_401
  pass_login_nonexistent_user_returns_401
  pass_protected_with_valid_token
  pass_protected_without_token_returns_401
  pass_protected_with_invalid_token_returns_401
  pass_protected_with_expired_token_returns_401
  pass_protected_with_refresh_token_returns_401
  pass_me_returns_user_info
  pass_refresh_returns_new_tokens
  pass_refresh_consumed_token_returns_401
  pass_refresh_with_access_token_returns_401
  pass_logout_then_refresh_returns_401
  pass_malformed_json_returns_400
  pass_missing_content_type_returns_400

text \<open>C24: Every unit test of the auth routes passes, in every environment in which nothing fails,
  the libraries keep their documentation, and the clock reads a time after January 1970 that
  stays within the lifetimes of the tokens. The tests cover all five routes, each refusal with its
  status and error identifier, single use of refresh tokens, and revocation by logout.\<close>

theorem auth_http_suite_passes:
  assumes "suite_conditions D E W" and "auth w = empty_auth_db"
    and "test \<in> set (auth_http_tests D E W)"
  shows "fst (run (perform E) test w) = Returned ()"
proof -
  have "list_all (\<lambda>test. passes E test w) (auth_http_tests D E W)"
    unfolding auth_http_tests_def list.pred_inject
    by (intro conjI list.pred_inject(1) suite_lemmas assms(1,2))
  with assms(3) show ?thesis
    by (auto simp: list_all_iff passes_def)
qed

section \<open>The conditions are satisfiable\<close>

lemma late_suite_conditions: "suite_conditions table_dispatch late_env text_web"
proof -
  have "late_decode n s ''not.a.valid.jwt'' = Inl (OtherJwtError ''InvalidToken'')" for n s
    by (simp add: late_decode_def demo_parse_def)
  then show ?thesis
    using late_conforming [of test_config] text_web_conforming
    by (simp add: suite_conditions_def table_dispatch_axum text_web_def config_new_def)
qed

theorem auth_http_suite_passes_witness:
  "list_all (\<lambda>test. fst (run (perform late_env) test empty_world) = Returned ())
     (auth_http_tests table_dispatch late_env text_web) \<and>
   length (auth_http_tests table_dispatch late_env text_web) = 19"
proof
  show "list_all (\<lambda>test. fst (run (perform late_env) test empty_world) = Returned ())
     (auth_http_tests table_dispatch late_env text_web)"
    unfolding list_all_iff
    by (intro ballI auth_http_suite_passes [OF late_suite_conditions])
      (simp_all add: empty_world_def)
  show "length (auth_http_tests table_dispatch late_env text_web) = 19"
    by (simp add: auth_http_tests_def)
qed

end
