(* ===== verification/Integration_Passes.thy ===== *)
theory Integration_Passes
  imports Integration_Tests Http_Suite Consumer_Properties
begin

text \<open>
  The integration tests pass: the builder, the router, the layers, the handlers, the repository
  and the profile store together, in every environment that conforms.
\<close>

section \<open>The conditions\<close>

text \<open>
  Nothing fails, the libraries keep their documentation, the lifetimes are the defaults, and the
  two strings that the tests use for a broken token are none under any secret.
\<close>

definition integration_conditions :: "env \<Rightarrow> web \<Rightarrow> bool" where
  "integration_conditions E W \<longleftrightarrow> conforming E config_with_defaults \<and> web_conforming E W \<and>
     (\<forall>n. random_bytes E n 32 \<noteq> None) \<and> url_error E ''sqlite::memory:'' = None \<and>
     (\<forall>n s t. t \<in> {''not.a.valid.jwt'', ''garbage.token.here''} \<longrightarrow>
        (\<exists>m. jwt_decode E n s t = Inl (OtherJwtError m))) \<and>
     header_to_str W ''Bearer not.a.valid.jwt'' = Some ''Bearer not.a.valid.jwt''"

lemma passes_expect_call:
  assumes "answers E app req w resp w'"
  shows "passes E (expect_call app req checks k) w \<longleftrightarrow>
    list_all id (checks (rs_status resp) (rs_body resp)) \<and> passes E (k (rs_body resp)) w'"
  by (simp add: expect_call_def passes_call [OF assms])

lemma passes_Ret [simp]: "passes E (Ret ()) w"
  by (simp add: passes_def)

lemma answers_Ret: "app req = Ret resp \<Longrightarrow> answers E app req w resp w"
  by (simp add: answers_def call_app_def)

fun data_effect :: "effect \<Rightarrow> bool" where
  "data_effect (DataSql st) = True"
| "data_effect MigrateData = True"
| "data_effect _ = False"

lemma perform_keeps_data: "\<not> data_effect e \<Longrightarrow> perform E e w = (r, w') \<Longrightarrow> data w' = data w"
  by (cases e) (auto simp: perform_auth_def split: option.splits prod.splits)

lemma keeps_data_run:
  assumes "performs_only (\<lambda>e. \<not> data_effect e) p" and "run (perform E) p w = (out, w')"
  shows "data w' = data w"
  by (rule performs_only_run [where keep = "\<lambda>v. data v = data w", OF _ assms(1) _ assms(2)])
    (auto dest: perform_keeps_data)

lemma build_keeps_data:
  "run (perform E) (build E b) w = (out, w') \<Longrightarrow> data w' = data w"
  by (rule keeps_data_run [OF performs_only_build]) simp_all

lemma performs_only_draws:
  "(\<And>x. performs_only P (k x)) \<Longrightarrow> P ReadClock \<Longrightarrow> performs_only P (now_secs k)"
  "(\<And>x. performs_only P (l x)) \<Longrightarrow> P GenUuid \<Longrightarrow> performs_only P (gen_uuid l)"
  "(\<And>x. performs_only P (l x)) \<Longrightarrow> P GenSalt \<Longrightarrow> performs_only P (gen_salt l)"
  by (auto simp: now_secs_def request_defs split: reply.splits option.splits)

lemma register_keeps_data:
  assumes "run (perform E) (register E cfg body) w = (out, w')"
  shows "data w' = data w"
proof -
  have "performs_only (\<lambda>e. \<not> data_effect e) (register E cfg body)"
    unfolding register_def hash_password_def create_user_def issue_tokens_def
      issue_access_token_def issue_refresh_token_def store_refresh_token_def Let_def
    by (auto simp: performs_only_requests intro!: performs_only_combinators performs_only_draws
        split: option.splits prod.splits)
  then show ?thesis
    using assms by (rule keeps_data_run)
qed

lemma passes_built:
  assumes "integration_conditions E W" and "users (auth w) = []" and "refresh_tokens (auth w) = []"
    and "auth_db_ok (auth w)" and "data_db_ok (data w)"
    and "sb_routes b = Some api" and "sb_auth_database_url b = Some ''sqlite::memory:''"
    and "sb_addr b = Some a" and "sb_access_token_ttl_secs b = None"
    and "sb_refresh_token_ttl_secs b = None"
    and "\<And>v sv cfg. good E v \<Longrightarrow> users (auth v) = [] \<Longrightarrow> data v = data w \<Longrightarrow> conforming E cfg \<Longrightarrow>
      sv_router sv = build_router api cfg \<Longrightarrow> passes E (k sv) v"
  shows "passes E (awaited (build E b) k) w"
proof -
  have conf: "conforming E config_with_defaults"
    using assms(1) by (simp add: integration_conditions_def)
  have healthy: "fault E n = None" "random_bytes E n 32 \<noteq> None" for n
    using assms(1) conforming_fault [OF conf] by (simp_all add: integration_conditions_def)
  have url: "url_error E ''sqlite::memory:'' = None"
    using assms(1) by (simp add: integration_conditions_def)
  obtain sv v where build: "run (perform E) (build E b) w = (Returned (Inr sv), v)"
    using build_succeeds [OF healthy assms(6-8) url] by blast
  obtain secret where sv: "sv_router sv = build_router api (build_config b secret)"
    using build_secret [OF build] assms(6) by (auto simp: servir_new_def)
  have "world_ok w" "uuids_unused E w"
    using assms(2-5) by (simp_all add: world_ok_def uuids_unused_def)
  from build_good [OF build this] have "good E v" .
  moreover have "users (auth v) = []"
    using build_keeps_accounts [OF build] assms(2) by simp
  moreover have "data v = data w"
    by (rule build_keeps_data [OF build])
  moreover have "conforming E (build_config b secret)"
    using conf conforming_secret [of "build_config b secret" config_with_defaults E] assms(9,10)
    by (simp add: build_config_def set_secret_def Let_def)
  ultimately have "passes E (k sv) v"
    using sv by (rule assms(11))
  then show ?thesis
    by (simp add: passes_awaited [OF build])
qed

lemma served_builder_simps:
  "sb_routes (served_builder r) = Some r"
  "sb_auth_database_url (served_builder r) = Some ''sqlite::memory:''"
  "sb_addr (served_builder r) = Some ([127, 0, 0, 1], 0)"
  "sb_access_token_ttl_secs (served_builder r) = None"
  "sb_refresh_token_ttl_secs (served_builder r) = None"
  by (simp_all add: served_builder_def servir_builder_def set_routes_def set_addr_def
      set_auth_database_url_def set_service_name_def)

lemma consumer_test_builder_simps:
  "sb_routes consumer_test_builder = Some app_routes"
  "sb_auth_database_url consumer_test_builder = Some ''sqlite::memory:''"
  "sb_addr consumer_test_builder = Some ([127, 0, 0, 1], 0)"
  "sb_access_token_ttl_secs consumer_test_builder = None"
  "sb_refresh_token_ttl_secs consumer_test_builder = None"
  by (simp_all add: consumer_test_builder_def servir_builder_def set_routes_def set_addr_def
      set_auth_database_url_def set_service_name_def)

lemma test_routers_plain: "plain_api protected_router" "plain_api shape_router"
  by (simp_all add: plain_api_def protected_router_def shape_router_def library_endpoints_def
      plain_path_def)

section \<open>Bodies\<close>

lemma plain_error_body:
  assumes "servir_context e = ctx_empty"
  shows "rs_body (result_into_response ser (Inl e)) = plain_error (servir_error_id e)"
  using assms
  by (simp add: result_into_response_def servir_into_response_def api_into_response_def Let_def
      error_body_new_def error_body_json_def plain_error_def ctx_serialize_def ctx_empty_def
      json_opt_str_def)

lemma error_body_status [simp]:
  "json_index (rs_body (result_into_response ser (Inl e))) ''status'' = JStr ''error''"
  by (simp add: result_into_response_def servir_into_response_def api_into_response_def Let_def)

lemma context_entries [simp]:
  "json_index (ctx_serialize \<lparr>ctx_error = Some m, ctx_identifier = i\<rparr>) ''error'' = JStr m"
  "json_index (ctx_serialize \<lparr>ctx_error = None, ctx_identifier = i\<rparr>) ''error'' = JNull"
  "json_index (ctx_serialize \<lparr>ctx_error = x, ctx_identifier = Some \<lparr>id_kind = ''username'',
     id_value = v\<rparr>\<rparr>) ''username'' = JStr v"
  by (simp_all add: ctx_serialize_def json_opt_str_def split: option.splits)

section \<open>All routes and errors\<close>

lemma served_protected:
  assumes "axum_routes D" and "rq_path req = ''/api/v1/protected''" and "rq_method req = ''GET''"
    and "run (perform E) (auth_user W (req\<lparr>rq_extension := Some cfg\<rparr>)) w = (Returned r, w')"
  shows "answers E (app_call D E W (run_test_handler E W) (build_router protected_router cfg)) req w
    (protected_response r) w'"
proof -
  have "app_call D E W (run_test_handler E W) (build_router protected_router cfg) req =
      protected_endpoint W (req\<lparr>rq_extension := Some cfg\<rparr>)"
    using built_route [OF assms(1) test_routers_plain(1), of req "''/protected''" Get "[]"
        "HApp HProtected" cfg E W "run_test_handler E W"] assms(2,3)
    by (simp add: protected_router_def)
  with assms(4) show ?thesis
    by (cases r) (simp_all add: answers_def call_app_def protected_endpoint_def respond_def
        run_bind_prog run_bind_ok protected_response_def)
qed

lemma pass_refused_registrations:
  assumes "integration_conditions E W" and "axum_routes D"
    and "app = app_call D E W (run_test_handler E W) (build_router protected_router cfg)"
    and "passes E rest w"
  shows "passes E (refused_registrations W app rest) w"
proof -
  have web: "web_conforming E W"
    using assms(1) by (simp add: integration_conditions_def)
  note plain = test_routers_plain(1)
  have service: "auth_service E W cfg app ''/api/v1''"
    unfolding assms(3) by (rule built_auth_service [OF assms(2) plain])
  have health: "answers E app (http_request ''GET'' ''/api/v1/health'') w
      (api_into_response health_json health) w"
    unfolding assms(3) by (rule answers_Ret, rule built_health [OF assms(2) plain]) simp_all
  have unmatched: "answers E app (http_request ''GET'' ''/nonexistent'') w
      (api_into_response unit_json not_found) w"
    unfolding assms(3)
    by (rule answers_Ret, rule built_unmatched [OF assms(2) plain])
      (simp add: endpoints_build_router library_endpoints_def protected_router_def)
  have empty: "run (perform E) (register E cfg \<lparr>reg_username = [], reg_password = ''12345678''\<rparr>) w =
      (Returned (Inl user_empty_username), w)"
    and weak: "run (perform E) (register E cfg \<lparr>reg_username = ''bob'', reg_password = ''short''\<rparr>) w =
      (Returned (Inl user_weak_password), w)"
    by (simp_all add: register_def)
  note calls = auth_service.answers_calls [OF service web]
  show ?thesis
    using assms(4)
    by (simp add: refused_registrations_def passes_expect_call [OF health]
        passes_expect_call [OF unmatched] passes_expect_call [OF calls(1) [OF empty, simplified]]
        passes_expect_call [OF calls(1) [OF weak, simplified]] health_body not_found_body
        plain_error_body plain_error_def error_simps user_empty_username_def
        user_weak_password_def)
qed

lemma run_tick_mono: "run (perform E) p w = (out, w') \<Longrightarrow> tick w \<le> tick w'"
proof (induction p arbitrary: w)
  case (Do e k)
  obtain r w1 where step: "perform E e w = (r, w1)"
    by fastforce
  then have "tick w1 = Suc (tick w)"
    by (rule perform_tick)
  moreover from Do.prems step have "run (perform E) (k r) w1 = (out, w')" by simp
  ultimately show ?case
    using Do.IH [OF rangeI] by fastforce
qed auto

lemma session_kept:
  assumes "session E cfg w r t"
    and "set (refresh_tokens (auth w)) \<subseteq> set (refresh_tokens (auth w'))"
  shows "session E cfg w' r t"
  using assms unfolding session_def redeemable_def by blast

lemma registered_again:
  assumes "conforming E cfg" and "good E w" and "r \<in> set (users (auth w))" and "ur_username r \<noteq> []"
    and "8 \<le> length p"
  shows "\<exists>m w'. run (perform E) (register E cfg
      \<lparr>reg_username = ur_username r, reg_password = p\<rparr>) w =
      (Returned (Inl (user_already_exists (ur_username r) m)), w') \<and> auth w' = auth w \<and> good E w'"
proof -
  have taken: "ur_username r \<in> ur_username ` set (users (auth w))"
    using assms(3) by simp
  obtain m w' where run: "run (perform E) (register E cfg
      \<lparr>reg_username = ur_username r, reg_password = p\<rparr>) w =
      (Returned (Inl (user_already_exists (ur_username r) m)), w')"
    using journey_register_taken [OF assms(1,2,4,5) taken] by blast
  moreover have "auth w' = auth w"
    using register_cases [OF run] taken by auto
  ultimately show ?thesis
    using good_tick [OF assms(2) _ run_tick_mono [OF run]] by blast
qed

lemma logged_in_again:
  assumes "conforming E cfg" and "good E w" and "account E w r p" and "session E cfg w r t"
  shows "\<exists>t' w'. run (perform E) (login E cfg
      \<lparr>log_username = ur_username r, log_password = p\<rparr>) w = (Returned (Inr (ApiOk t')), w') \<and>
    good E w' \<and> users (auth w') = users (auth w) \<and> session E cfg w' r t' \<and> session E cfg w' r t"
proof -
  obtain t' w' where run: "run (perform E) (login E cfg
      \<lparr>log_username = ur_username r, log_password = p\<rparr>) w = (Returned (Inr (ApiOk t')), w')"
    and w': "good E w'" "session E cfg w' r t'" "users (auth w') = users (auth w)"
    using journey_login [OF assms(1-3)] by blast
  obtain u where "issued E cfg u w t' w'"
    using login_cases [OF run] by auto
  from issued_row [OF this] have "set (refresh_tokens (auth w)) \<subseteq> set (refresh_tokens (auth w'))"
    by auto
  with run w' session_kept [OF assms(4)] show ?thesis by blast
qed

lemma pass_registration_and_login:
  assumes "auth_service E W cfg app ''/api/v1''" and "web_conforming E W" and "conforming E cfg"
    and "good E w" and "users (auth w) = []"
    and "\<And>t r v. good E v \<Longrightarrow> users (auth v) = [r] \<Longrightarrow> ur_username r = ''alice'' \<Longrightarrow>
      session E cfg v r t \<Longrightarrow> passes E (rest (tk_access_token t) (tk_refresh_token t)) v"
  shows "passes E (registration_and_login W app rest) w"
proof -
  note calls = auth_service.answers_calls [OF assms(1,2)]
  obtain t w1 r where reg: "run (perform E) (register E cfg
      \<lparr>reg_username = ''alice'', reg_password = ''hunter22!''\<rparr>) w = (Returned (Inr (ApiOk t)), w1)"
    and w1: "good E w1" "ur_username r = ''alice''" "account E w1 r ''hunter22!''"
      "session E cfg w1 r t" "users (auth w1) = [r]"
    using journey_register [OF assms(3,4), of "''alice''" "''hunter22!''"] assms(5) by auto
  obtain m w2 where again: "run (perform E) (register E cfg
      \<lparr>reg_username = ''alice'', reg_password = ''hunter22!''\<rparr>) w1 =
      (Returned (Inl (user_already_exists ''alice'' m)), w2)"
    and w2: "auth w2 = auth w1" "good E w2"
    using registered_again [OF assms(3) w1(1), of r "''hunter22!''"] w1(2,5) by auto
  have acc: "account E w2 r ''hunter22!''" "session E cfg w2 r t"
    using w1(3,4) w2(1) by (simp_all add: account_def session_kept)
  have wrong: "run (perform E) (login E cfg
      \<lparr>log_username = ''alice'', log_password = ''wrongpass''\<rparr>) w2 =
      (Returned (Inl (user_invalid_credentials ''alice'')), advance w2)"
    using journey_login_wrong [OF assms(3) w2(2) acc(1), of "''wrongpass''"] w1(2) by simp
  have nobody: "run (perform E) (login E cfg
      \<lparr>log_username = ''nobody'', log_password = ''hunter22!''\<rparr>) (advance w2) =
      (Returned (Inl (user_invalid_credentials ''nobody'')), advance (advance w2))"
    using journey_login_unknown [OF assms(3) good_advance [OF w2(2)], of "''nobody''" "''hunter22!''"]
      w1(2,5) w2(1) by simp
  let ?w4 = "advance (advance w2)"
  have w4: "good E ?w4" "account E ?w4 r ''hunter22!''" "session E cfg ?w4 r t"
    using w2(2) acc by (simp_all add: good_advance account_def)
  obtain t' w5 where log: "run (perform E) (login E cfg
      \<lparr>log_username = ''alice'', log_password = ''hunter22!''\<rparr>) ?w4 = (Returned (Inr (ApiOk t')), w5)"
    and w5: "good E w5" "users (auth w5) = users (auth ?w4)" "session E cfg w5 r t'"
      "session E cfg w5 r t"
    using logged_in_again [OF assms(3) w4] w1(2) by auto
  have "passes E (rest (tk_access_token t) (tk_refresh_token t)) w5"
    using assms(6) [OF w5(1) _ w1(2) w5(4)] w5(2) w2(1) w1(5) by simp
  then show ?thesis
    using w1(4) w5(3)
    by (simp add: registration_and_login_def passes_expect_call [OF calls(1) [OF reg, simplified]]
        passes_expect_call [OF calls(1) [OF again, simplified]]
        passes_expect_call [OF calls(2) [OF wrong, simplified]]
        passes_expect_call [OF calls(2) [OF nobody, simplified]]
        passes_expect_call [OF calls(2) [OF log, simplified]]
        json_is_string_def session_def user_already_exists_def user_invalid_credentials_def
        error_simps)
qed

lemma pass_protected_routes:
  assumes "integration_conditions E W" and "axum_routes D" and "conforming E cfg"
    and "app = app_call D E W (run_test_handler E W) (build_router protected_router cfg)"
    and "opens E cfg r token" and "ur_username r = ''alice''"
    and "passes E rest (advance (advance (advance w)))"
  shows "passes E (protected_routes app token rest) w"
proof -
  let ?path = "''/api/v1/protected''"
  have web: "web_conforming E W"
    using assms(1) by (simp add: integration_conditions_def)
  have service: "auth_service E W cfg app ''/api/v1''"
    unfolding assms(4) by (rule built_auth_service [OF assms(2) test_routers_plain(1)])
  note protected = served_protected [OF assms(2), of _ E W cfg, folded assms(4)]
  have "run (perform E) (auth_user W (http_request ''GET'' ?path\<lparr>rq_extension := Some cfg\<rparr>)) w =
      (Returned (Inl token_missing_header), w)"
    by (simp add: auth_user_def bearer_token_def)
  note none = protected [OF _ _ this, simplified]
  obtain m where "jwt_decode E (tick w) (cfg_secret cfg) ''not.a.valid.jwt'' = Inl (OtherJwtError m)"
    using assms(1) unfolding integration_conditions_def by blast
  moreover have "bearer_token W (get_authed ?path ''not.a.valid.jwt''\<lparr>rq_extension := Some cfg\<rparr>) =
      Some ''not.a.valid.jwt''"
    using assms(1) by (simp add: integration_conditions_def bearer_token_def strip_prefix_Some_iff)
  ultimately have "run (perform E) (auth_user W (get_authed ?path ''not.a.valid.jwt''
      \<lparr>rq_extension := Some cfg\<rparr>)) w = (Returned (Inl (token_invalid m)), advance w)"
    by (simp add: auth_user_def run_bind_ok run_verify_token)
  note broken = protected [OF _ _ this, simplified]
  obtain c where c: "accepted E cfg token c" "cl_kind c = Access" "cl_username c = ''alice''"
    using assms(5,6) by (auto simp: opens_def)
  have "run (perform E) (auth_user W (get_authed ?path token\<lparr>rq_extension := Some cfg\<rparr>)) (advance w) =
      (Returned (Inr c), advance (advance w))"
    using journey_auth_user [OF _ bearer_get_authed [OF web c(1)] c(1), of "Some cfg"] c(2) by simp
  note good_token = protected [OF _ _ this, simplified]
  have me: "answers E app (get_authed ''/api/v1/auth/me'' token) v \<lparr>rs_status = 200,
      rs_body = api_json me_json (ApiOk \<lparr>me_user_id = ur_id r, me_username = ur_username r\<rparr>)\<rparr>
      (advance v)" for v
    using auth_service.run_me_call [OF service web assms(5), of v] by (simp add: answers_def)
  show ?thesis
    using assms(6,7) c(3)
    by (simp add: protected_routes_def passes_expect_call [OF none] passes_expect_call [OF broken]
        passes_expect_call [OF good_token] passes_expect_call [OF me] protected_response_def
        plain_error_body token_missing_header_def token_invalid_def error_simps
        result_into_response_def [of _ "Inr _"] api_into_response_def api_ok_def me_json_def
        json_is_string_def)
qed

lemma pass_refresh_and_logout:
  assumes "auth_service E W cfg app ''/api/v1''" and "integration_conditions E W"
    and "conforming E cfg" and "good E w" and "session E cfg w r t" and "r \<in> set (users (auth w))"
  shows "passes E (refresh_and_logout W app (tk_refresh_token t)) w"
proof -
  have web: "web_conforming E W"
    using assms(2) by (simp add: integration_conditions_def)
  note calls = auth_service.answers_calls [OF assms(1) web]
  obtain m where "jwt_decode E (tick w) (cfg_secret cfg) ''garbage.token.here'' = Inl (OtherJwtError m)"
    using assms(2) unfolding integration_conditions_def by blast
  then have garbage: "run (perform E) (refresh E cfg
      \<lparr>ref_refresh_token = ''garbage.token.here''\<rparr>) w = (Returned (Inl (token_invalid m)), advance w)"
    by (simp add: refresh_def run_bind_ok run_verify_token)
  have w1: "good E (advance w)" "r \<in> set (users (auth (advance w)))"
    "redeemable E cfg (advance w) r (tk_refresh_token t)"
    using assms(4-6) by (simp_all add: good_advance session_def)
  obtain t' w2 where ref: "run (perform E) (refresh E cfg
      \<lparr>ref_refresh_token = tk_refresh_token t\<rparr>) (advance w) = (Returned (Inr (ApiOk t')), w2)"
    and w2: "good E w2" "session E cfg w2 r t'" "spent E cfg w2 (tk_refresh_token t)"
      "tk_refresh_token t' \<noteq> tk_refresh_token t"
    using journey_refresh [OF assms(3) w1] by blast
  obtain w3 where replay: "run (perform E) (refresh E cfg
      \<lparr>ref_refresh_token = tk_refresh_token t\<rparr>) w2 =
      (Returned (Inl token_invalid_refresh_token), w3)" and w3: "auth w3 = auth w2" "tick w2 \<le> tick w3"
    using journey_refresh_spent [OF assms(3) w2(1,3)] by blast
  have "redeemable E cfg w3 r (tk_refresh_token t')"
    using w2(2) w3(1) by (simp add: session_def redeemable_def)
  then obtain w4 where out: "run (perform E) (logout E cfg
      \<lparr>out_refresh_token = tk_refresh_token t'\<rparr>) w3 = (Returned (Inr (ApiOk ())), w4)"
    and w4: "good E w4" "spent E cfg w4 (tk_refresh_token t')"
    using journey_logout [OF assms(3) good_tick [OF w2(1) w3]] by blast
  obtain w5 where late: "run (perform E) (refresh E cfg
      \<lparr>ref_refresh_token = tk_refresh_token t'\<rparr>) w4 =
      (Returned (Inl token_invalid_refresh_token), w5)"
    using journey_refresh_spent [OF assms(3) w4] by blast
  show ?thesis
    using w2(2,4)
    by (simp add: refresh_and_logout_def passes_expect_call [OF calls(3) [OF garbage, simplified]]
        passes_expect_call [OF calls(3) [OF ref, simplified]]
        passes_expect_call [OF calls(3) [OF replay, simplified]]
        passes_expect_call [OF calls(4) [OF out, simplified]]
        passes_expect_call [OF calls(3) [OF late, simplified]]
        plain_error_body token_invalid_def token_invalid_refresh_token_def error_simps
        result_into_response_def [of _ "Inr _"] api_into_response_def unit_json_def
        session_def json_is_string_def)
qed

lemma pass_all_routes_and_errors:
  assumes "integration_conditions E W" and "axum_routes D"
    and "auth w = empty_auth_db" and "data w = empty_data_db"
  shows "passes E (test_all_routes_and_errors D E W) w"
  unfolding test_all_routes_and_errors_def
proof (rule passes_built [OF assms(1) _ _ _ _ served_builder_simps], goal_cases)
  case (5 v sv cfg)
  let ?app = "app_call D E W (run_test_handler E W) (build_router protected_router cfg)"
  have web: "web_conforming E W"
    using assms(1) by (simp add: integration_conditions_def)
  have service: "auth_service E W cfg ?app ''/api/v1''"
    by (rule built_auth_service [OF assms(2) test_routers_plain(1)])
  show ?case
    unfolding Let_def 5(5)
  proof (rule pass_refused_registrations [OF assms(1,2) refl],
      rule pass_registration_and_login [OF service web 5(4,1,2)], goal_cases)
    case (1 t r v)
    then have "opens E cfg r (tk_access_token t)"
      by (simp add: session_def)
    moreover have "passes E (refresh_and_logout W ?app (tk_refresh_token t))
        (advance (advance (advance v)))"
      using 1 5(4) by (intro pass_refresh_and_logout [OF service assms(1)])
        (simp_all add: good_advance)
    ultimately show ?case
      using 1(3) 5(4) by (intro pass_protected_routes [OF assms(1,2) _ refl]) simp_all
  qed
qed (simp_all add: assms(3,4) empty_auth_db_def empty_data_db_def auth_db_ok_def data_db_ok_def)

section \<open>Response shapes and request identifiers\<close>

lemma shape_headerless: "headerless_api shape_router"
  by (simp add: headerless_api_def shape_router_def)

lemma passes_shape_app:
  assumes "integration_conditions E W" and "auth w = empty_auth_db" and "data w = empty_data_db"
    and "\<And>cfg v sv. sv_router sv = build_router shape_router cfg \<Longrightarrow> passes E (k sv) v"
  shows "passes E (awaited (build E (served_builder shape_router)) k) w"
  by (rule passes_built [OF assms(1) _ _ _ _ served_builder_simps])
    (simp_all add: assms empty_auth_db_def empty_data_db_def auth_db_ok_def data_db_ok_def)

lemma pass_shape_tests:
  assumes "integration_conditions E W" and "axum_routes D"
    and "auth w = empty_auth_db" and "data w = empty_data_db"
  shows "passes E (success_response_shape D E W) w"
    and "passes E (health_endpoint D E W) w"
    and "passes E (error_response_shape_internal_error D E W) w"
    and "passes E (unknown_route_returns_404 D E W) w"
proof -
  let ?app = "\<lambda>cfg. app_call D E W run_shape_handler (build_router shape_router cfg)"
  note plain = test_routers_plain(2)
  have echo: "answers E (?app cfg) (http_request ''GET'' ''/api/v1/echo'') v
      (api_into_response JStr (api_ok ''test'')) v" for cfg v
    using built_route [OF assms(2) plain, of "http_request ''GET'' ''/api/v1/echo''" "''/echo''" Get "[]"
        "HApp (HEcho ''test'')" cfg E W run_shape_handler]
    by (intro answers_Ret) (simp add: shape_router_def)
  have db: "answers E (?app cfg) (http_request ''GET'' ''/api/v1/db-error'') v
      (result_into_response unit_json (Inl (db_consume_refresh_token ''forced''))) v" for cfg v
    using built_route [OF assms(2) plain, of "http_request ''GET'' ''/api/v1/db-error''" "''/db-error''"
        Get "[]" "HApp HTriggerDbError" cfg E W run_shape_handler]
    by (intro answers_Ret) (simp add: shape_router_def respond_def)
  have health: "answers E (?app cfg) (http_request ''GET'' ''/api/v1/health'') v
      (api_into_response health_json health) v" for cfg v
    by (rule answers_Ret, rule built_health [OF assms(2) plain]) simp_all
  have unmatched: "answers E (?app cfg) (http_request ''GET'' ''/does-not-exist'') v
      (api_into_response unit_json not_found) v" for cfg v
    by (rule answers_Ret, rule built_unmatched [OF assms(2) plain])
      (simp add: endpoints_build_router library_endpoints_def shape_router_def)
  show "passes E (success_response_shape D E W) w"
    unfolding success_response_shape_def shape_app_def
    by (rule passes_shape_app [OF assms(1,3,4)])
      (simp add: passes_expect_call [OF echo] api_into_response_def api_ok_def)
  show "passes E (health_endpoint D E W) w"
    unfolding health_endpoint_def shape_app_def
    by (rule passes_shape_app [OF assms(1,3,4)])
      (simp add: passes_expect_call [OF health] health_body)
  show "passes E (error_response_shape_internal_error D E W) w"
    unfolding error_response_shape_internal_error_def shape_app_def
    by (rule passes_shape_app [OF assms(1,3,4)])
      (simp add: passes_expect_call [OF db] db_consume_refresh_token_def error_simps)
  show "passes E (unknown_route_returns_404 D E W) w"
    unfolding unknown_route_returns_404_def shape_app_def
    by (rule passes_shape_app [OF assms(1,3,4)])
      (simp add: passes_expect_call [OF unmatched] not_found_body)
qed

lemma pass_request_id_tests:
  assumes "integration_conditions E W" and "axum_routes D" and "tower_documented T"
    and "auth w = empty_auth_db" and "data w = empty_data_db"
  shows "passes E (middleware_generates_request_id_on_response T D L E W) w"
    and "passes E (middleware_propagates_caller_supplied_request_id T D L E W) w"
proof -
  let ?req = "http_request ''GET'' ''/api/v1/health''"
  let ?resp = "api_into_response health_json health"
  have ids: "app_exchange T D L E W run_shape_handler (build_router shape_router cfg) ?req (Some i) =
        Ret (?resp, Some i) \<and>
      app_exchange T D L E W run_shape_handler (build_router shape_router cfg) ?req None =
        gen_uuid (\<lambda>u. Ret (?resp, Some u))" for cfg i
  proof -
    have "through_layers [AuthLayer cfg] (run_handler E W run_shape_handler HHealth) ?req = Ret ?resp"
      by (simp add: auth_service_call_def)
    with through_middleware [OF assms(3), of "[AuthLayer cfg]" "run_handler E W run_shape_handler HHealth"
        ?req] health_entry [OF assms(2) test_routers_plain(2), of ?req cfg]
    show ?thesis
      by (simp add: app_exchange_def del: append_Cons)
  qed
  show "passes E (middleware_generates_request_id_on_response T D L E W) w"
    unfolding middleware_generates_request_id_on_response_def request_id_test_def
    by (rule passes_shape_app [OF assms(1,4,5)])
      (simp add: ids passes_def run_bind_prog run_random_requests asserts.simps)
  show "passes E (middleware_propagates_caller_supplied_request_id T D L E W) w"
    unfolding middleware_propagates_caller_supplied_request_id_def request_id_test_def
    by (rule passes_shape_app [OF assms(1,4,5)])
      (simp add: ids passes_def run_bind_prog asserts.simps)
qed

section \<open>The user route\<close>

lemma passes_consumer_app:
  assumes "integration_conditions E W" and "auth w = empty_auth_db" and "data w = empty_data_db"
    and "\<And>v cfg. good E v \<Longrightarrow> users (auth v) = [] \<Longrightarrow>
      data v = empty_data_db\<lparr>data_applied := 1\<rparr> \<Longrightarrow> conforming E cfg \<Longrightarrow>
      passes E (k (app_call D E W (run_app E W) (build_router app_routes cfg))) v"
  shows "passes E (consumer_test_app D E W k) w"
proof -
  have "conforming E config_with_defaults" and url: "url_error E ''sqlite::memory:'' = None"
    using assms(1) by (simp_all add: integration_conditions_def)
  then have fault: "fault E n = None" for n
    by (simp add: conforming_fault)
  let ?v = "set_data (migrate_data_db (data w)) (advance (advance (advance w)))"
  have connect: "run (perform E) (data_connect E ''sqlite::memory:'') w = (Returned (Inr ()), advance w)"
    by (simp add: run_data_connect url fault)
  have migrate: "run (perform E) (data_migrate E) (advance w) = (Returned (Inr ()), ?v)"
    by (simp add: run_data_migrate fault)
  have data: "data ?v = empty_data_db\<lparr>data_applied := 1\<rparr>"
    by (simp add: assms(3) migrate_data_db_def empty_data_db_def)
  have "passes E (awaited (build E consumer_test_builder)
      (\<lambda>sv. k (app_call D E W (run_app E W) (sv_router sv)))) ?v"
    by (rule passes_built [OF assms(1) _ _ _ _ consumer_test_builder_simps])
      (use data in \<open>simp_all add: assms(2,4) empty_auth_db_def auth_db_ok_def empty_data_db_def
        data_db_ok_def\<close>)
  then show ?thesis
    by (simp add: consumer_test_app_def passes_awaited [OF connect] passes_awaited [OF migrate])
qed

lemma passes_served_register:
  assumes "auth_service E W cfg app ''/api/v1''" and "web_conforming E W" and "conforming E cfg"
    and "good E w" and "users (auth w) = []"
    and "\<And>t r v. good E v \<Longrightarrow> data v = data w \<Longrightarrow> ur_username r = ''alice'' \<Longrightarrow>
      session E cfg v r t \<Longrightarrow> passes E (k (tk_access_token t) (tk_refresh_token t)) v"
  shows "passes E (served_register W app k) w"
proof -
  obtain t v r where reg: "run (perform E) (register E cfg
      \<lparr>reg_username = ''alice'', reg_password = ''hunter22''\<rparr>) w = (Returned (Inr (ApiOk t)), v)"
    and v: "good E v" "ur_username r = ''alice''" "session E cfg v r t"
    using journey_register [OF assms(3,4), of "''alice''" "''hunter22''"] assms(5) by auto
  have "passes E (k (tk_access_token t) (tk_refresh_token t)) v"
    using v by (intro assms(6) register_keeps_data [OF reg])
  then show ?thesis
    by (simp add: served_register_def unwrap_str_def
        passes_expect_call [OF auth_service.answers_calls(1) [OF assms(1,2) reg, simplified]])
qed

lemma served_user:
  assumes "axum_routes D" and "web_conforming E W" and "accepted E cfg token c"
    and "cl_kind c = Access"
    and "run (perform E) (user_handler E c) (advance w) = (Returned r, w')"
  shows "answers E (app_call D E W (run_app E W) (build_router app_routes cfg))
    (get_authed ''/api/v1/user'' token) w (result_into_response user_json r) w'"
proof -
  let ?req = "get_authed ''/api/v1/user'' token"
  have "app_call D E W (run_app E W) (build_router app_routes cfg) ?req =
      user_endpoint E W (?req\<lparr>rq_extension := Some cfg\<rparr>)"
    using built_route [OF assms(1) app_routes_plain, of ?req "''/user''" Get "[]" "HApp HUser" cfg E W
        "run_app E W"] by (simp add: app_routes_def)
  moreover have "run (perform E) (auth_user W (?req\<lparr>rq_extension := Some cfg\<rparr>)) w =
      (Returned (Inr c), advance w)"
    using journey_auth_user [OF _ bearer_get_authed [OF assms(2,3)] assms(3), of "Some cfg"] assms(4)
    by simp
  ultimately show ?thesis
    using assms(5)
    by (simp add: answers_def call_app_def user_endpoint_def respond_def run_bind_prog run_bind_ok)
qed

text \<open>The first access stores the profile, the second finds it.\<close>

lemma two_accesses:
  assumes "conforming E cfg" and "data w = empty_data_db\<lparr>data_applied := 1\<rparr>"
  shows "\<exists>w' w''. run (perform E) (user_handler E c) w = (Returned (Inr (ApiOk
      \<lparr>ures_id = cl_sub c, ures_username = cl_username c\<rparr>)), w') \<and>
    run (perform E) (user_handler E c) (advance w') = (Returned (Inr (ApiOk
      \<lparr>ures_id = cl_sub c, ures_username = cl_username c\<rparr>)), w'')"
proof -
  obtain ck where ck: "\<And>n. clock E n = Some (ck n)"
    using assms(1) healthy_clock [of E cfg] unfolding conforming_def by blast
  show ?thesis
    using assms(2) conforming_fault [OF assms(1)]
    by (simp add: user_handler_def run_bind_ok run_find_or_create_profile ck after_data_def
        empty_data_db_def api_ok_def)
qed

abbreviation consumer_app ::
  "app_handler dispatcher \<Rightarrow> env \<Rightarrow> web \<Rightarrow> auth_config \<Rightarrow> request \<Rightarrow> response task" where
  "consumer_app D E W cfg \<equiv> app_call D E W (run_app E W) (build_router app_routes cfg)"

abbreviation user_answer :: "user_row \<Rightarrow> response" where
  "user_answer r \<equiv> result_into_response user_json
     (Inr (ApiOk \<lparr>ures_id = ur_id r, ures_username = ''alice''\<rparr>))"

lemma accesses_answered:
  assumes "axum_routes D" and "web_conforming E W" and "conforming E cfg"
    and "data w = empty_data_db\<lparr>data_applied := 1\<rparr>" and "session E cfg w r t"
    and "ur_username r = ''alice''"
  shows "\<exists>w' w''.
    answers E (consumer_app D E W cfg) (get_authed ''/api/v1/user'' (tk_access_token t)) w
      (user_answer r) w' \<and>
    answers E (consumer_app D E W cfg) (get_authed ''/api/v1/user'' (tk_access_token t)) w'
      (user_answer r) w''"
proof -
  obtain c where c: "accepted E cfg (tk_access_token t) c" "cl_kind c = Access" "cl_sub c = ur_id r"
    "cl_username c = ''alice''"
    using assms(5,6) by (auto simp: session_def opens_def)
  have "data (advance w) = empty_data_db\<lparr>data_applied := 1\<rparr>"
    using assms(4) by simp
  from two_accesses [OF assms(3) this, of c] c(3,4) served_user [OF assms(1,2) c(1,2)]
  show ?thesis by metis
qed

lemma anonymous_user:
  assumes "axum_routes D"
  shows "answers E (consumer_app D E W cfg) (http_request ''GET'' ''/api/v1/user'') w
    (result_into_response user_json (Inl token_missing_header)) w"
  using built_route [OF assms app_routes_plain, of "http_request ''GET'' ''/api/v1/user''"
      "''/user''" Get "[]" "HApp HUser" cfg E W "run_app E W"]
  by (intro answers_Ret)
    (simp add: app_routes_def user_endpoint_def auth_user_def bearer_token_def respond_def)

lemma pass_user_endpoint_requires_auth:
  assumes "integration_conditions E W" and "axum_routes D"
    and "auth w = empty_auth_db" and "data w = empty_data_db"
  shows "passes E (user_endpoint_requires_auth D E W) w"
  unfolding user_endpoint_requires_auth_def
  by (rule passes_consumer_app [OF assms(1,3,4)])
    (simp add: passes_expect_call [OF anonymous_user [OF assms(2)]] token_missing_header_def
      error_simps)

lemma passes_two_accesses:
  assumes "integration_conditions E W" and "axum_routes D"
    and "auth w = empty_auth_db" and "data w = empty_data_db"
    and "\<And>app req r v v' v''. answers E app req v (user_answer r) v' \<Longrightarrow>
      answers E app req v' (user_answer r) v'' \<Longrightarrow> passes E (k app req) v"
  shows "passes E (consumer_test_app D E W (\<lambda>app. served_register W app (\<lambda>access _.
    k app (get_authed ''/api/v1/user'' access)))) w"
proof (rule passes_consumer_app [OF assms(1,3,4)],
    rule passes_served_register [OF built_auth_service [OF assms(2) app_routes_plain]],
    goal_cases)
  case (5 v cfg t r v')
  then show ?case
    using accesses_answered [OF assms(2) _ 5(4), of W v' r t] assms(1,5)
    by (auto simp: integration_conditions_def)
qed (use assms(1) in \<open>simp_all add: integration_conditions_def\<close>)

lemma pass_user_tests:
  assumes "integration_conditions E W" and "axum_routes D"
    and "auth w = empty_auth_db" and "data w = empty_data_db"
  shows "passes E (user_endpoint_creates_profile D E W) w"
    and "passes E (user_endpoint_returns_existing_profile D E W) w"
  unfolding user_endpoint_creates_profile_def user_endpoint_returns_existing_profile_def
  by (rule passes_two_accesses [OF assms], simp add: passes_expect_call result_into_response_def
      api_into_response_def user_json_def json_is_string_def)+

end
