(* ===== verification/Auth_Integration.thy ===== *)
theory Auth_Integration
  imports Integration_Tests
begin

text \<open>
  The tests of \<open>tests/auth_integration.rs\<close> as programs: each builds a server with its own database
  and one protected route, and calls the auth routes under \<open>/api/v1\<close>. Four tests have the name
  of a unit test of \<open>src/auth/http.rs\<close>; theirs begins with \<open>served_\<close> here. The list of all
  integration tests is at the end.
\<close>

definition auth_app ::
  "test_handler dispatcher \<Rightarrow> env \<Rightarrow> web \<Rightarrow> ((request \<Rightarrow> response task) \<Rightarrow> unit task) \<Rightarrow> unit task" where
  "auth_app D E W k =
     awaited (build E (served_builder protected_router)) (\<lambda>sv.
     k (app_call D E W (run_test_handler E W) (sv_router sv)))"

definition registered_alice ::
  "web \<Rightarrow> (request \<Rightarrow> response task) \<Rightarrow> (string \<Rightarrow> string \<Rightarrow> unit task) \<Rightarrow> unit task" where
  "registered_alice W app k =
     expect_call app (post W ''/api/v1/auth/register'' (credentials_json ''alice'' ''hunter22''))
       (\<lambda>status _. [status = 200]) (\<lambda>json.
     unwrap_str (data_of json ''access_token'') (\<lambda>access.
     unwrap_str (data_of json ''refresh_token'') (\<lambda>refresh.
     k access refresh)))"

section \<open>Registration and login\<close>

definition served_register_returns_tokens ::
  "test_handler dispatcher \<Rightarrow> env \<Rightarrow> web \<Rightarrow> unit task" where
  "served_register_returns_tokens D E W =
     auth_app D E W (\<lambda>app.
     expect_call app (post W ''/api/v1/auth/register'' (credentials_json ''bob'' ''password1''))
       (\<lambda>status json.
       [status = 200, json_index json ''status'' = JStr ''ok'',
        json_is_string (data_of json ''access_token''),
        json_is_string (data_of json ''refresh_token''),
        data_of json ''token_type'' = JStr ''Bearer'']) (\<lambda>_. Ret ()))"

definition served_login_correct_credentials_returns_tokens ::
  "test_handler dispatcher \<Rightarrow> env \<Rightarrow> web \<Rightarrow> unit task" where
  "served_login_correct_credentials_returns_tokens D E W =
     auth_app D E W (\<lambda>app.
     registered_alice W app (\<lambda>_ _.
     expect_call app (post W ''/api/v1/auth/login'' (credentials_json ''alice'' ''hunter22''))
       (\<lambda>status json.
       [status = 200, json_index json ''status'' = JStr ''ok'',
        json_is_string (data_of json ''access_token''),
        json_is_string (data_of json ''refresh_token'')]) (\<lambda>_. Ret ())))"

definition served_login_wrong_password_returns_401 ::
  "test_handler dispatcher \<Rightarrow> env \<Rightarrow> web \<Rightarrow> unit task" where
  "served_login_wrong_password_returns_401 D E W =
     auth_app D E W (\<lambda>app.
     registered_alice W app (\<lambda>_ _.
     expect_call app (post W ''/api/v1/auth/login'' (credentials_json ''alice'' ''wrongpass''))
       (\<lambda>status json.
       [status = 401, json_index json ''status'' = JStr ''error'',
        json_index (error_of json) ''error_id'' = JStr ''INVALID_CREDENTIALS'',
        context_of_error json ''username'' = JStr ''alice'']) (\<lambda>_. Ret ())))"

section \<open>Protected routes\<close>

definition protected_route_with_valid_token_returns_200 ::
  "test_handler dispatcher \<Rightarrow> env \<Rightarrow> web \<Rightarrow> unit task" where
  "protected_route_with_valid_token_returns_200 D E W =
     auth_app D E W (\<lambda>app.
     registered_alice W app (\<lambda>access_token _.
     expect_call app (get_authed ''/api/v1/protected'' access_token) (\<lambda>status json.
       [status = 200, json_index json ''status'' = JStr ''ok'',
        json_index json ''data'' = JStr ''alice'']) (\<lambda>_. Ret ())))"

definition protected_route_without_token_returns_401 ::
  "test_handler dispatcher \<Rightarrow> env \<Rightarrow> web \<Rightarrow> unit task" where
  "protected_route_without_token_returns_401 D E W =
     auth_app D E W (\<lambda>app.
     expect_call app (http_request ''GET'' ''/api/v1/protected'') (\<lambda>status json.
       [status = 401,
        json_index (error_of json) ''error_id'' = JStr ''MISSING_AUTHORIZATION_HEADER''])
       (\<lambda>_. Ret ()))"

definition auth_me_returns_username_and_user_id ::
  "test_handler dispatcher \<Rightarrow> env \<Rightarrow> web \<Rightarrow> unit task" where
  "auth_me_returns_username_and_user_id D E W =
     auth_app D E W (\<lambda>app.
     registered_alice W app (\<lambda>access_token _.
     expect_call app (get_authed ''/api/v1/auth/me'' access_token) (\<lambda>status json.
       [status = 200, json_index json ''status'' = JStr ''ok'',
        data_of json ''username'' = JStr ''alice'',
        json_is_string (data_of json ''user_id'')]) (\<lambda>_. Ret ())))"

definition auth_me_without_token_returns_401 ::
  "test_handler dispatcher \<Rightarrow> env \<Rightarrow> web \<Rightarrow> unit task" where
  "auth_me_without_token_returns_401 D E W =
     auth_app D E W (\<lambda>app.
     expect_call app (http_request ''GET'' ''/api/v1/auth/me'') (\<lambda>status json.
       [status = 401,
        json_index (error_of json) ''error_id'' = JStr ''MISSING_AUTHORIZATION_HEADER''])
       (\<lambda>_. Ret ()))"

section \<open>Refresh and logout\<close>

definition refresh_valid_token_returns_new_tokens ::
  "test_handler dispatcher \<Rightarrow> env \<Rightarrow> web \<Rightarrow> unit task" where
  "refresh_valid_token_returns_new_tokens D E W =
     auth_app D E W (\<lambda>app.
     registered_alice W app (\<lambda>_ refresh_token.
     expect_call app (post W ''/api/v1/auth/refresh'' (refresh_json refresh_token))
       (\<lambda>status json.
       [status = 200, json_index json ''status'' = JStr ''ok'',
        json_is_string (data_of json ''access_token''),
        json_is_string (data_of json ''refresh_token''),
        data_of json ''refresh_token'' \<noteq> JStr refresh_token]) (\<lambda>_. Ret ())))"

definition refresh_used_token_returns_401 ::
  "test_handler dispatcher \<Rightarrow> env \<Rightarrow> web \<Rightarrow> unit task" where
  "refresh_used_token_returns_401 D E W =
     auth_app D E W (\<lambda>app.
     registered_alice W app (\<lambda>_ refresh_token.
     expect_call app (post W ''/api/v1/auth/refresh'' (refresh_json refresh_token))
       (\<lambda>status _. [status = 200]) (\<lambda>_.
     expect_call app (post W ''/api/v1/auth/refresh'' (refresh_json refresh_token))
       (\<lambda>status json.
       [status = 401,
        json_index (error_of json) ''error_id'' = JStr ''INVALID_REFRESH_TOKEN''])
       (\<lambda>_. Ret ()))))"

definition served_logout_then_refresh_returns_401 ::
  "test_handler dispatcher \<Rightarrow> env \<Rightarrow> web \<Rightarrow> unit task" where
  "served_logout_then_refresh_returns_401 D E W =
     auth_app D E W (\<lambda>app.
     registered_alice W app (\<lambda>_ refresh_token.
     expect_call app (post W ''/api/v1/auth/logout'' (refresh_json refresh_token))
       (\<lambda>status _. [status = 200]) (\<lambda>_.
     expect_call app (post W ''/api/v1/auth/refresh'' (refresh_json refresh_token))
       (\<lambda>status json.
       [status = 401,
        json_index (error_of json) ''error_id'' = JStr ''INVALID_REFRESH_TOKEN''])
       (\<lambda>_. Ret ()))))"

definition refresh_with_invalid_token_returns_401 ::
  "test_handler dispatcher \<Rightarrow> env \<Rightarrow> web \<Rightarrow> unit task" where
  "refresh_with_invalid_token_returns_401 D E W =
     auth_app D E W (\<lambda>app.
     expect_call app (post W ''/api/v1/auth/refresh'' (refresh_json ''not.a.valid.jwt''))
       (\<lambda>status json.
       [status = 401, json_index (error_of json) ''error_id'' = JStr ''TOKEN_INVALID''])
       (\<lambda>_. Ret ()))"

section \<open>Malformed bodies\<close>

definition bad_request_envelope :: "status_code \<Rightarrow> json \<Rightarrow> bool list" where
  "bad_request_envelope status json =
     [status = 400, json_index json ''status'' = JStr ''error'',
      json_index (error_of json) ''error_id'' = JStr ''BAD_REQUEST'',
      json_is_string (context_of_error json ''error'')]"

definition malformed_json_returns_bad_request_envelope ::
  "test_handler dispatcher \<Rightarrow> env \<Rightarrow> web \<Rightarrow> unit task" where
  "malformed_json_returns_bad_request_envelope D E W =
     auth_app D E W (\<lambda>app.
     expect_call app ((http_request ''POST'' ''/api/v1/auth/register'')
       \<lparr>rq_content_type := Some ''application/json'', rq_body := ''{broken''\<rparr>)
       bad_request_envelope (\<lambda>_. Ret ()))"

definition missing_content_type_returns_bad_request_envelope ::
  "test_handler dispatcher \<Rightarrow> env \<Rightarrow> web \<Rightarrow> unit task" where
  "missing_content_type_returns_bad_request_envelope D E W =
     auth_app D E W (\<lambda>app.
     expect_call app ((http_request ''POST'' ''/api/v1/auth/register'')
       \<lparr>rq_body := ''{'' @ quoted ''username'' @ '':'' @ quoted ''a'' @ '','' @
         quoted ''password'' @ '':'' @ quoted ''b'' @ ''}''\<rparr>)
       bad_request_envelope (\<lambda>_. Ret ()))"

section \<open>The suites\<close>

definition auth_integration_tests ::
  "test_handler dispatcher \<Rightarrow> env \<Rightarrow> web \<Rightarrow> unit task list" where
  "auth_integration_tests D E W =
     [served_register_returns_tokens D E W,
      served_login_correct_credentials_returns_tokens D E W,
      served_login_wrong_password_returns_401 D E W,
      protected_route_with_valid_token_returns_200 D E W,
      protected_route_without_token_returns_401 D E W,
      auth_me_returns_username_and_user_id D E W,
      auth_me_without_token_returns_401 D E W,
      refresh_valid_token_returns_new_tokens D E W,
      refresh_used_token_returns_401 D E W,
      served_logout_then_refresh_returns_401 D E W,
      refresh_with_invalid_token_returns_401 D E W,
      malformed_json_returns_bad_request_envelope D E W,
      missing_content_type_returns_bad_request_envelope D E W]"

definition integration_tests ::
  "test_handler dispatcher \<Rightarrow> shape_handler dispatcher \<Rightarrow> app_handler dispatcher \<Rightarrow> tower \<Rightarrow>
   shape_handler wrapping \<Rightarrow> env \<Rightarrow> web \<Rightarrow> unit task list" where
  "integration_tests Dt Ds Da T L E W =
     [test_all_routes_and_errors Dt E W,
      success_response_shape Ds E W,
      health_endpoint Ds E W,
      error_response_shape_internal_error Ds E W,
      unknown_route_returns_404 Ds E W,
      middleware_generates_request_id_on_response T Ds L E W,
      middleware_propagates_caller_supplied_request_id T Ds L E W,
      user_endpoint_requires_auth Da E W,
      user_endpoint_creates_profile Da E W,
      user_endpoint_returns_existing_profile Da E W] @
     auth_integration_tests Dt E W"

end
