(* ===== verification/Auth_Integration_Passes.thy ===== *)
theory Auth_Integration_Passes
  imports Integration_Passes Auth_Integration
begin

text \<open>
  The tests of \<open>tests/auth_integration.rs\<close> pass on the server that \<open>build\<close> returns.
\<close>

section \<open>Setting up a test\<close>

abbreviation protected_app ::
  "test_handler dispatcher \<Rightarrow> env \<Rightarrow> web \<Rightarrow> auth_config \<Rightarrow> request \<Rightarrow> response task" where
  "protected_app D E W cfg \<equiv>
     app_call D E W (run_test_handler E W) (build_router protected_router cfg)"

lemma integration_web: "integration_conditions E W \<Longrightarrow> web_conforming E W"
  by (simp add: integration_conditions_def)

lemma protected_service:
  "axum_routes D \<Longrightarrow> auth_service E W cfg (protected_app D E W cfg) ''/api/v1''"
  by (rule built_auth_service [OF _ test_routers_plain(1)])

lemmas served_calls = auth_service.answers_calls [OF protected_service integration_web]

lemma passes_auth_app:
  assumes "integration_conditions E W" and "auth w = empty_auth_db" and "data w = empty_data_db"
    and "\<And>v cfg. conforming E cfg \<Longrightarrow> good E v \<Longrightarrow> users (auth v) = [] \<Longrightarrow>
      passes E (k (protected_app D E W cfg)) v"
  shows "passes E (auth_app D E W k) w"
  unfolding auth_app_def
  by (rule passes_built [OF assms(1) _ _ _ _ served_builder_simps])
    (simp_all add: assms empty_auth_db_def empty_data_db_def auth_db_ok_def data_db_ok_def)

lemma passes_auth_app_alice:
  assumes "integration_conditions E W" and "axum_routes D"
    and "auth w = empty_auth_db" and "data w = empty_data_db"
    and "\<And>v cfg r t. conforming E cfg \<Longrightarrow> good E v \<Longrightarrow> users (auth v) = [r] \<Longrightarrow>
      ur_username r = ''alice'' \<Longrightarrow> account E v r ''hunter22'' \<Longrightarrow> session E cfg v r t \<Longrightarrow>
      passes E (k (protected_app D E W cfg) (tk_access_token t) (tk_refresh_token t)) v"
  shows "passes E (auth_app D E W (\<lambda>app. registered_alice W app (k app))) w"
proof (rule passes_auth_app [OF assms(1,3,4)])
  fix v cfg
  assume conf: "conforming E cfg" and v: "good E v" "users (auth v) = []"
  obtain t v' r where reg: "run (perform E) (register E cfg
      \<lparr>reg_username = ''alice'', reg_password = ''hunter22''\<rparr>) v = (Returned (Inr (ApiOk t)), v')"
    and v': "good E v'" "ur_username r = ''alice''" "account E v' r ''hunter22''"
      "session E cfg v' r t" "users (auth v') = [r]"
    using journey_register [OF conf v(1), of "''alice''" "''hunter22''"] v(2) by auto
  have "passes E (k (protected_app D E W cfg) (tk_access_token t) (tk_refresh_token t)) v'"
    using conf v' by (intro assms(5))
  then show "passes E (registered_alice W (protected_app D E W cfg) (k (protected_app D E W cfg))) v"
    by (simp add: registered_alice_def unwrap_str_def
        passes_expect_call [OF served_calls(1) [OF assms(2,1) reg, simplified]])
qed

section \<open>Registration and login\<close>

lemma pass_served_register_returns_tokens:
  assumes "integration_conditions E W" and "axum_routes D"
    and "auth w = empty_auth_db" and "data w = empty_data_db"
  shows "passes E (served_register_returns_tokens D E W) w"
  unfolding served_register_returns_tokens_def
proof (rule passes_auth_app [OF assms(1,3,4)], goal_cases)
  case (1 v cfg)
  then obtain t v' r where reg: "run (perform E) (register E cfg
      \<lparr>reg_username = ''bob'', reg_password = ''password1''\<rparr>) v = (Returned (Inr (ApiOk t)), v')"
    and "session E cfg v' r t"
    using journey_register [OF 1(1,2), of "''bob''" "''password1''"] by auto
  then show ?case
    by (simp add: passes_expect_call [OF served_calls(1) [OF assms(2,1) reg, simplified]] json_is_string_def
        session_def)
qed

lemma pass_served_login_correct_credentials_returns_tokens:
  assumes "integration_conditions E W" and "axum_routes D"
    and "auth w = empty_auth_db" and "data w = empty_data_db"
  shows "passes E (served_login_correct_credentials_returns_tokens D E W) w"
  unfolding served_login_correct_credentials_returns_tokens_def
proof (rule passes_auth_app_alice [OF assms], goal_cases)
  case (1 v cfg r t)
  then obtain t' v' where log: "run (perform E) (login E cfg
      \<lparr>log_username = ''alice'', log_password = ''hunter22''\<rparr>) v = (Returned (Inr (ApiOk t')), v')"
    using journey_login [OF 1(1,2,5)] by auto
  show ?case
    by (simp add: passes_expect_call [OF served_calls(2) [OF assms(2,1) log, simplified]] json_is_string_def)
qed

lemma pass_served_login_wrong_password_returns_401:
  assumes "integration_conditions E W" and "axum_routes D"
    and "auth w = empty_auth_db" and "data w = empty_data_db"
  shows "passes E (served_login_wrong_password_returns_401 D E W) w"
  unfolding served_login_wrong_password_returns_401_def
proof (rule passes_auth_app_alice [OF assms], goal_cases)
  case (1 v cfg r t)
  then have wrong: "run (perform E) (login E cfg
      \<lparr>log_username = ''alice'', log_password = ''wrongpass''\<rparr>) v =
      (Returned (Inl (user_invalid_credentials ''alice'')), advance v)"
    using journey_login_wrong [OF 1(1,2,5), of "''wrongpass''"] by simp
  show ?case
    by (simp add: passes_expect_call [OF served_calls(2) [OF assms(2,1) wrong, simplified]]
        user_invalid_credentials_def error_simps)
qed

section \<open>Protected routes\<close>

lemma anonymous_refused:
  "run (perform E) (auth_user W (http_request ''GET'' uri\<lparr>rq_extension := Some cfg\<rparr>)) w =
    (Returned (Inl token_missing_header), w)"
  by (simp add: auth_user_def bearer_token_def)

lemma pass_protected_route_without_token_returns_401:
  assumes "integration_conditions E W" and "axum_routes D"
    and "auth w = empty_auth_db" and "data w = empty_data_db"
  shows "passes E (protected_route_without_token_returns_401 D E W) w"
  unfolding protected_route_without_token_returns_401_def
  by (rule passes_auth_app [OF assms(1,3,4)])
    (simp add: passes_expect_call [OF served_protected
      [OF assms(2) _ _ anonymous_refused, simplified]] protected_response_def token_missing_header_def
      error_simps)

lemma anonymous_me:
  assumes "axum_routes D"
  shows "answers E (protected_app D E W cfg) (http_request ''GET'' ''/api/v1/auth/me'') w
    (result_into_response me_json (Inl token_missing_header)) w"
  by (rule answers_Ret) (simp add: auth_service.me_route [OF protected_service [OF assms]]
    me_endpoint_def auth_user_def bearer_token_def respond_def)

lemma pass_auth_me_without_token_returns_401:
  assumes "integration_conditions E W" and "axum_routes D"
    and "auth w = empty_auth_db" and "data w = empty_data_db"
  shows "passes E (auth_me_without_token_returns_401 D E W) w"
  unfolding auth_me_without_token_returns_401_def
  by (rule passes_auth_app [OF assms(1,3,4)])
    (simp add: passes_expect_call [OF anonymous_me [OF assms(2)]] token_missing_header_def error_simps)

lemma pass_protected_route_with_valid_token_returns_200:
  assumes "integration_conditions E W" and "axum_routes D"
    and "auth w = empty_auth_db" and "data w = empty_data_db"
  shows "passes E (protected_route_with_valid_token_returns_200 D E W) w"
  unfolding protected_route_with_valid_token_returns_200_def
proof (rule passes_auth_app_alice [OF assms], goal_cases)
  case (1 v cfg r t)
  then obtain c where c: "accepted E cfg (tk_access_token t) c" "cl_kind c = Access"
    "cl_username c = ''alice''"
    by (auto simp: session_def opens_def)
  have "run (perform E) (auth_user W (get_authed ''/api/v1/protected'' (tk_access_token t)
      \<lparr>rq_extension := Some cfg\<rparr>)) v = (Returned (Inr c), advance v)"
    using journey_auth_user [OF _ bearer_get_authed [OF integration_web [OF assms(1)] c(1)] c(1),
      of "Some cfg"] c(2) by simp
  note accepted = served_protected [OF assms(2) _ _ this, simplified]
  show ?case
    by (simp add: passes_expect_call [OF accepted] protected_response_def c(3) api_ok_def
        result_into_response_def api_into_response_def)
qed

lemma pass_auth_me_returns_username_and_user_id:
  assumes "integration_conditions E W" and "axum_routes D"
    and "auth w = empty_auth_db" and "data w = empty_data_db"
  shows "passes E (auth_me_returns_username_and_user_id D E W) w"
  unfolding auth_me_returns_username_and_user_id_def
proof (rule passes_auth_app_alice [OF assms], goal_cases)
  case (1 v cfg r t)
  then have "opens E cfg r (tk_access_token t)" by (simp add: session_def)
  then have me: "answers E (protected_app D E W cfg)
      (get_authed ''/api/v1/auth/me'' (tk_access_token t)) v \<lparr>rs_status = 200, rs_body =
        api_json me_json (ApiOk \<lparr>me_user_id = ur_id r, me_username = ur_username r\<rparr>)\<rparr> (advance v)"
    using auth_service.run_me_call [OF protected_service [OF assms(2)] integration_web [OF assms(1)]] by (simp add: answers_def)
  show ?case
    using 1(4) by (simp add: passes_expect_call [OF me] me_json_def json_is_string_def)
qed

section \<open>Refresh and logout\<close>

lemma served_refresh_twice:
  assumes "integration_conditions E W" and "axum_routes D" and "conforming E cfg"
    and "good E w" and "users (auth w) = [r]" and "session E cfg w r t"
  shows "\<exists>t' w' w''. answers E (protected_app D E W cfg)
        (post W ''/api/v1/auth/refresh'' (refresh_json (tk_refresh_token t))) w
        (result_into_response token_json (Inr (ApiOk t'))) w' \<and>
      tk_refresh_token t' \<noteq> tk_refresh_token t \<and>
      answers E (protected_app D E W cfg)
        (post W ''/api/v1/auth/refresh'' (refresh_json (tk_refresh_token t))) w'
        (result_into_response token_json (Inl token_invalid_refresh_token)) w''"
proof -
  have r: "r \<in> set (users (auth w))" "redeemable E cfg w r (tk_refresh_token t)"
    using assms(5,6) by (simp_all add: session_def)
  obtain t' w' where ref: "run (perform E) (refresh E cfg
      \<lparr>ref_refresh_token = tk_refresh_token t\<rparr>) w = (Returned (Inr (ApiOk t')), w')"
    and w': "good E w'" "spent E cfg w' (tk_refresh_token t)"
      "tk_refresh_token t' \<noteq> tk_refresh_token t"
    using journey_refresh [OF assms(3,4) r] by blast
  obtain w'' where "run (perform E) (refresh E cfg \<lparr>ref_refresh_token = tk_refresh_token t\<rparr>) w' =
      (Returned (Inl token_invalid_refresh_token), w'')"
    using journey_refresh_spent [OF assms(3) w'(1,2)] by blast
  with ref w'(3) served_calls(3) [OF assms(2,1)] show ?thesis by fastforce
qed

lemma pass_refresh_valid_token_returns_new_tokens:
  assumes "integration_conditions E W" and "axum_routes D"
    and "auth w = empty_auth_db" and "data w = empty_data_db"
  shows "passes E (refresh_valid_token_returns_new_tokens D E W) w"
  unfolding refresh_valid_token_returns_new_tokens_def
proof (rule passes_auth_app_alice [OF assms], goal_cases)
  case (1 v cfg r t)
  then obtain t' v' where "answers E (protected_app D E W cfg)
      (post W ''/api/v1/auth/refresh'' (refresh_json (tk_refresh_token t))) v
      (result_into_response token_json (Inr (ApiOk t'))) v'"
    and "tk_refresh_token t' \<noteq> tk_refresh_token t"
    using served_refresh_twice [OF assms(1,2) 1(1,2,3,6)] by blast
  then show ?case
    by (simp add: passes_expect_call json_is_string_def)
qed

lemma pass_refresh_used_token_returns_401:
  assumes "integration_conditions E W" and "axum_routes D"
    and "auth w = empty_auth_db" and "data w = empty_data_db"
  shows "passes E (refresh_used_token_returns_401 D E W) w"
  unfolding refresh_used_token_returns_401_def
proof (rule passes_auth_app_alice [OF assms], goal_cases)
  case (1 v cfg r t)
  then obtain t' v' v'' where
    first: "answers E (protected_app D E W cfg)
      (post W ''/api/v1/auth/refresh'' (refresh_json (tk_refresh_token t))) v
      (result_into_response token_json (Inr (ApiOk t'))) v'"
    and second: "answers E (protected_app D E W cfg)
      (post W ''/api/v1/auth/refresh'' (refresh_json (tk_refresh_token t))) v'
      (result_into_response token_json (Inl token_invalid_refresh_token)) v''"
    using served_refresh_twice [OF assms(1,2) 1(1,2,3,6)] by blast
  show ?case
    by (simp add: passes_expect_call [OF first] passes_expect_call [OF second]
        token_invalid_refresh_token_def error_simps)
qed

lemma pass_served_logout_then_refresh_returns_401:
  assumes "integration_conditions E W" and "axum_routes D"
    and "auth w = empty_auth_db" and "data w = empty_data_db"
  shows "passes E (served_logout_then_refresh_returns_401 D E W) w"
  unfolding served_logout_then_refresh_returns_401_def
proof (rule passes_auth_app_alice [OF assms], goal_cases)
  case (1 v cfg r t)
  then have "redeemable E cfg v r (tk_refresh_token t)" by (simp add: session_def)
  then obtain v' where out: "run (perform E) (logout E cfg
      \<lparr>out_refresh_token = tk_refresh_token t\<rparr>) v = (Returned (Inr (ApiOk ())), v')"
    and v': "good E v'" "spent E cfg v' (tk_refresh_token t)"
    using journey_logout [OF 1(1,2)] by blast
  obtain v'' where late: "run (perform E) (refresh E cfg
      \<lparr>ref_refresh_token = tk_refresh_token t\<rparr>) v' =
      (Returned (Inl token_invalid_refresh_token), v'')"
    using journey_refresh_spent [OF 1(1) v'] by blast
  show ?case
    by (simp add: passes_expect_call [OF served_calls(4) [OF assms(2,1) out, simplified]]
        passes_expect_call [OF served_calls(3) [OF assms(2,1) late, simplified]]
        token_invalid_refresh_token_def error_simps)
qed

lemma pass_refresh_with_invalid_token_returns_401:
  assumes "integration_conditions E W" and "axum_routes D"
    and "auth w = empty_auth_db" and "data w = empty_data_db"
  shows "passes E (refresh_with_invalid_token_returns_401 D E W) w"
  unfolding refresh_with_invalid_token_returns_401_def
proof (rule passes_auth_app [OF assms(1,3,4)], goal_cases)
  case (1 v cfg)
  obtain m where "jwt_decode E (tick v) (cfg_secret cfg) ''not.a.valid.jwt'' = Inl (OtherJwtError m)"
    using assms(1) unfolding integration_conditions_def by blast
  then have broken: "run (perform E) (refresh E cfg
      \<lparr>ref_refresh_token = ''not.a.valid.jwt''\<rparr>) v = (Returned (Inl (token_invalid m)), advance v)"
    by (simp add: refresh_def run_bind_ok run_verify_token)
  show ?case
    by (simp add: passes_expect_call [OF served_calls(3) [OF assms(2,1) broken, simplified]] token_invalid_def
        error_simps)
qed

section \<open>Malformed bodies\<close>

lemma pass_served_malformed:
  assumes "integration_conditions E W" and "axum_routes D"
    and "auth w = empty_auth_db" and "data w = empty_data_db"
  shows "passes E (malformed_json_returns_bad_request_envelope D E W) w"
    and "passes E (missing_content_type_returns_bad_request_envelope D E W) w"
proof -
  have rejected: "passes E (auth_app D E W (\<lambda>app.
      expect_call app req bad_request_envelope (\<lambda>_. Ret ()))) w"
    if req: "rq_path req = ''/api/v1/auth/register''" "rq_method req = ''POST''"
      "rq_content_type req = None \<or> rq_body req = ''{broken''" for req
  proof (rule passes_auth_app [OF assms(1,3,4)], goal_cases)
    case (1 v cfg)
    obtain m where "answers E (protected_app D E W cfg) req v
        (result_into_response token_json (Inl (servir_bad_request m))) v"
      using auth_service.answers_rejected [OF protected_service [OF assms(2)]
          integration_web [OF assms(1)], of req cfg v] req by auto
    then show ?case
      by (simp add: passes_expect_call bad_request_envelope_def json_is_string_def
          servir_bad_request_def error_simps)
  qed
  show "passes E (malformed_json_returns_bad_request_envelope D E W) w"
    "passes E (missing_content_type_returns_bad_request_envelope D E W) w"
    unfolding malformed_json_returns_bad_request_envelope_def
      missing_content_type_returns_bad_request_envelope_def
    by (rule rejected; simp)+
qed

section \<open>The suite\<close>

lemmas served_suite_lemmas =
  pass_served_register_returns_tokens
  pass_served_login_correct_credentials_returns_tokens
  pass_served_login_wrong_password_returns_401
  pass_protected_route_without_token_returns_401
  pass_auth_me_without_token_returns_401
  pass_protected_route_with_valid_token_returns_200
  pass_auth_me_returns_username_and_user_id
  pass_refresh_valid_token_returns_new_tokens
  pass_refresh_used_token_returns_401
  pass_served_logout_then_refresh_returns_401
  pass_refresh_with_invalid_token_returns_401
  pass_served_malformed

lemma pass_auth_integration_tests:
  assumes "integration_conditions E W" and "axum_routes D"
    and "auth w = empty_auth_db" and "data w = empty_data_db"
  shows "list_all (\<lambda>test. passes E test w) (auth_integration_tests D E W)"
  unfolding auth_integration_tests_def list.pred_inject
  by (intro conjI list.pred_inject(1) served_suite_lemmas assms)

end
