(* ===== verification/Integration_Suites.thy ===== *)
theory Integration_Suites
  imports Auth_Integration_Passes
begin

text \<open>
  The integration tests of the repository pass in every conforming environment, and an
  environment in which the conditions hold.
\<close>

section \<open>The suite\<close>

text \<open>C26: The integration tests pass on the server that \<open>build\<close> returns, in every environment in
  which nothing fails, the libraries keep their documentation and the clock stays within the
  lifetimes of the tokens: all routes and errors with their exact bodies on one server, from
  registration to a refresh after logout; the auth routes; the shapes of responses; the request identifiers;
  and the application's user route, with the profile created on the first access.\<close>

theorem integration_suites_pass:
  assumes "integration_conditions E W" and "axum_routes Dt" and "axum_routes Ds" and "axum_routes Da"
    and "tower_documented T" and "auth w = empty_auth_db" and "data w = empty_data_db"
    and "test \<in> set (integration_tests Dt Ds Da T L E W)"
  shows "fst (run (perform E) test w) = Returned ()"
proof -
  have "list_all (\<lambda>test. passes E test w) (integration_tests Dt Ds Da T L E W)"
    unfolding integration_tests_def list.pred_inject list_all_append
    by (intro conjI list.pred_inject(1) pass_all_routes_and_errors pass_shape_tests
        pass_request_id_tests pass_user_endpoint_requires_auth pass_user_tests
        pass_auth_integration_tests assms(1-7))
  with assms(8) show ?thesis
    by (auto simp: list_all_iff passes_def)
qed

lemma late_integration_conditions: "integration_conditions late_env text_web"
proof -
  have "late_decode n s t = Inl (OtherJwtError ''InvalidToken'')"
    if "t \<in> {''not.a.valid.jwt'', ''garbage.token.here''}" for n s t
    using that by (auto simp: late_decode_def demo_parse_def)
  moreover have "random_bytes late_env n 32 \<noteq> None" "url_error late_env u = None" for n u
    by (simp_all add: late_env_def)
  ultimately show ?thesis
    using late_conforming [of config_with_defaults] text_web_conforming
    by (simp add: integration_conditions_def text_web_def config_with_defaults_def config_new_def)
qed

theorem integration_suites_pass_witness:
  "list_all (\<lambda>test. fst (run (perform late_env) test empty_world) = Returned ())
     (integration_tests table_dispatch table_dispatch table_dispatch plain_tower table_layers late_env text_web) \<and>
   length (integration_tests table_dispatch table_dispatch table_dispatch plain_tower table_layers late_env
     text_web) = 23"
proof -
  have "auth empty_world = empty_auth_db" "data empty_world = empty_data_db"
    by (simp_all add: empty_world_def)
  then have "\<forall>test \<in> set (integration_tests table_dispatch table_dispatch table_dispatch plain_tower
      table_layers late_env text_web). fst (run (perform late_env) test empty_world) = Returned ()"
    using integration_suites_pass [OF late_integration_conditions table_dispatch_axum
        table_dispatch_axum table_dispatch_axum plain_tower_documented] by blast
  then show ?thesis
    by (simp only: list_all_iff) (simp add: integration_tests_def auth_integration_tests_def)
qed

end
