(* ===== verification/Reference.thy ===== *)
theory Reference
  imports Journeys
begin

text \<open>
  A reference for the auth API: the verdict on a call as a function of the abstract store of
  accounts and sessions, and the operations on that store that a granted call amounts to. Where
  nothing fails the handlers of \<open>src/auth/http.rs\<close> are equivalent to it.
\<close>

section \<open>Calls and verdicts\<close>

datatype auth_call =
    CallRegister register_request
  | CallLogin login_request
  | CallRefresh refresh_request
  | CallLogout logout_request

datatype verdict = Granted | Refused string | Died string

fun verdict_of :: "(servir_error + 'a api_response) outcome \<Rightarrow> verdict" where
  "verdict_of (Returned (Inl e)) = Refused (servir_error_id e)"
| "verdict_of (Returned (Inr (ApiError b))) = Refused (body_error_id b)"
| "verdict_of (Returned (Inr (ApiOk a))) = Granted"
| "verdict_of (Panicked m) = Died m"

fun attempt :: "env \<Rightarrow> auth_config \<Rightarrow> auth_call \<Rightarrow> world \<Rightarrow> verdict \<times> world" where
  "attempt E cfg (CallRegister b) w =
     map_prod verdict_of id (run (perform E) (register E cfg b) w)"
| "attempt E cfg (CallLogin b) w = map_prod verdict_of id (run (perform E) (login E cfg b) w)"
| "attempt E cfg (CallRefresh b) w =
     map_prod verdict_of id (run (perform E) (refresh E cfg b) w)"
| "attempt E cfg (CallLogout b) w = map_prod verdict_of id (run (perform E) (logout E cfg b) w)"

section \<open>The reference\<close>

definition named :: "session_state \<Rightarrow> string \<Rightarrow> user \<Rightarrow> bool" where
  "named s u v \<longleftrightarrow> accounts s (usr_id v) = Some v \<and> usr_username v = u"

text \<open>The claims of a refresh token presented at a moment, or why it is refused.\<close>

definition presented :: "env \<Rightarrow> auth_config \<Rightarrow> nat \<Rightarrow> string \<Rightarrow> string + claims" where
  "presented E cfg n t =
     (case jwt_decode E n (cfg_secret cfg) t of
        Inl ExpiredSignature \<Rightarrow> Inl ''TOKEN_EXPIRED''
      | Inl (OtherJwtError m) \<Rightarrow> Inl ''TOKEN_INVALID''
      | Inr c \<Rightarrow> if cl_kind c = Refresh then Inr c else Inl ''WRONG_TOKEN_KIND'')"

definition reference_time :: "env \<Rightarrow> nat \<Rightarrow> i64" where
  "reference_time E n = the (clock E (Suc n))"

fun decision ::
  "env \<Rightarrow> auth_config \<Rightarrow> nat \<Rightarrow> session_state \<Rightarrow> auth_call \<Rightarrow> verdict" where
  "decision E cfg n s (CallRegister b) =
     (if reg_username b = [] then Refused ''EMPTY_USERNAME''
      else if length (reg_password b) < 8 then Refused ''WEAK_PASSWORD''
      else if \<exists>v. named s (reg_username b) v then Refused ''ALREADY_EXISTS''
      else Granted)"
| "decision E cfg n s (CallLogin b) =
     (if \<exists>v. named s (log_username b) v \<and> phc_error E (usr_password_hash v) \<noteq> None
      then Refused ''PASSWORD_HASH_FAILED''
      else if \<exists>v. named s (log_username b) v \<and>
          argon2_verify E (log_password b) (usr_password_hash v)
      then Granted else Refused ''INVALID_CREDENTIALS'')"
| "decision E cfg n s (CallRefresh b) =
     (case presented E cfg n (ref_refresh_token b) of
        Inl i \<Rightarrow> Refused i
      | Inr c \<Rightarrow>
          (if \<not> fst (sess_step (Redeem (cl_jti c) (reference_time E n)) s)
           then Refused ''INVALID_REFRESH_TOKEN''
           else if accounts s (cl_sub c) = None then Refused ''USER_NOT_FOUND''
           else Granted))"
| "decision E cfg n s (CallLogout b) =
     (case presented E cfg n (out_refresh_token b) of Inl i \<Rightarrow> Refused i | Inr c \<Rightarrow> Granted)"

text \<open>The operations of a call on the store, up to the identifiers, hashes and times chosen.\<close>

inductive operates ::
  "env \<Rightarrow> auth_config \<Rightarrow> nat \<Rightarrow> session_state \<Rightarrow> auth_call \<Rightarrow> verdict \<Rightarrow> session_op list \<Rightarrow> bool"
  for E cfg n s where
  registers: "operates E cfg n s (CallRegister b) Granted
    [Register i (reg_username b) h t, Issue j i x t']"
    if "argon2_hash E g (reg_password b) = Inr h"
| logs_in: "operates E cfg n s (CallLogin b) Granted [Issue j (usr_id v) x t]"
    if "named s (log_username b) v"
| rotates: "operates E cfg n s (CallRefresh b) Granted
    [Redeem (cl_jti c) (reference_time E n), Issue j (cl_sub c) x t]"
    if "presented E cfg n (ref_refresh_token b) = Inr c"
| loses: "operates E cfg n s (CallRefresh b) (Refused ''USER_NOT_FOUND'')
    [Redeem (cl_jti c) (reference_time E n)]"
    if "presented E cfg n (ref_refresh_token b) = Inr c"
| revokes: "operates E cfg n s (CallLogout b) Granted [RevokeAll (cl_sub c)]"
    if "presented E cfg n (out_refresh_token b) = Inr c"
| refuses: "operates E cfg n s call (Refused i) []" if "i \<noteq> ''USER_NOT_FOUND''"

text \<open>A sequence of operations all of which succeed.\<close>

fun all_succeed :: "session_op list \<Rightarrow> session_state \<Rightarrow> session_state \<Rightarrow> bool" where
  "all_succeed [] s s' = (s' = s)"
| "all_succeed (x # xs) s s' = (fst (sess_step x s) \<and> all_succeed xs (snd (sess_step x s)) s')"

definition meets_reference :: "env \<Rightarrow> auth_config \<Rightarrow> auth_call \<Rightarrow> world \<Rightarrow> bool" where
  "meets_reference E cfg call w =
     (case attempt E cfg call w of (v, w') \<Rightarrow>
        v = decision E cfg (tick w) (sqlite_view (auth w)) call \<and>
        (\<exists>ops. operates E cfg (tick w) (sqlite_view (auth w)) call v ops \<and>
           all_succeed ops (sqlite_view (auth w)) (sqlite_view (auth w'))))"

section \<open>The tables seen through the store\<close>

lemma good_ok: "good E w \<Longrightarrow> sqlite_ok (auth w)"
  by (simp add: good_def sqlite_ok_def migrated_def)

lemma all_succeed_none: "all_succeed [] s s"
  by simp

lemma succeed_on_tables:
  assumes "sqlite_ok d" and "sqlite_apply x d = (True, d')"
    and "all_succeed xs (sqlite_view d') s"
  shows "all_succeed (x # xs) (sqlite_view d) s"
  using assms store.simulates [OF assms(1), of x] by simp

lemma named_iff:
  assumes "auth_db_ok d"
  shows "named (sqlite_view d) u v \<longleftrightarrow>
    (\<exists>r \<in> set (users d). ur_username r = u \<and> v = user_of_row r)"
proof -
  have "distinct (map ur_id (users d))"
    using assms by (simp add: auth_db_ok_def)
  then show ?thesis
    by (auto simp: named_def sqlite_view_def find_key_Some_iff user_of_row_def)
qed

lemma named_unique:
  assumes "auth_db_ok d" and "r \<in> set (users d)"
  shows "named (sqlite_view d) (ur_username r) v \<longleftrightarrow> v = user_of_row r"
proof -
  have "x = r" if "x \<in> set (users d)" "ur_username x = ur_username r" for x
    using assms that by (auto simp: auth_db_ok_def distinct_map inj_on_def)
  with assms(2) show ?thesis
    by (auto simp: named_iff [OF assms(1)])
qed

lemma view_account:
  assumes "auth_db_ok d" and "r \<in> set (users d)"
  shows "accounts (sqlite_view d) (ur_id r) = Some (user_of_row r)"
proof -
  have "distinct (map ur_id (users d))"
    using assms by (simp add: auth_db_ok_def)
  then have "List.find (\<lambda>x. ur_id x = ur_id r) (users d) = Some r"
    using assms(2) by (simp add: find_key_Some_iff)
  then show ?thesis
    by (simp add: sqlite_view_def)
qed

lemma issued_operation:
  assumes "good E w" and "issued E cfg u w t w'"
  shows "\<exists>j x c. sqlite_apply (Issue j (usr_id u) x c) (auth w) = (True, auth w')"
proof -
  obtain n now ttl c where w': "auth w' = (auth w)\<lparr>refresh_tokens := refresh_tokens (auth w) @
      [new_token_row (uuid E n) (usr_id u) now ttl c]\<rparr>"
    and fresh: "uuid E n \<notin> tr_jti ` set (refresh_tokens (auth w))"
    and owner: "usr_id u \<in> ur_id ` set (users (auth w))"
    using issued_row [OF assms(2)] by blast
  have "sqlite_apply (Issue (uuid E n) (usr_id u) (now + ttl) c) (auth w) = (True, auth w')"
    using fresh owner good_migrated [OF assms(1)]
    by (simp add: sqlite_apply_def stmt_of_def succeeded_def w' new_token_row_def)
  then show ?thesis by blast
qed

text \<open>A granted call ends with the issue of a pair of tokens.\<close>

lemma issue_on_tables:
  assumes "healthy E cfg" and "good E w" and "usr_id u \<in> ur_id ` set (users (auth w))"
  shows "\<exists>t w' j x c. run (perform E) (issue_tokens E cfg u) w = (Returned (Inr (ApiOk t)), w') \<and>
    sqlite_apply (Issue j (usr_id u) x c) (auth w) = (True, auth w')"
proof -
  obtain t w' where run: "run (perform E) (issue_tokens E cfg u) w = (Returned (Inr (ApiOk t)), w')"
    and iss: "issued E cfg u w t w'"
    using issue_tokens_succeeds [OF assms(1) _ assms(3)] assms(2) unfolding good_def by blast
  with issued_operation [OF assms(2) iss] show ?thesis by blast
qed

lemma refused_meets:
  assumes "attempt E cfg call w = (Refused i, w')"
    and "decision E cfg (tick w) (sqlite_view (auth w)) call = Refused i"
    and "auth w' = auth w" and "i \<noteq> ''USER_NOT_FOUND''"
  shows "meets_reference E cfg call w"
  using assms refuses [of i E cfg "tick w" "sqlite_view (auth w)" call]
  by (auto simp: meets_reference_def intro!: exI [of _ "[]"])

lemma granted_meets:
  assumes "all_succeed ops (sqlite_view (auth w)) (sqlite_view (auth w'))"
    and "operates E cfg (tick w) (sqlite_view (auth w)) call v ops"
    and "attempt E cfg call w = (v, w')"
    and "decision E cfg (tick w) (sqlite_view (auth w)) call = v"
  shows "meets_reference E cfg call w"
  using assms by (auto simp: meets_reference_def)

section \<open>The handlers\<close>

lemma name_taken:
  assumes "good E w"
  shows "(\<exists>v. named (sqlite_view (auth w)) u v) \<longleftrightarrow> u \<in> ur_username ` set (users (auth w))"
proof -
  have ok: "auth_db_ok (auth w)"
    using assms by (simp add: good_def)
  show ?thesis
    unfolding named_iff [OF ok] by (metis imageE imageI)
qed

lemma register_meets_new:
  assumes "healthy E cfg" and "uuids_fresh E" and "good E w" and "reg_username b \<noteq> []"
    and "8 \<le> length (reg_password b)" and "reg_username b \<notin> ur_username ` set (users (auth w))"
  shows "meets_reference E cfg (CallRegister b) w"
proof -
  let ?u = "reg_username b" and ?p = "reg_password b"
  have b: "b = \<lparr>reg_username = ?u, reg_password = ?p\<rparr>"
    by simp
  obtain v row where created: "run (perform E) (register E cfg b) w =
      run (perform E) (issue_tokens E cfg (user_of_row row)) v"
    and v: "good E v" "users (auth v) = users (auth w) @ [row]" "ur_username row = ?u"
    and hash: "argon2_hash E (salt E (tick w)) ?p = Inr (ur_password_hash row)"
    and added: "auth v = with_user row (auth w)" "ur_id row \<notin> ur_id ` set (users (auth w))"
    using register_created [OF assms] b by metis
  have id: "usr_id (user_of_row row) = ur_id row"
    by (simp add: user_of_row_def)
  then have "usr_id (user_of_row row) \<in> ur_id ` set (users (auth v))"
    by (simp add: v(2))
  then obtain t w' j x c where
    run: "run (perform E) (issue_tokens E cfg (user_of_row row)) v = (Returned (Inr (ApiOk t)), w')"
    and issue: "sqlite_apply (Issue j (ur_id row) x c) (auth v) = (True, auth w')"
    using issue_on_tables [OF assms(1) v(1), of "user_of_row row"] unfolding id by blast
  have "sqlite_apply (Register (ur_id row) ?u (ur_password_hash row) (ur_created_at row))
      (auth w) = (True, auth v)"
    using added(2) assms(6) v(3) good_migrated [OF assms(3)]
    by (simp add: sqlite_apply_def stmt_of_def succeeded_def added(1) with_user_def)
  from succeed_on_tables [OF good_ok [OF assms(3)] this
      succeed_on_tables [OF good_ok [OF v(1)] issue all_succeed_none]]
  have "all_succeed [Register (ur_id row) ?u (ur_password_hash row) (ur_created_at row),
      Issue j (ur_id row) x c] (sqlite_view (auth w)) (sqlite_view (auth w'))" .
  then show ?thesis
  proof (rule granted_meets [OF _ registers [OF hash]])
    show "attempt E cfg (CallRegister b) w = (Granted, w')"
      using created run by simp
    show "decision E cfg (tick w) (sqlite_view (auth w)) (CallRegister b) = Granted"
      using assms(4-6) name_taken [OF assms(3)] by simp
  qed
qed

lemma register_meets:
  assumes "healthy E cfg" and "uuids_fresh E" and "good E w"
  shows "meets_reference E cfg (CallRegister b) w"
proof -
  let ?u = "reg_username b" and ?p = "reg_password b"
  have b: "b = \<lparr>reg_username = ?u, reg_password = ?p\<rparr>"
    by simp
  consider (empty) "?u = []" | (weak) "?u \<noteq> []" "length ?p < 8"
    | (taken) "?u \<noteq> []" "8 \<le> length ?p" "?u \<in> ur_username ` set (users (auth w))"
    | (new) "?u \<noteq> []" "8 \<le> length ?p" "?u \<notin> ur_username ` set (users (auth w))"
    by linarith
  then show ?thesis
  proof cases
    case empty
    then show ?thesis
      by (intro refused_meets [where i = "''EMPTY_USERNAME''" and w' = w])
        (simp_all add: register_def user_empty_username_def)
  next
    case weak
    then show ?thesis
      by (intro refused_meets [where i = "''WEAK_PASSWORD''" and w' = w])
        (simp_all add: register_def user_weak_password_def)
  next
    case taken
    obtain w' m where run: "run (perform E) (register E cfg b) w =
        (Returned (Inl (user_already_exists ?u m)), w')"
      using register_taken [OF assms(1,3) taken(1,2,3)] b by metis
    with register_cases [OF run] taken show ?thesis
      by (intro refused_meets [where i = "''ALREADY_EXISTS''" and w' = w'])
        (auto simp: name_taken [OF assms(3)] user_already_exists_def)
  qed (rule register_meets_new [OF assms])
qed

lemmas login_steps = login_def run_bind_ok run_find_user_by_username verify_password_def
  user_of_row_def user_invalid_credentials_def user_password_hash_failed_def

lemma named_found:
  assumes "good E w" and "List.find (\<lambda>r. ur_username r = u) (users (auth w)) = Some r"
  shows "named (sqlite_view (auth w)) u v \<longleftrightarrow> v = user_of_row r"
proof -
  have "auth_db_ok (auth w)"
    using assms(1) by (simp add: good_def)
  with find_key [OF assms(2)] named_unique [of "auth w" r v] show ?thesis by auto
qed

lemma login_meets_right:
  assumes "healthy E cfg" and "good E w"
    and "List.find (\<lambda>r. ur_username r = log_username b) (users (auth w)) = Some r"
    and "phc_error E (ur_password_hash r) = None"
    and "argon2_verify E (log_password b) (ur_password_hash r)"
  shows "meets_reference E cfg (CallLogin b) w"
proof -
  have "usr_id (user_of_row r) \<in> ur_id ` set (users (auth (advance w)))"
    using find_key [OF assms(3)] by (simp add: user_of_row_def)
  then obtain t w' j x c where run: "run (perform E) (issue_tokens E cfg (user_of_row r))
      (advance w) = (Returned (Inr (ApiOk t)), w')"
    and issue: "sqlite_apply (Issue j (usr_id (user_of_row r)) x c) (auth w) = (True, auth w')"
    using issue_on_tables [OF assms(1) good_advance [OF assms(2)], of "user_of_row r"] by auto
  have "all_succeed [Issue j (usr_id (user_of_row r)) x c] (sqlite_view (auth w))
      (sqlite_view (auth w'))"
    by (rule succeed_on_tables [OF good_ok [OF assms(2)] issue all_succeed_none])
  then show ?thesis
  proof (rule granted_meets [OF _ logs_in])
    show "named (sqlite_view (auth w)) (log_username b) (user_of_row r)"
      by (simp add: named_found [OF assms(2,3)])
    show "attempt E cfg (CallLogin b) w = (Granted, w')"
      using assms(3-5) run good_migrated [OF assms(2)]
      by (simp add: login_steps healthy_fault [OF assms(1)])
    show "decision E cfg (tick w) (sqlite_view (auth w)) (CallLogin b) = Granted"
      using assms(4,5) by (simp add: named_found [OF assms(2,3)] user_of_row_def)
  qed
qed

lemma login_meets:
  assumes "healthy E cfg" and "good E w"
  shows "meets_reference E cfg (CallLogin b) w"
proof -
  have ok: "auth_db_ok (auth w)"
    using assms(2) by (simp add: good_def)
  have tables: "applied (auth w) \<noteq> 0"
    using good_migrated [OF assms(2)] by simp
  note rd = login_steps tables healthy_fault [OF assms(1)]
  show ?thesis
  proof (cases "List.find (\<lambda>r. ur_username r = log_username b) (users (auth w))")
    case None
    then have "\<not> named (sqlite_view (auth w)) (log_username b) v" for v
      by (auto simp: named_iff [OF ok] find_None_iff)
    with None show ?thesis
      by (intro refused_meets [where i = "''INVALID_CREDENTIALS''" and w' = "advance w"])
        (simp_all add: rd)
  next
    case (Some r)
    note only = named_found [OF assms(2) Some]
    consider (broken) "phc_error E (ur_password_hash r) \<noteq> None"
      | (wrong) "phc_error E (ur_password_hash r) = None"
          "\<not> argon2_verify E (log_password b) (ur_password_hash r)"
      | (right) "phc_error E (ur_password_hash r) = None"
          "argon2_verify E (log_password b) (ur_password_hash r)"
      by blast
    then show ?thesis
    proof cases
      case broken
      with Some show ?thesis
        by (intro refused_meets [where i = "''PASSWORD_HASH_FAILED''" and w' = "advance w"])
          (auto simp: rd only)
    next
      case wrong
      with Some show ?thesis
        by (intro refused_meets [where i = "''INVALID_CREDENTIALS''" and w' = "advance w"])
          (simp_all add: rd only)
    qed (rule login_meets_right [OF assms Some])
  qed
qed

lemma logout_meets:
  assumes "healthy E cfg" and "good E w"
  shows "meets_reference E cfg (CallLogout b) w"
proof (cases "presented E cfg (tick w) (out_refresh_token b)")
  case (Inl i)
  then show ?thesis
    by (intro refused_meets [where i = i and w' = "advance w"])
      (auto simp: presented_def logout_def run_bind_ok run_verify_token token_expired_def
        token_invalid_def token_wrong_kind_def split: sum.splits jwt_error.splits if_splits)
next
  case (Inr c)
  then have c: "jwt_decode E (tick w) (cfg_secret cfg) (out_refresh_token b) = Inr c"
    "cl_kind c = Refresh"
    by (auto simp: presented_def split: sum.splits jwt_error.splits if_splits)
  define w' where "w' = set_auth (without_user (cl_sub c) (auth w)) (advance (advance w))"
  have "sqlite_apply (RevokeAll (cl_sub c)) (auth w) = (True, auth w')"
    using good_migrated [OF assms(2)]
    by (simp add: sqlite_apply_def stmt_of_def succeeded_def w'_def without_user_def)
  then have "all_succeed [RevokeAll (cl_sub c)] (sqlite_view (auth w)) (sqlite_view (auth w'))"
    by (rule succeed_on_tables [OF good_ok [OF assms(2)] _ all_succeed_none])
  then show ?thesis
  proof (rule granted_meets [OF _ revokes [OF Inr]])
    show "attempt E cfg (CallLogout b) w = (Granted, w')"
      using c good_migrated [OF assms(2)] healthy_fault [OF assms(1)]
      by (simp add: logout_def run_bind_ok run_verify_token run_delete_refresh_tokens_for_user
          after_auth_def w'_def without_user_def api_ok_def)
    show "decision E cfg (tick w) (sqlite_view (auth w)) (CallLogout b) = Granted"
      using Inr by simp
  qed
qed

text \<open>The unexpired rows of a token, and a refresh up to the redemption of its token.\<close>

abbreviation live_rows :: "string \<Rightarrow> i64 \<Rightarrow> auth_db \<Rightarrow> token_row list" where
  "live_rows j now d \<equiv> filter (\<lambda>r. tr_jti r = j \<and> live_at now r) (refresh_tokens d)"

lemma redeem_on_tables:
  assumes "good E w"
  shows "sqlite_apply (Redeem j now) (auth w) =
    (live_rows j now (auth w) \<noteq> [], without_live j now (auth w))"
  using good_migrated [OF assms]
  by (simp add: sqlite_apply_def stmt_of_def succeeded_def without_live_def live_at_def Let_def
      del: de_Morgan_conj)

lemma redeem_succeeds_iff:
  assumes "good E w"
  shows "fst (sess_step (Redeem j now) (sqlite_view (auth w))) \<longleftrightarrow> live_rows j now (auth w) \<noteq> []"
  using store.simulates [OF good_ok [OF assms], of "Redeem j now"]
  by (simp add: redeem_on_tables [OF assms] del: sess_step.simps)

lemma good_without_live:
  assumes "good E w" and "auth w1 = without_live j now (auth w)" and "tick w \<le> tick w1"
  shows "good E w1"
proof -
  have "uuids_unused E w1"
    by (rule uuids_unused_mono [of E w])
      (use assms in \<open>auto simp: good_def without_live_def\<close>)
  then show ?thesis
    using assms by (auto simp: good_def migrated_def without_live_def auth_db_ok_def
        distinct_map_filter)
qed

lemma refresh_after_redeem:
  assumes "healthy E cfg" and "good E w"
    and "presented E cfg (tick w) (ref_refresh_token b) = Inr c"
  shows "\<exists>w1. good E w1 \<and> auth w1 = without_live (cl_jti c) (reference_time E (tick w)) (auth w) \<and>
    run (perform E) (refresh E cfg b) w =
      (if live_rows (cl_jti c) (reference_time E (tick w)) (auth w) = []
       then (Returned (Inl token_invalid_refresh_token), w1)
       else run (perform E) (bind_ok (find_user_by_id E (cl_sub c)) (\<lambda>found. case found of
           None \<Rightarrow> err (token_user_not_found (cl_sub c))
         | Some user \<Rightarrow> issue_tokens E cfg user)) w1)"
proof -
  have c: "jwt_decode E (tick w) (cfg_secret cfg) (ref_refresh_token b) = Inr c" "cl_kind c = Refresh"
    using assms(3) by (auto simp: presented_def split: sum.splits jwt_error.splits if_splits)
  obtain now where now: "clock E (Suc (tick w)) = Some now" "reference_time E (tick w) = now"
    using assms(1) unfolding healthy_def clock_runs_def reference_time_def by fastforce
  define w1 where "w1 = set_auth (without_live (cl_jti c) now (auth w))
    (advance (advance (advance w)))"
  have "run (perform E) (refresh E cfg b) w =
      (if live_rows (cl_jti c) now (auth w) = [] then (Returned (Inl token_invalid_refresh_token), w1)
       else run (perform E) (bind_ok (find_user_by_id E (cl_sub c)) (\<lambda>found. case found of
           None \<Rightarrow> err (token_user_not_found (cl_sub c))
         | Some user \<Rightarrow> issue_tokens E cfg user)) w1)"
    using c now good_migrated [OF assms(2)] healthy_fault [OF assms(1)]
    by (simp add: refresh_def run_bind_ok run_verify_token run_consume_refresh_token
        after_auth_def Let_def live_at_def [symmetric] without_live_def w1_def
        del: de_Morgan_conj)
  moreover have "auth w1 = without_live (cl_jti c) now (auth w)" "tick w \<le> tick w1"
    by (simp_all add: w1_def)
  ultimately show ?thesis
    using good_without_live [OF assms(2)] now(2) by blast
qed

text \<open>The token has no unexpired row, or has one and its subject is gone or stored.\<close>

lemma refresh_meets_spent:
  assumes "good E w" and "presented E cfg (tick w) (ref_refresh_token b) = Inr c"
    and "live_rows (cl_jti c) (reference_time E (tick w)) (auth w) = []"
    and "auth w1 = without_live (cl_jti c) (reference_time E (tick w)) (auth w)"
    and "run (perform E) (refresh E cfg b) w = (Returned (Inl token_invalid_refresh_token), w1)"
  shows "meets_reference E cfg (CallRefresh b) w"
proof (rule refused_meets [where i = "''INVALID_REFRESH_TOKEN''" and w' = w1])
  show "attempt E cfg (CallRefresh b) w = (Refused ''INVALID_REFRESH_TOKEN'', w1)"
    using assms(5) by (simp add: token_invalid_refresh_token_def)
  show "decision E cfg (tick w) (sqlite_view (auth w)) (CallRefresh b) =
      Refused ''INVALID_REFRESH_TOKEN''"
    using redeem_succeeds_iff [OF assms(1)] assms(2,3) by (simp del: sess_step.simps)
  have "filter (\<lambda>r. \<not> (tr_jti r = cl_jti c \<and> live_at (reference_time E (tick w)) r))
      (refresh_tokens (auth w)) = refresh_tokens (auth w)"
    using assms(3) by (auto simp: filter_empty_conv filter_id_conv)
  then show "auth w1 = auth w"
    unfolding assms(4) without_live_def by simp
qed simp

lemma refresh_meets_lost:
  assumes "good E w" and "presented E cfg (tick w) (ref_refresh_token b) = Inr c"
    and "sqlite_apply (Redeem (cl_jti c) (reference_time E (tick w))) (auth w) = (True, auth w')"
    and "accounts (sqlite_view (auth w)) (cl_sub c) = None"
    and "run (perform E) (refresh E cfg b) w = (Returned (Inl (token_user_not_found (cl_sub c))), w')"
  shows "meets_reference E cfg (CallRefresh b) w"
proof (rule granted_meets [OF succeed_on_tables [OF good_ok [OF assms(1)] assms(3) all_succeed_none]
      loses [OF assms(2)]])
  show "attempt E cfg (CallRefresh b) w = (Refused ''USER_NOT_FOUND'', w')"
    using assms(5) by (simp add: token_user_not_found_def)
  have "live_rows (cl_jti c) (reference_time E (tick w)) (auth w) \<noteq> []"
    using assms(3) by (simp add: redeem_on_tables [OF assms(1)])
  then show "decision E cfg (tick w) (sqlite_view (auth w)) (CallRefresh b) =
      Refused ''USER_NOT_FOUND''"
    using redeem_succeeds_iff [OF assms(1)] assms(2,4) by (simp del: sess_step.simps)
qed

lemma refresh_meets_rotated:
  assumes "good E w" and "good E w1" and "presented E cfg (tick w) (ref_refresh_token b) = Inr c"
    and "sqlite_apply (Redeem (cl_jti c) (reference_time E (tick w))) (auth w) = (True, auth w1)"
    and "r \<in> set (users (auth w))" and "ur_id r = cl_sub c"
    and "sqlite_apply (Issue j (cl_sub c) x k) (auth w1) = (True, auth w')"
    and "run (perform E) (refresh E cfg b) w = (Returned (Inr (ApiOk t)), w')"
  shows "meets_reference E cfg (CallRefresh b) w"
proof (rule granted_meets [OF succeed_on_tables [OF good_ok [OF assms(1)] assms(4)
        succeed_on_tables [OF good_ok [OF assms(2)] assms(7) all_succeed_none]]
      rotates [OF assms(3)]])
  show "attempt E cfg (CallRefresh b) w = (Granted, w')"
    using assms(8) by simp
  have "live_rows (cl_jti c) (reference_time E (tick w)) (auth w) \<noteq> []"
    using assms(4) by (simp add: redeem_on_tables [OF assms(1)])
  moreover have "auth_db_ok (auth w)"
    using assms(1) by (simp add: good_def)
  ultimately show "decision E cfg (tick w) (sqlite_view (auth w)) (CallRefresh b) = Granted"
    using redeem_succeeds_iff [OF assms(1)] assms(3,6) view_account [OF _ assms(5)]
    by (simp del: sess_step.simps)
qed

lemma refresh_meets:
  assumes "healthy E cfg" and "good E w"
  shows "meets_reference E cfg (CallRefresh b) w"
proof (cases "presented E cfg (tick w) (ref_refresh_token b)")
  case (Inl i)
  then show ?thesis
    by (intro refused_meets [where i = i and w' = "advance w"])
      (auto simp: presented_def refresh_def run_bind_ok run_verify_token token_expired_def
        token_invalid_def token_wrong_kind_def split: sum.splits jwt_error.splits if_splits)
next
  case (Inr c)
  let ?hit = "live_rows (cl_jti c) (reference_time E (tick w)) (auth w)"
  obtain w1 where w1: "good E w1"
      "auth w1 = without_live (cl_jti c) (reference_time E (tick w)) (auth w)"
    and run: "run (perform E) (refresh E cfg b) w =
      (if ?hit = [] then (Returned (Inl token_invalid_refresh_token), w1)
       else run (perform E) (bind_ok (find_user_by_id E (cl_sub c)) (\<lambda>found. case found of
           None \<Rightarrow> err (token_user_not_found (cl_sub c))
         | Some user \<Rightarrow> issue_tokens E cfg user)) w1)"
    using refresh_after_redeem [OF assms Inr] by blast
  show ?thesis
  proof (cases "?hit = []")
    case True
    then show ?thesis
      using run by (intro refresh_meets_spent [OF assms(2) Inr _ w1(2)]) simp_all
  next
    case False
    then have redeem: "sqlite_apply (Redeem (cl_jti c) (reference_time E (tick w))) (auth w) =
        (True, auth w1)"
      by (simp add: redeem_on_tables [OF assms(2)] w1(2))
    have users: "users (auth w1) = users (auth w)" "applied (auth w1) \<noteq> 0"
      using good_migrated [OF w1(1)] by (simp_all add: w1(2) without_live_def)
    note rd = run False run_bind_ok run_find_user_by_id healthy_fault [OF assms(1)] users
    show ?thesis
    proof (cases "List.find (\<lambda>r. ur_id r = cl_sub c) (users (auth w))")
      case None
      then show ?thesis
        using redeem
        by (intro refresh_meets_lost [OF assms(2) Inr, of "advance w1"])
          (simp_all add: rd sqlite_view_def)
    next
      case (Some r)
      then have r: "r \<in> set (users (auth w))" and sub: "ur_id r = cl_sub c"
        by (auto dest: find_key)
      have id: "usr_id (user_of_row r) = cl_sub c"
        using sub by (simp add: user_of_row_def)
      have "usr_id (user_of_row r) \<in> ur_id ` set (users (auth (advance w1)))"
        using r sub by (simp add: users id image_iff) metis
      then obtain t w' j x k where issued: "run (perform E) (issue_tokens E cfg (user_of_row r))
          (advance w1) = (Returned (Inr (ApiOk t)), w')"
        and issue: "sqlite_apply (Issue j (cl_sub c) x k) (auth w1) = (True, auth w')"
        using issue_on_tables [OF assms(1) good_advance [OF w1(1)], of "user_of_row r"] id by auto
      have "run (perform E) (refresh E cfg b) w = (Returned (Inr (ApiOk t)), w')"
        using Some issued by (simp add: rd)
      then show ?thesis
        by (rule refresh_meets_rotated [OF assms(2) w1(1) Inr redeem r sub issue])
    qed
  qed
qed

text \<open>C13: Where nothing fails the four handlers are equivalent to the reference. The verdict on a
  call, granted or refused with a certain error identifier, is the function \<open>decision\<close> of the
  accounts and live sessions alone; and the call does to the store exactly the operations
  that the reference allows, all of which succeed: a registration opens an account and a
  session, a login a session, a refresh redeems the session presented and opens another of
  the same account, a logout ends all sessions of its account, and a refusal nothing (but the
  redemption, where the account of a redeemed token is gone).\<close>

theorem handlers_match_reference:
  assumes "healthy E cfg" and "uuids_fresh E" and "good E w"
    and "attempt E cfg call w = (v, w')"
  shows "v = decision E cfg (tick w) (sqlite_view (auth w)) call \<and>
    (\<exists>ops. operates E cfg (tick w) (sqlite_view (auth w)) call v ops \<and>
       all_succeed ops (sqlite_view (auth w)) (sqlite_view (auth w')))"
proof -
  have "meets_reference E cfg call w"
    using assms(1-3) register_meets login_meets refresh_meets logout_meets by (cases call) auto
  then show ?thesis
    unfolding meets_reference_def assms(4) prod.case .
qed

theorem handlers_match_reference_witness:
  "\<exists>w' ops. attempt demo_env demo_config
       (CallLogout \<lparr>out_refresh_token = alice_token Refresh\<rparr>) alice_world = (Granted, w') \<and>
     operates demo_env demo_config (tick alice_world) (sqlite_view (auth alice_world))
       (CallLogout \<lparr>out_refresh_token = alice_token Refresh\<rparr>) Granted ops \<and>
     all_succeed ops (sqlite_view (auth alice_world)) (sqlite_view (auth w'))"
proof -
  let ?call = "CallLogout \<lparr>out_refresh_token = alice_token Refresh\<rparr>"
  obtain v w' where attempt: "attempt demo_env demo_config ?call alice_world = (v, w')"
    by fastforce
  have "good demo_env alice_world"
    by (simp add: good_def demo_unused demo_worlds_ok alice_facts)
  note result = handlers_match_reference [OF demo_healthy demo_conditions(1) this attempt]
  have "decision demo_env demo_config (tick alice_world) (sqlite_view (auth alice_world)) ?call =
      Granted"
    by (simp add: presented_def alice_claims_def)
  with result attempt show ?thesis by auto
qed

end
