(* ===== verification/Typing.thy ===== *)
theory Typing
  imports Concurrency
begin

text \<open>
  A typing of the server. A program is typed by the messages it may panic with and a predicate
  on what it returns, provided that every reply fits its effect; the environment's replies do.
  The branches that the requests of \<open>Runtime\<close> have for replies of a wrong kind are then never
  taken, and every answer is of the type its route declares.
\<close>

section \<open>Typed programs\<close>

primrec typed ::
  "('e \<Rightarrow> 'r \<Rightarrow> bool) \<Rightarrow> string set \<Rightarrow> ('a \<Rightarrow> bool) \<Rightarrow> ('a, 'e, 'r) prog \<Rightarrow> bool" where
  "typed fits A R (Ret a) = R a"
| "typed fits A R (Panic m) = (m \<in> A)"
| "typed fits A R (Do e k) = (\<forall>r. fits e r \<longrightarrow> typed fits A R (k r))"

lemma typed_mono:
  "typed fits A R p \<Longrightarrow> A \<subseteq> B \<Longrightarrow> (\<And>a. R a \<Longrightarrow> S a) \<Longrightarrow> typed fits B S p"
  by (induction p) auto

lemma typed_bind:
  "typed fits A Q p \<Longrightarrow> (\<And>a. Q a \<Longrightarrow> typed fits A R (f a)) \<Longrightarrow> typed fits A R (bind_prog p f)"
  by (induction p) auto

text \<open>Any error, or a value of a type.\<close>

fun ok_of :: "('a \<Rightarrow> bool) \<Rightarrow> 'x + 'a \<Rightarrow> bool" where
  "ok_of R (Inl e) = True"
| "ok_of R (Inr a) = R a"

lemma ok_of_map_sum [simp]: "ok_of R (map_sum g f r) = ok_of (R \<circ> f) r"
  by (cases r) simp_all

lemma ok_of_any [simp]: "(\<And>a. R a) \<Longrightarrow> ok_of R r"
  by (cases r) simp_all

lemma typed_bind_ok:
  "typed fits A (ok_of Q) p \<Longrightarrow> (\<And>a. Q a \<Longrightarrow> typed fits A (ok_of R) (f a)) \<Longrightarrow>
   typed fits A (ok_of R) (bind_ok p f)"
  unfolding bind_ok_def
  by (erule typed_bind) (auto split: sum.splits)

lemma typed_then:
  "typed fits A (ok_of (\<lambda>_. True)) p \<Longrightarrow> (\<And>a. typed fits A (ok_of R) (f a)) \<Longrightarrow>
   typed fits A (ok_of R) (bind_ok p f)"
  by (rule typed_bind_ok)

lemma typed_map_err: "typed fits A (ok_of Q) p \<Longrightarrow> typed fits A (ok_of Q) (map_err g p)"
  unfolding map_err_def
  by (erule typed_bind) (auto split: sum.splits)

text \<open>What a run of a typed program ends in.\<close>

lemma typed_run:
  assumes "\<And>e w r w'. pf e w = (r, w') \<Longrightarrow> fits e r" and "typed fits A R p"
  shows "case fst (run pf p w) of Returned a \<Rightarrow> R a | Panicked m \<Rightarrow> m \<in> A"
  using assms(2)
proof (induction p arbitrary: w)
  case (Do e k)
  obtain r w' where "pf e w = (r, w')"
    by fastforce
  with assms(1) [OF this] Do show ?case by simp
qed simp_all

locale typed_system =
  fixes perform :: "'e \<Rightarrow> 'w \<Rightarrow> 'r \<times> 'w"
    and handler :: "'q \<Rightarrow> ('a, 'e, 'r) prog"
    and fits :: "'e \<Rightarrow> 'r \<Rightarrow> bool"
    and panics :: "'q \<Rightarrow> string set"
    and answer :: "'q \<Rightarrow> 'a \<Rightarrow> bool"
  assumes reply_fits: "perform e w = (r, w') \<Longrightarrow> fits e r"
    and handler_typed: "typed fits (panics q) (answer q) (handler q)"
begin

lemma tasks_typed:
  assumes "sys_reachable perform handler w0 s"
  shows "\<forall>(q, p) \<in> set (tasks s). p = Panic ''dropped'' \<or> typed fits (panics q) (answer q) p"
  using assms
proof (induction rule: sys_reachable.induct)
  case start
  show ?case by (simp add: sys_init_def)
next
  case (arrive s q)
  then show ?case using handler_typed by auto
next
  case (progress s i q e k r w')
  then have "(q, Do e k) \<in> set (tasks s)"
    by (metis nth_mem)
  with progress have "typed fits (panics q) (answer q) (k r)"
    using reply_fits by fastforce
  with progress.IH show ?case
    using set_update_subset_insert [of "tasks s" i "(q, k r)"] by fastforce
next
  case (drop s i q e k)
  then show ?case
    using set_update_subset_insert [of "tasks s" i "(q, Panic ''dropped'')"] by fastforce
qed

lemma task_typed:
  assumes "sys_reachable perform handler w0 s" and "(q, p) \<in> set (tasks s)"
    and "p \<noteq> Panic ''dropped''"
  shows "typed fits (panics q) (answer q) p"
  using tasks_typed [OF assms(1)] assms(2,3) by auto

end

section \<open>The types of the answers\<close>

fun is_string :: "json \<Rightarrow> bool" where
  "is_string (JStr _) = True"
| "is_string _ = False"

fun is_struct :: "string list \<Rightarrow> json \<Rightarrow> bool" where
  "is_struct names (JObj kvs) = (map fst kvs = names \<and> list_all (is_string \<circ> snd) kvs)"
| "is_struct names _ = False"

fun is_object :: "json \<Rightarrow> bool" where
  "is_object (JObj _) = True"
| "is_object _ = False"

text \<open>The payload that each handler declares in its \<open>ApiResponse\<close>.\<close>

fun payload_typed :: "app_handler handler \<Rightarrow> json \<Rightarrow> bool" where
  "payload_typed (HRegister _) j = is_struct [''access_token'', ''refresh_token'', ''token_type''] j"
| "payload_typed (HLogin _) j = is_struct [''access_token'', ''refresh_token'', ''token_type''] j"
| "payload_typed (HRefresh _) j = is_struct [''access_token'', ''refresh_token'', ''token_type''] j"
| "payload_typed (HLogout _) j = (j = JNull)"
| "payload_typed HMe j = is_struct [''user_id'', ''username''] j"
| "payload_typed HHealth j = is_struct [''status''] j"
| "payload_typed HNotFound j = False"
| "payload_typed (HApp HUser) j = is_struct [''id'', ''username''] j"

fun error_typed :: "json \<Rightarrow> bool" where
  "error_typed (JObj [(k, JStr i), (k', c)]) =
     (k = ''error_id'' \<and> k' = ''context'' \<and> i \<noteq> [] \<and> is_object c)"
| "error_typed _ = False"

fun envelope_typed :: "(json \<Rightarrow> bool) \<Rightarrow> status_code \<Rightarrow> json \<Rightarrow> bool" where
  "envelope_typed payload s (JObj [(k, JStr v), (k', j)]) =
     (k = ''status'' \<and>
      (v = ''ok'' \<and> s = 200 \<and> k' = ''data'' \<and> payload j \<or>
       v = ''error'' \<and> (is_client_error s \<or> is_server_error s) \<and> k' = ''error'' \<and> error_typed j))"
| "envelope_typed payload s _ = False"

definition answer_typed :: "app_handler handler \<Rightarrow> response \<Rightarrow> bool" where
  "answer_typed h resp = envelope_typed (payload_typed h) (rs_status resp) (rs_body resp)"

text \<open>The panics of the handlers.\<close>

definition server_panics :: "string set" where
  "server_panics = {clock_message, overflow_message, profile_clock_message}"

lemma server_panics_simps [simp]:
  "clock_message \<in> server_panics" "overflow_message \<in> server_panics"
  "profile_clock_message \<in> server_panics"
  by (simp_all add: server_panics_def)

lemma error_id_nonempty: "servir_error_id e \<noteq> []"
  by (cases e rule: servir_error_id.cases)
    (auto elim!: db_error_id.elims auth_user_error_id.elims auth_token_error_id.elims)

lemma ok_answers: "payload_typed h (ser d) \<Longrightarrow> answer_typed h (api_into_response ser (api_ok d))"
  by (simp add: answer_typed_def api_into_response_def api_ok_def)

lemma error_answers: "answer_typed h (api_into_response ser (api_error e))"
  using servir_info.client_or_server [of e] error_id_nonempty [of e]
  by (auto simp: answer_typed_def api_into_response_def api_error_def error_body_new_def
      error_body_json_def ctx_serialize_def)

section \<open>The handlers are typed\<close>

abbreviation effectful :: "('a \<Rightarrow> bool) \<Rightarrow> (servir_error + 'a) task \<Rightarrow> bool" where
  "effectful R p \<equiv> typed reply_fits server_panics (ok_of R) p"

lemma typed_requests:
  "(\<And>t. typed reply_fits A R (k t)) \<Longrightarrow> typed reply_fits A R (read_clock k)"
  "(\<And>t. typed reply_fits A R (l t)) \<Longrightarrow> typed reply_fits A R (gen_uuid l)"
  "(\<And>t. typed reply_fits A R (l t)) \<Longrightarrow> typed reply_fits A R (gen_salt l)"
  "(\<And>c. typed reply_fits A R (d c)) \<Longrightarrow> typed reply_fits A R (decode_jwt t s d)"
  by (auto simp: request_defs split: reply.splits)

lemma typed_statements:
  "affects st \<Longrightarrow> typed reply_fits A (ok_of (\<lambda>_. True)) (execute st)"
  "typed reply_fits A (ok_of (\<lambda>_. True)) (fetch_user (SelectUserByUsername u))"
  "typed reply_fits A (ok_of (\<lambda>_. True)) (fetch_user (SelectUserById u))"
  "typed reply_fits A (ok_of (\<lambda>_. True)) (fetch_profile (SelectProfile i))"
  "typed reply_fits A (ok_of (\<lambda>_. True)) (execute_data (InsertProfile i u t))"
  by (auto simp: request_defs split: reply.splits sum.splits sql_result.splits
      dest: affects_result)

lemma typed_now_secs:
  "(\<And>t. typed reply_fits server_panics R (k t)) \<Longrightarrow> typed reply_fits server_panics R (now_secs k)"
  unfolding now_secs_def by (rule typed_requests) (auto split: option.splits)

lemmas typed_intros = typed_then typed_map_err typed_requests typed_statements typed_now_secs

lemma repository_typed:
  "effectful (\<lambda>_. True) (create_user E u h)"
  "effectful (\<lambda>_. True) (find_user_by_username E u)"
  "effectful (\<lambda>_. True) (find_user_by_id E u)"
  "effectful (\<lambda>_. True) (store_refresh_token E j u n ttl)"
  "effectful (\<lambda>_. True) (consume_refresh_token E j)"
  "effectful (\<lambda>_. True) (delete_refresh_tokens_for_user E u)"
  "effectful (\<lambda>_. True) (find_or_create_profile E u n)"
  unfolding create_user_def find_user_by_username_def find_user_by_id_def store_refresh_token_def
    consume_refresh_token_def delete_refresh_tokens_for_user_def find_or_create_profile_def
  by (auto split: option.splits intro!: typed_intros)

lemma core_typed:
  "effectful (\<lambda>_. True) (hash_password E pw)"
  "effectful (\<lambda>_. True) (issue_access_token E u n cfg)"
  "effectful (\<lambda>_. True) (issue_refresh_token E u n cfg)"
  "effectful (\<lambda>_. True) (verify_token t cfg)"
  unfolding hash_password_def issue_access_token_def issue_refresh_token_def verify_token_def
  by (auto split: option.splits sum.splits intro!: typed_intros)

lemma auth_user_typed: "effectful (\<lambda>_. True) (auth_user W req)"
  unfolding auth_user_def by (auto split: option.splits intro!: typed_then core_typed)

text \<open>Every handler returns an error or a value made by \<open>ApiResponse::ok\<close>.\<close>

abbreviation an_ok :: "'a api_response \<Rightarrow> bool" where
  "an_ok r \<equiv> \<exists>d. r = api_ok d"

lemma handlers_typed:
  "effectful an_ok (issue_tokens E cfg user)"
  "effectful an_ok (register E cfg rr)"
  "effectful an_ok (login E cfg lr)"
  "effectful an_ok (refresh E cfg fr)"
  "effectful an_ok (logout E cfg tr)"
  "effectful an_ok (user_handler E c)"
proof -
  show issue: "effectful an_ok (issue_tokens E cfg user)" for user
    unfolding issue_tokens_def
    by (auto split: prod.splits intro!: typed_then core_typed repository_typed)
  show "effectful an_ok (register E cfg rr)" "effectful an_ok (login E cfg lr)"
    "effectful an_ok (refresh E cfg fr)" "effectful an_ok (logout E cfg tr)"
    "effectful an_ok (user_handler E c)"
    unfolding register_def login_def refresh_def logout_def user_handler_def
    by (auto split: option.splits intro!: typed_then core_typed repository_typed issue)
qed

lemma respond_typed:
  assumes "effectful an_ok p" and "\<And>d. payload_typed h (ser d)"
  shows "typed reply_fits server_panics (answer_typed h) (respond ser p)"
  unfolding respond_def
proof (rule typed_bind [OF assms(1)])
  fix r :: "servir_error + 'a api_response"
  assume "ok_of an_ok r"
  then show "typed reply_fits server_panics (answer_typed h) (Ret (result_into_response ser r))"
    using assms(2) by (cases r) (auto simp: result_into_response_def servir_into_response_api_error
        [where ser = ser] error_answers ok_answers)
qed

lemma serve_call_typed:
  "typed reply_fits server_panics (answer_typed (fst c)) (serve_call E W c)"
proof (cases c)
  case (Pair h req)
  have extracted: "effectful an_ok (bind_ok (Ret x) f)" if "\<And>a. effectful an_ok (f a)"
    for x and f :: "'x \<Rightarrow> (servir_error + 'b api_response) task"
    using that by (intro typed_then) simp_all
  show ?thesis
  proof (cases h)
    case (HApp a)
    then show ?thesis
      by (cases a) (auto simp: Pair user_endpoint_def user_json_def
          intro!: respond_typed handlers_typed typed_then auth_user_typed)
  qed (auto simp: Pair register_endpoint_def login_endpoint_def refresh_endpoint_def
      logout_endpoint_def me_endpoint_def token_json_def unit_json_def me_json_def
      health_json_def health_def not_found_def me_def error_answers
      intro!: respond_typed extracted handlers_typed typed_then auth_user_typed ok_answers)
qed

interpretation server_typing: typed_system "perform E" "serve_call E W" reply_fits
    "\<lambda>_. server_panics" "\<lambda>c. answer_typed (fst c)" for E W
  by unfold_locales (auto dest: perform_typed intro: serve_call_typed)

text \<open>C12: In every reachable state of the running server no task has gone wrong: a task that
  has finished was dropped by its client, or panicked with one of the three messages of the
  handlers (a clock before the epoch, an overflowing lifetime), or returned an answer of the type
  that its route declares, the envelope of a payload of that route with 200 or of an error
  with a client or server error status.\<close>

theorem no_task_goes_wrong:
  assumes "sys_reachable (perform E) (serve_call E W) w0 s"
    and "((h, req), p) \<in> set (tasks s)"
  shows "(\<forall>resp. p = Ret resp \<longrightarrow> answer_typed h resp) \<and>
    (\<forall>m. p = Panic m \<longrightarrow>
       m \<in> {clock_message, overflow_message, profile_clock_message, ''dropped''})"
  using server_typing.tasks_typed [OF assms(1)] assms(2) by (fastforce simp: server_panics_def)

theorem no_task_goes_wrong_witness:
  "\<exists>s resp. sys_reachable (perform demo_env) (serve_call demo_env demo_web) alice_world s \<and>
     tasks s = [(refresh_call, Ret resp)] \<and> rs_status resp = 200 \<and>
     answer_typed (HRefresh demo_config) resp"
proof -
  obtain resp w where run: "run (perform demo_env) (serve_call demo_env demo_web refresh_call)
      alice_world = (Returned resp, w)" and ok: "rs_status resp = 200"
    using alice_refreshes by blast
  obtain ms s where s: "sys_moves (perform demo_env) (serve_call demo_env demo_web) ms
      (sys_init alice_world) = Some s" "tasks s = [(refresh_call, Ret resp)]"
    using sys_moves_run [where s = "sys_init alice_world" and q = refresh_call, of "perform demo_env"
        "serve_call demo_env demo_web" resp w] run by (auto simp: sys_init_def)
  have reach: "sys_reachable (perform demo_env) (serve_call demo_env demo_web) alice_world s"
    using sys_moves_reachable [OF sys_reachable.start s(1)] .
  have "answer_typed (HRefresh demo_config) resp"
    using no_task_goes_wrong [OF reach, of "fst refresh_call" "snd refresh_call" "Ret resp"] s(2)
    by (simp add: refresh_call_def)
  with reach s(2) ok show ?thesis by blast
qed

end
