(* ===== verification/Bounded_Programs.thy ===== *)
theory Bounded_Programs
  imports Program
begin

text \<open>
  Programs with a bound on the effects they perform, whatever the replies, and what the bound
  gives in a running system.
\<close>

section \<open>Bounds\<close>

primrec steps_within :: "('a, 'e, 'r) prog \<Rightarrow> nat \<Rightarrow> bool" where
  "steps_within (Ret a) = (\<lambda>n. True)"
| "steps_within (Panic m) = (\<lambda>n. True)"
| "steps_within (Do e k) = (\<lambda>n. 0 < n \<and> (\<forall>r. steps_within (k r) (n - 1)))"

lemma steps_within_mono: "steps_within p m \<Longrightarrow> m \<le> n \<Longrightarrow> steps_within p n"
proof (induction p arbitrary: m n)
  case (Do e k)
  then show ?case
    by (auto intro: Do.IH [OF rangeI, of _ "m - 1"])
qed simp_all

lemma steps_within_bind:
  assumes "steps_within p m" and "\<And>a. steps_within (f a) n"
  shows "steps_within (bind_prog p f) (m + n)"
  using assms(1)
proof (induction p arbitrary: m)
  case (Ret a)
  show ?case
    using steps_within_mono [OF assms(2)] by simp
next
  case (Do e k)
  have "m + n - 1 = m - 1 + n"
    using Do.prems by auto
  with Do.prems Do.IH [OF rangeI, of _ "m - 1"] show ?case by simp
qed simp

lemma steps_within_bind_ok:
  assumes "steps_within p m" and "\<And>a. steps_within (f a) n"
  shows "steps_within (bind_ok p f) (m + n)"
  unfolding bind_ok_def
  by (rule steps_within_bind [OF assms(1)]) (auto intro: assms(2) split: sum.splits)

lemma steps_within_map_err: "steps_within p n \<Longrightarrow> steps_within (map_err g p) n"
  using steps_within_bind [of p n "\<lambda>r. Ret (map_sum g id r)" 0] by (simp add: map_err_def)

section \<open>Bounded tasks\<close>

locale bounded_handlers =
  fixes handler :: "'q \<Rightarrow> ('a, 'e, 'r) prog"
    and bound :: "'q \<Rightarrow> nat"
  assumes handler_bounded: "steps_within (handler q) (bound q)"
begin

text \<open>What is left of a task fits in what is left of its bound.\<close>

lemma task_bounded:
  assumes "sys_reachable perform handler w0 s"
  shows "(\<forall>i < length (tasks s).
      length (task_events i (history s)) \<le> bound (fst (tasks s ! i)) \<and>
      steps_within (snd (tasks s ! i)) (bound (fst (tasks s ! i)) - length (task_events i (history s)))) \<and>
    (\<forall>ev \<in> set (history s). fst ev < length (tasks s))"
  using assms
proof (induction rule: sys_reachable.induct)
  case start
  then show ?case by (simp add: sys_init_def)
next
  case (arrive s q)
  then have "task_events (length (tasks s)) (history s) = []"
    by (auto simp: task_events_def filter_empty_conv)
  with arrive show ?case
    by (auto simp: nth_append handler_bounded less_Suc_eq)
next
  case (progress s i q e k r w')
  then have "length (task_events i (history s)) < bound q"
    and "steps_within (k r) (bound q - Suc (length (task_events i (history s))))"
    by fastforce+
  with progress show ?case by (auto simp: nth_list_update)
next
  case (drop s i q e k)
  then show ?case by (auto simp: nth_list_update)
qed

end

text \<open>A task that takes its steps without being interrupted ends as its program does.\<close>

definition ended_as :: "'a outcome \<Rightarrow> ('a, 'e, 'r) prog" where
  "ended_as out = (case out of Returned a \<Rightarrow> Ret a | Panicked m \<Rightarrow> Panic m)"

lemma task_runs_out:
  assumes "steps_within p n" and "tasks s ! i = (q, p)" and "i < length (tasks s)"
  shows "\<exists>m t. m \<le> n \<and> sys_moves perform handler (replicate m (Progress i)) s = Some t \<and>
    tasks t ! i = (q, ended_as (fst (run perform p (shared s))))"
  using assms
proof (induction p arbitrary: n s)
  case (Do e k)
  obtain r w' where step: "perform e (shared s) = (r, w')"
    by fastforce
  let ?s = "s\<lparr>tasks := (tasks s)[i := (q, k r)], shared := w', history := history s @ [(i, e, r)]\<rparr>"
  have move: "sys_move perform handler (Progress i) s = Some ?s"
    using Do.prems step by (simp add: sys_move_def)
  obtain m t where "m \<le> n - 1" "sys_moves perform handler (replicate m (Progress i)) ?s = Some t"
    "tasks t ! i = (q, ended_as (fst (run perform (k r) w')))"
    using Do.IH [OF rangeI, of r "n - 1" ?s] Do.prems by auto
  with move step Do.prems show ?case
    by (intro exI [of _ "Suc m"] exI [of _ t]) auto
qed (auto intro!: exI [of _ 0] simp: ended_as_def)

end
