(* ===== verification/Liveness.thy ===== *)
theory Liveness
  imports Typing Bounded_Programs
begin

text \<open>
  Every request in flight comes to its answer. A bound on the effects of each route, whatever the
  replies, and the absence of panics under the replies that the environment can give, make a
  statement about the running server: from every reachable state a task that has not been dropped
  is answered after a bounded number of its own steps, so that no task waits for another.
\<close>

section \<open>The bounds of the routes\<close>

lemma repository_steps:
  "steps_within (create_user E u h) 3" "steps_within (find_user_by_username E u) 1"
  "steps_within (find_user_by_id E i) 1" "steps_within (store_refresh_token E j i u ttl) 3"
  "steps_within (consume_refresh_token E j) 2" "steps_within (delete_refresh_tokens_for_user E i) 1"
  "steps_within (hash_password E p) 1" "steps_within (verify_token t cfg) 1"
  "steps_within (issue_access_token E i u cfg) 2" "steps_within (issue_refresh_token E i u cfg) 2"
  "steps_within (find_or_create_profile E i u) 3"
  unfolding create_user_def find_user_by_username_def find_user_by_id_def store_refresh_token_def
    consume_refresh_token_def delete_refresh_tokens_for_user_def hash_password_def
    verify_token_def issue_access_token_def issue_refresh_token_def find_or_create_profile_def
    now_secs_def request_defs Let_def
  by (auto split: reply.splits option.splits sum.splits sql_result.splits)

lemma then_within:
  "steps_within p m \<Longrightarrow> (\<And>a. steps_within (f a) n) \<Longrightarrow> l = m + n \<Longrightarrow> steps_within (bind_ok p f) l"
  by (simp add: steps_within_bind_ok)

lemma issue_tokens_steps: "steps_within (issue_tokens E cfg u) 7"
  unfolding issue_tokens_def
  by (auto intro!: then_within [OF repository_steps(9), of _ 5] then_within [OF repository_steps(10), of _ 3]
      then_within [OF repository_steps(4), of _ 0])

lemma handler_steps:
  "steps_within (register E cfg rb) 11" "steps_within (login E cfg lb) 8"
  "steps_within (refresh E cfg fb) 11" "steps_within (logout E cfg ob) 2"
  "steps_within (auth_user W req) 1" "steps_within (user_handler E c) 3"
proof -
  note verify = repository_steps(8)
  show "steps_within (register E cfg rb) 11"
    unfolding register_def
    by (auto intro!: then_within [OF repository_steps(7), of _ 10]
        then_within [OF repository_steps(1), of _ 7] issue_tokens_steps)
  show "steps_within (login E cfg lb) 8"
    unfolding login_def
    by (auto intro!: then_within [OF repository_steps(2), of _ 7] then_within [of "Ret x" 0 for x]
        issue_tokens_steps split: option.splits)
  show "steps_within (refresh E cfg fb) 11"
    unfolding refresh_def
    by (auto intro!: then_within [OF verify, of _ 10] then_within [OF repository_steps(5), of _ 8]
        then_within [OF repository_steps(3), of _ 7] issue_tokens_steps split: option.splits)
  show "steps_within (logout E cfg ob) 2"
    unfolding logout_def
    by (auto intro!: then_within [OF verify, of _ 1] then_within [OF repository_steps(6), of _ 0])
  show "steps_within (auth_user W req) 1"
    unfolding auth_user_def
    by (auto intro!: then_within [OF verify, of _ 0] split: option.splits)
  show "steps_within (user_handler E c) 3"
    unfolding user_handler_def
    by (auto intro!: then_within [OF repository_steps(11), of _ 0])
qed

text \<open>How many effects a request to each route performs at most.\<close>

fun route_bound :: "app_handler handler \<Rightarrow> nat" where
  "route_bound (HRegister _) = 11"
| "route_bound (HLogin _) = 8"
| "route_bound (HRefresh _) = 11"
| "route_bound (HLogout _) = 2"
| "route_bound HMe = 1"
| "route_bound HHealth = 0"
| "route_bound HNotFound = 0"
| "route_bound (HApp HUser) = 4"

lemma respond_within: "steps_within p n \<Longrightarrow> steps_within (respond ser p) n"
  using steps_within_bind [of p n "\<lambda>r. Ret (result_into_response ser r)" 0]
  by (simp add: respond_def)

lemma serve_call_bounded: "steps_within (serve_call E W c) (route_bound (fst c))"
proof (cases c)
  case (Pair h req)
  have parsed: "steps_within (bind_ok (Ret x) f) n" if "\<And>a. steps_within (f a) n"
    for x :: "servir_error + 'x" and f :: "'x \<Rightarrow> (servir_error + 'b) task" and n
    using then_within [of "Ret x" 0 f n n] that by simp
  show ?thesis
  proof (cases h)
    case (HApp a)
    then show ?thesis
      by (cases a) (auto simp: Pair user_endpoint_def
          intro!: respond_within then_within [OF handler_steps(5) handler_steps(6)])
  next
    case HMe
    then show ?thesis
      by (auto simp: Pair me_endpoint_def
          intro!: respond_within then_within [OF handler_steps(5), of _ 0])
  qed (auto simp: Pair register_endpoint_def login_endpoint_def refresh_endpoint_def
      logout_endpoint_def intro!: respond_within parsed handler_steps)
qed

interpretation bounded_calls: bounded_handlers "serve_call E W" "\<lambda>c. route_bound (fst c)" for E W
  by unfold_locales (rule serve_call_bounded)

section \<open>The replies that the environment can give\<close>

definition possible :: "env \<Rightarrow> effect \<Rightarrow> reply \<Rightarrow> bool" where
  "possible E e r \<longleftrightarrow> (\<exists>w. fst (perform E e w) = r)"

lemma perform_possible: "perform E e w = (r, w') \<Longrightarrow> possible E e r"
  unfolding possible_def by (metis fst_conv)

lemma possible_fits: "possible E e r \<Longrightarrow> reply_fits e r"
  unfolding possible_def by (metis perform_typed prod.collapse)

lemma possible_clock:
  assumes "possible E ReadClock r" and "clock_runs E"
  shows "\<exists>n t. r = RClock (Some t) \<and> clock E n = Some t"
proof -
  obtain n where "r = RClock (clock E n)"
    using assms(1) by (auto simp: possible_def)
  moreover obtain t where "clock E n = Some t"
    using assms(2) by (auto simp: clock_runs_def)
  ultimately show ?thesis by auto
qed

lemma typed_fits:
  "typed fits A R p \<Longrightarrow> (\<And>e r. fits' e r \<Longrightarrow> fits e r) \<Longrightarrow> typed fits' A R p"
  by (induction p) auto

abbreviation panic_free :: "env \<Rightarrow> ('x + 'a) task \<Rightarrow> bool" where
  "panic_free E p \<equiv> typed (possible E) {} (ok_of (\<lambda>_. True)) p"

lemma possible_typed:
  "typed reply_fits {} (ok_of (\<lambda>_. True)) p \<Longrightarrow> panic_free E p"
  by (erule typed_fits) (rule possible_fits)

lemma now_secs_possible:
  assumes "clock_runs E" and "\<And>n t. clock E n = Some t \<Longrightarrow> typed (possible E) A R (k t)"
  shows "typed (possible E) A R (now_secs k)"
  using assms unfolding now_secs_def read_clock_def
  by (auto dest!: possible_clock split: reply.splits option.splits)

lemma gen_possible:
  "(\<And>t. typed (possible E) A R (k t)) \<Longrightarrow> typed (possible E) A R (gen_uuid k)"
  "(\<And>t. typed (possible E) A R (k t)) \<Longrightarrow> typed (possible E) A R (gen_salt k)"
  "(\<And>c. typed (possible E) A R (d c)) \<Longrightarrow> typed (possible E) A R (decode_jwt t s d)"
  unfolding request_defs by (auto dest!: possible_fits split: reply.splits)

lemmas statements_possible = typed_statements [THEN possible_typed]

lemma repository_panic_free:
  "clock_runs E \<Longrightarrow> panic_free E (create_user E u h)"
  "panic_free E (find_user_by_username E u)" "panic_free E (find_user_by_id E i)"
  "clock_runs E \<Longrightarrow> panic_free E (consume_refresh_token E j)"
  "panic_free E (delete_refresh_tokens_for_user E i)"
  "clock_runs E \<Longrightarrow> panic_free E (find_or_create_profile E i n)"
  unfolding create_user_def find_user_by_username_def find_user_by_id_def
    consume_refresh_token_def delete_refresh_tokens_for_user_def find_or_create_profile_def
    read_clock_def
  by (auto intro!: typed_then typed_map_err statements_possible gen_possible
      now_secs_possible dest!: possible_clock split: option.splits reply.splits)

lemma core_panic_free:
  "panic_free E (hash_password E p)" "panic_free E (verify_token t cfg)"
  "clock_runs E \<Longrightarrow> addable E cfg \<Longrightarrow> panic_free E (issue_access_token E i u cfg)"
  "clock_runs E \<Longrightarrow> addable E cfg \<Longrightarrow> panic_free E (issue_refresh_token E i u cfg)"
  "clock_runs E \<Longrightarrow> addable E cfg \<Longrightarrow>
   panic_free E (store_refresh_token E j i u (cfg_refresh_token_ttl_secs cfg))"
  unfolding hash_password_def verify_token_def issue_access_token_def issue_refresh_token_def
    store_refresh_token_def Let_def
  by (auto simp: addable_def intro!: gen_possible now_secs_possible typed_then typed_map_err
      statements_possible split: option.splits)

lemma handlers_panic_free:
  assumes "clock_runs E"
  shows "panic_free E (auth_user W req)" "panic_free E (user_handler E c)"
    "panic_free E (logout E cfg ob)"
    "addable E cfg \<Longrightarrow> panic_free E (register E cfg rb)"
    "addable E cfg \<Longrightarrow> panic_free E (login E cfg lb)"
    "addable E cfg \<Longrightarrow> panic_free E (refresh E cfg fb)"
proof -
  note steps = repository_panic_free(2,3,5) repository_panic_free(1,4,6) [OF assms]
    core_panic_free(1,2)
  show "panic_free E (auth_user W req)" "panic_free E (user_handler E c)"
    "panic_free E (logout E cfg ob)"
    unfolding auth_user_def user_handler_def logout_def
    by (auto intro!: typed_then steps split: option.splits)
  assume "addable E cfg"
  note issue = core_panic_free(3,4,5) [OF assms \<open>addable E cfg\<close>]
  have "panic_free E (issue_tokens E cfg u)" for u
    unfolding issue_tokens_def config_simps
    by (auto intro!: typed_then issue)
  then show "panic_free E (register E cfg rb)" "panic_free E (login E cfg lb)"
    "panic_free E (refresh E cfg fb)"
    unfolding register_def login_def refresh_def
    by (auto intro!: typed_then steps split: option.splits)
qed

lemma respond_panic_free:
  "panic_free E p \<Longrightarrow> typed (possible E) {} (\<lambda>_. True) (respond ser p)"
  unfolding respond_def by (erule typed_bind) simp

text \<open>The panics of a route in an environment.\<close>

definition never_panics :: "env \<Rightarrow> call \<Rightarrow> bool" where
  "never_panics E c \<longleftrightarrow> clock_runs E \<and> (\<forall>cfg \<in> handler_configs (fst c). addable E cfg)"

definition call_panics :: "env \<Rightarrow> call \<Rightarrow> string set" where
  "call_panics E c = (if never_panics E c then {} else server_panics)"

lemma calls_panic_free:
  assumes "never_panics E (h, req)"
  shows "typed (possible E) {} (\<lambda>_. True) (serve_call E W (h, req))"
proof -
  have "clock_runs E"
    using assms by (simp add: never_panics_def)
  note free = handlers_panic_free [OF this]
  show ?thesis
  proof (cases h)
    case (HApp a)
    then show ?thesis
      by (cases a) (auto simp: user_endpoint_def intro!: respond_panic_free typed_then free)
  qed (use assms in \<open>auto simp: never_panics_def register_endpoint_def login_endpoint_def
      refresh_endpoint_def logout_endpoint_def me_endpoint_def
      intro!: respond_panic_free typed_then free\<close>)
qed

lemma serve_call_panics: "typed (possible E) (call_panics E c) (\<lambda>_. True) (serve_call E W c)"
proof (cases "never_panics E c")
  case True
  then show ?thesis
    by (cases c) (simp add: call_panics_def calls_panic_free del: serve_call.simps)
next
  case False
  have "typed (possible E) server_panics (answer_typed (fst c)) (serve_call E W c)"
    by (rule typed_fits [OF serve_call_typed possible_fits])
  then have "typed (possible E) server_panics (\<lambda>_. True) (serve_call E W c)"
    by (rule typed_mono) simp_all
  with False show ?thesis by (simp add: call_panics_def)
qed

interpretation possible_typing: typed_system "perform E" "serve_call E W" "possible E" "call_panics E"
    "\<lambda>_ _. True" for E W
  by unfold_locales (auto intro: serve_call_panics dest: perform_possible)

lemma task_returns:
  assumes "sys_reachable (perform E) (serve_call E W) w0 s" and "i < length (tasks s)"
    and "tasks s ! i = (c, p)" and "p \<noteq> Panic ''dropped''" and "never_panics E c"
  obtains resp where "fst (run (perform E) p (shared s)) = Returned resp"
proof -
  have "(c, p) \<in> set (tasks s)"
    using assms(2,3) by (metis nth_mem)
  then have "typed (possible E) {} (\<lambda>_. True) p"
    using possible_typing.task_typed [OF assms(1) _ assms(4), of c] assms(5)
    by (simp add: call_panics_def)
  then have "case fst (run (perform E) p (shared s)) of Returned a \<Rightarrow> True | Panicked m \<Rightarrow> m \<in> {}"
    by (rule typed_run [rotated]) (rule perform_possible)
  with that show thesis
    by (cases "fst (run (perform E) p (shared s))") simp_all
qed

text \<open>C5: Every request is answered. From every reachable state of the running server, with any
  number of requests in flight, a request whose client has not gone away comes to its answer
  after a bounded number of its own steps, whatever the other tasks have done and without
  waiting for any of them: at most eleven effects to register or refresh, eight to log in, two
  to log out, one to identify the caller and four for the profile, counting those it has
  performed before. The clock has to be past the epoch, and the lifetimes configured for the
  route must not overflow.\<close>

theorem requests_answered:
  assumes "sys_reachable (perform E) (serve_call E W) w0 s" and "i < length (tasks s)"
    and "tasks s ! i = ((h, req), p)" and "p \<noteq> Panic ''dropped''"
    and "clock_runs E" and "\<And>cfg. cfg \<in> handler_configs h \<Longrightarrow> addable E cfg"
  shows "\<exists>n t resp. n + length (task_events i (history s)) \<le> route_bound h \<and>
    sys_moves (perform E) (serve_call E W) (replicate n (Progress i)) s = Some t \<and>
    tasks t ! i = ((h, req), Ret resp)"
proof -
  let ?left = "route_bound h - length (task_events i (history s))"
  have done_before: "length (task_events i (history s)) \<le> route_bound h"
    and "steps_within p ?left"
    using bounded_calls.task_bounded [OF assms(1)] assms(2,3) by fastforce+
  then obtain n t where "n \<le> ?left"
    and "sys_moves (perform E) (serve_call E W) (replicate n (Progress i)) s = Some t"
    and "tasks t ! i = ((h, req), ended_as (fst (run (perform E) p (shared s))))"
    using task_runs_out [of p ?left s i "(h, req)"] assms(2,3) by blast
  moreover have "never_panics E (h, req)"
    using assms(5,6) by (simp add: never_panics_def)
  then obtain resp where "fst (run (perform E) p (shared s)) = Returned resp"
    using task_returns [OF assms(1-4)] by blast
  ultimately show ?thesis
    using done_before
    by (intro exI [of _ n] exI [of _ t] exI [of _ resp]) (simp add: ended_as_def)
qed

text \<open>A refresh that a logout has interrupted after its first effect.\<close>

lemma interrupted_refresh:
  "\<exists>s p. sys_moves (perform demo_env) (serve_call demo_env demo_web)
       [Arrive refresh_call, Progress 0, Arrive logout_call, Progress 1] (sys_init alice_world) =
       Some s \<and>
     length (tasks s) = 2 \<and> tasks s ! 0 = (refresh_call, p) \<and> p \<noteq> Panic ''dropped'' \<and>
     length (task_events 0 (history s)) = 1"
  by (simp add: stepwise)

theorem requests_answered_witness:
  "\<exists>s n t resp. sys_moves (perform demo_env) (serve_call demo_env demo_web)
       [Arrive refresh_call, Progress 0, Arrive logout_call, Progress 1] (sys_init alice_world) =
       Some s \<and>
     n < 11 \<and>
     sys_moves (perform demo_env) (serve_call demo_env demo_web) (replicate n (Progress 0)) s =
       Some t \<and>
     tasks t ! 0 = (refresh_call, Ret resp)"
proof -
  obtain s p where s: "sys_moves (perform demo_env) (serve_call demo_env demo_web)
       [Arrive refresh_call, Progress 0, Arrive logout_call, Progress 1] (sys_init alice_world) =
       Some s" "length (tasks s) = 2" "tasks s ! 0 = (refresh_call, p)" "p \<noteq> Panic ''dropped''"
      "length (task_events 0 (history s)) = 1"
    using interrupted_refresh by blast
  have "sys_reachable (perform demo_env) (serve_call demo_env demo_web) alice_world s"
    using sys_moves_reachable [OF sys_reachable.start s(1)] .
  then have "\<exists>n t resp. n + length (task_events 0 (history s)) \<le> route_bound (HRefresh demo_config) \<and>
    sys_moves (perform demo_env) (serve_call demo_env demo_web) (replicate n (Progress 0)) s = Some t \<and>
    tasks t ! 0 = ((HRefresh demo_config, snd refresh_call), Ret resp)"
    by (rule requests_answered [where p = p])
      (use s demo_conditions(6) demo_addable in \<open>simp_all add: refresh_call_def\<close>)
  then obtain n t resp where "n < 11" "tasks t ! 0 = (refresh_call, Ret resp)"
    "sys_moves (perform demo_env) (serve_call demo_env demo_web) (replicate n (Progress 0)) s = Some t"
    unfolding refresh_call_def by (metis Suc_eq_plus1 Suc_le_lessD route_bound.simps(3) s(5) snd_conv)
  with s(1) show ?thesis by blast
qed

end
