(* ===== verification/Once.thy ===== *)
theory Once
  imports Consumer_Properties
begin

text \<open>
  What happens at most once, and what is agreed on, when requests and server starts interleave:
  the registration of a username, the signing secret, and the profile of an account. In each
  case a kind of event leaves a mark in a database that no effect removes.
\<close>

section \<open>Interfaces: marks that last\<close>

text \<open>
  An event of this kind leaves the state marked, and the mark stays. If the state must be
  unmarked for the event to happen, it happens once.
\<close>

locale lasting =
  fixes perform :: "'e \<Rightarrow> 'w \<Rightarrow> 'r \<times> 'w"
    and fires :: "'e \<times> 'r \<Rightarrow> bool"
    and marked :: "'w \<Rightarrow> bool"
  assumes marks: "perform e w = (r, w') \<Longrightarrow> fires (e, r) \<Longrightarrow> marked w'"
    and stays: "perform e w = (r, w') \<Longrightarrow> marked w \<Longrightarrow> marked w'"
begin

lemma fired_marked:
  assumes "sys_reachable perform handler w0 s" and "(i, ev) \<in> set (history s)" and "fires ev"
  shows "marked (shared s)"
  using assms
proof (induction rule: sys_reachable.induct)
  case start
  then show ?case by (simp add: sys_init_def)
next
  case (progress s k q e c r w')
  then show ?case
    using marks [of e "shared s" r w'] stays [of e "shared s" r w'] by auto
qed auto

end

locale latch = lasting +
  assumes unmarked: "perform e w = (r, w') \<Longrightarrow> fires (e, r) \<Longrightarrow> \<not> marked w"
begin

lemma one_task:
  assumes "sys_reachable perform handler w0 s"
    and "(i, ev) \<in> set (history s)" and "fires ev"
    and "(k, ev') \<in> set (history s)" and "fires ev'"
  shows "i = k"
  using assms
proof (induction rule: sys_reachable.induct)
  case start
  then show ?case by (simp add: sys_init_def)
next
  case (progress s n q e c r w')
  have "(m, x) \<notin> set (history s)" if "fires (e, r)" "fires x" for m x
    using unmarked [OF progress.hyps(4) that(1)] fired_marked [OF progress.hyps(1) _ that(2)]
    by blast
  with progress show ?case by (cases ev; cases ev') auto
qed auto

end

section \<open>Events that a result rests on\<close>

text \<open>A property of the events so far that more events do not undo is kept by every program.\<close>

definition monotone_events :: "(event list \<Rightarrow> bool) \<Rightarrow> bool" where
  "monotone_events P \<longleftrightarrow> (\<forall>es es'. P es \<longrightarrow> set es \<subseteq> set es' \<longrightarrow> P es')"

lemma spec_monotone:
  assumes "monotone_events P"
  shows "path_spec (\<lambda>_. True) P p (\<lambda>_. P)"
  unfolding path_spec_def
proof (intro allI impI)
  fix es
  assume "P es"
  with assms show "every_path (path_post (\<lambda>_. True) (\<lambda>_. P)) p es"
    by (intro every_path_mono [OF events_kept])
      (auto simp: path_post_def monotone_events_def split: option.splits)
qed

lemma spec_any: "path_spec (\<lambda>_. True) P p (\<lambda>_ _. True)"
  unfolding path_spec_def
  by (auto intro!: every_path_mono [OF every_path_True] simp: path_post_def split: option.splits)

text \<open>The success of a step shows in its events, and what follows does not matter.\<close>

lemma spec_shown:
  assumes "path_spec (\<lambda>_. True) P p (\<lambda>r es. \<forall>x. r = Inr x \<longrightarrow> S es)" and "monotone_events S"
  shows "path_spec (\<lambda>_. True) P (bind_ok p f) (\<lambda>r es. \<forall>x. r = Inr x \<longrightarrow> S es)"
proof (rule spec_bind_ok [OF assms(1)])
  fix x
  show "path_spec (\<lambda>_. True) (\<lambda>es. \<forall>y. Inr x = Inr y \<longrightarrow> S es) (f x) (\<lambda>r es. \<forall>x. r = Inr x \<longrightarrow> S es)"
    by (rule spec_weaken [OF spec_monotone [OF assms(2)]]) auto
qed simp

text \<open>An answer with status 200 is a success of the handler.\<close>

lemma spec_answered:
  assumes "path_spec (\<lambda>_. True) P p (\<lambda>r es. \<forall>x. r = Inr x \<longrightarrow> S x es)"
  shows "path_spec (\<lambda>_. True) P (respond ser p)
    (\<lambda>resp es. rs_status resp = 200 \<longrightarrow> (\<exists>x. resp = api_into_response ser x \<and> S x es))"
  unfolding respond_def
proof (rule spec_bind [OF assms])
  fix r :: "servir_error + 'a api_response"
  show "path_spec (\<lambda>_. True) (\<lambda>es. \<forall>x. r = Inr x \<longrightarrow> S x es) (Ret (result_into_response ser r))
      (\<lambda>resp es. rs_status resp = 200 \<longrightarrow> (\<exists>x. resp = api_into_response ser x \<and> S x es))"
    by (rule spec_Ret) (cases r; auto simp: result_into_response_def servir_info.status_not_ok)
qed

section \<open>Registering\<close>

fun registers :: "string \<Rightarrow> event \<Rightarrow> bool" where
  "registers u (AuthSql (InsertUser i u' h t), RSql (Inr x)) = (u' = u)"
| "registers u _ = False"

definition has_user :: "string \<Rightarrow> world \<Rightarrow> bool" where
  "has_user u w \<longleftrightarrow> u \<in> ur_username ` set (users (auth w))"

lemma perform_auth_users:
  assumes "perform E e w = (r, w')"
  shows "set (users (auth w)) \<subseteq> set (users (auth w'))"
  using perform_auth_db [OF assms]
  by (auto simp: migrate_auth_db_def dest!: exec_auth_users)

lemma perform_registers:
  assumes "perform E e w = (r, w')" and "registers u (e, r)"
  shows "has_user u w' \<and> \<not> has_user u w"
proof -
  obtain i h t x where e: "e = AuthSql (InsertUser i u h t)" and r: "r = RSql (Inr x)"
    using assms(2) by (cases "(u, e, r)" rule: registers.cases) auto
  with assms(1) show ?thesis
    by (cases "fault E (tick w)") (auto simp: perform_auth_def has_user_def split: if_splits)
qed

interpretation username: latch "perform E" "registers u" "has_user u" for E u
proof unfold_locales
  fix e w r w'
  assume step: "perform E e w = (r, w')"
  show "has_user u w'" if "has_user u w"
    using that perform_auth_users [OF step] by (auto simp: has_user_def)
  show "has_user u w'" "\<not> has_user u w" if "registers u (e, r)"
    using perform_registers [OF step that] by blast+
qed

definition registered_by :: "string \<Rightarrow> event list \<Rightarrow> bool" where
  "registered_by u es \<longleftrightarrow> (\<exists>ev \<in> set es. registers u ev)"

lemma registered_monotone: "monotone_events (registered_by u)"
  by (auto simp: monotone_events_def registered_by_def)

lemma create_user_registers:
  "path_spec (\<lambda>_. True) (\<lambda>_. True) (create_user E u h)
     (\<lambda>r es. \<forall>x. r = Inr x \<longrightarrow> registered_by u es)"
  unfolding create_user_def now_secs_def request_defs path_spec_def registered_by_def
  by (auto simp: map_err_def bind_ok_def
      split: reply.splits option.splits sum.splits sql_result.splits)

lemma register_registers:
  "path_spec (\<lambda>_. True) (\<lambda>_. True) (register E cfg body)
     (\<lambda>r es. \<forall>x. r = Inr x \<longrightarrow> registered_by (reg_username body) es)"
proof -
  have "path_spec (\<lambda>_. True) (\<lambda>_. True)
      (bind_ok (hash_password E (reg_password body)) (\<lambda>hash.
         bind_ok (create_user E (reg_username body) hash) (\<lambda>user. issue_tokens E cfg user)))
      (\<lambda>r es. \<forall>x. r = Inr x \<longrightarrow> registered_by (reg_username body) es)"
    by (rule spec_bind_ok [OF spec_any], rule spec_weaken
        [OF spec_shown [OF create_user_registers registered_monotone]]) simp_all
  then show ?thesis
    by (auto simp: register_def intro: spec_Ret)
qed

text \<open>What an answer with status 200 rests on, for the requests to register.\<close>

fun register_answer :: "web \<Rightarrow> call \<Rightarrow> response \<Rightarrow> event list \<Rightarrow> bool" where
  "register_answer W (HRegister cfg, req) resp es =
     (\<forall>body. json_register W req = Inr body \<longrightarrow> rs_status resp = 200 \<longrightarrow>
        registered_by (reg_username body) es)"
| "register_answer W q resp es = True"

lemma register_endpoint_registers:
  assumes "json_register W req = Inr body"
  shows "path_spec (\<lambda>_. True) (\<lambda>_. True) (register_endpoint E W cfg req)
    (\<lambda>resp es. rs_status resp = 200 \<longrightarrow> registered_by (reg_username body) es)"
proof -
  have "path_spec (\<lambda>_. True) (\<lambda>_. True)
      (bind_ok (Ret (app_json (json_register W) req)) (register E cfg))
      (\<lambda>r es. \<forall>x. r = Inr x \<longrightarrow> registered_by (reg_username body) es)"
    using assms register_registers by (simp add: app_json_def)
  from spec_answered [OF this] show ?thesis
    unfolding register_endpoint_def by (rule spec_weaken) auto
qed

lemma calls_register_answer:
  "path_spec (\<lambda>_. True) (\<lambda>_. True) (serve_call E W q) (register_answer W q)"
proof (cases "\<exists>cfg req body. q = (HRegister cfg, req) \<and> json_register W req = Inr body")
  case True
  then obtain cfg req body where q: "q = (HRegister cfg, req)"
    and body: "json_register W req = Inr body" by blast
  show ?thesis
    unfolding q serve_call.simps run_handler.simps
    by (rule spec_weaken [OF register_endpoint_registers [OF body]]) (simp_all add: body)
next
  case False
  then have "register_answer W q resp es" for resp es
    by (cases "(W, q, resp, es)" rule: register_answer.cases) auto
  then show ?thesis
    by (intro spec_weaken [OF spec_any]) auto
qed

interpretation register_answers: handler_property "serve_call E W"
    "\<lambda>q. path_post (\<lambda>_. True) (register_answer W q)" for E W
  by unfold_locales (use calls_register_answer in \<open>simp add: path_spec_def\<close>)

lemma task_registered:
  assumes "sys_reachable (perform E) (serve_call E W) w0 s" and "i < length (tasks s)"
    and "tasks s ! i = ((HRegister cfg, req), Ret resp)" and "json_register W req = Inr body"
    and "rs_status resp = 200"
  obtains ev where "(i, ev) \<in> set (history s)" and "registers (reg_username body) ev"
  using register_answers.task_done [OF assms(1-3)] assms(4,5)
  by (auto simp: registered_by_def task_events_set)

text \<open>C18: A username is registered once. However many requests are in flight and however their
  effects interleave, no two requests to register the same username are both answered with
  200: nothing is assumed of the environment.\<close>

theorem username_registered_once:
  assumes "sys_reachable (perform E) (serve_call E W) w0 s"
    and "i < length (tasks s)" and "k < length (tasks s)" and "i \<noteq> k"
    and "tasks s ! i = ((HRegister cfg, req), Ret resp)"
    and "tasks s ! k = ((HRegister cfg', req'), Ret resp')"
    and "json_register W req = Inr body" and "json_register W req' = Inr body'"
    and "reg_username body = reg_username body'"
  shows "\<not> (rs_status resp = 200 \<and> rs_status resp' = 200)"
proof
  assume both: "rs_status resp = 200 \<and> rs_status resp' = 200"
  obtain ev where "(i, ev) \<in> set (history s)" "registers (reg_username body) ev"
    using task_registered [OF assms(1,2,5,7)] both by blast
  moreover obtain ev' where "(k, ev') \<in> set (history s)" "registers (reg_username body) ev'"
    using task_registered [OF assms(1,3,6,8)] both assms(9) by metis
  ultimately have "i = k"
    using username.one_task [OF assms(1)] by blast
  with assms(4) show False ..
qed

text \<open>Two registrations of bob, the second overtaking the first until the username is stored.\<close>

definition bob_call :: call where
  "bob_call = (HRegister demo_config, demo_request [])"

lemma bob_call_program:
  "serve_call demo_env demo_web bob_call = respond token_json
     (register demo_env demo_config \<lparr>reg_username = ''bob'', reg_password = ''hunter22''\<rparr>)"
  by (simp add: bob_call_def register_endpoint_def app_json_def demo_web_def)

lemma bob_twice:
  "\<exists>s resp resp'. sys_moves (perform demo_env) (serve_call demo_env demo_web)
       [Arrive bob_call, Arrive bob_call, Progress 0, Progress 1, Progress 1, Progress 1,
        Progress 0, Progress 0, Progress 1, Progress 0, Progress 1, Progress 1, Progress 1,
        Progress 1, Progress 1, Progress 1, Progress 1]
       (sys_init alice_world) = Some s \<and>
     tasks s = [(bob_call, Ret resp), (bob_call, Ret resp')] \<and>
     rs_status resp = 409 \<and> rs_status resp' = 200"
  by (simp add: stepwise bob_call_program register_def hash_password_def create_user_def
      create_user_error_def user_already_exists_def demo_uuid_not_alice result_into_response_def
      api_into_response_def api_ok_def error_simps)

theorem username_registered_once_witness:
  "\<exists>s resp resp'. sys_reachable (perform demo_env) (serve_call demo_env demo_web) alice_world s \<and>
     tasks s = [(bob_call, Ret resp), (bob_call, Ret resp')] \<and>
     rs_status resp \<noteq> 200 \<and> rs_status resp' = 200"
proof -
  obtain ms s resp resp' where
    s: "sys_moves (perform demo_env) (serve_call demo_env demo_web) ms (sys_init alice_world) = Some s"
      "tasks s = [(bob_call, Ret resp), (bob_call, Ret resp')]" "rs_status resp' = 200"
    using bob_twice by blast
  have reach: "sys_reachable (perform demo_env) (serve_call demo_env demo_web) alice_world s"
    using sys_moves_reachable [OF sys_reachable.start s(1)] .
  have "\<not> (rs_status resp = 200 \<and> rs_status resp' = 200)"
    by (rule username_registered_once [OF reach, of 0 1 demo_config "demo_request []" _ demo_config
          "demo_request []" _ "\<lparr>reg_username = ''bob'', reg_password = ''hunter22''\<rparr>"
          "\<lparr>reg_username = ''bob'', reg_password = ''hunter22''\<rparr>"])
      (auto simp: s bob_call_def demo_web_def)
  with reach s show ?thesis by blast
qed

section \<open>The signing secret\<close>

text \<open>
  Servers that are built while others are being built and while requests are served, on one
  database: a job is either.
\<close>

datatype job = Build "app_handler server_builder" | Serve call

datatype job_result = Built "servir_error + app_handler servir" | Answered response

fun run_job :: "env \<Rightarrow> web \<Rightarrow> job \<Rightarrow> job_result task" where
  "run_job E W (Build b) = bind_prog (build E b) (\<lambda>r. Ret (Built r))"
| "run_job E W (Serve q) = bind_prog (serve_call E W q) (\<lambda>resp. Ret (Answered resp))"

text \<open>The two ways a server learns the secret: it reads it, or it has stored the one it drew.\<close>

fun secret_in :: "auth_stmt \<Rightarrow> sql_result \<Rightarrow> string option" where
  "secret_in SelectSigningSecret (TextScalar v) = v"
| "secret_in (InsertSigningSecret v) r = Some v"
| "secret_in st r = None"

fun learns :: "string \<Rightarrow> event \<Rightarrow> bool" where
  "learns v (AuthSql st, RSql (Inr x)) = (secret_in st x = Some v)"
| "learns v ev = False"

lemma perform_learns:
  assumes "perform E e w = (r, w')" and "learns v (e, r)"
  shows "secret_is v w'"
proof -
  obtain st x where e: "e = AuthSql st" and r: "r = RSql (Inr x)" and v: "secret_in st x = Some v"
    using assms(2) by (cases "(v, e, r)" rule: learns.cases) auto
  with assms(1) show ?thesis
    by (cases "(st, x)" rule: secret_in.cases; cases "fault E (tick w)")
      (auto simp: perform_auth_def secret_is_def find_snoc find_None_iff_notin [THEN iffD2]
        split: if_splits option.splits)
qed

interpretation secret_learnt: lasting "perform E" "learns v" "secret_is v" for E v
  by unfold_locales (blast intro: perform_learns secret_step)+

definition learnt :: "string \<Rightarrow> event list \<Rightarrow> bool" where
  "learnt v es \<longleftrightarrow> (\<exists>ev \<in> set es. learns v ev)"

lemma load_learns:
  "path_spec (\<lambda>_. True) (\<lambda>_. True) (load_or_generate_secret E) (\<lambda>r es. \<forall>v. r = Inr v \<longrightarrow> learnt v es)"
  unfolding load_or_generate_secret_def request_defs path_spec_def learnt_def
  by (auto simp: map_err_def bind_ok_def Let_def
      split: reply.splits option.splits sum.splits sql_result.splits)

lemma learnt_monotone: "monotone_events (learnt v)"
  by (auto simp: monotone_events_def learnt_def)

text \<open>What a built server rests on.\<close>

definition built_with :: "'c server_builder \<Rightarrow> string \<Rightarrow> 'c servir \<Rightarrow> bool" where
  "built_with b v sv \<longleftrightarrow> (\<exists>api a. sb_routes b = Some api \<and> sb_addr b = Some a \<and>
     sv = servir_new (build_router api (configured b v)) a)"

definition build_answer :: "'c server_builder \<Rightarrow> servir_error + 'c servir \<Rightarrow> event list \<Rightarrow> bool" where
  "build_answer b r es \<longleftrightarrow> (\<forall>sv. r = Inr sv \<longrightarrow> (\<exists>v. built_with b v sv \<and> learnt v es))"

lemma build_learns: "path_spec (\<lambda>_. True) (\<lambda>_. True) (build E b) (build_answer b)"
proof (cases "sb_routes b")
  case None
  then show ?thesis
    unfolding build_def by (auto intro: spec_bind [OF spec_any] spec_Panic)
next
  case api: (Some api)
  have last: "path_spec (\<lambda>_. True) (\<lambda>es. \<forall>v. Inr x = (Inr v :: servir_error + string) \<longrightarrow> learnt v es)
      (case sb_addr b of
         None \<Rightarrow> Panic addr_message
       | Some a \<Rightarrow> ok (servir_new (build_router api (build_config b x)) a)) (build_answer b)" for x
    by (cases "sb_addr b")
      (auto intro!: spec_Panic spec_Ret simp: build_answer_def built_with_def api build_config_configured)
  show ?thesis
    unfolding build_def api Let_def
    by (auto intro!: spec_bind [OF spec_any] spec_bind_ok [OF spec_any]
        spec_bind_ok [OF load_learns] spec_Panic last simp: build_answer_def split: option.split)
qed

fun job_answer :: "job \<Rightarrow> job_result \<Rightarrow> event list \<Rightarrow> bool" where
  "job_answer (Build b) (Built r) es = build_answer b r es"
| "job_answer j r es = True"

lemma jobs_answer: "path_spec (\<lambda>_. True) (\<lambda>_. True) (run_job E W j) (job_answer j)"
proof (cases j)
  case (Build b)
  then show ?thesis
    by (auto intro!: spec_bind [OF build_learns] spec_Ret)
qed (auto intro!: spec_bind [OF spec_any] spec_Ret)

interpretation job_answers: handler_property "run_job E W"
    "\<lambda>j. path_post (\<lambda>_. True) (job_answer j)" for E W
  by unfold_locales (use jobs_answer in \<open>simp add: path_spec_def\<close>)

lemma server_secret:
  assumes "sys_reachable (perform E) (run_job E W) w0 s" and "i < length (tasks s)"
    and "tasks s ! i = (Build b, Ret (Built (Inr sv)))"
  obtains v where "built_with b v sv" and "secret_is v (shared s)"
proof -
  obtain v where v: "built_with b v sv" "learnt v (task_events i (history s))"
    using job_answers.task_done [OF assms] by (auto simp: build_answer_def)
  then obtain ev where "(i, ev) \<in> set (history s)" "learns v ev"
    by (auto simp: learnt_def task_events_set)
  with v(1) that secret_learnt.fired_marked [OF assms(1)] show thesis by blast
qed

lemma built_config:
  assumes "built_with b v sv"
  obtains api cfg a where "sv = servir_new (build_router api cfg) a" and "cfg_secret cfg = v"
    and "sb_routes b = Some api" and "sb_addr b = Some a"
  using assms by (auto simp: built_with_def configured_def)

text \<open>C19: All servers on one database sign and verify with one secret. However many servers are
  being built and requests served at once, however their effects interleave and whichever of
  them are dropped, the configurations in the routers of any two servers that have been built hold
  the same secret, and it is the stored one. In particular a restart keeps the secret.\<close>

theorem one_signing_secret:
  assumes "sys_reachable (perform E) (run_job E W) w0 s"
    and "i < length (tasks s)" and "tasks s ! i = (Build b, Ret (Built (Inr sv)))"
    and "k < length (tasks s)" and "tasks s ! k = (Build b', Ret (Built (Inr sv')))"
  shows "\<exists>v api cfg a api' cfg' a'. secret_is v (shared s) \<and>
    sv = servir_new (build_router api cfg) a \<and> cfg_secret cfg = v \<and>
    sb_routes b = Some api \<and> sb_addr b = Some a \<and>
    sv' = servir_new (build_router api' cfg') a' \<and> cfg_secret cfg' = v \<and>
    sb_routes b' = Some api' \<and> sb_addr b' = Some a'"
proof -
  obtain v where v: "built_with b v sv" "secret_is v (shared s)"
    using server_secret [OF assms(1-3)] by blast
  obtain v' where v': "built_with b' v' sv'" "secret_is v' (shared s)"
    using server_secret [OF assms(1,4,5)] by blast
  from secret_unique [OF v(2) v'(2)] v' have v'': "built_with b' v sv'" by simp
  show ?thesis
    by (rule built_config [OF v(1)], rule built_config [OF v'']) (use v(2) in blast)
qed

text \<open>A server is built on an empty database, a user registers, and the server is built again.\<close>

lemma job_runs:
  assumes "run (perform E) (run_job E W j) (shared s) = (Returned a, w')"
    and "sys_reachable (perform E) (run_job E W) w0 s"
  obtains t where "sys_reachable (perform E) (run_job E W) w0 t"
    and "tasks t = tasks s @ [(j, Ret a)]" and "shared t = w'"
  using sys_moves_run [of "perform E" "run_job E W" j s a w'] assms
    sys_moves_reachable [OF assms(2)] by blast

theorem one_signing_secret_witness:
  "\<exists>s sv resp sv' v cfg cfg' a a'.
     sys_reachable (perform demo_env) (run_job demo_env demo_web) empty_world s \<and>
     tasks s = [(Build demo_builder, Ret (Built (Inr sv))), (Serve bob_call, Ret resp),
       (Build demo_builder, Ret (Built (Inr sv')))] \<and>
     secret_is v (shared s) \<and> sv = servir_new (build_router app_routes cfg) a \<and> cfg_secret cfg = v \<and>
     sv' = servir_new (build_router app_routes cfg') a' \<and> cfg_secret cfg' = v"
proof -
  let ?p = "perform demo_env" and ?h = "run_job demo_env demo_web"
  have build: "\<exists>sv w'. run ?p (?h (Build demo_builder)) w = (Returned (Built (Inr sv)), w')" for w
    using demo_build [of w] by (auto simp: run_bind_prog)
  have "calm demo_env (serve_call demo_env demo_web bob_call)"
    using calm_run_handler [OF demo_conditions(6), of "HRegister demo_config"]
    by (simp add: bob_call_def demo_addable)
  then have serve: "\<exists>resp w'. run ?p (?h (Serve bob_call)) w = (Returned resp, w')" for w
    using calm_returns [of demo_env "serve_call demo_env demo_web bob_call" w]
    by (auto simp: run_bind_prog)
  obtain sv s1 where s1: "sys_reachable ?p ?h empty_world s1"
      "tasks s1 = [(Build demo_builder, Ret (Built (Inr sv)))]"
    using build job_runs [OF _ sys_reachable.start]
    by (metis append_Nil sys_init_def system.select_convs(1))
  obtain resp s2 where s2: "sys_reachable ?p ?h empty_world s2"
      "tasks s2 = tasks s1 @ [(Serve bob_call, Ret resp)]"
    using serve job_runs [OF _ s1(1)] by metis
  obtain sv' s3 where s3: "sys_reachable ?p ?h empty_world s3"
      "tasks s3 = tasks s2 @ [(Build demo_builder, Ret (Built (Inr sv')))]"
    using build job_runs [OF _ s2(1)] by metis
  obtain v cfg cfg' a a' where "secret_is v (shared s3)" "cfg_secret cfg = v" "cfg_secret cfg' = v"
      "sv = servir_new (build_router app_routes cfg) a" "sv' = servir_new (build_router app_routes cfg') a'"
    using one_signing_secret [OF s3(1), of 0 demo_builder sv 2 demo_builder sv']
    by (auto simp: s1 s2 s3 demo_builder_simps)
  with s1 s2 s3 show ?thesis
    by (intro exI [of _ s3] exI [of _ sv] exI [of _ resp] exI [of _ sv'] exI [of _ v]
        exI [of _ cfg] exI [of _ cfg'] exI [of _ a] exI [of _ a']) simp
qed

section \<open>Profiles\<close>

fun profile_in :: "data_stmt \<Rightarrow> sql_result \<Rightarrow> (string \<times> string) option" where
  "profile_in (SelectProfile i) (ProfileRow row) = map_option (\<lambda>(i', u, t). (i', u)) row"
| "profile_in (InsertProfile i u t) r = Some (i, u)"
| "profile_in st r = None"

fun sees_profile :: "string \<Rightarrow> string \<Rightarrow> event \<Rightarrow> bool" where
  "sees_profile i u (DataSql st, RSql (Inr x)) = (profile_in st x = Some (i, u))"
| "sees_profile i u ev = False"

definition username_of_profile :: "string \<Rightarrow> string \<Rightarrow> world \<Rightarrow> bool" where
  "username_of_profile i u w \<longleftrightarrow>
     map_option pr_username (List.find (\<lambda>r. pr_id r = i) (profiles (data w))) = Some u"

lemma find_own_key:
  "List.find (\<lambda>r. f r = k) rs = Some r \<Longrightarrow> List.find (\<lambda>x. f x = f r) rs = Some r"
  using find_key [of f k rs r] by auto

lemma perform_sees_profile:
  assumes "perform E e w = (r, w')" and "sees_profile i u (e, r)"
  shows "username_of_profile i u w'"
proof -
  obtain st x where e: "e = DataSql st" and r: "r = RSql (Inr x)" and v: "profile_in st x = Some (i, u)"
    using assms(2) by (cases "(i, u, e, r)" rule: sees_profile.cases) auto
  with assms(1) show ?thesis
    by (cases "(st, x)" rule: profile_in.cases; cases "fault E (tick w)")
      (auto simp: perform_data_def username_of_profile_def find_snoc find_None_iff_notin [THEN iffD2]
        dest: find_own_key split: if_splits option.splits)
qed

lemma username_of_profile_step:
  "username_of_profile i u w \<Longrightarrow> perform E e w = (r, w') \<Longrightarrow> username_of_profile i u w'"
  using perform_data_db [of E e w r w']
  by (auto simp: username_of_profile_def find_append split: option.splits)

interpretation profile_seen: lasting "perform E" "sees_profile i u" "username_of_profile i u" for E i u
  by unfold_locales (blast intro: perform_sees_profile username_of_profile_step)+

definition saw_profile :: "string \<Rightarrow> string \<Rightarrow> event list \<Rightarrow> bool" where
  "saw_profile i u es \<longleftrightarrow> (\<exists>ev \<in> set es. sees_profile i u ev)"

lemma find_or_create_sees:
  "path_spec (\<lambda>_. True) (\<lambda>_. True) (find_or_create_profile E i u)
     (\<lambda>r es. \<forall>p. r = Inr p \<longrightarrow> saw_profile (prof_id p) (prof_username p) es)"
  unfolding find_or_create_profile_def request_defs path_spec_def saw_profile_def
  by (auto simp: map_err_def bind_ok_def
      split: reply.splits option.splits sum.splits sql_result.splits)

fun user_answer :: "call \<Rightarrow> response \<Rightarrow> event list \<Rightarrow> bool" where
  "user_answer (HApp HUser, req) resp es =
     (rs_status resp = 200 \<longrightarrow> (\<exists>r. resp = api_into_response user_json (ApiOk r) \<and>
        saw_profile (ures_id r) (ures_username r) es))"
| "user_answer q resp es = True"

lemma user_endpoint_sees:
  "path_spec (\<lambda>_. True) (\<lambda>_. True) (user_endpoint E W req) (user_answer (HApp HUser, req))"
proof -
  define seen :: "user_response api_response \<Rightarrow> event list \<Rightarrow> bool" where
    "seen x es \<longleftrightarrow> (\<exists>r. x = ApiOk r \<and> saw_profile (ures_id r) (ures_username r) es)" for x es
  have "path_spec (\<lambda>_. True) (\<lambda>_. True) (user_handler E c) (\<lambda>r es. \<forall>x. r = Inr x \<longrightarrow> seen x es)" for c
    unfolding user_handler_def
    by (rule spec_bind_ok [OF find_or_create_sees]) (auto intro!: spec_Ret simp: seen_def api_ok_def)
  then have "path_spec (\<lambda>_. True) (\<lambda>_. True) (bind_ok (auth_user W req) (user_handler E))
      (\<lambda>r es. \<forall>x. r = Inr x \<longrightarrow> seen x es)"
    by (auto intro: spec_bind_ok [OF spec_any])
  from spec_answered [OF this] show ?thesis
    unfolding user_endpoint_def by (rule spec_weaken) (auto simp: seen_def)
qed

lemma calls_user_answer: "path_spec (\<lambda>_. True) (\<lambda>_. True) (serve_call E W q) (user_answer q)"
proof (cases "\<exists>req. q = (HApp HUser, req)")
  case True
  then show ?thesis
    by (auto intro: user_endpoint_sees)
next
  case False
  then have "user_answer q resp es" for resp es
    by (cases "(q, resp, es)" rule: user_answer.cases) auto
  then show ?thesis
    by (intro spec_weaken [OF spec_any]) auto
qed

interpretation user_answers: handler_property "serve_call E W"
    "\<lambda>q. path_post (\<lambda>_. True) (user_answer q)" for E W
  by unfold_locales (use calls_user_answer in \<open>simp add: path_spec_def\<close>)

lemma user_json_inj: "user_json r = user_json r' \<longleftrightarrow> r = r'"
  by (cases r; cases r') (simp add: user_json_def)

lemma user_task:
  assumes "sys_reachable (perform E) (serve_call E W) w0 s" and "i < length (tasks s)"
    and "tasks s ! i = ((HApp HUser, req), Ret (api_into_response user_json (ApiOk r)))"
  shows "username_of_profile (ures_id r) (ures_username r) (shared s)"
proof -
  have "saw_profile (ures_id r) (ures_username r) (task_events i (history s))"
    using user_answers.task_done [OF assms] by (auto simp: api_into_response_def user_json_inj)
  then obtain ev where "(i, ev) \<in> set (history s)" "sees_profile (ures_id r) (ures_username r) ev"
    by (auto simp: saw_profile_def task_events_set)
  then show ?thesis
    by (rule profile_seen.fired_marked [OF assms(1)])
qed

text \<open>C33: The answers of the user route agree. However many requests are in flight and however
  their effects interleave, first accesses included, two answers about the same account show
  the same username, and it is the one in the stored profile.\<close>

theorem profiles_agree:
  assumes "sys_reachable (perform E) (serve_call E W) w0 s"
    and "i < length (tasks s)"
    and "tasks s ! i = ((HApp HUser, req), Ret (api_into_response user_json (ApiOk r)))"
    and "k < length (tasks s)"
    and "tasks s ! k = ((HApp HUser, req'), Ret (api_into_response user_json (ApiOk r')))"
    and "ures_id r = ures_id r'"
  shows "r = r' \<and> username_of_profile (ures_id r) (ures_username r) (shared s)"
  using user_task [OF assms(1-3)] user_task [OF assms(1,4,5)] assms(6)
  by (auto simp: username_of_profile_def)

lemma user_twice:
  "\<exists>s r r'. sys_moves (perform demo_env) (serve_call demo_env demo_web)
       [Arrive user_call, Progress 0, Progress 0, Arrive user_call, Progress 0, Progress 0,
        Progress 1, Progress 1]
       (sys_init alice_world) = Some s \<and>
     tasks s = [(user_call, Ret (api_into_response user_json (ApiOk r))),
       (user_call, Ret (api_into_response user_json (ApiOk r')))] \<and>
     ures_id r = ''A1'' \<and> ures_id r' = ''A1''"
  by (simp add: stepwise user_call_program user_handler_def find_or_create_profile_def
      perform_data_def result_into_response_def api_into_response_def api_ok_def user_json_inj)

theorem profiles_agree_witness:
  "\<exists>s r. sys_reachable (perform demo_env) (serve_call demo_env demo_web) alice_world s \<and>
     tasks s = [(user_call, Ret (api_into_response user_json (ApiOk r))),
       (user_call, Ret (api_into_response user_json (ApiOk r)))]"
proof -
  obtain ms s r r' where
    s: "sys_moves (perform demo_env) (serve_call demo_env demo_web) ms (sys_init alice_world) = Some s"
      "tasks s = [(user_call, Ret (api_into_response user_json (ApiOk r))),
         (user_call, Ret (api_into_response user_json (ApiOk r')))]"
      "ures_id r = ''A1''" "ures_id r' = ''A1''"
    using user_twice by blast
  have reach: "sys_reachable (perform demo_env) (serve_call demo_env demo_web) alice_world s"
    using sys_moves_reachable [OF sys_reachable.start s(1)] .
  have "r = r' \<and> username_of_profile (ures_id r) (ures_username r) (shared s)"
    by (rule profiles_agree [OF reach, of 0 _ r 1 _ r']) (simp_all add: s user_call_def)
  with reach s show ?thesis by blast
qed

end
