(* ===== verification/Provenance.thy ===== *)
theory Provenance
  imports Once
begin

text \<open>
  Where identities come from. Clients may do everything but forge a signature: a token that a
  client presents and the server accepts occurs in an answer the server has given before. Then
  whoever is answered as the owner of an account holds a token that goes back, through any
  number of refreshes, to a registration or a login with the password of that account.
\<close>

section \<open>Statements that show a user\<close>

fun user_shown :: "auth_stmt \<Rightarrow> sql_result \<Rightarrow> user option" where
  "user_shown (InsertUser i u h t) r = Some \<lparr>usr_id = i, usr_username = u, usr_password_hash = h\<rparr>"
| "user_shown (SelectUserByUsername u) (UserRow x) = x"
| "user_shown (SelectUserById i) (UserRow x) = x"
| "user_shown st r = None"

fun shows_user :: "auth_stmt \<Rightarrow> user \<Rightarrow> event \<Rightarrow> bool" where
  "shows_user st usr (AuthSql st', RSql (Inr x)) = (st' = st \<and> user_shown st x = Some usr)"
| "shows_user st usr ev = False"

text \<open>The user that a statement shows is the one it asks for.\<close>

fun asked_for :: "auth_stmt \<Rightarrow> user \<Rightarrow> bool" where
  "asked_for (InsertUser i u h t) usr = (usr = \<lparr>usr_id = i, usr_username = u, usr_password_hash = h\<rparr>)"
| "asked_for (SelectUserByUsername u) usr = (usr_username usr = u)"
| "asked_for (SelectUserById i) usr = (usr_id usr = i)"
| "asked_for st usr = False"

definition is_user :: "user \<Rightarrow> world \<Rightarrow> bool" where
  "is_user usr w \<longleftrightarrow> usr \<in> user_of_row ` set (users (auth w))"

lemma is_user_step: "is_user usr w \<Longrightarrow> perform E e w = (r, w') \<Longrightarrow> is_user usr w'"
  using perform_auth_users [of E e w r w'] by (auto simp: is_user_def)

lemma perform_shows_user:
  assumes "perform E e w = (r, w')" and "shows_user st usr (e, r)"
  shows "is_user usr w' \<and> asked_for st usr"
proof -
  obtain x where e: "e = AuthSql st" and r: "r = RSql (Inr x)" and v: "user_shown st x = Some usr"
    using assms(2) by (cases "(st, usr, e, r)" rule: shows_user.cases) auto
  with assms(1) show ?thesis
    by (cases "(st, x)" rule: user_shown.cases; cases "fault E (tick w)")
      (auto simp: perform_auth_def is_user_def user_of_row_def image_iff dest!: find_key
        split: if_splits)
qed

interpretation account_shown: lasting "perform E" "shows_user st usr"
    "\<lambda>w. is_user usr w \<and> asked_for st usr" for E st usr
  by unfold_locales (auto dest: perform_shows_user intro: is_user_step)

definition shown_by :: "auth_stmt \<Rightarrow> user \<Rightarrow> event list \<Rightarrow> bool" where
  "shown_by st usr es \<longleftrightarrow> (\<exists>ev \<in> set es. shows_user st usr ev)"

lemma shown_monotone: "monotone_events (shown_by st usr)"
  by (auto simp: monotone_events_def shown_by_def)

section \<open>The tokens of an answer\<close>

definition encodes :: "env \<Rightarrow> string \<Rightarrow> user \<Rightarrow> string \<Rightarrow> bool" where
  "encodes E sec usr t \<longleftrightarrow>
     (\<exists>c. jwt_encode E sec c = Inr t \<and> cl_sub c = usr_id usr \<and> cl_username c = usr_username usr)"

definition token_pair :: "env \<Rightarrow> string \<Rightarrow> user \<Rightarrow> token_response \<Rightarrow> bool" where
  "token_pair E sec usr tk \<longleftrightarrow>
     encodes E sec usr (tk_access_token tk) \<and> encodes E sec usr (tk_refresh_token tk)"

lemma issued_encode:
  "path_spec (\<lambda>_. True) P (issue_access_token E (usr_id usr) (usr_username usr) cfg)
     (\<lambda>r es. \<forall>t. r = Inr t \<longrightarrow> encodes E (cfg_secret cfg) usr t)"
  "path_spec (\<lambda>_. True) P (issue_refresh_token E (usr_id usr) (usr_username usr) cfg)
     (\<lambda>r es. \<forall>t. r = Inr t \<longrightarrow> encodes E (cfg_secret cfg) usr (fst t))"
  unfolding issue_access_token_def issue_refresh_token_def now_secs_def request_defs path_spec_def
    encodes_def
  by (fastforce simp: Let_def split: reply.splits option.splits dest!: map_sum_InrD)+

text \<open>A fact about the result alone, and events that have happened.\<close>

lemma spec_both:
  assumes "path_spec (\<lambda>_. True) P p R" and "path_spec (\<lambda>_. True) P p S"
  shows "path_spec (\<lambda>_. True) P p (\<lambda>r es. R r es \<and> S r es)"
  unfolding path_spec_def
proof (intro allI impI)
  fix es
  assume "P es"
  with assms have "every_path (\<lambda>es a. path_post (\<lambda>_. True) R es a \<and> path_post (\<lambda>_. True) S es a) p es"
    by (simp add: path_spec_def every_path_conj)
  then show "every_path (path_post (\<lambda>_. True) (\<lambda>r es. R r es \<and> S r es)) p es"
    by (rule every_path_mono) (auto simp: path_post_def split: option.splits)
qed

lemma spec_frame:
  assumes "path_spec (\<lambda>_. True) (\<lambda>_. True) p (\<lambda>r _. R r)" and "monotone_events P"
  shows "path_spec (\<lambda>_. True) P p (\<lambda>r es. R r \<and> P es)"
  by (rule spec_both [OF spec_weaken [OF assms(1)] spec_monotone [OF assms(2)]]) simp_all

text \<open>\<open>issue_tokens\<close> answers with two tokens for the user it is given.\<close>

lemma issue_tokens_pair:
  "path_spec (\<lambda>_. True) (\<lambda>_. True) (issue_tokens E cfg usr)
     (\<lambda>r es. \<forall>x. r = Inr x \<longrightarrow> (\<exists>tk. x = ApiOk tk \<and> token_pair E (cfg_secret cfg) usr tk))"
  unfolding issue_tokens_def
proof (rule spec_bind_ok [OF issued_encode(1)])
  fix a
  let ?enc = "encodes E (cfg_secret cfg) usr"
  let ?R = "\<lambda>r (es :: event list). \<forall>x. r = Inr x \<longrightarrow> (\<exists>tk. x = ApiOk tk \<and> token_pair E (cfg_secret cfg) usr tk)"
  have last: "path_spec (\<lambda>_. True) (\<lambda>es. ?enc (fst rj))
      (case rj of (refresh_token, jti) \<Rightarrow>
        bind_ok (store_refresh_token E jti (usr_id usr) (usr_username usr)
          (config_refresh_token_ttl_secs cfg)) (\<lambda>_.
        ok (api_ok \<lparr>tk_access_token = a, tk_refresh_token = refresh_token,
                    tk_token_type = ''Bearer''\<rparr>))) ?R" if "?enc a" for rj
  proof -
    obtain t j where rj: "rj = (t, j)" by (cases rj)
    have kept: "path_spec (\<lambda>_. True) (\<lambda>_. ?enc t) p (\<lambda>_ _. ?enc t)" for p :: "(servir_error + unit) task"
      by (rule spec_monotone) (simp add: monotone_events_def)
    show ?thesis
      unfolding rj prod.case fst_conv
      by (rule spec_bind_ok [OF kept]) (use that in \<open>auto intro!: spec_Ret simp: token_pair_def api_ok_def\<close>)
  qed
  show "path_spec (\<lambda>_. True) (\<lambda>es. \<forall>t. (Inr a :: servir_error + _) = Inr t \<longrightarrow> ?enc t)
      (bind_ok (issue_refresh_token E (usr_id usr) (usr_username usr) cfg) (\<lambda>(refresh_token, jti).
        bind_ok (store_refresh_token E jti (usr_id usr) (usr_username usr)
          (config_refresh_token_ttl_secs cfg)) (\<lambda>_.
        ok (api_ok \<lparr>tk_access_token = a, tk_refresh_token = refresh_token,
                    tk_token_type = ''Bearer''\<rparr>)))) ?R"
  proof (cases "?enc a")
    case True
    show ?thesis
      by (rule spec_bind_ok [OF issued_encode(2)]) (use last [OF True] in \<open>auto elim: spec_weaken\<close>)
  qed (simp add: path_spec_def)
qed simp

text \<open>\<open>yields P p Q\<close>: where \<open>p\<close> succeeds with \<open>x\<close>, the events satisfy \<open>Q x\<close>.\<close>

abbreviation yields ::
  "(event list \<Rightarrow> bool) \<Rightarrow> ('x + 'a) task \<Rightarrow> ('a \<Rightarrow> event list \<Rightarrow> bool) \<Rightarrow> bool" where
  "yields P p Q \<equiv> path_spec (\<lambda>_. True) P p (\<lambda>r es. \<forall>x. r = Inr x \<longrightarrow> Q x es)"

lemma yields_bind: "yields P p Q \<Longrightarrow> (\<And>x. yields (Q x) (f x) S) \<Longrightarrow> yields P (bind_ok p f) S"
  by (erule spec_bind_ok) (auto elim: spec_weaken)

lemma yields_err: "yields P (err e) Q"
  by (rule spec_Ret) simp

lemma yields_ok: "(\<And>es. P es \<Longrightarrow> Q x es) \<Longrightarrow> yields P (ok x) Q"
  by (rule spec_Ret) simp

lemma yields_pure: "(A \<Longrightarrow> yields P p Q) \<Longrightarrow> yields (\<lambda>es. A \<and> P es) p Q"
  by (auto simp: path_spec_def)

lemma yields_ex: "(\<And>y. yields (P y) p Q) \<Longrightarrow> yields (\<lambda>es. \<exists>y. P y es) p Q"
  by (auto simp: path_spec_def)

section \<open>What the three handlers rest on\<close>

text \<open>
  Tokens for a user, a statement that has shown the user, and what the handler knows besides.
\<close>

type_synonym basis = "auth_stmt \<Rightarrow> user \<Rightarrow> event list \<Rightarrow> bool"

definition grants ::
  "env \<Rightarrow> string \<Rightarrow> basis \<Rightarrow> token_response api_response \<Rightarrow> event list \<Rightarrow> bool" where
  "grants E sec B x es \<longleftrightarrow> (\<exists>st usr tk. shown_by st usr es \<and> B st usr es \<and> x = ApiOk tk \<and>
     token_pair E sec usr tk)"

lemma grants_mono:
  "grants E sec B x es \<Longrightarrow> (\<And>st usr es. B st usr es \<Longrightarrow> B' st usr es) \<Longrightarrow> grants E sec B' x es"
  unfolding grants_def by blast

lemma issue_grants:
  assumes "monotone_events (B st usr)"
  shows "yields (\<lambda>es. shown_by st usr es \<and> B st usr es) (issue_tokens E cfg usr)
    (grants E (cfg_secret cfg) B)"
proof -
  have "monotone_events (\<lambda>es. shown_by st usr es \<and> B st usr es)"
    using shown_monotone [of st usr] assms by (auto simp: monotone_events_def)
  from spec_frame [OF issue_tokens_pair this] show ?thesis
    by (rule spec_weaken) (unfold grants_def, blast+)
qed

definition register_basis :: "env \<Rightarrow> register_request \<Rightarrow> basis" where
  "register_basis E body st usr es \<longleftrightarrow> (\<exists>i h t salt'.
     st = InsertUser i (reg_username body) h t \<and> argon2_hash E salt' (reg_password body) = Inr h)"

definition login_basis :: "env \<Rightarrow> login_request \<Rightarrow> basis" where
  "login_basis E body st usr es \<longleftrightarrow>
     st = SelectUserByUsername (log_username body) \<and>
     argon2_verify E (log_password body) (usr_password_hash usr)"

definition refresh_basis :: "string \<Rightarrow> refresh_request \<Rightarrow> basis" where
  "refresh_basis sec body st usr es \<longleftrightarrow> (\<exists>c. st = SelectUserById (cl_sub c) \<and>
     (JwtDecode (ref_refresh_token body) sec, RDecoded (Inr c)) \<in> set es)"

lemma bases_monotone:
  "monotone_events (register_basis E rr st usr)" "monotone_events (login_basis E lr st usr)"
  "monotone_events (refresh_basis sec fr st usr)"
  by (auto simp: monotone_events_def register_basis_def login_basis_def refresh_basis_def)

lemma hash_yields:
  "yields (\<lambda>_. True) (hash_password E pw) (\<lambda>h es. (\<exists>salt'. argon2_hash E salt' pw = Inr h) \<and> True)"
  unfolding hash_password_def request_defs path_spec_def
  by (auto split: reply.splits dest!: map_sum_InrD)

lemma create_user_yields:
  "yields (\<lambda>_. True) (create_user E u h) (\<lambda>usr es. \<exists>i t. shown_by (InsertUser i u h t) usr es)"
  unfolding create_user_def now_secs_def request_defs path_spec_def shown_by_def
  by (auto simp: map_err_def bind_ok_def
      split: reply.splits option.splits sum.splits sql_result.splits)

lemma find_user_yields:
  "yields P (find_user_by_username E u)
     (\<lambda>x es. \<forall>usr. x = Some usr \<longrightarrow> shown_by (SelectUserByUsername u) usr es)"
  "yields P (find_user_by_id E i)
     (\<lambda>x es. \<forall>usr. x = Some usr \<longrightarrow> shown_by (SelectUserById i) usr es)"
  unfolding find_user_by_username_def find_user_by_id_def request_defs path_spec_def shown_by_def
  by (auto simp: map_err_def split: reply.splits sum.splits sql_result.splits)

lemma register_grants:
  "yields (\<lambda>_. True) (register E cfg body) (grants E (cfg_secret cfg) (register_basis E body))"
proof -
  have "yields (\<lambda>_. True) (bind_ok (hash_password E (reg_password body)) (\<lambda>h.
      bind_ok (create_user E (reg_username body) h) (issue_tokens E cfg)))
      (grants E (cfg_secret cfg) (register_basis E body))"
  proof (rule yields_bind [OF hash_yields], rule yields_pure,
      rule yields_bind [OF create_user_yields], intro yields_ex)
    fix h usr i t
    assume "\<exists>salt'. argon2_hash E salt' (reg_password body) = Inr h"
    then show "yields (shown_by (InsertUser i (reg_username body) h t) usr)
        (issue_tokens E cfg usr) (grants E (cfg_secret cfg) (register_basis E body))"
      by (auto intro!: spec_weaken [OF issue_grants [OF bases_monotone(1)]]
          simp: register_basis_def)
  qed
  then show ?thesis
    by (auto simp: register_def intro: yields_err)
qed

lemma login_grants:
  "yields (\<lambda>_. True) (login E cfg body) (grants E (cfg_secret cfg) (login_basis E body))"
  unfolding login_def
proof (rule yields_bind [OF find_user_yields(1)])
  fix found
  let ?G = "grants E (cfg_secret cfg) (login_basis E body)"
  have "yields (shown_by (SelectUserByUsername (log_username body)) usr)
      (bind_ok (Ret (verify_password E (log_password body) (usr_password_hash usr))) (\<lambda>matches.
         if \<not> matches then err (user_invalid_credentials (log_username body))
         else issue_tokens E cfg usr)) ?G" for usr
    by (auto simp: verify_password_def login_basis_def split: option.split
        intro!: yields_err spec_weaken [OF issue_grants [OF bases_monotone(2)]])
  then show "yields (\<lambda>es. \<forall>usr. found = Some usr \<longrightarrow>
      shown_by (SelectUserByUsername (log_username body)) usr es)
      (case found of None \<Rightarrow> err (user_invalid_credentials (log_username body))
       | Some user \<Rightarrow> bind_ok (Ret (verify_password E (log_password body) (usr_password_hash user)))
           (\<lambda>matches. if \<not> matches then err (user_invalid_credentials (log_username body))
             else issue_tokens E cfg user)) ?G"
    by (cases found) (auto intro: yields_err)
qed

lemma yields_kept:
  assumes "yields P p Q" and "monotone_events P"
  shows "yields P p (\<lambda>x es. Q x es \<and> P es)"
  by (rule spec_weaken [OF spec_both [OF assms(1) spec_monotone [OF assms(2)]]]) auto

lemma refresh_grants:
  "yields (\<lambda>_. True) (refresh E cfg body)
     (grants E (cfg_secret cfg) (refresh_basis (cfg_secret cfg) body))"
  unfolding refresh_def claims_accessors
proof (rule yields_bind [OF verify_decodes])
  fix c
  let ?G = "grants E (cfg_secret cfg) (refresh_basis (cfg_secret cfg) body)"
  let ?P = "\<lambda>es. (JwtDecode (ref_refresh_token body) (cfg_secret cfg), RDecoded (Inr c)) \<in> set es"
  have mono: "monotone_events ?P"
    by (auto simp: monotone_events_def)
  have issue: "yields (\<lambda>es. shown_by (SelectUserById (cl_sub c)) usr es \<and> ?P es)
      (issue_tokens E cfg usr) ?G" for usr
    by (rule spec_weaken [OF issue_grants [where B = "refresh_basis (cfg_secret cfg) body",
            OF bases_monotone(3)]]) (auto simp: refresh_basis_def)
  have found: "yields ?P (bind_ok (find_user_by_id E (cl_sub c)) (\<lambda>found.
      case found of None \<Rightarrow> err (token_user_not_found (cl_sub c))
      | Some user \<Rightarrow> issue_tokens E cfg user)) ?G"
  proof (rule yields_bind [OF yields_kept [OF find_user_yields(2) mono]])
    fix found
    show "yields (\<lambda>es. (\<forall>usr. found = Some usr \<longrightarrow> shown_by (SelectUserById (cl_sub c)) usr es) \<and> ?P es)
        (case found of None \<Rightarrow> err (token_user_not_found (cl_sub c))
         | Some user \<Rightarrow> issue_tokens E cfg user) ?G"
      using issue by (cases found) (auto intro: yields_err)
  qed
  have consumed: "yields ?P (consume_refresh_token E (cl_jti c)) (\<lambda>_. ?P)"
    by (rule spec_weaken [OF spec_monotone [OF mono]]) auto
  have "yields ?P (if \<not> valid then err token_invalid_refresh_token
      else bind_ok (find_user_by_id E (cl_sub c)) (\<lambda>found.
        case found of None \<Rightarrow> err (token_user_not_found (cl_sub c))
        | Some user \<Rightarrow> issue_tokens E cfg user)) ?G" for valid
    using found by (auto intro: yields_err)
  from yields_bind [OF consumed this]
  show "yields ?P (if cl_kind c \<noteq> Refresh then err token_wrong_kind
      else bind_ok (consume_refresh_token E (cl_jti c)) (\<lambda>valid.
        if \<not> valid then err token_invalid_refresh_token
        else bind_ok (find_user_by_id E (cl_sub c)) (\<lambda>found.
          case found of None \<Rightarrow> err (token_user_not_found (cl_sub c))
          | Some user \<Rightarrow> issue_tokens E cfg user))) ?G"
    by (auto intro: yields_err)
qed

text \<open>The answer that hands out two tokens.\<close>

abbreviation token_answer :: "token_response \<Rightarrow> response" where
  "token_answer tk \<equiv> api_into_response token_json (ApiOk tk)"

lemma token_json_inj: "token_json tk = token_json tk' \<longleftrightarrow> tk = tk'"
  by (cases tk; cases tk') (simp add: token_json_def)

lemma token_answer_status: "rs_status (token_answer tk) = 200"
  by (simp add: api_into_response_def)

fun grant_basis :: "env \<Rightarrow> web \<Rightarrow> string \<Rightarrow> call \<Rightarrow> basis" where
  "grant_basis E W sec (HRegister cfg, req) st usr es =
     (\<exists>body. json_register W req = Inr body \<and> register_basis E body st usr es)"
| "grant_basis E W sec (HLogin cfg, req) st usr es =
     (\<exists>body. json_login W req = Inr body \<and> login_basis E body st usr es)"
| "grant_basis E W sec (HRefresh cfg, req) st usr es =
     (\<exists>body. json_refresh W req = Inr body \<and> refresh_basis sec body st usr es)"
| "grant_basis E W sec q st usr es = False"

text \<open>The configuration that a request is served with: its route's, or that of its extensions.\<close>

fun call_config :: "call \<Rightarrow> auth_config option" where
  "call_config (HRegister cfg, req) = Some cfg"
| "call_config (HLogin cfg, req) = Some cfg"
| "call_config (HRefresh cfg, req) = Some cfg"
| "call_config (HLogout cfg, req) = Some cfg"
| "call_config (h, req) = rq_extension req"

definition grant_answer :: "env \<Rightarrow> web \<Rightarrow> call \<Rightarrow> response \<Rightarrow> event list \<Rightarrow> bool" where
  "grant_answer E W q resp es \<longleftrightarrow> (\<forall>tk. resp = token_answer tk \<longrightarrow>
     (\<exists>cfg. call_config q = Some cfg \<and>
        grants E (cfg_secret cfg) (grant_basis E W (cfg_secret cfg) q) (ApiOk tk) es))"

lemma respond_grants:
  assumes "yields (\<lambda>_. True) p (grants E (cfg_secret cfg) B)" and "call_config q = Some cfg"
    and "\<And>st usr es. B st usr es \<Longrightarrow> grant_basis E W (cfg_secret cfg) q st usr es"
  shows "path_spec (\<lambda>_. True) (\<lambda>_. True) (respond token_json p) (grant_answer E W q)"
proof (rule spec_weaken [OF spec_answered [OF assms(1)]])
  fix resp es
  assume r: "rs_status resp = 200 \<longrightarrow>
    (\<exists>x. resp = api_into_response token_json x \<and> grants E (cfg_secret cfg) B x es)"
  show "grant_answer E W q resp es"
    unfolding grant_answer_def
  proof (intro allI impI)
    fix tk
    assume "resp = token_answer tk"
    with r obtain tk' where "token_answer tk = token_answer tk'"
      "grants E (cfg_secret cfg) B (ApiOk tk') es"
      by (auto simp: token_answer_status grants_def)
    then have "grants E (cfg_secret cfg) B (ApiOk tk) es"
      by (simp add: api_into_response_def token_json_inj)
    then have "grants E (cfg_secret cfg) (grant_basis E W (cfg_secret cfg) q) (ApiOk tk) es"
      by (rule grants_mono) (rule assms(3))
    with assms(2) show "\<exists>cfg. call_config q = Some cfg \<and>
        grants E (cfg_secret cfg) (grant_basis E W (cfg_secret cfg) q) (ApiOk tk) es"
      by blast
  qed
qed simp

lemma respond_no_grant:
  assumes "\<And>d tk. ser d \<noteq> token_json tk"
  shows "path_spec (\<lambda>_. True) (\<lambda>_. True) (respond ser p) (grant_answer E W q)"
  unfolding respond_def
proof (rule spec_bind [OF spec_any])
  fix r
  have "result_into_response ser r \<noteq> token_answer tk" for tk
    using assms servir_info.status_not_ok
    by (cases r) (auto simp: result_into_response_def api_into_response_def token_answer_status
        dest: arg_cong [where f = rs_status] split: api_response.splits)
  then show "path_spec (\<lambda>_. True) (\<lambda>_. True) (Ret (result_into_response ser r)) (grant_answer E W q)"
    by (auto intro!: spec_Ret simp: grant_answer_def)
qed

lemma token_json_names:
  "unit_json u \<noteq> token_json tk" "me_json m \<noteq> token_json tk" "user_json r \<noteq> token_json tk"
  "health_json h \<noteq> token_json tk"
  by (simp_all add: unit_json_def me_json_def user_json_def token_json_def health_json_def)

lemma extracted_grants:
  assumes "\<And>body. from_request req = Inr body \<Longrightarrow> yields (\<lambda>_. True) (f body) (grants E sec (B body))"
  shows "yields (\<lambda>_. True) (bind_ok (Ret (app_json from_request req)) f)
    (grants E sec (\<lambda>st usr es. \<exists>body. from_request req = Inr body \<and> B body st usr es))"
proof (cases "from_request req")
  case (Inr body)
  with spec_weaken [OF assms [OF Inr]] show ?thesis
    by (auto simp: app_json_def elim: grants_mono)
qed (simp add: app_json_def path_spec_def)

lemma calls_grant: "path_spec (\<lambda>_. True) (\<lambda>_. True) (serve_call E W q) (grant_answer E W q)"
proof (cases q)
  case (Pair h req)
  show ?thesis
  proof (cases h)
    case (HRegister cfg)
    show ?thesis
      unfolding Pair HRegister serve_call.simps run_handler.simps register_endpoint_def
      by (rule respond_grants [OF extracted_grants [OF register_grants]]) simp_all
  next
    case (HLogin cfg)
    show ?thesis
      unfolding Pair HLogin serve_call.simps run_handler.simps login_endpoint_def
      by (rule respond_grants [OF extracted_grants [OF login_grants]]) simp_all
  next
    case (HRefresh cfg)
    show ?thesis
      unfolding Pair HRefresh serve_call.simps run_handler.simps refresh_endpoint_def
      by (rule respond_grants [OF extracted_grants [OF refresh_grants]]) simp_all
  next
    case (HApp a)
    then show ?thesis
      by (cases a) (simp add: Pair user_endpoint_def respond_no_grant token_json_names)
  next
    case HHealth
    then show ?thesis
      by (auto simp: Pair grant_answer_def health_def api_into_response_def api_ok_def
          token_json_names intro!: spec_Ret)
  next
    case HNotFound
    then show ?thesis
      by (auto simp: Pair grant_answer_def not_found_def api_into_response_def api_error_def
          intro!: spec_Ret)
  qed (simp_all add: Pair logout_endpoint_def me_endpoint_def respond_no_grant token_json_names)
qed

interpretation grant_answers: handler_property "serve_call E W"
    "\<lambda>q. path_post (\<lambda>_. True) (grant_answer E W q)" for E W
  by unfold_locales (use calls_grant in \<open>simp add: path_spec_def\<close>)

text \<open>A task that has handed out two tokens, in the running server.\<close>

type_synonym server_state = "(call, response, effect, reply, world) system"

lemma token_task:
  fixes s :: server_state
  assumes "sys_reachable (perform E) (serve_call E W) w0 s"
    and "(q, Ret (token_answer tk)) \<in> set (tasks s)"
  obtains k cfg st usr where "call_config q = Some cfg"
    and "grant_basis E W (cfg_secret cfg) q st usr (task_events k (history s))"
    and "token_pair E (cfg_secret cfg) usr tk" and "is_user usr (shared s)" and "asked_for st usr"
proof -
  obtain k where k: "k < length (tasks s)" "tasks s ! k = (q, Ret (token_answer tk))"
    using assms(2) by (auto simp: in_set_conv_nth)
  obtain cfg st usr where "call_config q = Some cfg"
    and "grant_basis E W (cfg_secret cfg) q st usr (task_events k (history s))"
    and "token_pair E (cfg_secret cfg) usr tk" and shown: "shown_by st usr (task_events k (history s))"
    using grant_answers.task_done [OF assms(1) k] by (auto simp: grant_answer_def grants_def)
  moreover have "is_user usr (shared s) \<and> asked_for st usr"
    using account_shown.fired_marked [OF assms(1)] shown by (auto simp: shown_by_def task_events_set)
  ultimately show thesis
    using that by blast
qed

section \<open>What an answer about an account rests on\<close>

text \<open>The extractor has decoded the bearer token of the request.\<close>

definition identified :: "web \<Rightarrow> request \<Rightarrow> claims \<Rightarrow> event list \<Rightarrow> bool" where
  "identified W req c es \<longleftrightarrow> (\<exists>cfg t. rq_extension req = Some cfg \<and> bearer_token W req = Some t \<and>
     (JwtDecode t (cfg_secret cfg), RDecoded (Inr c)) \<in> set es)"

lemma identified_monotone: "monotone_events (identified W req c)"
  by (auto simp: monotone_events_def identified_def)

lemma auth_user_yields: "yields (\<lambda>_. True) (auth_user W req) (identified W req)"
proof (cases "rq_extension req"; cases "bearer_token W req")
  fix cfg t
  assume req: "rq_extension req = Some cfg" "bearer_token W req = Some t"
  have "yields (\<lambda>_. True) (bind_ok (verify_token t cfg)
      (\<lambda>c. if claims_kind c \<noteq> Access then err token_wrong_kind else ok c)) (identified W req)"
    by (rule yields_bind [OF verify_decodes])
      (auto intro!: yields_err yields_ok simp: identified_def req)
  with req show ?thesis
    by (simp add: auth_user_def)
qed (auto simp: auth_user_def intro: yields_err)

text \<open>The profile found for an account, as the database has replied, or a new one.\<close>

fun profile_shown :: "string \<Rightarrow> string \<Rightarrow> event \<Rightarrow> bool" where
  "profile_shown i i' (DataSql (SelectProfile j), RSql (Inr (ProfileRow (Some (k, u, t))))) =
     (j = i \<and> k = i')"
| "profile_shown i i' ev = False"

definition profile_basis :: "string \<Rightarrow> string \<Rightarrow> event list \<Rightarrow> bool" where
  "profile_basis i i' es \<longleftrightarrow> i' = i \<or> (\<exists>ev \<in> set es. profile_shown i i' ev)"

lemma profile_yields:
  "yields P (find_or_create_profile E i u) (\<lambda>p. profile_basis i (prof_id p))"
  unfolding find_or_create_profile_def request_defs path_spec_def profile_basis_def
  by (auto simp: map_err_def bind_ok_def
      split: reply.splits option.splits sum.splits sql_result.splits)

lemma perform_profile_shown:
  assumes "fst (perform E e w) = r" and "profile_shown i i' (e, r)"
  shows "i' = i"
proof -
  obtain u t where "e = DataSql (SelectProfile i)"
    "r = RSql (Inr (ProfileRow (Some (i', u, t))))"
    using assms(2) by (cases "(i, i', e, r)" rule: profile_shown.cases) auto
  with assms(1) show ?thesis
    by (auto simp: perform_data_def dest!: find_key split: option.splits if_splits)
qed

fun identity_answer :: "web \<Rightarrow> call \<Rightarrow> response \<Rightarrow> event list \<Rightarrow> bool" where
  "identity_answer W (HMe, req) resp es =
     (rs_status resp = 200 \<longrightarrow> (\<exists>c. identified W req c es \<and>
        resp = api_into_response me_json (me c)))"
| "identity_answer W (HApp HUser, req) resp es =
     (rs_status resp = 200 \<longrightarrow> (\<exists>c r. identified W req c es \<and>
        profile_basis (cl_sub c) (ures_id r) es \<and> resp = api_into_response user_json (ApiOk r)))"
| "identity_answer W q resp es = True"

lemma me_identity:
  "path_spec (\<lambda>_. True) (\<lambda>_. True) (me_endpoint W req) (identity_answer W (HMe, req))"
proof -
  have "yields (\<lambda>_. True) (bind_ok (auth_user W req) (\<lambda>c. ok (me c)))
      (\<lambda>x es. \<exists>c. identified W req c es \<and> x = me c)"
    by (rule yields_bind [OF auth_user_yields]) (auto intro: yields_ok)
  from spec_answered [OF this] show ?thesis
    unfolding me_endpoint_def by (rule spec_weaken) auto
qed

lemma user_identity:
  "path_spec (\<lambda>_. True) (\<lambda>_. True) (user_endpoint E W req) (identity_answer W (HApp HUser, req))"
proof -
  have "yields (identified W req c) (user_handler E c) (\<lambda>x es. \<exists>c r. identified W req c es \<and>
      profile_basis (cl_sub c) (ures_id r) es \<and> x = ApiOk r)" for c
    unfolding user_handler_def claims_accessors
    by (rule yields_bind [OF yields_kept [OF profile_yields identified_monotone]])
      (auto intro!: yields_ok simp: api_ok_def)
  from spec_answered [OF yields_bind [OF auth_user_yields this]] show ?thesis
    unfolding user_endpoint_def by (rule spec_weaken) auto
qed

lemma calls_identity:
  "path_spec (\<lambda>_. True) (\<lambda>_. True) (serve_call E W q) (identity_answer W q)"
proof (cases "\<exists>req. q = (HMe, req) \<or> q = (HApp HUser, req)")
  case True
  then show ?thesis
    by (auto intro: me_identity user_identity)
next
  case False
  then have "identity_answer W q resp es" for resp es
    by (cases "(W, q, resp, es)" rule: identity_answer.cases) auto
  then show ?thesis
    by (intro spec_weaken [OF spec_any]) auto
qed

interpretation identity_answers: handler_property "serve_call E W"
    "\<lambda>q. path_post (\<lambda>_. True) (identity_answer W q)" for E W
  by unfold_locales (use calls_identity in \<open>simp add: path_spec_def\<close>)

section \<open>Clients that cannot forge\<close>

text \<open>The tokens that the answers so far have handed out.\<close>

definition given :: "server_state \<Rightarrow> string set" where
  "given s = {t. \<exists>q tk. (q, Ret (token_answer tk)) \<in> set (tasks s) \<and>
     (t = tk_access_token tk \<or> t = tk_refresh_token tk)}"

text \<open>The token by which the sender of a request claims to be somebody.\<close>

fun claimed_token :: "web \<Rightarrow> call \<Rightarrow> string option" where
  "claimed_token W (HRefresh cfg, req) =
     (case json_refresh W req of Inl m \<Rightarrow> None | Inr body \<Rightarrow> Some (ref_refresh_token body))"
| "claimed_token W (HMe, req) = bearer_token W req"
| "claimed_token W (HApp HUser, req) = bearer_token W req"
| "claimed_token W q = None"

text \<open>
  A request may arrive if it is served under the server's secret and, should the secret verify
  the token that it presents, the token has been handed out.
\<close>

definition admissible :: "env \<Rightarrow> web \<Rightarrow> string \<Rightarrow> server_state \<Rightarrow> call \<Rightarrow> bool" where
  "admissible E W sec s q \<longleftrightarrow>
     (\<forall>cfg. call_config q = Some cfg \<longrightarrow> cfg_secret cfg = sec) \<and>
     (\<forall>t n c. claimed_token W q = Some t \<longrightarrow> jwt_decode E n sec t = Inr c \<longrightarrow> t \<in> given s)"

inductive honest :: "env \<Rightarrow> web \<Rightarrow> string \<Rightarrow> world \<Rightarrow> server_state \<Rightarrow> bool" for E W sec w0 where
  start: "honest E W sec w0 (sys_init w0)"
| move: "honest E W sec w0 t" if "honest E W sec w0 s"
    and "sys_move (perform E) (serve_call E W) m s = Some t"
    and "\<forall>q. m = Arrive q \<longrightarrow> admissible E W sec s q"

lemma honest_reachable: "honest E W sec w0 s \<Longrightarrow> sys_reachable (perform E) (serve_call E W) w0 s"
  by (induction rule: honest.induct) (auto intro: sys_reachable.start sys_move_reachable)

section \<open>One move\<close>

lemma move_tasks:
  assumes "sys_move pf h m s = Some t"
  obtains (arrival) q where "m = Arrive q" and "tasks t = tasks s @ [(q, h q)]"
  | (step) i q e k p where "i < length (tasks s)" and "tasks s ! i = (q, Do e k)"
      and "tasks t = (tasks s)[i := (q, p)]"
  using assms
  by (auto simp: sys_move_def split: move.splits if_splits prod.splits prog.splits)

lemma answer_kept:
  assumes "sys_move pf h m s = Some t" and "(q, Ret a) \<in> set (tasks s)"
  shows "(q, Ret a) \<in> set (tasks t)"
  using assms(1)
proof (cases rule: move_tasks)
  case (step i q' e k p)
  obtain j where j: "j < length (tasks s)" "tasks s ! j = (q, Ret a)"
    using assms(2) by (auto simp: in_set_conv_nth)
  with step show ?thesis
    by (auto simp: in_set_conv_nth nth_list_update intro!: exI [of _ j])
qed (use assms(2) in simp)

lemma call_before:
  assumes "sys_move pf h m s = Some t" and "q \<in> fst ` set (tasks t)"
  shows "q \<in> fst ` set (tasks s) \<or> m = Arrive q"
  using assms(1)
proof (cases rule: move_tasks)
  case (step i q' e k p)
  then have "(q', Do e k) \<in> set (tasks s)"
    by (metis nth_mem)
  with assms(2) step(3) set_update_subset_insert [of "tasks s" i "(q', p)"] show ?thesis
    by force
qed (use assms(2) in auto)

lemma move_users:
  "sys_move (perform E) h m s = Some t \<Longrightarrow>
   set (users (auth (shared s))) \<subseteq> set (users (auth (shared t)))"
  using sys_move_cases [of E h m s t] perform_auth_users by fastforce

lemma given_kept: "sys_move pf h m s = Some t \<Longrightarrow> x \<in> given s \<Longrightarrow> x \<in> given t"
  unfolding given_def by (blast dest: answer_kept)

lemma admissible_kept:
  "sys_move pf h m s = Some t \<Longrightarrow> admissible E W sec s q \<Longrightarrow> admissible E W sec t q"
  unfolding admissible_def by (blast dest: given_kept)

lemma honest_calls:
  assumes "honest E W sec w0 s" and "q \<in> fst ` set (tasks s)"
  shows "admissible E W sec s q"
  using assms
proof (induction rule: honest.induct)
  case (move s m t)
  then have "admissible E W sec s q"
    using call_before [OF move.hyps(2) move.prems] by blast
  with move.hyps(2) show ?case
    by (rule admissible_kept)
qed (simp add: sys_init_def)

section \<open>Passwords\<close>

fun credentials :: "web \<Rightarrow> call \<Rightarrow> (string \<times> string) option" where
  "credentials W (HRegister cfg, req) = (case json_register W req of
     Inl m \<Rightarrow> None | Inr body \<Rightarrow> Some (reg_username body, reg_password body))"
| "credentials W (HLogin cfg, req) = (case json_login W req of
     Inl m \<Rightarrow> None | Inr body \<Rightarrow> Some (log_username body, log_password body))"
| "credentials W q = None"

text \<open>Some request to register or log in has given the password of the account and got 200.\<close>

definition password_given :: "env \<Rightarrow> web \<Rightarrow> server_state \<Rightarrow> user_row \<Rightarrow> bool" where
  "password_given E W s row \<longleftrightarrow> (\<exists>q resp pw. (q, Ret resp) \<in> set (tasks s) \<and>
     rs_status resp = 200 \<and> credentials W q = Some (ur_username row, pw) \<and>
     argon2_verify E pw (ur_password_hash row))"

lemma password_kept:
  "sys_move pf h m s = Some t \<Longrightarrow> password_given E W s row \<Longrightarrow> password_given E W t row"
  unfolding password_given_def by (blast dest: answer_kept)

definition vouched :: "env \<Rightarrow> web \<Rightarrow> string \<Rightarrow> server_state \<Rightarrow> string \<Rightarrow> bool" where
  "vouched E W sec s t \<longleftrightarrow> (\<exists>row \<in> set (users (auth (shared s))).
     encodes E sec (user_of_row row) t \<and> password_given E W s row)"

lemma vouched_kept:
  "sys_move (perform E) h m s = Some t \<Longrightarrow> vouched E W sec s x \<Longrightarrow> vouched E W sec t x"
  unfolding vouched_def by (blast dest: move_users password_kept)

section \<open>Identities go back to passwords\<close>

lemma user_of_row_simps [simp]:
  "usr_id (user_of_row r) = ur_id r" "usr_username (user_of_row r) = ur_username r"
  "usr_password_hash (user_of_row r) = ur_password_hash r"
  by (simp_all add: user_of_row_def)

lemma decoded_reply:
  assumes "sys_reachable (perform E) handler w0 s"
    and "(JwtDecode t sec, RDecoded (Inr c)) \<in> set (task_events k (history s))"
  obtains n where "jwt_decode E n sec t = Inr c"
  using history_reply [OF assms(1)] assms(2) by (fastforce simp: task_events_set)

text \<open>A token that is vouched for decodes to the claims of an account whose password was given.\<close>

lemma vouched_claims:
  assumes "vouched E W sec s t" and "jwt_roundtrip E" and "clock_runs E"
    and "jwt_decode E n sec t = Inr c"
  obtains row where "row \<in> set (users (auth (shared s)))" and "cl_sub c = ur_id row"
    and "cl_username c = ur_username row" and "password_given E W s row"
proof -
  obtain row c' where row: "row \<in> set (users (auth (shared s)))" "password_given E W s row"
    and c': "jwt_encode E sec c' = Inr t" "cl_sub c' = ur_id row" "cl_username c' = ur_username row"
    using assms(1) by (auto simp: vouched_def encodes_def)
  obtain now where "clock E n = Some now"
    using assms(3) by (auto simp: clock_runs_def)
  with assms(2,4) c'(1) have "c = c'"
    by (auto simp: jwt_roundtrip_def split: if_splits)
  with c' show thesis
    by (intro that [OF row(1) _ _ row(2)]) simp_all
qed

lemma answer_password:
  assumes "hash_roundtrip E" and "(q, Ret (token_answer tk)) \<in> set (tasks s)"
    and "grant_basis E W sec q st (user_of_row row) es" and "asked_for st (user_of_row row)"
  shows "password_given E W s row \<or>
    (\<exists>cfg req body. q = (HRefresh cfg, req) \<and> json_refresh W req = Inr body \<and>
       refresh_basis sec body st (user_of_row row) es)"
  using assms
proof (cases "(E, W, sec, q, st, user_of_row row, es)" rule: grant_basis.cases)
  case (1 E' W' sec' cfg req st' usr es')
  with assms obtain body where "json_register W req = Inr body" and q: "q = (HRegister cfg, req)"
    and basis: "register_basis E body st (user_of_row row) es" by auto
  then have "credentials W q = Some (reg_username body, reg_password body)" by simp
  moreover obtain i h t salt' where "st = InsertUser i (reg_username body) h t"
    and hash: "argon2_hash E salt' (reg_password body) = Inr h"
    using basis by (auto simp: register_basis_def)
  with assms(4) have "ur_username row = reg_username body" "ur_password_hash row = h"
    by (simp_all add: user_of_row_def)
  moreover have "argon2_verify E (reg_password body) h"
    using assms(1) hash by (auto simp: hash_roundtrip_def)
  ultimately show ?thesis
    using assms(2) token_answer_status unfolding password_given_def by metis
next
  case (2 E' W' sec' cfg req st' usr es')
  with assms obtain body where "json_login W req = Inr body" and q: "q = (HLogin cfg, req)"
    and basis: "login_basis E body st (user_of_row row) es" by auto
  then have "credentials W q = Some (log_username body, log_password body)" by simp
  moreover have "ur_username row = log_username body"
    and "argon2_verify E (log_password body) (ur_password_hash row)"
    using basis assms(4) by (auto simp: login_basis_def)
  ultimately show ?thesis
    using assms(2) token_answer_status unfolding password_given_def by metis
qed auto

text \<open>The tokens of an answer are vouched for, if those handed out before it are.\<close>

lemma answer_vouched:
  assumes "sys_reachable (perform E) (serve_call E W) w0 s" and "auth_db_ok (auth w0)"
    and "jwt_roundtrip E" and "clock_runs E" and "hash_roundtrip E"
    and "(q, Ret (token_answer tk)) \<in> set (tasks s)" and "admissible E W sec s0 q"
    and "\<And>x. x \<in> given s0 \<Longrightarrow> vouched E W sec s x"
  shows "vouched E W sec s (tk_access_token tk) \<and> vouched E W sec s (tk_refresh_token tk)"
proof -
  obtain k cfg st usr where "call_config q = Some cfg"
    and basis: "grant_basis E W (cfg_secret cfg) q st usr (task_events k (history s))"
    and pair: "token_pair E (cfg_secret cfg) usr tk" and usr: "is_user usr (shared s)"
    and asked: "asked_for st usr"
    by (rule token_task [OF assms(1,6)])
  with assms(7) have sec: "cfg_secret cfg = sec"
    by (simp add: admissible_def)
  obtain row where row: "row \<in> set (users (auth (shared s)))" and u: "usr = user_of_row row"
    using usr by (auto simp: is_user_def)
  from answer_password [OF assms(5,6) basis [unfolded u] asked [unfolded u]]
  have "password_given E W s row"
  proof (elim disjE exE conjE)
    fix cfg' req body
    assume q: "q = (HRefresh cfg', req)" "json_refresh W req = Inr body"
      and "refresh_basis (cfg_secret cfg) body st (user_of_row row) (task_events k (history s))"
    then obtain c where "st = SelectUserById (cl_sub c)"
      "(JwtDecode (ref_refresh_token body) sec, RDecoded (Inr c)) \<in> set (task_events k (history s))"
      by (auto simp: refresh_basis_def sec)
    moreover obtain n where n: "jwt_decode E n sec (ref_refresh_token body) = Inr c"
      using decoded_reply [OF assms(1)] calculation(2) by blast
    moreover have "vouched E W sec s (ref_refresh_token body)"
      using assms(7,8) q n unfolding admissible_def by force
    ultimately obtain row' where "row' \<in> set (users (auth (shared s)))" "ur_id row' = ur_id row"
      "password_given E W s row'"
      using vouched_claims [OF _ assms(3,4)] asked u by (metis asked_for.simps(3) user_of_row_simps(1))
    with row integrity_reachable [OF assms(1,2)] show ?thesis
      by (auto simp: auth_db_ok_def distinct_map dest: inj_onD)
  qed
  with row pair show ?thesis
    by (auto simp: vouched_def token_pair_def u sec)
qed

lemma honest_vouched:
  assumes "honest E W sec w0 s" and "auth_db_ok (auth w0)"
    and "jwt_roundtrip E" and "clock_runs E" and "hash_roundtrip E" and "t \<in> given s"
  shows "vouched E W sec s t"
  using assms(1,6)
proof (induction arbitrary: t rule: honest.induct)
  case start
  then show ?case by (simp add: given_def sys_init_def)
next
  case (move s m s')
  have kept: "vouched E W sec s' x" if "x \<in> given s" for x
    using vouched_kept [OF move.hyps(2) move.IH [OF that]] .
  obtain q tk where q: "(q, Ret (token_answer tk)) \<in> set (tasks s')"
    and t: "t = tk_access_token tk \<or> t = tk_refresh_token tk"
    using move.prems by (auto simp: given_def)
  have "q \<in> fst ` set (tasks s')"
    using q by force
  from call_before [OF move.hyps(2) this] have "admissible E W sec s q"
    using honest_calls [OF move.hyps(1)] move.hyps(3) by blast
  from answer_vouched [OF honest_reachable [OF honest.move [OF move.hyps]] assms(2-5) q this kept]
  show ?case using t by blast
qed

text \<open>The accounts that the two routes behind the extractor answer about.\<close>

fun about :: "call \<Rightarrow> response \<Rightarrow> user_row \<Rightarrow> bool" where
  "about (HMe, req) resp row = (resp = api_into_response me_json
     (ApiOk \<lparr>me_user_id = ur_id row, me_username = ur_username row\<rparr>))"
| "about (HApp HUser, req) resp row = (\<exists>name. resp = api_into_response user_json
     (ApiOk \<lparr>ures_id = ur_id row, ures_username = name\<rparr>))"
| "about q resp row = False"

lemma identified_account:
  assumes "honest E W sec w0 s" and "auth_db_ok (auth w0)"
    and "jwt_roundtrip E" and "clock_runs E" and "hash_roundtrip E"
    and "((h, req), p) \<in> set (tasks s)" and "h = HMe \<or> h = HApp HUser"
    and "identified W req c (task_events k (history s))"
  obtains row where "row \<in> set (users (auth (shared s)))" and "cl_sub c = ur_id row"
    and "cl_username c = ur_username row" and "password_given E W s row"
proof -
  obtain cfg t where cfg: "rq_extension req = Some cfg" and t: "bearer_token W req = Some t"
    and dec: "(JwtDecode t (cfg_secret cfg), RDecoded (Inr c)) \<in> set (task_events k (history s))"
    using assms(8) by (auto simp: identified_def)
  obtain n where n: "jwt_decode E n (cfg_secret cfg) t = Inr c"
    using decoded_reply [OF honest_reachable [OF assms(1)] dec] .
  have "(h, req) \<in> fst ` set (tasks s)"
    using assms(6) by force
  from honest_calls [OF assms(1) this] have "cfg_secret cfg = sec" "t \<in> given s"
    using assms(7) cfg t n by (auto simp: admissible_def)
  with n show thesis
    by (intro vouched_claims [OF honest_vouched [OF assms(1-5)] assms(3,4) _ that]) simp_all
qed

text \<open>C3: Nobody is taken for the owner of an account without its password. If clients present no
  token that verifies but those the server has handed out, then whenever the server has
  answered a request to one of the routes behind the extractor with 200, the answer is about a
  stored account, and some request to register or to log in with that username and the password
  of that account has been answered with 200, however requests interleave, however often tokens
  have been refreshed in between, and whichever requests were dropped.\<close>

theorem no_identity_without_password:
  assumes "honest E W sec w0 s" and "auth_db_ok (auth w0)"
    and "jwt_roundtrip E" and "clock_runs E" and "hash_roundtrip E"
    and "((h, req), Ret resp) \<in> set (tasks s)" and "h = HMe \<or> h = HApp HUser"
    and "rs_status resp = 200"
  shows "\<exists>row \<in> set (users (auth (shared s))). about (h, req) resp row \<and> password_given E W s row"
proof -
  have reach: "sys_reachable (perform E) (serve_call E W) w0 s"
    using honest_reachable [OF assms(1)] .
  obtain k where k: "k < length (tasks s)" "tasks s ! k = ((h, req), Ret resp)"
    using assms(6) by (auto simp: in_set_conv_nth)
  note account = identified_account [OF assms(1-7)]
  have answer: "identity_answer W (h, req) resp (task_events k (history s))"
    using identity_answers.task_done [OF reach k] by simp
  show ?thesis
  proof (cases "h = HMe")
    case True
    with answer assms(8) obtain c where c: "identified W req c (task_events k (history s))"
      and resp: "resp = api_into_response me_json (me c)" by auto
    obtain row where "row \<in> set (users (auth (shared s)))" "cl_sub c = ur_id row"
      "cl_username c = ur_username row" "password_given E W s row"
      by (rule account [OF c])
    with True resp show ?thesis
      by (intro bexI [of _ row]) (simp_all add: me_def api_ok_def)
  next
    case False
    with assms(7,8) answer obtain c r where c: "identified W req c (task_events k (history s))"
      and basis: "profile_basis (cl_sub c) (ures_id r) (task_events k (history s))"
      and resp: "resp = api_into_response user_json (ApiOk r)" by auto
    obtain row where row: "row \<in> set (users (auth (shared s)))" "cl_sub c = ur_id row"
      "password_given E W s row"
      by (rule account [OF c])
    have "ures_id r = cl_sub c"
      using basis history_reply [OF reach] perform_profile_shown
      by (fastforce simp: profile_basis_def task_events_set)
    with False assms(7) resp row show ?thesis
      by (intro bexI [of _ row]; cases r) auto
  qed
qed

text \<open>Bob registers, and asks who he is with the token he was given.\<close>

lemma honest_moves:
  assumes "honest E W sec w0 s" and "sys_moves (perform E) (serve_call E W) ms s = Some t"
    and "\<And>q s'. Arrive q \<in> set ms \<Longrightarrow> given s \<subseteq> given s' \<Longrightarrow> admissible E W sec s' q"
  shows "honest E W sec w0 t"
  using assms
proof (induction ms arbitrary: s)
  case (Cons m ms)
  then obtain s1 where step: "sys_move (perform E) (serve_call E W) m s = Some s1"
    and rest: "sys_moves (perform E) (serve_call E W) ms s1 = Some t"
    by (auto split: option.splits)
  show ?case
  proof (rule Cons.IH [OF honest.move [OF Cons.prems(1) step] rest])
    show "\<forall>q. m = Arrive q \<longrightarrow> admissible E W sec s q"
      using Cons.prems(3) by auto
    fix q s'
    assume "Arrive q \<in> set ms" and "given s1 \<subseteq> given s'"
    with given_kept [OF step] show "admissible E W sec s' q"
      by (intro Cons.prems(3)) auto
  qed
qed simp

definition bob_claims :: claims where
  "bob_claims = \<lparr>cl_sub = demo_uuid 1, cl_username = ''bob'', cl_exp = 1900, cl_iat = 1000,
     cl_jti = demo_uuid 5, cl_kind = Access\<rparr>"

definition me_call :: "string \<Rightarrow> call" where
  "me_call t = (HMe, (demo_request [])\<lparr>rq_authorization := Some (''Bearer '' @ t),
     rq_extension := Some demo_config\<rparr>)"

lemma token_answer_inj: "token_answer tk = token_answer tk' \<longleftrightarrow> tk = tk'"
  by (simp add: api_into_response_def token_json_inj)

lemma bob_registers:
  "\<exists>s tk. sys_moves (perform demo_env) (serve_call demo_env demo_web)
       [Arrive bob_call, Progress 0, Progress 0, Progress 0, Progress 0, Progress 0, Progress 0,
        Progress 0, Progress 0, Progress 0, Progress 0, Progress 0]
       (sys_init alice_world) = Some s \<and>
     tasks s = [(bob_call, Ret (token_answer tk))] \<and>
     demo_encode ''secret'' bob_claims = Inr (tk_access_token tk)"
  by (simp add: stepwise bob_call_program register_def hash_password_def
      create_user_def demo_uuid_not_alice result_into_response_def api_ok_def token_answer_inj
      bob_claims_def, simp add: eval_nat_numeral)

lemma bob_claims_decode:
  assumes "demo_encode ''secret'' bob_claims = Inr t"
  shows "demo_decode n ''secret'' t = Inr bob_claims"
  using demo_parse_encode [OF assms] by (simp add: demo_decode_def bob_claims_def)

lemma me_call_program:
  "serve_call demo_env demo_web (me_call t) = respond me_json
     (bind_ok (bind_ok (verify_token t demo_config) (\<lambda>claims.
       if claims_kind claims \<noteq> Access then err token_wrong_kind else ok claims)) (\<lambda>c. ok (me c)))"
proof -
  have "bearer_token demo_web (snd (me_call t)) = Some t"
    by (simp add: me_call_def bearer_token_def demo_web_def strip_prefix_Some_iff)
  then show ?thesis
    by (simp add: me_call_def me_endpoint_def auth_user_def)
qed

lemma bob_asks:
  fixes s :: server_state
  assumes "tasks s = [x]" and "demo_encode ''secret'' bob_claims = Inr t"
  shows "\<exists>s'. sys_moves (perform demo_env) (serve_call demo_env demo_web)
      [Arrive (me_call t), Progress 1] s = Some s' \<and>
    tasks s' = [x, (me_call t, Ret (api_into_response me_json (me bob_claims)))]"
  by (simp add: stepwise me_call_program assms(1) bob_claims_decode [OF assms(2)]
      result_into_response_def)
    (simp add: bob_claims_def)

lemma bob_admissible:
  "admissible demo_env demo_web ''secret'' s bob_call"
  "t \<in> given s \<Longrightarrow> admissible demo_env demo_web ''secret'' s (me_call t)"
proof -
  show "admissible demo_env demo_web ''secret'' s bob_call"
    by (simp add: admissible_def bob_call_def)
  assume "t \<in> given s"
  moreover have "claimed_token demo_web (me_call t) = Some t"
    by (simp add: me_call_def bearer_token_def demo_web_def strip_prefix_Some_iff)
  ultimately show "admissible demo_env demo_web ''secret'' s (me_call t)"
    by (auto simp: admissible_def me_call_def)
qed

theorem no_identity_without_password_witness:
  "\<exists>s tk resp row. honest demo_env demo_web ''secret'' alice_world s \<and>
     tasks s = [(bob_call, Ret (token_answer tk)), (me_call (tk_access_token tk), Ret resp)] \<and>
     rs_status resp = 200 \<and> row \<in> set (users (auth (shared s))) \<and>
     about (me_call (tk_access_token tk)) resp row \<and> password_given demo_env demo_web s row"
proof -
  let ?p = "perform demo_env" and ?h = "serve_call demo_env demo_web"
  let ?honest = "honest demo_env demo_web ''secret'' alice_world"
  obtain s tk where
    s: "sys_moves ?p ?h [Arrive bob_call, Progress 0, Progress 0, Progress 0, Progress 0, Progress 0,
        Progress 0, Progress 0, Progress 0, Progress 0, Progress 0, Progress 0]
        (sys_init alice_world) = Some s"
      "tasks s = [(bob_call, Ret (token_answer tk))]"
    and enc: "demo_encode ''secret'' bob_claims = Inr (tk_access_token tk)"
    using bob_registers by blast
  obtain s' where s': "sys_moves ?p ?h [Arrive (me_call (tk_access_token tk)), Progress 1] s = Some s'"
      "tasks s' = [(bob_call, Ret (token_answer tk)),
        (me_call (tk_access_token tk), Ret (api_into_response me_json (me bob_claims)))]"
    using bob_asks [OF s(2) enc] by blast
  have "?honest s"
    by (rule honest_moves [OF honest.start s(1)]) (auto intro: bob_admissible)
  moreover have "tk_access_token tk \<in> given s"
    using s(2) by (auto simp: given_def)
  ultimately have honest: "?honest s'"
    by (intro honest_moves [OF _ s'(1)]) (auto intro: bob_admissible)
  let ?me = "me_call (tk_access_token tk)" and ?resp = "api_into_response me_json (me bob_claims)"
  have ok: "rs_status ?resp = 200"
    by (simp add: me_def api_ok_def api_into_response_def)
  have "\<exists>row \<in> set (users (auth (shared s'))). about (HMe, snd ?me) ?resp row \<and>
      password_given demo_env demo_web s' row"
    by (rule no_identity_without_password [OF honest alice_facts(9) demo_conditions(3,6,4)])
      (use ok s'(2) in \<open>auto simp: me_call_def\<close>)
  with honest s'(2) ok show ?thesis
    by (auto simp: me_call_def)
qed

end
