(* ===== verification/Origins.thy ===== *)
theory Origins
  imports Provenance
begin

text \<open>
  Where the rows of the auth database come from: every insertion that a handler performs is
  justified by what the same request has brought and what its handler has learnt before it.
\<close>

section \<open>Justified insertions\<close>









section \<open>Programs that keep the account\<close>














section \<open>The handlers account for their insertions\<close>














section \<open>The rows of the database\<close>










end
