(* ===== verification/Races.thy ===== *)
theory Races
  imports Journeys Concurrency
begin

text \<open>
  What a logout does not reach. The schedules are given move by move where two requests overlap,
  and by a sequential run where one of them is alone.
\<close>

section \<open>A refresh that has redeemed its token\<close>

text \<open>What is left of a refresh once it has deleted the row of its token.\<close>

definition refresh_rest :: "env \<Rightarrow> auth_config \<Rightarrow> string \<Rightarrow> response task" where
  "refresh_rest E cfg i = respond token_json (bind_ok (find_user_by_id E i) (\<lambda>found.
     case found of
       None \<Rightarrow> err (token_user_not_found i)
     | Some user \<Rightarrow> issue_tokens E cfg user))"

lemma refresh_under_way:
  assumes "conforming E cfg" and "good E (shared s)"
    and "redeemable E cfg (shared s) r tok"
    and "json_refresh W req = Inr \<lparr>ref_refresh_token = tok\<rparr>"
  obtains t where "sys_moves (perform E) (serve_call E W)
       [Arrive (HRefresh cfg, req), Progress (length (tasks s)), Progress (length (tasks s)),
        Progress (length (tasks s))] s = Some t"
    and "tasks t = tasks s @ [((HRefresh cfg, req), refresh_rest E cfg (ur_id r))]"
    and "good E (shared t)" and "users (auth (shared t)) = users (auth (shared s))"
proof -
  obtain c row where acc: "cl_kind c = Refresh" "cl_sub c = ur_id r"
      "jwt_decode E (tick (shared s)) (cfg_secret cfg) tok = Inr c"
    and row: "row \<in> set (refresh_tokens (auth (shared s)))" "tr_jti row = cl_jti c"
      "\<And>n now. clock E n = Some now \<Longrightarrow> live_at now row"
    using assms(3) unfolding redeemable_def accepted_def by blast
  obtain now where now: "clock E (Suc (tick (shared s))) = Some now"
    using assms(1) unfolding conforming_def healthy_def clock_runs_def by blast
  have hit: "filter (\<lambda>r. tr_jti r = cl_jti c \<and> sint now < sint (tr_expires_at r))
      (refresh_tokens (auth (shared s))) \<noteq> []"
    using row(1,2) row(3) [OF now] by (auto simp: filter_empty_conv live_at_def)
  let ?w = "set_auth (without_live (cl_jti c) now (auth (shared s)))
    (advance (advance (advance (shared s))))"
  have "good E ?w"
    by (rule good_filtered [OF assms(2)]) (simp_all add: without_live_def)
  let ?n = "length (tasks s)"
  let ?h = "[(?n, JwtDecode tok (cfg_secret cfg), RDecoded (Inr c)),
    (?n, ReadClock, RClock (Some now)),
    (?n, AuthSql (DeleteLiveRefreshToken (cl_jti c) now), RSql (Inr (Affected (length
      (filter (\<lambda>r. tr_jti r = cl_jti c \<and> sint now < sint (tr_expires_at r))
        (refresh_tokens (auth (shared s))))))))]"
  show thesis
  proof
    show "sys_moves (perform E) (serve_call E W)
       [Arrive (HRefresh cfg, req), Progress ?n, Progress ?n, Progress ?n] s = Some (s\<lparr>
          tasks := tasks s @ [((HRefresh cfg, req), refresh_rest E cfg (ur_id r))],
          shared := ?w, history := history s @ ?h\<rparr>)"
      using acc now hit good_migrated [OF assms(2)] conforming_fault [OF assms(1)] assms(4)
      by (simp add: sys_move_def refresh_endpoint_def refresh_def app_json_def nth_append
          list_update_append respond_def verify_token_def consume_refresh_token_def now_secs_def
          request_defs perform_auth_def refresh_rest_def without_live_def live_at_def set_auth_def
          advance_def)
  qed (use \<open>good E ?w\<close> in \<open>simp_all add: without_live_def\<close>)
qed

lemma refresh_rest_issues:
  assumes "conforming E cfg" and "good E w" and "r \<in> set (users (auth w))"
  obtains t w' where "run (perform E) (refresh_rest E cfg (ur_id r)) w =
      (Returned (api_into_response token_json (ApiOk t)), w')" and "session E cfg w' r t"
proof -
  have "List.find (\<lambda>x. ur_id x = ur_id r) (users (auth w)) = Some r"
    using assms(2,3) by (intro find_key_unique) (auto simp: good_def auth_db_ok_def)
  then have found: "run (perform E) (find_user_by_id E (ur_id r)) w =
      (Returned (Inr (Some (user_of_row r))), advance w)"
    using good_migrated [OF assms(2)] conforming_fault [OF assms(1)]
    by (simp add: run_find_user_by_id)
  obtain t w' where "run (perform E) (issue_tokens E cfg (user_of_row r)) (advance w) =
      (Returned (Inr (ApiOk t)), w')" and "issued E cfg (user_of_row r) (advance w) t w'"
  proof (rule issue_tokens_succeeds [of E cfg "advance w" "user_of_row r"])
    show "healthy E cfg"
      using assms(1) by (simp add: conforming_def)
  qed (use assms(3) good_advance [OF assms(2)] in \<open>simp_all add: good_def user_of_row_def\<close>)
  with found issued_session [OF assms(1)] that show thesis
    by (simp add: refresh_rest_def respond_def run_bind run_bind_ok result_into_response_def)
qed

section \<open>Logging out meanwhile\<close>

text \<open>C28: A logout does not reach a refresh in flight. Whatever else is in flight, for every user
  with a redeemable refresh token there is a schedule in which a refresh with that token is under
  way when a logout with it arrives, the logout is answered with 200 while the refresh is not
  finished, and the refresh is answered with 200 after it, with tokens that are accepted from
  then on: the new refresh token is stored, live and redeemable although the logout is to have
  revoked all of that user.\<close>

theorem logout_misses_refresh_in_flight:
  assumes "conforming E cfg" and "good E (shared s)" and "r \<in> set (users (auth (shared s)))"
    and "redeemable E cfg (shared s) r tok"
    and "json_refresh W req = Inr \<lparr>ref_refresh_token = tok\<rparr>"
    and "json_logout W req' = Inr \<lparr>out_refresh_token = tok\<rparr>"
  shows "\<exists>ms s1 ms' s2 t. sys_moves (perform E) (serve_call E W) ms s = Some s1 \<and>
     tasks s1 = tasks s @ [((HRefresh cfg, req), refresh_rest E cfg (ur_id r)),
       ((HLogout cfg, req'), Ret (api_into_response unit_json (ApiOk ())))] \<and>
     sys_moves (perform E) (serve_call E W) ms' s1 = Some s2 \<and>
     tasks s2 = tasks s @ [((HRefresh cfg, req), Ret (api_into_response token_json (ApiOk t))),
       ((HLogout cfg, req'), Ret (api_into_response unit_json (ApiOk ())))] \<and>
     session E cfg (shared s2) r t"
proof -
  obtain ms0 s0 where s0: "sys_moves (perform E) (serve_call E W) ms0 s = Some s0"
      "tasks s0 = tasks s @ [((HRefresh cfg, req), refresh_rest E cfg (ur_id r))]"
      "good E (shared s0)" "users (auth (shared s0)) = users (auth (shared s))"
    by (rule refresh_under_way [OF assms(1,2,4,5)])
  obtain c where acc: "accepted E cfg tok c" "cl_kind c = Refresh"
    using assms(4) unfolding redeemable_def by blast
  obtain w1 where w1: "run (perform E) (logout E cfg \<lparr>out_refresh_token = tok\<rparr>) (shared s0) =
      (Returned (Inr (ApiOk ())), w1)"
    and good: "good E w1" "auth w1 = without_user (cl_sub c) (auth (shared s0))"
    by (rule logout_runs [OF assms(1) s0(3) acc])
  have "run (perform E) (serve_call E W (HLogout cfg, req')) (shared s0) =
      (Returned (api_into_response unit_json (ApiOk ())), w1)"
    by (simp add: logout_endpoint_def respond_def run_bind app_json_def assms(6) w1
        result_into_response_def)
  from sys_moves_run [where handler = "serve_call E W", OF this] obtain ms1 s1 where
    s1: "sys_moves (perform E) (serve_call E W) ms1 s0 = Some s1" "shared s1 = w1"
      "tasks s1 = tasks s0 @ [((HLogout cfg, req'), Ret (api_into_response unit_json (ApiOk ())))]"
    by blast
  have r: "r \<in> set (users (auth (shared s1)))"
    using assms(3) by (simp add: s1 good(2) s0(4) without_user_def)
  obtain t w2 where "run (perform E) (refresh_rest E cfg (ur_id r)) (shared s1) =
      (Returned (api_into_response token_json (ApiOk t)), w2)" and ses: "session E cfg w2 r t"
    by (rule refresh_rest_issues [OF assms(1) good(1) [folded s1(2)] r])
  from sys_moves_finish [where handler = "serve_call E W", OF this(1), of "length (tasks s)"
      "(HRefresh cfg, req)"] s0(2) s1(3)
  obtain ms2 s2 where "sys_moves (perform E) (serve_call E W) ms2 s1 = Some s2" "shared s2 = w2"
    "tasks s2 = (tasks s1)[length (tasks s) :=
       ((HRefresh cfg, req), Ret (api_into_response token_json (ApiOk t)))]"
    by (auto simp: nth_append)
  moreover have "sys_moves (perform E) (serve_call E W) (ms0 @ ms1) s = Some s1"
    by (simp add: sys_moves_append s0(1) s1(1))
  ultimately show ?thesis
    using s0(2) s1(3) ses
    by - (rule exI [where x = "ms0 @ ms1"], rule exI [where x = s1], rule exI [where x = ms2],
        rule exI [where x = s2], rule exI [where x = t], simp)
qed

theorem logout_misses_refresh_in_flight_witness:
  "\<exists>ms s1 ms' s2 t. sys_moves (perform demo_env) (serve_call demo_env demo_web) ms
       (sys_init alice_world) = Some s1 \<and>
     tasks s1 = [(refresh_call, refresh_rest demo_env demo_config ''A1''),
       (logout_call, Ret (api_into_response unit_json (ApiOk ())))] \<and>
     sys_moves (perform demo_env) (serve_call demo_env demo_web) ms' s1 = Some s2 \<and>
     tasks s2 = [(refresh_call, Ret (api_into_response token_json (ApiOk t))),
       (logout_call, Ret (api_into_response unit_json (ApiOk ())))] \<and>
     session demo_env demo_config (shared s2) alice_row t"
proof -
  have conf: "conforming demo_env demo_config"
    by (auto simp: conforming_def demo_healthy demo_conditions steady_def)
  moreover have "good demo_env alice_world"
    by (simp add: good_def demo_unused demo_worlds_ok alice_facts)
  moreover have "redeemable demo_env demo_config alice_world alice_row (alice_token Refresh)"
    unfolding redeemable_def accepted_def
    by (intro exI [of _ "alice_claims Refresh"] exI [of _ alice_token_row])
      (simp add: alice_token_encoded alice_facts live_at_def, simp add: alice_claims_def)
  ultimately show ?thesis
    using logout_misses_refresh_in_flight [of demo_env demo_config "sys_init alice_world" alice_row
        "alice_token Refresh" demo_web "demo_request (alice_token Refresh)"
        "demo_request (alice_token Refresh)"]
    by (simp del: sys_moves.simps add: alice_facts refresh_call_def logout_call_def)
      (simp add: sys_init_def alice_facts)
qed

end
