(* ===== verification/Events.thy ===== *)
theory Events
  imports Program
begin

text \<open>
  Programs that write to the log. A logged program is a program with one more constructor, for
  an event handed to the subscriber: an event has no reply and is no point at which a task is
  suspended. Erasing the events gives a program of the theory \<open>Program\<close>, so that what is
  proved of programs holds of the logged ones.
\<close>

section \<open>Events\<close>

datatype level = Error_Level | Warn_Level | Info_Level

text \<open>A field recorded by its text (\<open>%\<close> or a string) or as a number.\<close>

datatype field_value = Text string | Number int

type_synonym fields = "(string \<times> field_value) list"

text \<open>An event with the spans it occurs in, outermost first; a span has a name and fields.\<close>

record log_event =
  ev_level :: level
  ev_spans :: "(string \<times> fields) list"
  ev_message :: string
  ev_fields :: fields

definition event_at :: "level \<Rightarrow> string \<Rightarrow> fields \<Rightarrow> log_event" where
  "event_at l m fs = \<lparr>ev_level = l, ev_spans = [], ev_message = m, ev_fields = fs\<rparr>"

abbreviation "error_event \<equiv> event_at Error_Level"
abbreviation "warn_event \<equiv> event_at Warn_Level"
abbreviation "info_event \<equiv> event_at Info_Level"

definition within :: "string \<Rightarrow> fields \<Rightarrow> log_event \<Rightarrow> log_event" where
  "within name fs ev = ev\<lparr>ev_spans := (name, fs) # ev_spans ev\<rparr>"

section \<open>Logged programs\<close>

datatype ('a, 'e, 'r) lprog =
    LRet 'a
  | LPanic string
  | LDo 'e "'r \<Rightarrow> ('a, 'e, 'r) lprog"
  | Emit log_event "('a, 'e, 'r) lprog"

primrec lbind :: "('a, 'e, 'r) lprog \<Rightarrow> ('a \<Rightarrow> ('b, 'e, 'r) lprog) \<Rightarrow> ('b, 'e, 'r) lprog" where
  "lbind (LRet a) f = f a"
| "lbind (LPanic m) f = LPanic m"
| "lbind (LDo e k) f = LDo e (\<lambda>r. lbind (k r) f)"
| "lbind (Emit ev p) f = Emit ev (lbind p f)"

definition lbind_ok ::
  "('x + 'a, 'e, 'r) lprog \<Rightarrow> ('a \<Rightarrow> ('x + 'b, 'e, 'r) lprog) \<Rightarrow> ('x + 'b, 'e, 'r) lprog" where
  "lbind_ok p f = lbind p (\<lambda>r. case r of Inl e \<Rightarrow> LRet (Inl e) | Inr a \<Rightarrow> f a)"

abbreviation lok :: "'a \<Rightarrow> ('x + 'a, 'e, 'r) lprog" where
  "lok a \<equiv> LRet (Inr a)"

abbreviation lerr :: "'x \<Rightarrow> ('x + 'a, 'e, 'r) lprog" where
  "lerr e \<equiv> LRet (Inl e)"

text \<open>A program without events, and \<open>Result::inspect_err\<close>, which logs before an error goes on.\<close>

primrec silent :: "('a, 'e, 'r) prog \<Rightarrow> ('a, 'e, 'r) lprog" where
  "silent (Ret a) = LRet a"
| "silent (Panic m) = LPanic m"
| "silent (Do e k) = LDo e (\<lambda>r. silent (k r))"

definition inspect_err ::
  "('x \<Rightarrow> log_event) \<Rightarrow> ('x + 'a, 'e, 'r) lprog \<Rightarrow> ('x + 'a, 'e, 'r) lprog" where
  "inspect_err ev p =
     lbind p (\<lambda>r. case r of Inl e \<Rightarrow> Emit (ev e) (lerr e) | Inr a \<Rightarrow> lok a)"

text \<open>A function under \<open>#[instrument]\<close>: its events occur in the span.\<close>

primrec in_span :: "string \<Rightarrow> fields \<Rightarrow> ('a, 'e, 'r) lprog \<Rightarrow> ('a, 'e, 'r) lprog" where
  "in_span name fs (LRet a) = LRet a"
| "in_span name fs (LPanic m) = LPanic m"
| "in_span name fs (LDo e k) = LDo e (\<lambda>r. in_span name fs (k r))"
| "in_span name fs (Emit ev p) = Emit (within name fs ev) (in_span name fs p)"

section \<open>Erasing the events\<close>

primrec erase :: "('a, 'e, 'r) lprog \<Rightarrow> ('a, 'e, 'r) prog" where
  "erase (LRet a) = Ret a"
| "erase (LPanic m) = Panic m"
| "erase (LDo e k) = Do e (\<lambda>r. erase (k r))"
| "erase (Emit ev p) = erase p"

lemma erase_lbind: "erase (lbind p f) = bind_prog (erase p) (\<lambda>a. erase (f a))"
  by (induction p) auto

lemma erase_lbind_ok: "erase (lbind_ok p f) = bind_ok (erase p) (\<lambda>a. erase (f a))"
  unfolding lbind_ok_def bind_ok_def erase_lbind
  by (intro arg_cong [where f = "bind_prog (erase p)"] ext) (simp split: sum.splits)

lemma erase_silent: "erase (silent p) = p"
  by (induction p) auto

lemma erase_inspect_err: "erase (inspect_err ev p) = erase p"
  unfolding inspect_err_def by (induction p) (auto split: sum.splits)

lemma erase_in_span: "erase (in_span name fs p) = erase p"
  by (induction p) auto

lemmas erase_combinators [simp] =
  erase_lbind erase_lbind_ok erase_silent erase_inspect_err erase_in_span

lemma erase_emits [simp]: "erase (foldr Emit evs p) = erase p"
  by (induction evs) simp_all

lemma erase_sum [simp]:
  "erase (case r of Inl e \<Rightarrow> f e | Inr a \<Rightarrow> g a) =
     (case r of Inl e \<Rightarrow> erase (f e) | Inr a \<Rightarrow> erase (g a))"
  by (simp split: sum.splits)

lemma erase_option [simp]:
  "erase (case x of None \<Rightarrow> p | Some y \<Rightarrow> f y) =
     (case x of None \<Rightarrow> erase p | Some y \<Rightarrow> erase (f y))"
  by (simp split: option.splits)

lemma erase_if [simp]: "erase (if b then p else q) = (if b then erase p else erase q)"
  by simp

lemma erase_pair [simp]: "erase (case x of (a, b) \<Rightarrow> f a b) = (case x of (a, b) \<Rightarrow> erase (f a b))"
  by (simp split: prod.splits)

section \<open>The log of a run\<close>

primrec log_of ::
  "('e \<Rightarrow> 'w \<Rightarrow> 'r \<times> 'w) \<Rightarrow> ('a, 'e, 'r) lprog \<Rightarrow> 'w \<Rightarrow> log_event list" where
  "log_of perform (LRet a) = (\<lambda>w. [])"
| "log_of perform (LPanic m) = (\<lambda>w. [])"
| "log_of perform (LDo e k) = (\<lambda>w. case perform e w of (r, w') \<Rightarrow> log_of perform (k r) w')"
| "log_of perform (Emit ev p) = (\<lambda>w. ev # log_of perform p w)"

lemma log_lbind:
  "log_of perform (lbind p f) w = log_of perform p w @
     (case run perform (erase p) w of
        (Returned a, w') \<Rightarrow> log_of perform (f a) w'
      | (Panicked m, w') \<Rightarrow> [])"
  by (induction p arbitrary: w) (auto split: prod.splits)

lemma log_lbind_ok:
  "log_of perform (lbind_ok p f) w = log_of perform p w @
     (case run perform (erase p) w of
        (Returned (Inr a), w') \<Rightarrow> log_of perform (f a) w'
      | _ \<Rightarrow> [])"
  by (simp add: lbind_ok_def log_lbind split: prod.splits outcome.splits sum.splits)

lemma log_silent: "log_of perform (silent p) w = []"
  by (induction p arbitrary: w) (auto split: prod.splits)

lemma log_inspect_err:
  "log_of perform (inspect_err ev p) w = log_of perform p w @
     (case run perform (erase p) w of (Returned (Inl e), w') \<Rightarrow> [ev e] | _ \<Rightarrow> [])"
  by (simp add: inspect_err_def log_lbind split: prod.splits outcome.splits sum.splits)

lemma log_in_span: "log_of perform (in_span name fs p) w = map (within name fs) (log_of perform p w)"
  by (induction p arbitrary: w) (auto split: prod.splits)

lemmas log_combinators [simp] =
  log_lbind log_lbind_ok log_silent log_inspect_err log_in_span

section \<open>Programs restricted in their events\<close>

text \<open>All events of the program, whatever the replies, satisfy \<open>P\<close>.\<close>

primrec emits_only :: "(log_event \<Rightarrow> bool) \<Rightarrow> ('a, 'e, 'r) lprog \<Rightarrow> bool" where
  "emits_only P (LRet a) = True"
| "emits_only P (LPanic m) = True"
| "emits_only P (LDo e k) = (\<forall>r. emits_only P (k r))"
| "emits_only P (Emit ev p) = (P ev \<and> emits_only P p)"

lemma emits_only_lbind:
  "emits_only P p \<Longrightarrow> (\<And>a. emits_only P (f a)) \<Longrightarrow> emits_only P (lbind p f)"
  by (induction p) auto

lemma emits_only_lbind_ok:
  "emits_only P p \<Longrightarrow> (\<And>a. emits_only P (f a)) \<Longrightarrow> emits_only P (lbind_ok p f)"
  by (auto simp: lbind_ok_def intro: emits_only_lbind split: sum.splits)

lemma emits_only_silent: "emits_only P (silent p)"
  by (induction p) auto

lemma emits_only_inspect_err:
  "emits_only P p \<Longrightarrow> (\<And>e. P (ev e)) \<Longrightarrow> emits_only P (inspect_err ev p)"
  by (auto simp: inspect_err_def intro: emits_only_lbind split: sum.splits)

lemma emits_only_in_span:
  "emits_only P p \<Longrightarrow> (\<And>ev. P ev \<Longrightarrow> P (within name fs ev)) \<Longrightarrow> emits_only P (in_span name fs p)"
  by (induction p) auto

lemmas emits_only_combinators =
  emits_only_lbind emits_only_lbind_ok emits_only_silent emits_only_inspect_err emits_only_in_span

lemma emits_only_log: "emits_only P p \<Longrightarrow> ev \<in> set (log_of perform p w) \<Longrightarrow> P ev"
  by (induction p arbitrary: w) (auto split: prod.splits)

section \<open>Transcripts\<close>

text \<open>
  What an observer of the log and of the answer sees of a program that gets these replies: the
  events, and the outcome unless the replies have run out.
\<close>

primrec transcript ::
  "('a, 'e, 'r) lprog \<Rightarrow> 'r list \<Rightarrow> log_event list \<times> 'a outcome option" where
  "transcript (LRet a) = (\<lambda>rs. ([], Some (Returned a)))"
| "transcript (LPanic m) = (\<lambda>rs. ([], Some (Panicked m)))"
| "transcript (LDo e k) =
     (\<lambda>rs. case rs of [] \<Rightarrow> ([], None) | r # rs' \<Rightarrow> transcript (k r) rs')"
| "transcript (Emit ev p) = (\<lambda>rs. map_prod (Cons ev) id (transcript p rs))"

text \<open>
  Two programs that do the same with every reply, up to \<open>R\<close> in their results: the relation
  under which the equality of transcripts is proved by composition.
\<close>

inductive alike ::
  "('a \<Rightarrow> 'b \<Rightarrow> bool) \<Rightarrow> ('a, 'e, 'r) lprog \<Rightarrow> ('b, 'e, 'r) lprog \<Rightarrow> bool"
  for R where
  ret: "alike R (LRet a) (LRet b)" if "R a b"
| panic: "alike R (LPanic m) (LPanic m)"
| step: "alike R (LDo e k) (LDo e' k')" if "\<And>r. alike R (k r) (k' r)"
| emit: "alike R (Emit ev p) (Emit ev q)" if "alike R p q"

lemma alike_same:
  assumes "\<And>a. R a a"
  shows "alike R p p"
  by (induction p) (auto intro: alike.intros assms)

lemma alike_bind:
  assumes "alike R p q" and "\<And>a b. R a b \<Longrightarrow> alike S (f a) (g b)"
  shows "alike S (lbind p f) (lbind q g)"
  using assms(1) by (induction rule: alike.induct) (auto intro: alike.intros assms(2))

lemma alike_bind_ok:
  assumes "alike (rel_sum (=) R) p q" and "\<And>a b. R a b \<Longrightarrow> alike (=) (f a) (g b)"
  shows "alike (=) (lbind_ok p f) (lbind_ok q g)"
  unfolding lbind_ok_def
  by (rule alike_bind [OF assms(1)])
    (auto elim!: rel_sum.cases intro!: assms(2) alike.ret)

lemma alike_inspect_err:
  "alike (rel_sum (=) R) p q \<Longrightarrow> alike (rel_sum (=) R) (inspect_err ev p) (inspect_err ev q)"
  unfolding inspect_err_def
  by (erule alike_bind) (auto elim!: rel_sum.cases intro!: alike.intros)

lemma alike_in_span: "alike R p q \<Longrightarrow> alike R (in_span name fs p) (in_span name fs q)"
  by (induction rule: alike.induct) (auto intro: alike.intros)

lemma alike_weaken: "alike R p q \<Longrightarrow> (\<And>a b. R a b \<Longrightarrow> S a b) \<Longrightarrow> alike S p q"
  by (induction rule: alike.induct) (auto intro: alike.intros)

lemma alike_transcript:
  assumes "alike (=) p q"
  shows "transcript p rs = transcript q rs"
  using assms by (induction arbitrary: rs rule: alike.induct) (auto split: list.splits)

end
