(* ===== verification/Event_Handlers.thy ===== *)
theory Event_Handlers
  imports Server Events
begin

text \<open>
  The handlers, the extractors, the database set-up and the program of the application with the
  events they log (\<open>tracing::error!\<close>, \<open>warn!\<close>, \<open>info!\<close>) and the spans of \<open>#[instrument]\<close>.
  Functions that log nothing are taken from the other theories under \<open>silent\<close>.
\<close>

type_synonym 'a ltask = "('a, effect, reply) lprog"

section \<open>Responses and bodies\<close>

text \<open>The event of \<open>into_response\<close> for a server error.\<close>

definition server_error_event :: "string \<times> string \<Rightarrow> log_event" where
  "server_error_event = (\<lambda>(error_id, error).
     error_event ''server error'' [(''error_id'', Text error_id), (''error'', Text error)])"

definition respond_logged ::
  "('a \<Rightarrow> json) \<Rightarrow> (servir_error + 'a api_response) ltask \<Rightarrow> response ltask" where
  "respond_logged ser p =
     lbind p (\<lambda>r.
     case r of
       Inl e \<Rightarrow>
         foldr Emit (map server_error_event (fst (servir_into_response e)))
           (LRet (snd (servir_into_response e)))
     | Inr a \<Rightarrow> LRet (api_into_response ser a))"

definition app_json_logged :: "(request \<Rightarrow> string + 't) \<Rightarrow> request \<Rightarrow> (servir_error + 't) ltask" where
  "app_json_logged from_request req =
     (case from_request req of
        Inr v \<Rightarrow> lok v
      | Inl body_text \<Rightarrow>
          (let e = servir_bad_request body_text
           in Emit (warn_event ''malformed request body'' [(''error'', Text (servir_display e))])
                (lerr e)))"

section \<open>The extractor\<close>

definition missing_layer_message :: string where
  "missing_layer_message =
     ''AuthLayer not installed '' @ [CHR 0xE2, CHR 0x80, CHR 0x94] @ '' misconfiguration''"

definition auth_user_logged :: "web \<Rightarrow> request \<Rightarrow> (servir_error + claims) ltask" where
  "auth_user_logged W req =
     (case rq_extension req of
        None \<Rightarrow> Emit (error_event missing_layer_message []) (lerr token_missing_layer)
      | Some config \<Rightarrow>
          (case bearer_token W req of
             None \<Rightarrow> Emit (warn_event ''missing authorization header'' []) (lerr token_missing_header)
           | Some token \<Rightarrow>
               lbind_ok
                 (inspect_err
                    (\<lambda>e. warn_event ''token validation failed'' [(''error'', Text (servir_display e))])
                    (silent (verify_token token config))) (\<lambda>claims.
               if claims_kind claims \<noteq> Access then
                 Emit (warn_event ''non-access token used on protected route'' [])
                   (lerr token_wrong_kind)
               else lok claims)))"

section \<open>The handlers\<close>

definition register_logged ::
  "env \<Rightarrow> auth_config \<Rightarrow> register_request \<Rightarrow> (servir_error + token_response api_response) ltask"
  where
  "register_logged E config body =
     in_span ''register'' [(''username'', Text (reg_username body))]
       (if reg_username body = [] then lerr user_empty_username
        else if length (reg_password body) < 8 then lerr user_weak_password
        else
          lbind_ok (silent (hash_password E (reg_password body))) (\<lambda>hash.
          lbind_ok
            (inspect_err
               (\<lambda>_. warn_event ''register: username taken''
                      [(''username'', Text (reg_username body))])
               (silent (create_user E (reg_username body) hash))) (\<lambda>user.
          silent (issue_tokens E config user))))"

definition login_logged ::
  "env \<Rightarrow> auth_config \<Rightarrow> login_request \<Rightarrow> (servir_error + token_response api_response) ltask" where
  "login_logged E config body =
     in_span ''login'' [(''username'', Text (log_username body))]
       (lbind_ok (silent (find_user_by_username E (log_username body))) (\<lambda>found.
        case found of
          None \<Rightarrow>
            Emit (warn_event ''login: user not found'' [(''username'', Text (log_username body))])
              (lerr (user_invalid_credentials (log_username body)))
        | Some user \<Rightarrow>
            lbind_ok (LRet (verify_password E (log_password body) (usr_password_hash user)))
              (\<lambda>matches.
            if \<not> matches then
              Emit (warn_event ''login: wrong password'' [(''username'', Text (log_username body))])
                (lerr (user_invalid_credentials (log_username body)))
            else silent (issue_tokens E config user))))"

definition refresh_logged ::
  "env \<Rightarrow> auth_config \<Rightarrow> refresh_request \<Rightarrow> (servir_error + token_response api_response) ltask"
  where
  "refresh_logged E config body =
     in_span ''refresh'' []
       (lbind_ok (silent (verify_token (ref_refresh_token body) config)) (\<lambda>claims.
        if claims_kind claims \<noteq> Refresh then lerr token_wrong_kind
        else
          lbind_ok (silent (consume_refresh_token E (claims_jti claims))) (\<lambda>valid.
          if \<not> valid then
            Emit (warn_event ''refresh: token replay detected''
                    [(''username'', Text (claims_username claims))])
              (lerr token_invalid_refresh_token)
          else
            lbind_ok (silent (find_user_by_id E (claims_sub claims))) (\<lambda>found.
            case found of
              None \<Rightarrow> lerr (token_user_not_found (claims_sub claims))
            | Some user \<Rightarrow> silent (issue_tokens E config user)))))"

definition logout_logged ::
  "env \<Rightarrow> auth_config \<Rightarrow> logout_request \<Rightarrow> (servir_error + unit api_response) ltask" where
  "logout_logged E config body =
     in_span ''logout'' []
       (lbind_ok (silent (verify_token (out_refresh_token body) config)) (\<lambda>claims.
        if claims_kind claims \<noteq> Refresh then lerr token_wrong_kind
        else
          lbind_ok (silent (delete_refresh_tokens_for_user E (claims_sub claims))) (\<lambda>_.
          lok (api_ok ()))))"

definition me_logged :: "claims \<Rightarrow> (servir_error + me_response api_response) ltask" where
  "me_logged claims = in_span ''me'' [(''user'', Text (claims_username claims))] (lok (me claims))"

section \<open>The application\<close>

definition find_or_create_profile_logged ::
  "env \<Rightarrow> string \<Rightarrow> string \<Rightarrow> (servir_error + user_profile) ltask" where
  "find_or_create_profile_logged E user_id username =
     lbind_ok (silent (map_err (\<lambda>e. db_unknown ''find_user_profile'' (sql_text E e))
                 (fetch_profile (SelectProfile user_id)))) (\<lambda>row.
     case row of
       Some (i, u, t) \<Rightarrow> lok \<lparr>prof_id = i, prof_username = u, prof_created_at = t\<rparr>
     | None \<Rightarrow>
         lbind (silent (read_clock Ret)) (\<lambda>c.
         case c of
           None \<Rightarrow> LPanic profile_clock_message
         | Some now \<Rightarrow>
             lbind_ok (silent (map_err (\<lambda>e. db_unknown ''insert_user_profile'' (sql_text E e))
                         (execute_data (InsertProfile user_id username now)))) (\<lambda>_.
             Emit (info_event ''created user profile''
                     [(''user_id'', Text user_id), (''username'', Text username)])
               (lok \<lparr>prof_id = user_id, prof_username = username, prof_created_at = now\<rparr>))))"

definition user_handler_logged ::
  "env \<Rightarrow> claims \<Rightarrow> (servir_error + user_response api_response) ltask" where
  "user_handler_logged E claims =
     in_span ''user'' [(''user'', Text (claims_username claims))]
       (lbind_ok (find_or_create_profile_logged E (claims_sub claims) (claims_username claims))
         (\<lambda>profile.
        lok (api_ok \<lparr>ures_id = prof_id profile, ures_username = prof_username profile\<rparr>)))"

section \<open>The endpoints\<close>

text \<open>
  The requests of the model have no query, so the \<open>uri\<close> of an unmatched request is its path.
\<close>

definition not_found_logged :: "request \<Rightarrow> response ltask" where
  "not_found_logged req =
     Emit (warn_event ''unmatched route''
             [(''method'', Text (rq_method req)), (''uri'', Text (rq_path req))])
       (LRet (api_into_response unit_json not_found))"

fun handle_logged :: "env \<Rightarrow> web \<Rightarrow> app_handler handler \<Rightarrow> request \<Rightarrow> response ltask" where
  "handle_logged E W (HRegister config) req =
     respond_logged token_json
       (lbind_ok (app_json_logged (json_register W) req) (register_logged E config))"
| "handle_logged E W (HLogin config) req =
     respond_logged token_json
       (lbind_ok (app_json_logged (json_login W) req) (login_logged E config))"
| "handle_logged E W (HRefresh config) req =
     respond_logged token_json
       (lbind_ok (app_json_logged (json_refresh W) req) (refresh_logged E config))"
| "handle_logged E W (HLogout config) req =
     respond_logged unit_json
       (lbind_ok (app_json_logged (json_logout W) req) (logout_logged E config))"
| "handle_logged E W HMe req =
     respond_logged me_json (lbind_ok (auth_user_logged W req) me_logged)"
| "handle_logged E W HHealth req = LRet (api_into_response health_json health)"
| "handle_logged E W HNotFound req = not_found_logged req"
| "handle_logged E W (HApp HUser) req =
     respond_logged user_json (lbind_ok (auth_user_logged W req) (user_handler_logged E))"

section \<open>Setting up and serving\<close>

definition unwrap_or_zero :: "'x + int \<Rightarrow> int" where
  "unwrap_or_zero r = (case r of Inl e \<Rightarrow> 0 | Inr v \<Rightarrow> v)"

definition migrate_auth_logged :: "env \<Rightarrow> (servir_error + unit) ltask" where
  "migrate_auth_logged E =
     lbind_ok (silent (map_err (\<lambda>e. db_migration (sql_text E e)) (perform_done MigrateAuth))) (\<lambda>_.
     lbind (silent (fetch_int (AuthSql SelectAuthVersion))) (\<lambda>version.
     Emit (info_event ''auth schema up to date'' [(''version'', Number (unwrap_or_zero version))])
       (lok ())))"

definition load_or_generate_secret_logged :: "env \<Rightarrow> (servir_error + string) ltask" where
  "load_or_generate_secret_logged E =
     lbind_ok (silent (map_err (\<lambda>e. db_unknown ''load_signing_secret'' (sql_text E e))
                 (fetch_text SelectSigningSecret))) (\<lambda>existing.
     case existing of
       Some secret \<Rightarrow> lok secret
     | None \<Rightarrow>
         lbind (silent (fill_random 32 Ret)) (\<lambda>filled.
         case filled of
           None \<Rightarrow> LPanic ''getrandom fill''
         | Some bytes \<Rightarrow>
             (let secret = hex_encode E bytes in
              lbind_ok (silent (map_err (\<lambda>e. db_unknown ''store_signing_secret'' (sql_text E e))
                          (execute (InsertSigningSecret secret)))) (\<lambda>_.
              Emit (info_event ''generated new signing secret'' []) (lok secret)))))"

definition build_logged :: "env \<Rightarrow> 'c server_builder \<Rightarrow> (servir_error + 'c servir) ltask" where
  "build_logged E b =
     lbind (silent (init_tracing E (build_service_name b))) (\<lambda>_.
     case sb_routes b of
        None \<Rightarrow> LPanic routes_message
      | Some api \<Rightarrow>
          (case sb_auth_database_url b of
             None \<Rightarrow> LPanic database_message
           | Some database_url \<Rightarrow>
               lbind_ok (silent (db_connect E database_url)) (\<lambda>_.
               lbind_ok (migrate_auth_logged E) (\<lambda>_.
               lbind_ok (load_or_generate_secret_logged E) (\<lambda>secret.
               let router = build_router api (build_config b secret) in
               case sb_addr b of
                 None \<Rightarrow> LPanic addr_message
               | Some a \<Rightarrow> lok (servir_new router a))))))"

text \<open>The text of an IPv4 socket address, the same under \<open>%\<close> and \<open>?\<close>.\<close>

fun dotted :: "nat list \<Rightarrow> string" where
  "dotted [] = []"
| "dotted [n] = decimal n"
| "dotted (n # ns) = decimal n @ ''.'' @ dotted ns"

definition addr_text :: "socket_addr \<Rightarrow> string" where
  "addr_text = (\<lambda>(ip, port). dotted ip @ '':'' @ decimal port)"

definition serve_router_logged ::
  "'c network \<Rightarrow> socket_addr \<Rightarrow> 'c handler router \<Rightarrow> (string + unit) ltask" where
  "serve_router_logged N a router =
     in_span ''serve'' [(''addr'', Text (addr_text a)), (''bind_addr'', Text (addr_text a))]
       (case net_bind N a of
          Inl e \<Rightarrow> lerr e
        | Inr listener \<Rightarrow> (case net_local_addr N listener of
            Inl e \<Rightarrow> lerr e
          | Inr local_addr \<Rightarrow>
              Emit (info_event ''server listening'' [(''addr'', Text (addr_text local_addr))])
                (LRet (net_serve N listener router))))"

definition builder_serve_logged ::
  "env \<Rightarrow> 'c network \<Rightarrow> 'c server_builder \<Rightarrow> (servir_error + unit) ltask" where
  "builder_serve_logged E N b =
     lbind_ok (build_logged E b) (\<lambda>s.
     lbind (serve_router_logged N (sv_addr s) (sv_router s)) (\<lambda>r.
     LRet (map_sum servir_from_io id r)))"

definition data_migrate_logged :: "env \<Rightarrow> (servir_error + unit) ltask" where
  "data_migrate_logged E =
     lbind_ok (silent (map_err (\<lambda>e. db_migration (sql_text E e)) (perform_done MigrateData))) (\<lambda>_.
     lbind (silent (fetch_int (DataSql SelectDataVersion))) (\<lambda>version.
     Emit (info_event ''app schema up to date'' [(''version'', Number (unwrap_or_zero version))])
       (lok ())))"

definition expect_logged :: "string \<Rightarrow> ('x + 'a) ltask \<Rightarrow> 'a ltask" where
  "expect_logged m p = lbind p (\<lambda>r. case r of Inl e \<Rightarrow> LPanic m | Inr a \<Rightarrow> LRet a)"

definition consumer_main_logged ::
  "env \<Rightarrow> app_handler network \<Rightarrow> args \<Rightarrow> unit ltask" where
  "consumer_main_logged E N args' =
     lbind (silent (init_logging E (arg_log_dir args') ''echo-server'')) (\<lambda>guard.
     Emit (info_event ''starting echo-server''
             [(''auth_db'', Text (arg_auth_db args')), (''data_db'', Text (arg_data_db args'))])
     (let auth_db_url = ''sqlite://'' @ arg_auth_db args';
          data_db_url = ''sqlite://'' @ arg_data_db args'
      in lbind (expect_logged ''app db connect'' (silent (data_connect E data_db_url))) (\<lambda>_.
         lbind (expect_logged ''app db migrate'' (data_migrate_logged E)) (\<lambda>_.
         expect_logged ''server failed''
           (builder_serve_logged E N
             (set_routes app_routes
               (set_auth_database_url auth_db_url
                 (set_addr ([0, 0, 0, 0], 3000)
                   (set_service_name ''echo-server'' servir_builder)))))))))"

section \<open>The events are transparent\<close>

lemma erase_respond: "erase (respond_logged ser p) = respond ser (erase p)"
  unfolding respond_logged_def respond_def result_into_response_def erase_lbind
  by (intro arg_cong [where f = "bind_prog (erase p)"] ext) (simp split: sum.splits)

lemma erase_app_json: "erase (app_json_logged f req) = Ret (app_json f req)"
  by (simp add: app_json_logged_def app_json_def Let_def split: sum.splits)

lemma erase_auth_user: "erase (auth_user_logged W req) = auth_user W req"
  by (simp add: auth_user_logged_def auth_user_def cong: if_cong option.case_cong)

lemma erase_handlers:
  "erase (register_logged E cfg rb) = register E cfg rb"
  "erase (login_logged E cfg lb) = login E cfg lb"
  "erase (refresh_logged E cfg fb) = refresh E cfg fb"
  "erase (logout_logged E cfg ob) = logout E cfg ob"
  "erase (me_logged c) = ok (me c)"
  by (simp_all add: register_logged_def register_def login_logged_def login_def refresh_logged_def
      refresh_def logout_logged_def logout_def me_logged_def cong: if_cong option.case_cong)

lemma bind_requests:
  "bind_prog (read_clock Ret) f = read_clock f"
  "bind_prog (fill_random n Ret) g = fill_random n g"
  unfolding request_defs by (auto split: reply.splits)

lemma erase_profile:
  "erase (find_or_create_profile_logged E i u) = find_or_create_profile E i u"
  by (simp add: find_or_create_profile_logged_def find_or_create_profile_def bind_requests
      case_prod_unfold cong: option.case_cong)

lemma erase_user_handler: "erase (user_handler_logged E c) = user_handler E c"
  by (simp add: user_handler_logged_def user_handler_def erase_profile)

lemmas erase_server = erase_respond erase_app_json erase_auth_user erase_handlers erase_user_handler

lemma erase_handle: "erase (handle_logged E W h req) = run_handler E W (run_app E W) h req"
proof (cases h)
  case (HApp a)
  then show ?thesis
    by (cases a) (simp add: erase_server user_endpoint_def)
qed (simp_all add: erase_server register_endpoint_def login_endpoint_def refresh_endpoint_def
    logout_endpoint_def me_endpoint_def not_found_logged_def)

lemma erase_set_up:
  "erase (migrate_auth_logged E) = migrate_auth E"
  "erase (data_migrate_logged E) = data_migrate E"
  by (simp_all add: migrate_auth_logged_def migrate_auth_def data_migrate_logged_def data_migrate_def)

lemma erase_secret: "erase (load_or_generate_secret_logged E) = load_or_generate_secret E"
  by (simp add: load_or_generate_secret_logged_def load_or_generate_secret_def Let_def bind_requests
      cong: option.case_cong)

lemma erase_build: "erase (build_logged E b) = build E b"
  by (simp add: build_logged_def build_def erase_set_up erase_secret Let_def cong: option.case_cong)

lemma erase_serve: "erase (serve_router_logged N a r) = Ret (serve_router N a r)"
  by (simp add: serve_router_logged_def serve_router_def split: sum.splits)

lemma erase_builder_serve: "erase (builder_serve_logged E N b) = builder_serve E N b"
  by (simp add: builder_serve_logged_def builder_serve_def erase_build erase_serve servir_serve_def)

lemma erase_expect: "erase (expect_logged m p) = expect_ok m (erase p)"
  unfolding expect_logged_def expect_ok_def erase_lbind
  by (intro arg_cong [where f = "bind_prog (erase p)"] ext) (simp split: sum.splits)

lemma erase_main: "erase (consumer_main_logged E N a) = consumer_main E N a"
  by (simp add: consumer_main_logged_def consumer_main_def erase_expect erase_set_up
      erase_builder_serve Let_def)

end
