(* ===== verification/Event_Properties.thy ===== *)
theory Event_Properties
  imports Event_Handlers Auth_Properties
begin

text \<open>
  What the log of the server says: exactly which refusals are logged, that every server error
  is, and that neither the log nor the answer depends on passwords and tokens other than by the
  verdicts on them.
\<close>

section \<open>Refusals in the log\<close>

fun refused_as :: "(servir_error + 'a) outcome \<Rightarrow> string option" where
  "refused_as (Returned (Inl e)) = Some (servir_error_id e)"
| "refused_as _ = None"

lemma outcome_cases:
  fixes out :: "(servir_error + 'a) outcome"
  obtains (refused) e where "out = Returned (Inl e)"
  | (granted) a where "out = Returned (Inr a)"
  | (panic) m where "out = Panicked m"
  by (cases out rule: refused_as.cases) auto

lemma refused_with:
  assumes "map_sum f g s = Inl e"
  obtains x where "e = f x"
  using assms by (cases s) auto

lemma issue_tokens_errors:
  assumes "run (perform E) (issue_tokens E cfg u) w = (Returned (Inl e), w')"
  shows "servir_error_id e \<in> {''TOKEN_ENCODE_FAILED'', ''DB_STORE_REFRESH_TOKEN_FAILED''}"
  using assms unfolding issue_tokens_def
  by (auto simp: run_bind_ok run_core run_store_refresh_token config_refresh_token_ttl_secs_def
      token_encode_failed_def db_store_refresh_token_def error_simps elim!: refused_with
      split: option.splits sum.splits outcome.splits prod.splits)

text \<open>The one event of a refusal in the handler's span.\<close>

definition handler_warning :: "string \<Rightarrow> fields \<Rightarrow> string \<Rightarrow> fields \<Rightarrow> log_event" where
  "handler_warning span span_fields message fs =
     within span span_fields (warn_event message fs)"

lemma issue_tokens_refusals:
  assumes "run (perform E) (issue_tokens E cfg u) w = (out, w')"
  shows "refused_as out \<in> {None, Some ''TOKEN_ENCODE_FAILED'', Some ''DB_STORE_REFRESH_TOKEN_FAILED''}"
  using assms issue_tokens_errors [of E cfg u w _ w'] by (cases out rule: outcome_cases) auto

lemma log_register:
  "log_of (perform E) (register_logged E cfg rb) w =
     (if refused_as (fst (run (perform E) (register E cfg rb) w)) \<in>
           {Some ''ALREADY_EXISTS'', Some ''DB_USER_CREATE_FAILED''}
      then [handler_warning ''register'' [(''username'', Text (reg_username rb))]
              ''register: username taken'' [(''username'', Text (reg_username rb))]]
      else [])"
proof (cases "reg_username rb = [] \<or> length (reg_password rb) < 8")
  case True
  then show ?thesis
    by (auto simp: register_logged_def register_def error_simps)
next
  case False
  let ?h = "argon2_hash E (salt E (tick w)) (reg_password rb)"
  show ?thesis
  proof (cases ?h)
    case (Inl e)
    with False show ?thesis
      by (auto simp: register_logged_def register_def run_bind_ok run_hash_password error_simps)
  next
    case (Inr h)
    obtain out w1 where created:
      "run (perform E) (create_user E (reg_username rb) h) (advance w) = (out, w1)"
      by fastforce
    show ?thesis
    proof (cases out rule: outcome_cases)
      case (refused e)
      then have "servir_error_id e \<in> {''ALREADY_EXISTS'', ''DB_USER_CREATE_FAILED''}"
        using created by (auto simp: run_create_user create_user_error_def error_simps
            elim!: refused_with split: option.splits if_splits)
      with refused created False Inr show ?thesis
        by (auto simp: register_logged_def register_def run_bind_ok run_hash_password
            handler_warning_def)
    next
      case (granted u)
      obtain out2 w2 where "run (perform E) (issue_tokens E cfg u) w1 = (out2, w2)"
        by fastforce
      with issue_tokens_refusals [OF this] granted created False Inr show ?thesis
        by (auto simp: register_logged_def register_def run_bind_ok run_hash_password)
    qed (use created False Inr in \<open>auto simp: register_logged_def register_def run_bind_ok
        run_hash_password\<close>)
  qed
qed

lemma log_login:
  "log_of (perform E) (login_logged E cfg lb) w =
     (if refused_as (fst (run (perform E) (login E cfg lb) w)) = Some ''INVALID_CREDENTIALS''
      then [handler_warning ''login'' [(''username'', Text (log_username lb))]
              (if log_username lb \<in> ur_username ` set (users (auth w)) then ''login: wrong password''
               else ''login: user not found'') [(''username'', Text (log_username lb))]]
      else [])"
proof -
  obtain out w1 where found:
    "run (perform E) (find_user_by_username E (log_username lb)) w = (out, w1)"
    by fastforce
  show ?thesis
  proof (cases "\<exists>u. out = Returned (Inr (Some u))")
    case True
    then obtain u where u: "out = Returned (Inr (Some u))" by blast
    then have "log_username lb \<in> ur_username ` set (users (auth w))"
      using find_user_by_username_cases [OF found] by (auto intro: rev_image_eqI)
    moreover obtain out2 w2 where issue: "run (perform E) (issue_tokens E cfg u) w1 = (out2, w2)"
      by fastforce
    ultimately show ?thesis
      using found u issue_tokens_refusals [OF issue]
      by (auto simp: login_logged_def login_def run_bind_ok handler_warning_def
          verify_password_def error_simps split: option.splits)
  next
    case False
    have none: "log_username lb \<notin> ur_username ` set (users (auth w))"
      if "out = Returned (Inr None)"
      using found that by (auto simp: run_find_user_by_username find_None_iff_notin
          sql_outcome_def split: option.splits if_splits)
    have failed: "servir_error_id e = ''DB_USER_FIND_BY_USERNAME_FAILED''"
      if "out = Returned (Inl e)" for e
      using found that by (auto simp: run_find_user_by_username error_simps elim!: refused_with)
    obtain r where r: "out = Returned r"
      using found unfolding run_find_user_by_username by blast
    then have "(\<exists>e. out = Returned (Inl e)) \<or> out = Returned (Inr None)"
      using False by (metis obj_sumE option.exhaust)
    with found none failed show ?thesis
      by (auto simp: login_logged_def login_def run_bind_ok handler_warning_def error_simps)
  qed
qed

lemma log_refresh:
  "log_of (perform E) (refresh_logged E cfg fb) w =
     (case jwt_decode E (tick w) (cfg_secret cfg) (ref_refresh_token fb) of
        Inl _ \<Rightarrow> []
      | Inr c \<Rightarrow>
          if refused_as (fst (run (perform E) (refresh E cfg fb) w)) = Some ''INVALID_REFRESH_TOKEN''
          then [handler_warning ''refresh'' [] ''refresh: token replay detected''
                  [(''username'', Text (cl_username c))]]
          else [])"
proof (cases "jwt_decode E (tick w) (cfg_secret cfg) (ref_refresh_token fb)")
  case (Inl e)
  then show ?thesis
    by (cases e) (simp_all add: refresh_logged_def run_verify_token)
next
  case (Inr c)
  obtain out w1 where consumed:
    "run (perform E) (consume_refresh_token E (cl_jti c)) (advance w) = (out, w1)"
    by fastforce
  show ?thesis
  proof (cases out rule: outcome_cases)
    case (refused e)
    then have "servir_error_id e = ''DB_CONSUME_REFRESH_TOKEN_FAILED''"
      using consumed by (auto simp: run_consume_refresh_token error_simps
          elim!: refused_with split: option.splits if_splits)
    with refused Inr consumed show ?thesis
      by (auto simp: refresh_logged_def refresh_def run_verify_token run_bind_ok error_simps)
  next
    case (granted valid)
    obtain out2 w2 where found: "run (perform E) (find_user_by_id E (cl_sub c)) w1 = (out2, w2)"
      by fastforce
    show ?thesis
    proof (cases out2 rule: outcome_cases)
      case (refused e)
      then have "servir_error_id e = ''DB_USER_FIND_BY_ID_FAILED''"
        using found by (auto simp: run_find_user_by_id error_simps
            elim!: refused_with split: option.splits if_splits)
      with refused granted Inr consumed found show ?thesis
        by (auto simp: refresh_logged_def refresh_def run_verify_token run_bind_ok error_simps
            handler_warning_def)
    next
      case u: (granted u)
      obtain out3 w3 where "run (perform E) (issue_tokens E cfg (the u)) w2 = (out3, w3)"
        by fastforce
      with issue_tokens_refusals [OF this] u granted Inr consumed found show ?thesis
        by (auto simp: refresh_logged_def refresh_def run_verify_token run_bind_ok error_simps
            handler_warning_def split: option.splits)
    qed (use granted Inr consumed found in \<open>auto simp: refresh_logged_def refresh_def
        run_verify_token run_bind_ok error_simps handler_warning_def\<close>)
  qed (use Inr consumed in \<open>auto simp: refresh_logged_def refresh_def run_verify_token
      run_bind_ok error_simps\<close>)
qed

lemma log_logout: "log_of (perform E) (logout_logged E cfg ob) w = []"
  by (simp add: logout_logged_def split: prod.splits outcome.splits sum.splits)

text \<open>The one event of a refusal by the extractor of authenticated routes.\<close>

fun extractor_event :: "auth_token_error \<Rightarrow> log_event list" where
  "extractor_event MissingLayer =
     [error_event (''AuthLayer not installed '' @ [CHR 0xE2, CHR 0x80, CHR 0x94] @
        '' misconfiguration'') []]"
| "extractor_event MissingHeader = [warn_event ''missing authorization header'' []]"
| "extractor_event Expired = [warn_event ''token validation failed''
     [(''error'', Text (servir_display (AuthTokenErr Expired)))]]"
| "extractor_event (Invalid m) = [warn_event ''token validation failed''
     [(''error'', Text (servir_display (AuthTokenErr (Invalid m))))]]"
| "extractor_event WrongKind = [warn_event ''non-access token used on protected route'' []]"
| "extractor_event e = []"

fun extractor_log :: "(servir_error + claims) outcome \<Rightarrow> log_event list" where
  "extractor_log (Returned (Inl (AuthTokenErr e))) = extractor_event e"
| "extractor_log out = []"

lemma token_error_logged:
  "extractor_log (Returned (Inl (token_error_of e))) =
     [warn_event ''token validation failed'' [(''error'', Text (servir_display (token_error_of e)))]]"
  by (cases e) (simp_all add: token_expired_def token_invalid_def)

lemma log_auth_user:
  "log_of (perform E) (auth_user_logged W req) w =
     extractor_log (fst (run (perform E) (auth_user W req) w))"
proof (cases "rq_extension req"; cases "bearer_token W req")
  fix cfg t
  assume "rq_extension req = Some cfg" "bearer_token W req = Some t"
  then show ?thesis
    by (auto simp: auth_user_logged_def auth_user_def run_bind_ok run_verify_token
        token_wrong_kind_def token_error_logged split: sum.splits elim!: refused_with)
qed (auto simp: auth_user_logged_def auth_user_def error_simps missing_layer_message_def)

lemma log_app_json:
  "log_of (perform E) (app_json_logged f req) w =
     (case f req of
        Inl m \<Rightarrow> [warn_event ''malformed request body''
          [(''error'', Text (servir_display (servir_bad_request m)))]]
      | Inr _ \<Rightarrow> [])"
  by (simp add: app_json_logged_def Let_def split: sum.splits)

text \<open>C21: The warnings of handlers and extractors, on every run in every environment. Registering
  warns that the username is taken exactly when storing the user failed, for whatever reason;
  logging in warns exactly when the credentials are refused, and says whether the username is
  unknown; refreshing warns of a replay exactly when no live token was redeemed; logging out
  never warns, and no handler logs any other refusal, such as a hash that fails. The extractor
  of authenticated routes logs each refusal once, with the text for its reason: an error where the
  layer is missing, and warnings for a missing header, for a token that does not verify, with the
  displayed error as its one field, and for a token of the wrong kind. A body that does not parse
  is logged with the text of its rejection.\<close>

theorem refusals_logged:
  "log_of (perform E) (register_logged E cfg rb) w =
     (if refused_as (fst (run (perform E) (register E cfg rb) w)) \<in>
           {Some ''ALREADY_EXISTS'', Some ''DB_USER_CREATE_FAILED''}
      then [handler_warning ''register'' [(''username'', Text (reg_username rb))]
              ''register: username taken'' [(''username'', Text (reg_username rb))]]
      else []) \<and>
   log_of (perform E) (login_logged E cfg lb) w =
     (if refused_as (fst (run (perform E) (login E cfg lb) w)) = Some ''INVALID_CREDENTIALS''
      then [handler_warning ''login'' [(''username'', Text (log_username lb))]
              (if log_username lb \<in> ur_username ` set (users (auth w)) then ''login: wrong password''
               else ''login: user not found'') [(''username'', Text (log_username lb))]]
      else []) \<and>
   log_of (perform E) (refresh_logged E cfg fb) w =
     (case jwt_decode E (tick w) (cfg_secret cfg) (ref_refresh_token fb) of
        Inl _ \<Rightarrow> []
      | Inr c \<Rightarrow>
          if refused_as (fst (run (perform E) (refresh E cfg fb) w)) = Some ''INVALID_REFRESH_TOKEN''
          then [handler_warning ''refresh'' [] ''refresh: token replay detected''
                  [(''username'', Text (cl_username c))]]
          else []) \<and>
   log_of (perform E) (logout_logged E cfg ob) w = [] \<and>
   log_of (perform E) (auth_user_logged W req) w =
     extractor_log (fst (run (perform E) (auth_user W req) w)) \<and>
   log_of (perform E) (app_json_logged f req) w =
     (case f req of
        Inl m \<Rightarrow> [warn_event ''malformed request body''
          [(''error'', Text (servir_display (servir_bad_request m)))]]
      | Inr _ \<Rightarrow> [])"
  by (intro conjI log_register log_login log_refresh log_logout log_auth_user log_app_json)

section \<open>Server errors in the log\<close>

definition reports_server_error :: "log_event \<Rightarrow> bool" where
  "reports_server_error ev \<longleftrightarrow> ev_message ev = ''server error''"

lemma reports_simps [simp]:
  "reports_server_error (event_at l m fs) \<longleftrightarrow> m = ''server error''"
  "reports_server_error (within name fs ev) \<longleftrightarrow> reports_server_error ev"
  "reports_server_error (server_error_event ie)"
  by (simp_all add: reports_server_error_def event_at_def within_def server_error_event_def
      split: prod.splits)

abbreviation unreported :: "'a ltask \<Rightarrow> bool" where
  "unreported \<equiv> emits_only (\<lambda>ev. \<not> reports_server_error ev)"

lemma handlers_unreported:
  "unreported (register_logged E cfg rb)" "unreported (login_logged E cfg lb)"
  "unreported (refresh_logged E cfg fb)" "unreported (logout_logged E cfg ob)"
  "unreported (me_logged c)" "unreported (user_handler_logged E c)"
  "unreported (auth_user_logged W req)" "unreported (app_json_logged f req)"
  by (auto simp: register_logged_def login_logged_def refresh_logged_def logout_logged_def
      me_logged_def user_handler_logged_def find_or_create_profile_logged_def
      auth_user_logged_def app_json_logged_def Let_def missing_layer_message_def
      intro!: emits_only_combinators split: option.splits sum.splits)

text \<open>What the log of an endpoint says of server errors, given its answer.\<close>

definition errors_reported :: "log_event list \<Rightarrow> response outcome \<Rightarrow> bool" where
  "errors_reported log out \<longleftrightarrow>
     (case out of
        Returned resp \<Rightarrow>
          if is_server_error (rs_status resp)
          then \<exists>e. resp = snd (servir_into_response e) \<and>
            filter reports_server_error log = [server_error_event (servir_error_id e, servir_display e)]
          else filter reports_server_error log = []
      | Panicked m \<Rightarrow> filter reports_server_error log = [])"

lemma respond_reports:
  assumes "unreported p"
    and "\<And>a w'. run (perform E) (erase p) w = (Returned (Inr a), w') \<Longrightarrow> \<exists>d. a = ApiOk d"
  shows "errors_reported (log_of (perform E) (respond_logged ser p) w)
    (fst (run (perform E) (erase (respond_logged ser p)) w))"
proof -
  obtain out w' where run: "run (perform E) (erase p) w = (out, w')"
    by fastforce
  have none: "filter reports_server_error (log_of (perform E) p w) = []"
    using emits_only_log [OF assms(1), of _ "perform E" w] by (auto simp: filter_empty_conv)
  show ?thesis
  proof (cases out rule: outcome_cases)
    case (refused e)
    have "fst (servir_into_response e) = (if is_server_error (servir_status_code e)
        then [(servir_error_id e, servir_display e)] else [])"
      by (simp add: servir_into_response_def Let_def)
    with refused show ?thesis
      by (auto simp: errors_reported_def respond_logged_def run_bind_prog run none)
  next
    case (granted a)
    with assms(2) run obtain d where "a = ApiOk d" by blast
    with granted show ?thesis
      by (simp add: errors_reported_def respond_logged_def run_bind_prog run none
          api_into_response_def is_server_error_def)
  next
    case (panic m)
    then show ?thesis
      by (simp add: errors_reported_def respond_logged_def run_bind_prog run none)
  qed
qed

lemma handlers_answer_ok:
  "run (perform E) (register E cfg rb) w = (Returned (Inr a), w') \<Longrightarrow> \<exists>d. a = ApiOk d"
  "run (perform E) (login E cfg lb) w = (Returned (Inr a), w') \<Longrightarrow> \<exists>d. a = ApiOk d"
  "run (perform E) (refresh E cfg fb) w = (Returned (Inr a), w') \<Longrightarrow> \<exists>d. a = ApiOk d"
  "run (perform E) (logout E cfg ob) w = (Returned (Inr b), w') \<Longrightarrow> \<exists>d. b = ApiOk d"
  "run (perform E) (user_handler E c) w = (Returned (Inr u), w') \<Longrightarrow> \<exists>d. u = ApiOk d"
  by (auto dest!: register_cases login_cases refresh_cases logout_cases
      simp: user_handler_def run_bind_ok api_ok_def
      split: prod.splits outcome.splits sum.splits)

lemma endpoint_reports:
  assumes "unreported ext" and "\<And>b. unreported (handler b)"
    and "\<And>b w a w'. run (perform E) (erase (handler b)) w = (Returned (Inr a), w') \<Longrightarrow> \<exists>d. a = ApiOk d"
  shows "errors_reported (log_of (perform E) (respond_logged ser (lbind_ok ext handler)) w)
    (fst (run (perform E) (erase (respond_logged ser (lbind_ok ext handler))) w))"
  by (rule respond_reports)
    (use assms in \<open>auto simp: run_bind_ok intro!: emits_only_lbind_ok
      split: prod.splits outcome.splits sum.splits\<close>)

lemma endpoints_report:
  assumes "h \<noteq> HHealth" and "h \<noteq> HNotFound"
  shows "errors_reported (log_of (perform E) (handle_logged E W h req) w)
    (fst (run (perform E) (erase (handle_logged E W h req)) w))"
proof (cases "(E, W, h, req)" rule: handle_logged.cases)
  case (5 E' W' req')
  have "\<exists>d. a = ApiOk d" if "run (perform E) (erase (me_logged c)) v = (Returned (Inr a), v')" for c v a v'
    using that by (auto simp: erase_handlers me_def api_ok_def)
  with 5 show ?thesis
    by (auto intro!: endpoint_reports handlers_unreported)
qed (use assms in \<open>auto intro!: endpoint_reports handlers_unreported
    simp: erase_handlers erase_user_handler intro: handlers_answer_ok\<close>)

text \<open>C22: No server error goes unlogged. Whatever the request and the environment, an answer with a
  status from 500 is the answer of an error, and the log of the request has exactly one event
  "server error", with the identifier and the text of that error; every other answer leaves no
  such event.\<close>

theorem server_errors_logged:
  "errors_reported (log_of (perform E) (handle_logged E W h req) w)
     (fst (run (perform E) (run_handler E W (run_app E W) h req) w))"
proof (cases "h = HHealth \<or> h = HNotFound")
  case True
  then show ?thesis
    by (auto simp: errors_reported_def not_found_logged_def health_def not_found_def
        api_into_response_def is_server_error_def api_ok_def api_error_def error_body_new_def)
next
  case False
  with endpoints_report [of h E W req w] show ?thesis
    by (simp add: erase_handle)
qed

section \<open>Credentials do not reach the log\<close>

lemma silent_verify_alike: "alike (=) (silent (verify_token t cfg)) (silent (verify_token t' cfg))"
  unfolding verify_token_def request_defs
  by (auto intro!: alike.intros split: reply.split)

lemma sum_eq_alike: "alike (=) p q \<Longrightarrow> alike (rel_sum (=) (=)) p q"
  by (simp add: sum.rel_eq)

lemma alike_refl: "alike (=) p p"
  by (rule alike_same) simp

text \<open>What a user is to the issuing of tokens.\<close>

definition same_account :: "user \<Rightarrow> user \<Rightarrow> bool" where
  "same_account u u' \<longleftrightarrow> usr_id u = usr_id u' \<and> usr_username u = usr_username u'"

lemma create_user_alike:
  "alike (rel_sum (=) same_account) (silent (create_user E u h)) (silent (create_user E u h'))"
  unfolding create_user_def request_defs now_secs_def
  by (auto intro!: alike.intros simp: same_account_def split: reply.split option.split sum.split
      sql_result.split)

lemma issue_tokens_same_account: "same_account u u' \<Longrightarrow> issue_tokens E cfg u = issue_tokens E cfg u'"
  by (simp add: same_account_def issue_tokens_def)

lemma hash_password_alike:
  assumes "\<And>s. map_sum id (\<lambda>_. ()) (argon2_hash E s p) = map_sum id (\<lambda>_. ()) (argon2_hash E s p')"
  shows "alike (rel_sum (=) (\<lambda>_ _. True)) (silent (hash_password E p)) (silent (hash_password E p'))"
proof -
  have "rel_sum (=) (\<lambda>_ _. True) (map_sum f id (argon2_hash E s p)) (map_sum f id (argon2_hash E s p'))"
    for s f
    using assms [of s] by (cases "argon2_hash E s p"; cases "argon2_hash E s p'") auto
  then show ?thesis
    unfolding hash_password_def request_defs
    by (auto intro!: alike.intros split: reply.split)
qed

lemma register_alike:
  assumes "reg_username rb = reg_username rb'"
    and "length (reg_password rb) < 8 \<longleftrightarrow> length (reg_password rb') < 8"
    and "\<And>s. map_sum id (\<lambda>_. ()) (argon2_hash E s (reg_password rb)) =
      map_sum id (\<lambda>_. ()) (argon2_hash E s (reg_password rb'))"
  shows "alike (=) (register_logged E cfg rb) (register_logged E cfg rb')"
  unfolding register_logged_def assms(1,2)
  by (auto intro!: alike_in_span alike.intros alike_bind_ok [OF hash_password_alike [OF assms(3)]]
      alike_bind_ok [OF alike_inspect_err [OF create_user_alike]] alike_refl
      simp: issue_tokens_same_account)

lemma refresh_alike: "alike (=) (refresh_logged E cfg fb) (refresh_logged E cfg fb')"
  unfolding refresh_logged_def
  by (auto intro!: alike_in_span alike_bind_ok [OF sum_eq_alike [OF silent_verify_alike]] alike_refl)

lemma logout_alike: "alike (=) (logout_logged E cfg ob) (logout_logged E cfg ob')"
  unfolding logout_logged_def
  by (auto intro!: alike_in_span alike_bind_ok [OF sum_eq_alike [OF silent_verify_alike]] alike_refl)

lemma auth_user_alike:
  assumes "rq_extension req = rq_extension req'"
    and "bearer_token W req = None \<longleftrightarrow> bearer_token W req' = None"
  shows "alike (=) (auth_user_logged W req) (auth_user_logged W req')"
  using assms unfolding auth_user_logged_def
  by (auto intro!: alike.intros alike_refl
      alike_bind_ok [OF alike_inspect_err [OF sum_eq_alike [OF silent_verify_alike]]]
      split: option.split)

lemma login_same_transcript:
  assumes "log_username lb = log_username lb'"
    and "\<And>u. RSql (Inr (UserRow (Some u))) \<in> set rs \<Longrightarrow>
      argon2_verify E (log_password lb) (usr_password_hash u) =
      argon2_verify E (log_password lb') (usr_password_hash u)"
  shows "transcript (login_logged E cfg lb) rs = transcript (login_logged E cfg lb') rs"
proof (cases rs)
  case Nil
  then show ?thesis
    by (simp add: login_logged_def find_user_by_username_def fetch_user_def lbind_ok_def)
next
  case (Cons r rs')
  with assms show ?thesis
    by (auto simp: login_logged_def find_user_by_username_def fetch_user_def lbind_ok_def
        verify_password_def split: reply.split sum.split sql_result.split option.split)
qed

text \<open>C20: Passwords and tokens do not reach the log. Whatever the environment replies, the events
  a handler logs and what it answers are the same for two passwords on which the length check,
  argon2 and the stored hashes that come back give the same verdict, and the same for any two
  tokens: they depend on a token only through what decoding it replies. (A body that does not parse
  is logged with the text of its rejection, which is up to the parser.)\<close>

theorem credentials_not_logged:
  assumes "reg_username rb = reg_username rb'"
    and "length (reg_password rb) < 8 \<longleftrightarrow> length (reg_password rb') < 8"
    and "\<And>s. map_sum id (\<lambda>_. ()) (argon2_hash E s (reg_password rb)) =
      map_sum id (\<lambda>_. ()) (argon2_hash E s (reg_password rb'))"
    and "log_username lb = log_username lb'"
    and "\<And>u. RSql (Inr (UserRow (Some u))) \<in> set rs \<Longrightarrow>
      argon2_verify E (log_password lb) (usr_password_hash u) =
      argon2_verify E (log_password lb') (usr_password_hash u)"
    and "rq_extension req = rq_extension req'"
    and "bearer_token W req = None \<longleftrightarrow> bearer_token W req' = None"
  shows "transcript (register_logged E cfg rb) rs = transcript (register_logged E cfg rb') rs \<and>
    transcript (login_logged E cfg lb) rs = transcript (login_logged E cfg lb') rs \<and>
    transcript (refresh_logged E cfg fb) rs = transcript (refresh_logged E cfg fb') rs \<and>
    transcript (logout_logged E cfg ob) rs = transcript (logout_logged E cfg ob') rs \<and>
    transcript (auth_user_logged W req) rs = transcript (auth_user_logged W req') rs"
  using alike_transcript [OF register_alike [OF assms(1-3)]] login_same_transcript [OF assms(4,5)]
    alike_transcript [OF refresh_alike] alike_transcript [OF logout_alike]
    alike_transcript [OF auth_user_alike [OF assms(6,7)]]
  by blast

text \<open>Two wrong guesses at alice's password, the row of alice being found.\<close>

definition alice_found :: "reply list" where
  "alice_found = [RSql (Inr (UserRow (Some (user_of_row alice_row))))]"

definition alice_tries :: "string \<Rightarrow> login_request" where
  "alice_tries p = \<lparr>log_username = ''alice'', log_password = p\<rparr>"

theorem credentials_not_logged_witness:
  "transcript (login_logged demo_env demo_config (alice_tries ''guess'')) alice_found =
     transcript (login_logged demo_env demo_config (alice_tries ''another'')) alice_found \<and>
   fst (transcript (login_logged demo_env demo_config (alice_tries ''guess'')) alice_found) =
     [handler_warning ''login'' [(''username'', Text ''alice'')] ''login: wrong password''
        [(''username'', Text ''alice'')]]"
proof
  let ?rb = "\<lambda>p. \<lparr>reg_username = ''bob'', reg_password = p\<rparr>"
  show "transcript (login_logged demo_env demo_config (alice_tries ''guess'')) alice_found =
      transcript (login_logged demo_env demo_config (alice_tries ''another'')) alice_found"
    using credentials_not_logged [of "?rb ''longenough''" "?rb ''long enough''" demo_env
        "alice_tries ''guess''" "alice_tries ''another''" alice_found "demo_request []"
        "demo_request []" demo_web]
    by (simp add: alice_row_def user_of_row_def alice_found_def alice_tries_def)
  show "fst (transcript (login_logged demo_env demo_config (alice_tries ''guess'')) alice_found) =
     [handler_warning ''login'' [(''username'', Text ''alice'')] ''login: wrong password''
        [(''username'', Text ''alice'')]]"
    by (simp add: login_logged_def find_user_by_username_def fetch_user_def lbind_ok_def
        verify_password_def handler_warning_def alice_row_def user_of_row_def alice_found_def
        alice_tries_def)
qed

end
