(* ===== verification/Spec2Isabelle.thy ===== *)
theory Spec2Isabelle
  imports Core_Properties Logging_Properties Unit_Suites Integration_Suites Reference
    Liveness Origins Races Event_Properties
begin

text \<open>
  \<^bold>\<open>servir\<close> is a Rust library for HTTP servers with password accounts: registration, login,
  rotating refresh tokens, logout, an extractor for authenticated routes, a response envelope,
  and a builder that assembles the server; \<open>consumer/\<close> is an application built on it. This
  development models the library and the application and proves what makes them correct.

  \<^bold>\<open>How the program is modelled.\<close> An asynchronous function is a program over effects
  (\<open>Program\<close>): it returns, panics, or performs an effect and continues with the reply.
  Effects are clock readings, random identifiers, salts and bytes, token decodings (they depend
  on the clock), SQL statements, connections and migrations, and the set-up of the log and the
  panic hook (\<open>Runtime\<close>). \<open>run\<close> executes a
  program alone; \<open>sys_reachable\<close> interleaves any number of requests effect by effect and may
  drop a request between two effects. Errors are the left side of a sum, \<open>bind_ok\<close> is the \<open>?\<close>
  operator, machine integers are words, and an addition that overflows panics in a build with
  overflow checks and wraps otherwise. Strings are their UTF-8 bytes. There is no fuel: every
  function is total, every program a finite path for every sequence of replies, of at most
  eleven effects for a request (\<open>route_bound\<close>).

  \<^bold>\<open>Theories and code.\<close>
  \<^item> \<open>Prelude\<close>: integers, strings, lists. \<open>Program\<close>: programs, runs, interleavings, and the
    interfaces \<open>shared_invariant\<close> and \<open>handler_property\<close>.
  \<^item> \<open>Errors\<close>, \<open>Response\<close>: \<open>src/error.rs\<close>, \<open>src/response.rs\<close>. The trait \<open>ErrorInfo\<close> is the
    interface \<open>error_info\<close>, which the four error types interpret.
  \<^item> \<open>Tokens\<close>, \<open>Auth_Core\<close>: \<open>src/auth/core.rs\<close>. \<open>Auth_Http\<close>: \<open>src/auth/http.rs\<close>; the token issue
    at the end of \<open>register\<close>, \<open>login\<close> and \<open>refresh\<close>, the same text three times, is \<open>issue_tokens\<close>.
  \<^item> \<open>Schema\<close>: the migrations and the SQL statements on tables that are lists of rows.
    \<open>Repository\<close>: \<open>src/db/auth.rs\<close>, \<open>src/db/mod.rs\<close>.
  \<^item> \<open>Telemetry\<close>, \<open>Logging\<close>: \<open>init_tracing\<close> and \<open>init_logging\<close> of \<open>src/server.rs\<close>, with the
    subscriber and the panic hook as values and the process they are installed in as state.
  \<^item> \<open>Server\<close>: the rest of \<open>src/server.rs\<close> and \<open>consumer/src/main.rs\<close>; a router is the term that
    the code builds. \<open>Routing\<close>: how the assembled router dispatches. \<open>Consumer\<close>: \<open>consumer/src/lib.rs\<close> and \<open>consumer/src/db/mod.rs\<close>.
  \<^item> \<open>Sessions\<close>: the abstract store of accounts and sessions, the interface \<open>session_store\<close>,
    and its interpretation on the tables.
  \<^item> \<open>Http_Tests\<close>, \<open>Unit_Tests\<close>: the unit tests inside \<open>src/auth/http.rs\<close>, \<open>src/auth/core.rs\<close>,
    \<open>src/db/auth.rs\<close>, \<open>src/error.rs\<close>, \<open>src/response.rs\<close> and \<open>consumer/src/db/mod.rs\<close>, as programs
    that panic at an assertion that does not hold. \<open>Client\<close>: the requests they build and the
    interface \<open>auth_service\<close> of an application with the auth routes, which the router of the tests
    and the assembled server interpret. \<open>Testing\<close>: assertions, and an environment for the suites.
  \<^item> \<open>Middleware\<close>: the layers of \<open>standard_middleware\<close> around the assembled server, with the
    header \<open>x-request-id\<close>. \<open>Integration_Tests\<close>: \<open>tests/test_errors.rs\<close>, \<open>tests/integration.rs\<close>
    and \<open>consumer/tests/test_user.rs\<close> as programs, each of which builds its server first;
    \<open>Auth_Integration\<close>: \<open>tests/auth_integration.rs\<close>.
  \<^item> \<open>Events\<close>: programs that also emit log events, in the spans of \<open>#[instrument]\<close>, with the
    function \<open>erase\<close> that drops the events. \<open>Event_Handlers\<close>: the handlers, the extractors, the
    set-up of the databases, \<open>build\<close>, \<open>serve\<close> and the application's \<open>main\<close> a second time, with the
    \<open>tracing\<close> calls of the code; a function that logs nothing is not repeated.
  \<^item> \<open>Demo\<close>: one environment in which all named conditions hold, for the witnesses.

  \<^bold>\<open>What is proved.\<close>
  \<^item> \<open>Auth_Results\<close>, \<open>Auth_Properties\<close>: for every handler and every outcome, in every
    environment, what the response says about the database; when operations succeed; that
    registration and login fit together; that the two kinds of token are kept apart; that
    login refusals look alike.
  \<^item> \<open>Auth_Limits\<close>: refusals, the partial registration, the absence of panics, the range of the
    configured lifetimes.
  \<^item> \<open>Concurrency\<close>: a refresh token is used once under every interleaving; a logout revokes what
    is stored. The argument counts insertions and redemptions of one identifier in the
    history: an identifier is drawn by one task, and a task stores at most one token.
  \<^item> \<open>Once\<close>: under every interleaving a username is registered once, all servers built on one
    database have one signing secret, and the answers about a profile agree. The interfaces
    \<open>lasting\<close> and \<open>latch\<close> (an event marks the database for good, and may need it unmarked) are
    interpreted on the statements that register, store and read the secret, and find or create
    the profile.
  \<^item> \<open>Provenance\<close>: against clients that may do everything but forge a signature (\<open>honest\<close>: a
    token that verifies has been handed out before), an answer about an account goes back to a
    registration or a login with its password. The invariant, by rule induction over the moves
    of the server, is that every token handed out encodes an account whose password was given;
    a refresh inherits it from the token it presents. Which events each answer rests on is
    computed along the programs by the rules for \<open>yields\<close>.
  \<^item> \<open>Origins\<close>: every row of the auth database that was not there at the start was inserted for
    a request that justifies it. An invariant of the events of a task, \<open>accounted\<close>, says that
    each insertion is justified by the request and by what its handler has learnt before;
    \<open>guarded\<close> is \<open>yields\<close> for programs that keep it. \<open>Races\<close>: a logout does not reach a refresh
    in flight, from every state and in every conforming environment.
  \<^item> \<open>Event_Properties\<close> (on lemmas that the logged programs are the others when the events are
    erased): which refusals are logged, exactly; that a server error is logged once; that neither log nor
    answer depends on a password or token other than by the verdict on it. The last is
    noninterference in the replies: the relation \<open>alike\<close> between programs is preserved by their
    combinators.
  \<^item> \<open>Server_Properties\<close>, \<open>Consumer_Properties\<close>: the persistence of the signing secret, the
    outcomes of \<open>build\<close>, profiles and their race, the start of the application. \<open>Core_Properties\<close>: errors, responses, the refinement of the store, passwords,
    configuration. \<open>Logging_Properties\<close>: the subscriber stays, panics reach the log.
  \<^item> \<open>Reference\<close>: the handlers are equivalent to a decision function on the abstract store, and
    to the operations on it that a granted call amounts to. \<open>Typing\<close>: a typing of programs by
    their panics and answers, preserved by every step of the running server. \<open>Bounded_Programs\<close>,
    \<open>Liveness\<close>: a bound on the effects of every route and, with the typing, that a request in
    flight is answered within that many steps of its own, from every reachable state.
  \<^item> \<open>Journeys\<close>, \<open>Served_Properties\<close>: what a client can do next after each step; how the built
    server answers every request, and a session from registration to logout on it.
    \<open>Http_Suite\<close>, \<open>Unit_Suites\<close>, \<open>Integration_Suites\<close> (on \<open>Integration_Passes\<close>
    and \<open>Auth_Integration_Passes\<close>): the tests pass in every conforming environment. \<open>Middleware\<close>: every response carries a request identifier, and is otherwise the
    one without the middleware.

  \<^bold>\<open>Parameters and conditions.\<close> Argon2, \<open>jsonwebtoken\<close>, \<open>hex\<close>, the clock, the random sources,
  the failures of the database and the extraction of request bodies are fields of \<open>env\<close> and
  \<open>web\<close>. A theorem that relies on one of them names the condition: \<open>uuids_fresh\<close>, \<open>jwt_stable\<close>,
  \<open>jwt_roundtrip\<close> (with the default leeway of sixty seconds), \<open>hash_roundtrip\<close>, \<open>db_healthy\<close>,
  \<open>clock_runs\<close>, \<open>crypto_healthy\<close>; \<open>uuids_unused\<close> says that the identifiers still to be drawn
  are not in the tables at the start. \<open>conforming\<close> collects those of a sequential client, with
  a clock that stays within the lifetimes of the tokens; \<open>web_conforming\<close> says that the bodies
  the client writes are read back and that a token is a legal header value; \<open>axum_routes\<close> that
  the dispatcher, a parameter, finds the endpoint with the path and method of the request and
  falls back where no path matches; \<open>tower_documented\<close> that the request-id layers set and echo
  the identifier and the trace layer changes nothing; \<open>axum_wraps\<close> that whatever answers in a
  router, its own 405 included, is wrapped in the layers of some entry of the table.

  \<^bold>\<open>What is not modelled.\<close> The filtering, formatting and writing of log events by
  \<open>tracing_subscriber\<close> and \<open>tracing_appender\<close>, the span and events of the trace layer and of the
  libraries, the flush when the guard of \<open>init_logging\<close> is dropped, headers other than
  \<open>authorization\<close>, \<open>content-type\<close> and the request identifier, axum's path patterns, what it
  answers to a known path under another method (405, or the answer to \<open>GET\<close> for \<open>HEAD\<close>), its
  panics on overlapping routes, the rejection of a malformed command line,
  timing, and statements that fail after having taken effect. The properties of the log speak
  of the events that the code emits, not of those that the libraries add.
\<close>

end
